(* ===== verification/Prelude.thy ===== *)
theory Prelude
  imports Main "HOL-Library.Word" "HOL-Library.List_Lexorder" "HOL-Library.Char_ord" "HOL-Library.Sublist"
begin

text \<open>
  Shared vocabulary of the development: results and commands (Go's \<open>(value, error)\<close> returns and
  the panics of the code as one sum type, with the state that a failing call leaves behind), loops
  over a slice that stop at the first error, the ordered key-value store the keepers write to, and
  the decimal rendering of integers that the store keys use.
\<close>

section \<open>Errors\<close>

text \<open>
  The sentinel errors of the modules. \<open>errors.Wrap\<close> keeps the identity of an error (\<open>errors.Is\<close>
  looks through it), so a wrapped error is the error itself here. \<open>FmtError\<close> is an anonymous
  \<open>fmt.Errorf\<close> error, \<open>BankError\<close> an error returned by the bank module, \<open>Panic\<close> a run-time panic.
\<close>

datatype denom_err =
    Denom_ErrInvalidSigner | Denom_ErrInvalidCAsset | Denom_ErrInvalidCollateralDenom
  | Denom_ErrInvalidDexAsset | Denom_ErrInvalidKCoin | Denom_ErrInvalidAmount

datatype dex_err =
    Dex_ErrInvalidSigner | Dex_ErrDenomNotFound | Dex_ErrNotEnoughFunds | Dex_ErrNegativePrice
  | Dex_ErrNotEnoughLiquidity | Dex_ErrSameDenom | Dex_ErrInvalidAddress | Dex_ErrBaseLiqEmpty
  | Dex_ErrNegativeAmount | Dex_ErrMaxPriceNotSet | Dex_ErrInvalidPriceFormat | Dex_ErrItemNotFound
  | Dex_ErrInvalidCreator | Dex_ErrPriceTooLow | Dex_ErrOrderNotFound | Dex_ErrZeroAmount
  | Dex_ErrNoLiquidity | Dex_ErrNoCoinSourceGiven | Dex_ErrNoCoinTargetGiven
  | Dex_ErrTradeAmountTooSmall | Dex_ErrNilRatio | Dex_ErrZeroPrice

datatype mm_err =
    Mm_ErrInvalidSigner | Mm_ErrInvalidDepositDenom | Mm_ErrInvalidAmountFormat
  | Mm_ErrNegativeAmount | Mm_ErrInvalidAddress | Mm_ErrNotEnoughFunds
  | Mm_ErrRedemptionRequestAlreadyExists | Mm_ErrRedemptionRequestNotFound | Mm_ErrZeroAmount
  | Mm_ErrInvalidCollateralDenom | Mm_ErrNoCollateralFound | Mm_ErrNoLoanFound
  | Mm_ErrDepositLimitExceeded | Mm_ErrRedemptionFeeTooLow | Mm_ErrRedemptionFeeTooHigh
  | Mm_ErrZeroCAssets | Mm_ErrNegativeCollateral | Mm_ErrNotEnoughFundsInVault
  | Mm_ErrBorrowLimitExceeded | Mm_ErrLoanSizeTooSmall

datatype tf_err =
    Tf_ErrInvalidSigner | Tf_ErrDenomAlreadyExists | Tf_ErrDenomDoesntExists | Tf_ErrInvalidAddress
  | Tf_ErrIncorrectAdmin | Tf_ErrInvalidAmount | Tf_ErrNonPositiveAmount

datatype swap_err = Swap_ErrInvalidSigner | Swap_ErrNoKCoin

datatype err =
    Panic | FmtError | BankError
  | DenomE denom_err | DexE dex_err | MmE mm_err | TfE tf_err | SwapE swap_err

section \<open>Results and commands\<close>

type_synonym 'a res = "err + 'a"

text \<open>A command returns a result and the state it leaves, also when it fails.\<close>

type_synonym ('s, 'a) cmd = "'s \<Rightarrow> (err + 'a) \<times> 's"

definition bindR :: "'a res \<Rightarrow> ('a \<Rightarrow> 'b res) \<Rightarrow> 'b res" where
  "bindR r f = (case r of Inl e \<Rightarrow> Inl e | Inr a \<Rightarrow> f a)"

definition bindS :: "(err + 'a) \<times> 's \<Rightarrow> ('a \<Rightarrow> 's \<Rightarrow> (err + 'b) \<times> 's) \<Rightarrow> (err + 'b) \<times> 's" where
  "bindS r f = (case r of (Inl e, s) \<Rightarrow> (Inl e, s) | (Inr a, s) \<Rightarrow> f a s)"

text \<open>\<open>checkR c e\<close> is the guard \<open>if !c { return e }\<close>.\<close>

definition checkR :: "bool \<Rightarrow> err \<Rightarrow> unit res" where
  "checkR c e = (if c then Inr () else Inl e)"

definition of_option :: "err \<Rightarrow> 'a option \<Rightarrow> 'a res" where
  "of_option e x = (case x of None \<Rightarrow> Inl e | Some a \<Rightarrow> Inr a)"

definition is_ok :: "'a res \<Rightarrow> bool" where
  "is_ok r = (case r of Inl _ \<Rightarrow> False | Inr _ \<Rightarrow> True)"

text \<open>Unfolding the binds in code equations lets \<open>code_simp\<close> evaluate the state before the continuation.\<close>

declare bindS_def [code_unfold] bindR_def [code_unfold] of_option_def [code_unfold] checkR_def [code_unfold]

lemma bindR_simps [simp]:
  "bindR (Inl e) f = Inl e"
  "bindR (Inr a) f = f a"
  by (simp_all add: bindR_def)

lemma bindS_simps [simp]:
  "bindS (Inl e, s) f = (Inl e, s)"
  "bindS (Inr a, s) f = f a s"
  by (simp_all add: bindS_def)

lemma checkR_simps [simp]:
  "checkR True e = Inr ()"
  "checkR False e = Inl e"
  "(checkR c e = Inr u) = c"
  "(checkR c e = Inl e') = (\<not> c \<and> e = e')"
  by (auto simp: checkR_def)

lemma of_option_simps [simp]:
  "of_option e None = Inl e"
  "of_option e (Some a) = Inr a"
  "(of_option e x = Inr a) = (x = Some a)"
  "(of_option e x = Inl e') = (x = None \<and> e = e')"
  by (auto simp: of_option_def split: option.splits)

lemma is_ok_simps [simp]:
  "is_ok (Inl e) = False"
  "is_ok (Inr a) = True"
  by (simp_all add: is_ok_def)

lemma is_ok_iff: "is_ok r \<longleftrightarrow> (\<exists>a. r = Inr a)"
  by (cases r) simp_all

lemma is_ok_bindR [simp]: "is_ok (bindR r f) \<longleftrightarrow> (\<exists>a. r = Inr a \<and> is_ok (f a))"
  by (cases r) simp_all

lemma bindR_Inr_iff: "bindR r f = Inr b \<longleftrightarrow> (\<exists>a. r = Inr a \<and> f a = Inr b)"
  by (cases r) simp_all

lemma bindR_assoc: "bindR (bindR r f) g = bindR r (\<lambda>a. bindR (f a) g)"
  by (cases r) simp_all

lemma bindS_Inr_iff:
  "bindS r f = (Inr b, t) \<longleftrightarrow> (\<exists>a s. r = (Inr a, s) \<and> f a s = (Inr b, t))"
  by (cases r; cases "fst r") auto

lemma bindR_InrE:
  assumes "bindR r f = Inr b"
  obtains a where "r = Inr a" "f a = Inr b"
  using assms by (auto simp: bindR_Inr_iff)

lemma bindS_InrE:
  assumes "bindS r f = (Inr b, t)"
  obtains a s where "r = (Inr a, s)" "f a s = (Inr b, t)"
  using assms by (auto simp: bindS_Inr_iff)

text \<open>A property of the state is kept by a sequence when each part keeps it, failing or not.\<close>

lemma bindS_inv:
  assumes "P (snd r)" and "\<And>a s. r = (Inr a, s) \<Longrightarrow> P s \<Longrightarrow> P (snd (f a s))"
  shows "P (snd (bindS r f))"
  using assms by (cases r; cases "fst r") auto

lemma bindS_assoc: "bindS (bindS r f) g = bindS r (\<lambda>a s. bindS (f a s) g)"
  by (cases r; cases "fst r") auto

text \<open>\<open>for \<dots> range xs { if err := f(x); err != nil { return err } }\<close> with an accumulator.\<close>

fun foldR :: "('x \<Rightarrow> 'c \<Rightarrow> 'c res) \<Rightarrow> 'x list \<Rightarrow> 'c \<Rightarrow> 'c res" where
  "foldR f [] c = Inr c"
| "foldR f (x # xs) c = bindR (f x c) (foldR f xs)"

fun foldS :: "('x \<Rightarrow> 'c \<Rightarrow> 's \<Rightarrow> (err + 'c) \<times> 's) \<Rightarrow> 'x list \<Rightarrow> 'c \<Rightarrow> 's \<Rightarrow> (err + 'c) \<times> 's" where
  "foldS f [] c s = (Inr c, s)"
| "foldS f (x # xs) c s = bindS (f x c s) (foldS f xs)"

lemma foldR_inv:
  assumes "foldR f xs c = Inr c'" "P c"
    and "\<And>x c d. x \<in> set xs \<Longrightarrow> P c \<Longrightarrow> f x c = Inr d \<Longrightarrow> P d"
  shows "P c'"
  using assms
proof (induction xs arbitrary: c)
  case Nil
  then show ?case by simp
next
  case (Cons x xs)
  from Cons.prems(1) obtain d where d: "f x c = Inr d" "foldR f xs d = Inr c'"
    by (auto simp: bindR_Inr_iff)
  have "P d" using Cons.prems(2,3) d(1) by (meson list.set_intros(1))
  with d(2) show ?case by (rule Cons.IH) (use Cons.prems(3) in auto)
qed

lemma foldS_inv:
  assumes "P s" and "\<And>x c s. x \<in> set xs \<Longrightarrow> P s \<Longrightarrow> P (snd (f x c s))"
  shows "P (snd (foldS f xs c s))"
  using assms
proof (induction xs arbitrary: c s)
  case Nil
  then show ?case by simp
next
  case (Cons x xs)
  show ?case
    using Cons.prems by (auto intro!: bindS_inv [where P = P] Cons.IH)
qed

lemma foldl_sum: "foldl (\<lambda>sum v. sum + w v) (c :: int) vs = c + sum_list (map w vs)"
  by (induction vs arbitrary: c) simp_all

lemma foldS_append: "foldS f (xs @ ys) c s = bindS (foldS f xs c s) (foldS f ys)"
proof (induction xs arbitrary: c s)
  case (Cons x xs)
  have "foldS f (xs @ ys) = (\<lambda>c s. bindS (foldS f xs c s) (foldS f ys))"
    using Cons.IH by (simp add: fun_eq_iff)
  then show ?case by (simp add: bindS_assoc)
qed simp

section \<open>The ordered key-value store\<close>

text \<open>
  A module's store maps byte-string keys to encoded values; its iterators visit the keys with a
  given prefix in ascending byte order. The interface is the locale \<open>kv_store\<close>; the model uses its
  instance by an association list sorted by key.
\<close>

type_synonym 'v kv = "(string \<times> 'v) list"

locale kv_store =
  fixes empty :: "'m"
    and get :: "'m \<Rightarrow> string \<Rightarrow> 'v option"
    and put :: "string \<Rightarrow> 'v \<Rightarrow> 'm \<Rightarrow> 'm"
    and del :: "string \<Rightarrow> 'm \<Rightarrow> 'm"
    and iter :: "string \<Rightarrow> 'm \<Rightarrow> (string \<times> 'v) list"
    and invar :: "'m \<Rightarrow> bool"
  assumes get_empty: "get empty k = None"
    and get_put: "invar m \<Longrightarrow> get (put k v m) = (get m)(k \<mapsto> v)"
    and get_del: "invar m \<Longrightarrow> get (del k m) = (get m)(k := None)"
    and iter_sorted: "invar m \<Longrightarrow> sorted (map fst (iter p m)) \<and> distinct (map fst (iter p m))"
    and set_iter: "invar m \<Longrightarrow> set (iter p m) = {(k, v). get m k = Some v \<and> prefix p k}"
    and invar_empty: "invar empty"
    and invar_put: "invar m \<Longrightarrow> invar (put k v m)"
    and invar_del: "invar m \<Longrightarrow> invar (del k m)"
begin

lemma get_put_same: "invar m \<Longrightarrow> get (put k v m) k = Some v"
  by (simp add: get_put)

lemma get_put_other: "invar m \<Longrightarrow> k' \<noteq> k \<Longrightarrow> get (put k v m) k' = get m k'"
  by (simp add: get_put)

lemma get_del_same: "invar m \<Longrightarrow> get (del k m) k = None"
  by (simp add: get_del)

lemma iter_get: "invar m \<Longrightarrow> (k, v) \<in> set (iter p m) \<Longrightarrow> get m k = Some v"
  by (simp add: set_iter)

text \<open>The sum of a weight over the entries below a prefix, as the keepers' queries compute it.\<close>

lemma sum_iter:
  fixes w :: "'v \<Rightarrow> int"
  assumes "invar m"
  shows "sum_list (map (\<lambda>(k, v). w v) (iter p m))
       = (\<Sum>k \<in> {k. \<exists>v. get m k = Some v \<and> prefix p k}. w (the (get m k)))"
proof -
  let ?K = "{k. \<exists>v. get m k = Some v \<and> prefix p k}"
  have d: "distinct (iter p m)"
    using iter_sorted [OF assms, of p] by (simp add: distinct_map)
  have i: "inj_on fst (set (iter p m))"
    using iter_sorted [OF assms, of p] by (simp add: distinct_map)
  have K: "?K = fst ` set (iter p m)"
    by (force simp: set_iter [OF assms] image_iff)
  have "sum_list (map (\<lambda>(k, v). w v) (iter p m)) = (\<Sum>(k, v) \<in> set (iter p m). w v)"
    using d by (simp add: sum_list_distinct_conv_sum_set)
  also have "\<dots> = (\<Sum>x \<in> set (iter p m). w (the (get m (fst x))))"
    by (rule sum.cong) (auto simp: set_iter [OF assms])
  also have "\<dots> = (\<Sum>k \<in> ?K. w (the (get m k)))"
    unfolding K using sum.reindex [OF i, of "\<lambda>k. w (the (get m k))"] by simp
  finally show ?thesis .
qed

end

definition kv_get :: "'v kv \<Rightarrow> string \<Rightarrow> 'v option" where
  "kv_get m k = map_of m k"

fun kv_put :: "string \<Rightarrow> 'v \<Rightarrow> 'v kv \<Rightarrow> 'v kv" where
  "kv_put k v [] = [(k, v)]"
| "kv_put k v ((k', v') # m) =
     (if k = k' then (k, v) # m
      else if k < k' then (k, v) # (k', v') # m
      else (k', v') # kv_put k v m)"

definition kv_del :: "string \<Rightarrow> 'v kv \<Rightarrow> 'v kv" where
  "kv_del k m = filter (\<lambda>(k', _). k' \<noteq> k) m"

definition kv_iter :: "string \<Rightarrow> 'v kv \<Rightarrow> (string \<times> 'v) list" where
  "kv_iter p m = filter (\<lambda>(k, _). prefix p k) m"

text \<open>The values an iterator yields, in order.\<close>

definition kv_vals :: "string \<Rightarrow> 'v kv \<Rightarrow> 'v list" where
  "kv_vals p m = map snd (kv_iter p m)"

definition kv_wf :: "'v kv \<Rightarrow> bool" where
  "kv_wf m = (sorted (map fst m) \<and> distinct (map fst m))"

lemma set_keys_kv_put: "set (map fst (kv_put k v m)) = insert k (set (map fst m))"
  by (induction k v m rule: kv_put.induct) auto

lemma kv_wf_Cons:
  "kv_wf ((k, v) # m) \<longleftrightarrow> kv_wf m \<and> (\<forall>k' \<in> set (map fst m). k < k')"
  by (force simp: kv_wf_def less_le)

lemma kv_wf_put: "kv_wf m \<Longrightarrow> kv_wf (kv_put k v m)"
proof (induction k v m rule: kv_put.induct)
  case (2 k v k' v' m)
  then show ?case
    using set_keys_kv_put [of k v m]
    by (auto simp: kv_wf_Cons simp del: set_map)
qed (simp add: kv_wf_def)

lemma kv_wf_del: "kv_wf m \<Longrightarrow> kv_wf (kv_del k m)"
  by (simp add: kv_wf_def kv_del_def case_prod_unfold filter_map [symmetric] comp_def
      sorted_wrt_filter distinct_map_filter sorted_filter)

lemma map_of_kv_put: "kv_wf m \<Longrightarrow> map_of (kv_put k v m) = (map_of m)(k \<mapsto> v)"
proof (induction k v m rule: kv_put.induct)
  case (2 k v k' v' m)
  then show ?case by (auto simp: kv_wf_Cons)
qed simp

lemma map_of_kv_del: "map_of (kv_del k m) = (map_of m)(k := None)"
  by (induction m) (auto simp: kv_del_def)

interpretation kvs: kv_store "[] :: (string \<times> 'v) list" kv_get kv_put kv_del kv_iter kv_wf
proof unfold_locales
  fix m :: "'v kv" and k p :: string and v :: 'v
  assume m: "kv_wf m"
  show "kv_get (kv_put k v m) = (kv_get m)(k \<mapsto> v)"
    using map_of_kv_put [OF m] by (auto simp: kv_get_def fun_eq_iff)
  show "kv_get (kv_del k m) = (kv_get m)(k := None)"
    by (auto simp: kv_get_def fun_eq_iff map_of_kv_del)
  show "sorted (map fst (kv_iter p m)) \<and> distinct (map fst (kv_iter p m))"
    using m by (simp add: kv_wf_def kv_iter_def sorted_filter distinct_map_filter)
  show "set (kv_iter p m) = {(k, v). kv_get m k = Some v \<and> prefix p k}"
    using m by (auto simp: kv_iter_def kv_get_def kv_wf_def)
qed (simp_all add: kv_wf_put kv_wf_del kv_get_def kv_wf_def [of "[]"])

lemma kv_vals_get: "kv_wf m \<Longrightarrow> v \<in> set (kv_vals p m) \<Longrightarrow> \<exists>k. kv_get m k = Some v \<and> prefix p k"
  by (force simp: kv_vals_def kvs.set_iter)

text \<open>The sum of a weight over all entries, and how a write changes it.\<close>

definition kv_sum :: "('v \<Rightarrow> int) \<Rightarrow> 'v kv \<Rightarrow> int" where
  "kv_sum w m = sum_list (map (\<lambda>(_, v). w v) m)"

definition weight :: "('v \<Rightarrow> int) \<Rightarrow> 'v option \<Rightarrow> int" where
  "weight w x = (case x of None \<Rightarrow> 0 | Some v \<Rightarrow> w v)"

lemma weight_simps [simp]: "weight w None = 0" "weight w (Some v) = w v"
  by (simp_all add: weight_def)

lemma kv_sum_simps [simp]: "kv_sum w [] = 0" "kv_sum w ((k, v) # m) = w v + kv_sum w m"
  by (simp_all add: kv_sum_def)

lemma kv_get_Cons [simp]: "kv_get ((k', v) # m) k = (if k = k' then Some v else kv_get m k)"
  by (simp add: kv_get_def)

lemma kv_get_Nil [simp]: "kv_get [] k = None"
  by (simp add: kv_get_def)

lemma kv_get_small: "kv_wf m \<Longrightarrow> \<forall>k' \<in> set (map fst m). k < k' \<Longrightarrow> kv_get m k = None"
  by (force simp: kv_get_def map_of_eq_None_iff)

lemma kv_wf_ConsD: "kv_wf ((k, v) # m) \<Longrightarrow> kv_wf m" "kv_wf ((k, v) # m) \<Longrightarrow> \<forall>k' \<in> set (map fst m). k < k'"
  unfolding kv_wf_Cons by (erule conjunct1, erule conjunct2)

lemma kv_sum_put: "kv_wf m \<Longrightarrow> kv_sum w (kv_put k v m) = kv_sum w m - weight w (kv_get m k) + w v"
proof (induction k v m rule: kv_put.induct)
  case (2 k v k' v' m)
  have m: "kv_wf m" "\<forall>x \<in> set (map fst m). k' < x"
    using kv_wf_ConsD [OF 2(2)] .
  then have "kv_get m k = None" if "k < k'"
    using that by (intro kv_get_small) (auto intro: less_trans)
  with 2 m(1) show ?case by auto
qed simp

lemma kv_sum_del: "kv_wf m \<Longrightarrow> kv_sum w (kv_del k m) = kv_sum w m - weight w (kv_get m k)"
proof (induction m)
  case (Cons x m)
  obtain k' v where x: "x = (k', v)" by (cases x)
  have m: "kv_wf m" "\<forall>k \<in> set (map fst m). k' < k"
    using kv_wf_ConsD [OF Cons.prems [unfolded x]] .
  have "kv_get m k' = None" using m by (rule kv_get_small)
  with Cons.IH [OF m(1)] show ?case by (auto simp: x kv_del_def)
qed (simp add: kv_del_def)

lemma length_kv_put: "length (kv_put k v m) \<le> Suc (length m)"
  by (induction k v m rule: kv_put.induct) auto

lemma length_kv_put_old: "kv_wf m \<Longrightarrow> kv_get m k = Some v' \<Longrightarrow> length (kv_put k v m) = length m"
proof (induction k v m rule: kv_put.induct)
  case (2 k v k' v'' m)
  note m = kv_wf_ConsD [OF 2(2)]
  have "kv_get m k = None" if "k < k'"
    using that m by (intro kv_get_small) (auto intro: less_trans)
  with 2 m(1) show ?case by (auto split: if_splits)
qed simp

lemma length_kv_del: "length (kv_del k m) \<le> length m"
  by (simp add: kv_del_def)

lemma kv_sum_vals:
  "\<forall>(k, v) \<in> set m. \<not> prefix p k \<longrightarrow> w v = 0 \<Longrightarrow> sum_list (map w (kv_vals p m)) = kv_sum w m"
  by (induction m) (auto simp: kv_vals_def kv_iter_def)

section \<open>Decimal rendering\<close>

text \<open>
  \<open>strconv.Itoa\<close>: the decimal digits of an integer, most significant first, with a leading minus
  sign for negative values.
\<close>

fun itoa_nat :: "nat \<Rightarrow> string" where
  "itoa_nat n = (if n < 10 then [char_of (48 + n)] else itoa_nat (n div 10) @ [char_of (48 + n mod 10)])"

declare itoa_nat.simps [simp del]

definition itoa :: "int \<Rightarrow> string" where
  "itoa i = (if i < 0 then CHR ''-'' # itoa_nat (nat (- i)) else itoa_nat (nat i))"

definition is_digit :: "char \<Rightarrow> bool" where
  "is_digit c = (48 \<le> (of_char c :: nat) \<and> (of_char c :: nat) < 58)"

definition digit_val :: "char \<Rightarrow> nat" where
  "digit_val c = of_char c - 48"

definition atoi_nat :: "string \<Rightarrow> nat" where
  "atoi_nat s = foldl (\<lambda>a c. 10 * a + digit_val c) 0 s"

lemma digit_val_char_of: "(d :: nat) < 10 \<Longrightarrow> digit_val (char_of (48 + d)) = d"
  by (simp add: digit_val_def of_char_of)

lemma is_digit_char_of: "(d :: nat) < 10 \<Longrightarrow> is_digit (char_of (48 + d))"
  by (simp add: is_digit_def of_char_of)

lemma atoi_itoa_nat: "atoi_nat (itoa_nat n) = n"
proof (induction n rule: itoa_nat.induct)
  case (1 n)
  show ?case
  proof (cases "n < 10")
    case True
    then show ?thesis by (simp add: itoa_nat.simps [of n] atoi_nat_def digit_val_char_of)
  next
    case False
    then have "atoi_nat (itoa_nat n) = 10 * atoi_nat (itoa_nat (n div 10)) + n mod 10"
      by (simp add: itoa_nat.simps [of n] atoi_nat_def digit_val_char_of)
    with 1 False show ?thesis by simp
  qed
qed

lemma itoa_nat_digits: "c \<in> set (itoa_nat n) \<Longrightarrow> is_digit c"
proof (induction n rule: itoa_nat.induct)
  case (1 n)
  then show ?case
    by (cases "n < 10") (auto simp: itoa_nat.simps [of n] is_digit_char_of)
qed

lemma itoa_nat_not_Nil: "itoa_nat n \<noteq> []"
  by (subst itoa_nat.simps) simp

lemma itoa_nat_inj: "itoa_nat m = itoa_nat n \<longleftrightarrow> m = n"
  by (metis atoi_itoa_nat)

lemma is_digit_chars: "\<not> is_digit (CHR ''-'')" "\<not> is_digit (CHR ''/'')"
  by (simp_all add: is_digit_def)

lemma minus_notin_itoa_nat: "CHR ''-'' \<notin> set (itoa_nat n)"
  using itoa_nat_digits is_digit_chars(1) by blast

lemma slash_notin_itoa: "CHR ''/'' \<notin> set (itoa i)"
  using itoa_nat_digits is_digit_chars(2) by (auto simp: itoa_def)

lemma itoa_inj: "itoa i = itoa j \<longleftrightarrow> i = j"
proof -
  have minus: "CHR ''-'' # s \<noteq> itoa_nat m" for s m
    using minus_notin_itoa_nat [of m] by (metis list.set_intros(1))
  show ?thesis
    using minus minus [symmetric] by (auto simp: itoa_def itoa_nat_inj nat_eq_iff)
qed

text \<open>A path component that cannot contain a slash is determined by the path it ends.\<close>

lemma last_component:
  "c \<notin> set s \<Longrightarrow> rev (takeWhile (\<lambda>x. x \<noteq> c) (rev (a @ c # s))) = s"
  by (simp add: takeWhile_append takeWhile_eq_all_conv)

lemma append_slash_inj:
  assumes "c \<notin> set s" "c \<notin> set t"
  shows "a @ c # s = b @ c # t \<longleftrightarrow> a = b \<and> s = t"
proof
  assume eq: "a @ c # s = b @ c # t"
  from last_component [OF assms(1), of a] last_component [OF assms(2), of b] eq
  have "s = t" by simp
  with eq show "a = b \<and> s = t" by simp
qed simp

end
