(* ===== verification/Decimal.thy ===== *)
theory Decimal
  imports Prelude
begin

text \<open>
  The numbers of the modules. \<open>math.Int\<close> is HOL's \<open>int\<close>. \<open>math.LegacyDec\<close> is a fixed-point decimal
  with 18 fractional digits; a value is represented by its number of units of \<open>10^-18\<close>, so that
  addition, subtraction, negation and comparison are those of \<open>int\<close>. The operations of the library
  that round (\<open>Mul\<close>, \<open>Quo\<close>, \<open>Power\<close>, \<open>ApproxSqrt\<close> and the conversions to an integer) are not
  code of the repository: they are fields of the record \<open>dec_ops\<close>, a parameter of every definition that uses
  them, and the locale \<open>decimal\<close> states what their documentation promises. \<open>sdk_dec\<close> is a concrete
  instance, on which the witnesses compute. The library panics when a result
  exceeds its bit length limit; amounts are assumed to stay below it.
\<close>

section \<open>Fixed-point decimals\<close>

type_synonym dec = int

definition dec_unit :: int where "dec_unit = 10 ^ 18"

text \<open>\<open>Int.ToLegacyDec\<close>, \<open>LegacyNewDec\<close> and \<open>LegacyNewDecFromInt\<close>.\<close>

definition to_dec :: "int \<Rightarrow> dec" where "to_dec i = i * dec_unit"

definition dec_one :: dec where "dec_one = dec_unit"

text \<open>\<open>LegacyNewDecWithPrec(n, p)\<close> is \<open>n * 10^-p\<close>, for \<open>p\<close> up to 18.\<close>

definition dec_prec :: "int \<Rightarrow> nat \<Rightarrow> dec" where "dec_prec n p = n * 10 ^ (18 - p)"

record dec_ops =
  dmul :: "dec \<Rightarrow> dec \<Rightarrow> dec"
  dquo :: "dec \<Rightarrow> dec \<Rightarrow> dec"
  dtrunc :: "dec \<Rightarrow> int"
  dround :: "dec \<Rightarrow> int"
  dceil :: "dec \<Rightarrow> dec"
  dpow :: "dec \<Rightarrow> nat \<Rightarrow> dec"
  dsqrt :: "dec \<Rightarrow> dec option"

text \<open>Division by zero panics; \<open>dquo\<close> is only used behind this check.\<close>

definition quoR :: "'z dec_ops_scheme \<Rightarrow> dec \<Rightarrow> dec \<Rightarrow> dec res" where
  "quoR D a b = (if b = 0 then Inl Panic else Inr (dquo D a b))"

lemma quoR_Inr_iff: "quoR D a b = Inr c \<longleftrightarrow> b \<noteq> 0 \<and> c = dquo D a b"
  by (auto simp: quoR_def)

lemma quoR_nonzero [simp]: "b \<noteq> 0 \<Longrightarrow> quoR D a b = Inr (dquo D a b)"
  by (simp add: quoR_def)

lemma quoR_zero [simp]: "quoR D a 0 = Inl Panic"
  by (simp add: quoR_def)

lemma dec_unit_pos [simp]: "0 < dec_unit" "dec_unit \<noteq> 0" "0 \<le> dec_unit" "\<not> dec_unit \<le> 0" "\<not> dec_unit < 0"
  by (simp_all add: dec_unit_def)

lemma to_dec_simps [simp]:
  "to_dec 0 = 0"
  "to_dec 1 = dec_one"
  "to_dec i \<le> to_dec j \<longleftrightarrow> i \<le> j"
  "to_dec i < to_dec j \<longleftrightarrow> i < j"
  "to_dec i = to_dec j \<longleftrightarrow> i = j"
  "0 \<le> to_dec i \<longleftrightarrow> 0 \<le> i"
  "0 < to_dec i \<longleftrightarrow> 0 < i"
  "to_dec i = 0 \<longleftrightarrow> i = 0"
  by (simp_all add: to_dec_def dec_one_def zero_less_mult_iff zero_le_mult_iff)

lemma to_dec_add: "to_dec (i + j) = to_dec i + to_dec j"
  and to_dec_diff: "to_dec (i - j) = to_dec i - to_dec j"
  and to_dec_minus: "to_dec (- i) = - to_dec i"
  by (simp_all add: to_dec_def algebra_simps)

lemma dec_one_pos [simp]: "0 < dec_one" "dec_one \<noteq> 0" "0 \<le> dec_one"
  by (simp_all add: dec_one_def)

lemma div_unit_le: "a div dec_unit * dec_unit \<le> a"
  and div_unit_gt: "a < a div dec_unit * dec_unit + dec_unit"
proof -
  have "a = a div dec_unit * dec_unit + a mod dec_unit" by simp
  moreover have "0 \<le> a mod dec_unit" "a mod dec_unit < dec_unit" by simp_all
  ultimately show "a div dec_unit * dec_unit \<le> a" "a < a div dec_unit * dec_unit + dec_unit"
    by linarith+
qed

lemma two_abs_le_one: "2 * \<bar>x - y\<bar> \<le> 1 \<Longrightarrow> x = (y :: int)"
  by arith

section \<open>The documented behaviour of the rounding operations\<close>

locale decimal =
  fixes D :: "'z dec_ops_scheme"
  assumes trunc_law: "dtrunc D a = (if 0 \<le> a then a div dec_unit else - (- a div dec_unit))"
    and round_law: "2 * \<bar>to_dec (dround D a) - a\<bar> \<le> dec_unit"
    and round_mono: "a \<le> b \<Longrightarrow> dround D a \<le> dround D b"
    and ceil_law: "dceil D a = to_dec (- (- a div dec_unit))"
    and mul_comm: "dmul D a b = dmul D b a"
    and mul_law: "2 * \<bar>dmul D a b * dec_unit - a * b\<bar> \<le> dec_unit"
    and mul_mono: "a \<le> b \<Longrightarrow> 0 \<le> c \<Longrightarrow> dmul D a c \<le> dmul D b c"
    and quo_law: "b \<noteq> 0 \<Longrightarrow> \<bar>dquo D a b * b - a * dec_unit\<bar> \<le> \<bar>b\<bar>"
    and quo_mono: "a \<le> c \<Longrightarrow> 0 < b \<Longrightarrow> dquo D a b \<le> dquo D c b"
    and quo_exact: "b \<noteq> 0 \<Longrightarrow> b dvd a * dec_unit \<Longrightarrow> dquo D a b = a * dec_unit div b"
begin

lemma round_to_dec [simp]: "dround D (to_dec i) = i"
proof -
  have "2 * \<bar>(dround D (to_dec i) - i) * dec_unit\<bar> \<le> dec_unit"
    using round_law [of "to_dec i"] by (simp add: to_dec_def algebra_simps)
  then have "2 * \<bar>dround D (to_dec i) - i\<bar> * dec_unit \<le> 1 * dec_unit"
    by (simp add: abs_mult)
  then have "2 * \<bar>dround D (to_dec i) - i\<bar> \<le> 1"
    by (rule mult_right_le_imp_le) simp
  then show ?thesis by (rule two_abs_le_one)
qed

lemma round_0 [simp]: "dround D 0 = 0"
  using round_to_dec [of 0] by simp

lemma round_nonneg: "0 \<le> a \<Longrightarrow> 0 \<le> dround D a"
  using round_mono [of 0 a] by simp

lemma trunc_to_dec [simp]: "dtrunc D (to_dec i) = i"
  by (simp add: trunc_law to_dec_def flip: mult_minus_left)

lemma trunc_nonneg: "0 \<le> a \<Longrightarrow> 0 \<le> dtrunc D a"
  by (simp add: trunc_law pos_imp_zdiv_nonneg_iff)

lemma trunc_le: "0 \<le> a \<Longrightarrow> to_dec (dtrunc D a) \<le> a"
  using div_unit_le [of a] by (simp add: trunc_law to_dec_def)

lemma trunc_gt: "0 \<le> a \<Longrightarrow> a < to_dec (dtrunc D a + 1)"
  using div_unit_gt [of a] by (simp add: trunc_law to_dec_def algebra_simps)

lemma trunc_mono:
  assumes "a \<le> b"
  shows "dtrunc D a \<le> dtrunc D b"
proof (cases "0 \<le> a")
  case True
  with assms show ?thesis by (simp add: trunc_law zdiv_mono1)
next
  case False
  have "- (- a div dec_unit) \<le> 0"
    using False by (simp add: pos_imp_zdiv_nonneg_iff)
  moreover have "0 \<le> b \<Longrightarrow> 0 \<le> b div dec_unit"
    by (simp add: pos_imp_zdiv_nonneg_iff)
  moreover have "- b div dec_unit \<le> - a div dec_unit"
    using assms by (intro zdiv_mono1) auto
  ultimately show ?thesis using False by (auto simp: trunc_law)
qed

lemma mul_0 [simp]: "dmul D 0 b = 0" "dmul D b 0 = 0"
proof -
  have "2 * \<bar>dmul D 0 b\<bar> * dec_unit \<le> 1 * dec_unit"
    using mul_law [of 0 b] by (simp add: abs_mult)
  then have "2 * \<bar>dmul D 0 b\<bar> \<le> 1"
    by (rule mult_right_le_imp_le) simp
  then show "dmul D 0 b = 0" by linarith
  then show "dmul D b 0 = 0" by (simp add: mul_comm)
qed

lemma mul_nonneg: "0 \<le> a \<Longrightarrow> 0 \<le> b \<Longrightarrow> 0 \<le> dmul D a b"
  using mul_mono [of 0 a b] by simp

lemma mul_to_dec: "dmul D a (to_dec i) = a * i"
proof -
  have "2 * \<bar>dmul D a (to_dec i) - a * i\<bar> * dec_unit \<le> 1 * dec_unit"
    using mul_law [of a "to_dec i"] by (simp add: to_dec_def abs_mult flip: left_diff_distrib mult.assoc)
  then have "2 * \<bar>dmul D a (to_dec i) - a * i\<bar> \<le> 1"
    by (rule mult_right_le_imp_le) simp
  then show ?thesis by (rule two_abs_le_one)
qed

lemma mul_one [simp]: "dmul D a dec_one = a" "dmul D dec_one a = a"
  using mul_to_dec [of a 1] by (simp_all add: mul_comm [of dec_one])

lemma mul_le_left: "0 \<le> a \<Longrightarrow> b \<le> dec_one \<Longrightarrow> dmul D a b \<le> a"
  using mul_mono [of b dec_one a] by (simp add: mul_comm)

lemma quo_nonneg: "0 \<le> a \<Longrightarrow> 0 < b \<Longrightarrow> 0 \<le> dquo D a b"
  using quo_mono [of 0 a b] quo_exact [of b 0] by simp

lemma quo_one [simp]: "dquo D a dec_one = a"
  using quo_exact [of dec_one a] by (simp add: dec_one_def)

lemma quo_self: "b \<noteq> 0 \<Longrightarrow> dquo D b b = dec_one"
  using quo_exact [of b b] by (simp add: dec_one_def)

lemma quo_zero [simp]: "b \<noteq> 0 \<Longrightarrow> dquo D 0 b = 0"
  using quo_exact [of b 0] by simp

lemma ceil_ge: "a \<le> dceil D a"
  using div_unit_le [of "- a"] by (simp add: ceil_law to_dec_def)

lemma ceil_lt: "dceil D a < a + dec_unit"
  using div_unit_gt [of "- a"] by (simp add: ceil_law to_dec_def)

lemma ceil_to_dec [simp]: "dceil D (to_dec i) = to_dec i"
  by (simp add: ceil_law to_dec_def)

lemma trunc_ceil: "to_dec (dtrunc D (dceil D a)) = dceil D a"
  by (simp add: ceil_law)

end

section \<open>A concrete instance\<close>

text \<open>Division of the magnitudes, rounded half to even, with the sign put back.\<close>

definition div_half_even :: "int \<Rightarrow> int" where
  "div_half_even n =
     (let q = n div dec_unit; r = n mod dec_unit in
      if 2 * r < dec_unit then q
      else if dec_unit < 2 * r then q + 1
      else if even q then q else q + 1)"

definition quo_trunc :: "int \<Rightarrow> int \<Rightarrow> int" where
  "quo_trunc a b = (if (0 \<le> a) = (0 \<le> b) then \<bar>a\<bar> div \<bar>b\<bar> else - (\<bar>a\<bar> div \<bar>b\<bar>))"

fun pow_dec :: "dec \<Rightarrow> nat \<Rightarrow> dec" where
  "pow_dec a 0 = dec_one"
| "pow_dec a (Suc n) = div_half_even (a * pow_dec a n)"

fun isqrt_search :: "nat \<Rightarrow> int \<Rightarrow> int \<Rightarrow> int \<Rightarrow> int" where
  "isqrt_search 0 n lo hi = lo"
| "isqrt_search (Suc k) n lo hi =
     (let mid = (lo + hi) div 2 in
      if mid * mid \<le> n then isqrt_search k n mid hi else isqrt_search k n lo mid)"

definition sdk_dec :: dec_ops where
  "sdk_dec = \<lparr>
     dmul = (\<lambda>a b. div_half_even (a * b)),
     dquo = (\<lambda>a b. div_half_even (quo_trunc (a * dec_unit * dec_unit) b)),
     dtrunc = (\<lambda>a. if 0 \<le> a then a div dec_unit else - (- a div dec_unit)),
     dround = div_half_even,
     dceil = (\<lambda>a. to_dec (- (- a div dec_unit))),
     dpow = pow_dec,
     dsqrt = (\<lambda>a. if a < 0 then None
                  else Some (isqrt_search 400 (a * dec_unit) 0 (a + dec_unit + 1)))\<rparr>"

lemma dec_unit_even: "even dec_unit"
  by (simp add: dec_unit_def)

lemma div_half_even_bounds: "n div dec_unit \<le> div_half_even n" "div_half_even n \<le> n div dec_unit + 1"
  by (simp_all add: div_half_even_def Let_def)

lemma div_half_even_law: "2 * \<bar>div_half_even n * dec_unit - n\<bar> \<le> dec_unit"
proof -
  define q r where "q = n div dec_unit" and "r = n mod dec_unit"
  have n: "n = q * dec_unit + r" and r: "0 \<le> r" "r < dec_unit"
    by (simp_all add: q_def r_def)
  have "div_half_even n = q \<and> 2 * r \<le> dec_unit \<or> div_half_even n = q + 1 \<and> dec_unit \<le> 2 * r"
    by (auto simp: div_half_even_def Let_def q_def r_def)
  then show ?thesis using r by (auto simp: n algebra_simps)
qed

lemma div_half_even_unit [simp]: "div_half_even (k * dec_unit) = k"
  by (simp add: div_half_even_def)

lemma div_half_even_mono:
  assumes "a \<le> b"
  shows "div_half_even a \<le> div_half_even b"
proof (cases "a div dec_unit = b div dec_unit")
  case True
  have "a mod dec_unit \<le> b mod dec_unit"
    using assms True by (simp add: minus_div_mult_eq_mod [symmetric])
  with True show ?thesis by (auto simp: div_half_even_def Let_def)
next
  case False
  then have "a div dec_unit + 1 \<le> b div dec_unit"
    using zdiv_mono1 [OF assms, of dec_unit] by simp
  then show ?thesis using div_half_even_bounds(2) [of a] div_half_even_bounds(1) [of b] by linarith
qed

lemma quo_trunc_law:
  assumes "b \<noteq> 0"
  shows "\<bar>quo_trunc a b * b - a\<bar> < \<bar>b\<bar>"
proof -
  define q r where "q = \<bar>a\<bar> div \<bar>b\<bar>" and "r = \<bar>a\<bar> mod \<bar>b\<bar>"
  have m: "\<bar>a\<bar> = q * \<bar>b\<bar> + r" by (simp add: q_def r_def)
  have r: "0 \<le> r" "r < \<bar>b\<bar>" using assms by (simp_all add: r_def)
  have t: "quo_trunc a b = (if (0 \<le> a) = (0 \<le> b) then q else - q)"
    by (simp add: quo_trunc_def q_def)
  show ?thesis
    using m r assms unfolding t by (cases "0 \<le> a"; cases "0 \<le> b") (simp_all add: abs_if)
qed

lemma quo_trunc_exact: "b \<noteq> 0 \<Longrightarrow> b dvd a \<Longrightarrow> quo_trunc a b = a div b"
  by (elim dvdE) (auto simp: quo_trunc_def abs_mult zero_le_mult_iff)

lemma quo_trunc_mono:
  assumes "a \<le> c" "0 < b"
  shows "quo_trunc a b \<le> quo_trunc c b"
proof (cases "0 \<le> a \<or> c < 0")
  case True
  then show ?thesis using assms by (auto simp: quo_trunc_def zdiv_mono1)
next
  case False
  then have "quo_trunc a b \<le> 0" "0 \<le> quo_trunc c b"
    using assms by (simp_all add: quo_trunc_def pos_imp_zdiv_nonneg_iff)
  then show ?thesis by simp
qed

lemma dquo_law:
  assumes "b \<noteq> 0"
  shows "\<bar>div_half_even (quo_trunc (a * dec_unit * dec_unit) b) * b - a * dec_unit\<bar> \<le> \<bar>b\<bar>"
proof -
  define q d where "q = quo_trunc (a * dec_unit * dec_unit) b" and "d = div_half_even q"
  have q: "\<bar>q * b - a * dec_unit * dec_unit\<bar> < \<bar>b\<bar>"
    unfolding q_def by (rule quo_trunc_law [OF assms])
  have d: "2 * \<bar>d * dec_unit - q\<bar> \<le> dec_unit"
    unfolding d_def by (rule div_half_even_law)
  have "(d * b - a * dec_unit) * dec_unit = (d * dec_unit - q) * b + (q * b - a * dec_unit * dec_unit)"
    by (simp add: algebra_simps)
  then have "\<bar>d * b - a * dec_unit\<bar> * dec_unit \<le> \<bar>d * dec_unit - q\<bar> * \<bar>b\<bar> + \<bar>q * b - a * dec_unit * dec_unit\<bar>"
    by (metis abs_mult abs_of_pos abs_triangle_ineq dec_unit_pos(1))
  then have "2 * (\<bar>d * b - a * dec_unit\<bar> * dec_unit) \<le> 2 * \<bar>d * dec_unit - q\<bar> * \<bar>b\<bar> + 2 * \<bar>b\<bar>"
    using q by linarith
  also have "\<dots> \<le> dec_unit * \<bar>b\<bar> + 2 * \<bar>b\<bar>"
    using d by (simp add: mult_right_mono)
  also have "\<dots> \<le> dec_unit * \<bar>b\<bar> + dec_unit * \<bar>b\<bar>"
    by (simp add: dec_unit_def)
  finally have "\<bar>d * b - a * dec_unit\<bar> * dec_unit \<le> \<bar>b\<bar> * dec_unit"
    by (simp add: mult.commute)
  then show ?thesis unfolding d_def q_def by (rule mult_right_le_imp_le) simp
qed

lemma dquo_exact:
  assumes "b \<noteq> 0" "b dvd a * dec_unit"
  shows "div_half_even (quo_trunc (a * dec_unit * dec_unit) b) = a * dec_unit div b"
proof -
  have "a * dec_unit * dec_unit div b = a * dec_unit div b * dec_unit"
    using assms(2) by (metis div_mult_swap mult.commute)
  then show ?thesis using assms by (simp add: quo_trunc_exact)
qed

lemma decimal_sdk_dec_scheme:
  assumes "dec_ops.truncate E = sdk_dec"
  shows "decimal E"
proof -
  have E: "dmul E = dmul sdk_dec" "dquo E = dquo sdk_dec" "dtrunc E = dtrunc sdk_dec"
    "dround E = dround sdk_dec" "dceil E = dceil sdk_dec"
    by (simp_all add: assms [symmetric] dec_ops.defs)
  show ?thesis
  proof
    fix a b :: dec
    show "2 * \<bar>to_dec (dround E a) - a\<bar> \<le> dec_unit"
      using div_half_even_law [of a] by (simp add: E sdk_dec_def to_dec_def)
    show "2 * \<bar>dmul E a b * dec_unit - a * b\<bar> \<le> dec_unit"
      using div_half_even_law [of "a * b"] by (simp add: E sdk_dec_def)
    show "dmul E a b = dmul E b a"
      by (simp add: E sdk_dec_def mult.commute)
  qed (simp_all add: E sdk_dec_def div_half_even_mono mult_right_mono quo_trunc_mono dquo_law
      dquo_exact)
qed

interpretation sdec: decimal sdk_dec
  by (rule decimal_sdk_dec_scheme) (simp add: dec_ops.defs)

end
