(* ===== verification/Sdk.thy ===== *)
theory Sdk
  imports Decimal
begin

text \<open>
  The Cosmos SDK as the modules see it. The bank and account keepers, the codec of addresses, the
  parsers of numbers and the constructor of coins are not code of the repository: they are
  fields of the record \<open>env\<close>, a parameter of every definition that uses them. The bank's own state is
  of an arbitrary type \<open>'b\<close>. The locale \<open>sdk\<close> states what the modules rely on; \<open>ledger_env\<close> is a
  concrete instance, a plain ledger, on which the witnesses compute. The bank
  operations of \<open>env\<close> are those of the \<open>BankKeeper\<close> interfaces of \<open>x/*/types/expected_keepers.go\<close>; a failing one leaves the
  bank unchanged.
\<close>

section \<open>Parameters\<close>

type_synonym denom = string
type_synonym addr = string
type_synonym coins = "(denom \<times> int) list"

text \<open>\<open>Coins.AmountOf\<close>; \<open>Coins.Find\<close> is \<open>map_of\<close>.\<close>

definition amount_of :: "coins \<Rightarrow> denom \<Rightarrow> int" where
  "amount_of cs d = (case map_of cs d of None \<Rightarrow> 0 | Some a \<Rightarrow> a)"

record 'b env = dec_ops +
  authority :: string
  parse_int :: "string \<Rightarrow> int option"
  parse_dec :: "string \<Rightarrow> dec option"
  acc_of :: "string \<Rightarrow> addr option"
  str_of :: "addr \<Rightarrow> string"
  mod_addr :: "string \<Rightarrow> addr"
  new_coins :: "denom \<Rightarrow> int \<Rightarrow> coins option"
  bk_send :: "'b \<Rightarrow> addr \<Rightarrow> addr \<Rightarrow> coins \<Rightarrow> 'b res"
  bk_acc_to_mod :: "'b \<Rightarrow> addr \<Rightarrow> string \<Rightarrow> coins \<Rightarrow> 'b res"
  bk_mod_to_acc :: "'b \<Rightarrow> string \<Rightarrow> addr \<Rightarrow> coins \<Rightarrow> 'b res"
  bk_mod_to_mod :: "'b \<Rightarrow> string \<Rightarrow> string \<Rightarrow> coins \<Rightarrow> 'b res"
  bk_mint :: "'b \<Rightarrow> string \<Rightarrow> coins \<Rightarrow> 'b res"
  bk_burn :: "'b \<Rightarrow> string \<Rightarrow> coins \<Rightarrow> 'b res"
  bk_supply :: "'b \<Rightarrow> denom \<Rightarrow> int"
  bk_spendable :: "'b \<Rightarrow> addr \<Rightarrow> coins"

text \<open>What every module's context holds: the bank's state and the block height.\<close>

record 'b world =
  bank :: 'b
  height :: int

text \<open>The spendable amount of one denomination.\<close>

definition bal :: "'b env \<Rightarrow> 'b \<Rightarrow> addr \<Rightarrow> denom \<Rightarrow> int" where
  "bal E b a d = amount_of (bk_spendable E b a) d"

section \<open>Calls to the bank\<close>

text \<open>
  Every transfer of the modules builds its coins with \<open>sdk.NewCoins(sdk.NewCoin(denom, amount))\<close>, which
  panics on a negative amount or an invalid denomination, and then calls the bank. The bank's errors are
  none of the modules' own: whatever \<open>env\<close> returns as one counts as \<open>BankError\<close>.
\<close>

definition bank_call ::
  "'b env \<Rightarrow> ('b \<Rightarrow> coins \<Rightarrow> 'b res) \<Rightarrow> denom \<Rightarrow> int \<Rightarrow> ('b, 'z) world_scheme \<Rightarrow> (err + unit) \<times> ('b, 'z) world_scheme" where
  "bank_call E op d amt s =
     (case new_coins E d amt of None \<Rightarrow> (Inl Panic, s)
      | Some cs \<Rightarrow> (case op (bank s) cs of Inl e \<Rightarrow> (Inl (if e = Panic then Panic else BankError), s) | Inr b \<Rightarrow> (Inr (), s\<lparr>bank := b\<rparr>)))"

definition send_coins :: "'b env \<Rightarrow> addr \<Rightarrow> addr \<Rightarrow> denom \<Rightarrow> int \<Rightarrow> (('b, 'z) world_scheme, unit) cmd" where
  "send_coins E a a' = bank_call E (\<lambda>b. bk_send E b a a')"

definition send_acc_mod :: "'b env \<Rightarrow> addr \<Rightarrow> string \<Rightarrow> denom \<Rightarrow> int \<Rightarrow> (('b, 'z) world_scheme, unit) cmd" where
  "send_acc_mod E a m = bank_call E (\<lambda>b. bk_acc_to_mod E b a m)"

definition send_mod_acc :: "'b env \<Rightarrow> string \<Rightarrow> addr \<Rightarrow> denom \<Rightarrow> int \<Rightarrow> (('b, 'z) world_scheme, unit) cmd" where
  "send_mod_acc E m a = bank_call E (\<lambda>b. bk_mod_to_acc E b m a)"

definition send_mod_mod :: "'b env \<Rightarrow> string \<Rightarrow> string \<Rightarrow> denom \<Rightarrow> int \<Rightarrow> (('b, 'z) world_scheme, unit) cmd" where
  "send_mod_mod E m m' = bank_call E (\<lambda>b. bk_mod_to_mod E b m m')"

definition mint_coins :: "'b env \<Rightarrow> string \<Rightarrow> denom \<Rightarrow> int \<Rightarrow> (('b, 'z) world_scheme, unit) cmd" where
  "mint_coins E m = bank_call E (\<lambda>b. bk_mint E b m)"

definition burn_coins :: "'b env \<Rightarrow> string \<Rightarrow> denom \<Rightarrow> int \<Rightarrow> (('b, 'z) world_scheme, unit) cmd" where
  "burn_coins E m = bank_call E (\<lambda>b. bk_burn E b m)"

text \<open>\<open>SpendableCoins\<close>, \<open>SpendableCoin\<close> and \<open>GetSupply\<close>.\<close>

definition spendable :: "'b env \<Rightarrow> ('b, 'z) world_scheme \<Rightarrow> addr \<Rightarrow> coins" where
  "spendable E s a = bk_spendable E (bank s) a"

definition spendable_amt :: "'b env \<Rightarrow> ('b, 'z) world_scheme \<Rightarrow> addr \<Rightarrow> denom \<Rightarrow> int" where
  "spendable_amt E s a d = bal E (bank s) a d"

definition supply_of :: "'b env \<Rightarrow> ('b, 'z) world_scheme \<Rightarrow> denom \<Rightarrow> int" where
  "supply_of E s d = bk_supply E (bank s) d"

lemmas bank_ops_defs = send_coins_def send_acc_mod_def send_mod_acc_def send_mod_mod_def
  mint_coins_def burn_coins_def

text \<open>A bank call changes the bank only, and nothing when it fails.\<close>

lemma bank_call_frame: "\<exists>b. snd (bank_call E op d amt s) = s\<lparr>bank := b\<rparr>"
  by (auto simp: bank_call_def intro: exI [of _ "bank s"] split: option.splits sum.splits)

lemma bank_call_fail: "bank_call E op d amt s = (Inl e, t) \<Longrightarrow> t = s"
  by (auto simp: bank_call_def split: option.splits sum.splits)

lemma bank_call_err: "fst (bank_call E op d amt s) = Inl e \<Longrightarrow> e = Panic \<or> e = BankError"
  by (auto simp: bank_call_def split: option.splits sum.splits if_splits)

lemma bank_call_ok:
  "bank_call E op d amt s = (Inr u, t) \<longleftrightarrow>
   (\<exists>cs b. new_coins E d amt = Some cs \<and> op (bank s) cs = Inr b \<and> t = s\<lparr>bank := b\<rparr>)"
  by (auto simp: bank_call_def split: option.splits sum.splits)

lemmas bank_ops_fail =
  bank_call_fail [of E "\<lambda>b. bk_send E b a a'" for E a a', folded send_coins_def]
  bank_call_fail [of E "\<lambda>b. bk_acc_to_mod E b a m" for E a m, folded send_acc_mod_def]
  bank_call_fail [of E "\<lambda>b. bk_mod_to_acc E b m a" for E a m, folded send_mod_acc_def]
  bank_call_fail [of E "\<lambda>b. bk_mod_to_mod E b m m'" for E m m', folded send_mod_mod_def]
  bank_call_fail [of E "\<lambda>b. bk_mint E b m" for E m, folded mint_coins_def]
  bank_call_fail [of E "\<lambda>b. bk_burn E b m" for E m, folded burn_coins_def]

lemmas bank_ops_frame =
  bank_call_frame [of E "\<lambda>b. bk_send E b a a'" for E a a', folded send_coins_def]
  bank_call_frame [of E "\<lambda>b. bk_acc_to_mod E b a m" for E a m, folded send_acc_mod_def]
  bank_call_frame [of E "\<lambda>b. bk_mod_to_acc E b m a" for E a m, folded send_mod_acc_def]
  bank_call_frame [of E "\<lambda>b. bk_mod_to_mod E b m m'" for E m m', folded send_mod_mod_def]
  bank_call_frame [of E "\<lambda>b. bk_mint E b m" for E m, folded mint_coins_def]
  bank_call_frame [of E "\<lambda>b. bk_burn E b m" for E m, folded burn_coins_def]

text \<open>\<open>sub b d a x\<close> etc.: the movement of \<open>x\<close> units of one denomination.\<close>

definition moved :: "'b env \<Rightarrow> 'b \<Rightarrow> 'b \<Rightarrow> addr \<Rightarrow> addr \<Rightarrow> coins \<Rightarrow> bool" where
  "moved E b b' a a' cs \<longleftrightarrow>
     (\<forall>x d. bal E b' x d = bal E b x d - (if x = a then amount_of cs d else 0)
                                       + (if x = a' then amount_of cs d else 0))
     \<and> (\<forall>d. bk_supply E b' d = bk_supply E b d)"

text \<open>Steps that only change the bank compose.\<close>

lemma bank_frame_trans:
  assumes "v = s\<lparr>bank := bank v\<rparr>" "t = v\<lparr>bank := bank t\<rparr>"
  shows "t = s\<lparr>bank := bank t\<rparr>"
proof -
  have "t = s\<lparr>bank := bank v\<rparr>\<lparr>bank := bank t\<rparr>" using assms by simp
  then show ?thesis by simp
qed

text \<open>
  The SDK runs a message on a branch of the state that is dropped when the handler fails.
\<close>

definition atomic :: "('s, 'a) cmd \<Rightarrow> ('s, 'a) cmd" where
  "atomic f s = (case f s of (Inl e, _) \<Rightarrow> (Inl e, s) | (Inr a, t) \<Rightarrow> (Inr a, t))"

lemma atomic_Inr [simp]: "atomic f s = (Inr a, t) \<longleftrightarrow> f s = (Inr a, t)"
  by (auto simp: atomic_def split: prod.splits sum.splits)

lemma atomic_cases:
  obtains (fail) e where "atomic f s = (Inl e, s)" "fst (f s) = Inl e"
  | (ok) a t where "atomic f s = (Inr a, t)" "f s = (Inr a, t)"
  by (cases "f s"; cases "fst (f s)") (auto simp: atomic_def)

section \<open>The behaviour the modules rely on\<close>

text \<open>\<open>acc_law\<close>: a bech32 string has no slash, so that the store keys built from addresses do not mix.\<close>

locale sdk = decimal E for E :: "'b env" +
  assumes new_coins_law: "new_coins E d n = Some cs \<Longrightarrow> 0 \<le> n \<and> amount_of cs d' = (if d' = d then n else 0)"
    and acc_law: "acc_of E c = Some a \<Longrightarrow> CHR ''/'' \<notin> set c"
    and bal_nonneg: "0 \<le> bal E b a d"
    and send_law: "bk_send E b a a' cs = Inr b' \<Longrightarrow> moved E b b' a a' cs"
    and acc_to_mod_law: "bk_acc_to_mod E b a m cs = Inr b' \<Longrightarrow> moved E b b' a (mod_addr E m) cs"
    and mod_to_acc_law: "bk_mod_to_acc E b m a cs = Inr b' \<Longrightarrow> moved E b b' (mod_addr E m) a cs"
    and mod_to_mod_law: "bk_mod_to_mod E b m m' cs = Inr b' \<Longrightarrow> moved E b b' (mod_addr E m) (mod_addr E m') cs"
    and mint_law: "bk_mint E b m cs = Inr b' \<Longrightarrow>
      (\<forall>x d. bal E b' x d = bal E b x d + (if x = mod_addr E m then amount_of cs d else 0))
      \<and> (\<forall>d. bk_supply E b' d = bk_supply E b d + amount_of cs d)"
    and burn_law: "bk_burn E b m cs = Inr b' \<Longrightarrow>
      (\<forall>x d. bal E b' x d = bal E b x d - (if x = mod_addr E m then amount_of cs d else 0))
      \<and> (\<forall>d. bk_supply E b' d = bk_supply E b d - amount_of cs d)"
begin

lemma new_coins_neg: "a < 0 \<Longrightarrow> new_coins E d a = None"
  using new_coins_law [of d a] by (cases "new_coins E d a") auto

lemma bank_call_neg: "amt < 0 \<Longrightarrow> bank_call E op d amt s = (Inl Panic, s)"
  by (simp add: bank_call_def new_coins_neg)

lemma call_moved:
  assumes "bank_call E op d amt s = (Inr u, t)"
    and "\<And>b cs b'. op b cs = Inr b' \<Longrightarrow> moved E b b' a a' cs"
  shows "0 \<le> amt"
    and "bal E (bank t) x d' = bal E (bank s) x d'
           - (if x = a \<and> d' = d then amt else 0) + (if x = a' \<and> d' = d then amt else 0)"
    and "bk_supply E (bank t) d' = bk_supply E (bank s) d'"
    and "t = s\<lparr>bank := bank t\<rparr>"
proof -
  from assms(1) obtain cs b where 1: "new_coins E d amt = Some cs" "op (bank s) cs = Inr b"
    and t: "t = s\<lparr>bank := b\<rparr>" by (auto simp: bank_call_ok)
  from new_coins_law [OF 1(1)] show "0 \<le> amt" by simp
  from assms(2) [OF 1(2)] new_coins_law [OF 1(1)]
  show "bal E (bank t) x d' = bal E (bank s) x d'
           - (if x = a \<and> d' = d then amt else 0) + (if x = a' \<and> d' = d then amt else 0)"
    and "bk_supply E (bank t) d' = bk_supply E (bank s) d'"
    by (simp_all add: t moved_def)
  show "t = s\<lparr>bank := bank t\<rparr>" by (simp add: t)
qed

lemmas send_coins_ok = call_moved [of "\<lambda>b. bk_send E b a a'" _ _ _ _ _ a a' for a a', folded send_coins_def, OF _ send_law]
lemmas send_acc_mod_ok = call_moved [of "\<lambda>b. bk_acc_to_mod E b a m" _ _ _ _ _ a "mod_addr E m" for a m, folded send_acc_mod_def, OF _ acc_to_mod_law]
lemmas send_mod_acc_ok = call_moved [of "\<lambda>b. bk_mod_to_acc E b m a" _ _ _ _ _ "mod_addr E m" a for a m, folded send_mod_acc_def, OF _ mod_to_acc_law]
lemmas send_mod_mod_ok = call_moved [of "\<lambda>b. bk_mod_to_mod E b m m'" _ _ _ _ _ "mod_addr E m" "mod_addr E m'" for m m', folded send_mod_mod_def, OF _ mod_to_mod_law]

lemma mint_coins_ok:
  assumes "mint_coins E m d amt s = (Inr u, t)"
  shows "0 \<le> amt"
    and "bal E (bank t) x d' = bal E (bank s) x d' + (if x = mod_addr E m \<and> d' = d then amt else 0)"
    and "bk_supply E (bank t) d' = bk_supply E (bank s) d' + (if d' = d then amt else 0)"
    and "t = s\<lparr>bank := bank t\<rparr>"
proof -
  from assms obtain cs b where 1: "new_coins E d amt = Some cs" "bk_mint E (bank s) m cs = Inr b"
    and t: "t = s\<lparr>bank := b\<rparr>" by (auto simp: mint_coins_def bank_call_ok)
  from new_coins_law [OF 1(1)] mint_law [OF 1(2)]
  show "0 \<le> amt"
    and "bal E (bank t) x d' = bal E (bank s) x d' + (if x = mod_addr E m \<and> d' = d then amt else 0)"
    and "bk_supply E (bank t) d' = bk_supply E (bank s) d' + (if d' = d then amt else 0)"
    and "t = s\<lparr>bank := bank t\<rparr>"
    by (auto simp: t)
qed

lemma burn_coins_ok:
  assumes "burn_coins E m d amt s = (Inr u, t)"
  shows "0 \<le> amt"
    and "bal E (bank t) x d' = bal E (bank s) x d' - (if x = mod_addr E m \<and> d' = d then amt else 0)"
    and "bk_supply E (bank t) d' = bk_supply E (bank s) d' - (if d' = d then amt else 0)"
    and "t = s\<lparr>bank := bank t\<rparr>"
proof -
  from assms obtain cs b where 1: "new_coins E d amt = Some cs" "bk_burn E (bank s) m cs = Inr b"
    and t: "t = s\<lparr>bank := b\<rparr>" by (auto simp: burn_coins_def bank_call_ok)
  from new_coins_law [OF 1(1)] burn_law [OF 1(2)]
  show "0 \<le> amt"
    and "bal E (bank t) x d' = bal E (bank s) x d' - (if x = mod_addr E m \<and> d' = d then amt else 0)"
    and "bk_supply E (bank t) d' = bk_supply E (bank s) d' - (if d' = d then amt else 0)"
    and "t = s\<lparr>bank := bank t\<rparr>"
    by (auto simp: t)
qed

end

end
