(* ===== verification/Ledger.thy ===== *)
theory Ledger
  imports Sdk
begin

text \<open>
  A concrete instance of the SDK parameters: a ledger over a fixed list of denominations, with plain
  decimal parsing and the identity as address codec. It satisfies the locale \<open>sdk\<close>, so the
  hypotheses of the development's theorems can hold, and the witnesses compute on it. It models no
  code of the repository.
\<close>

record ledger =
  bals :: "((addr \<times> denom) \<times> int) list"
  tot :: "(denom \<times> int) list"

text \<open>A negative entry of the table counts as an empty account.\<close>

definition held :: "ledger \<Rightarrow> addr \<Rightarrow> denom \<Rightarrow> int" where
  "held l a d = (case map_of (bals l) (a, d) of None \<Rightarrow> 0 | Some n \<Rightarrow> max 0 n)"

definition ledger_supply :: "ledger \<Rightarrow> denom \<Rightarrow> int" where
  "ledger_supply l d = (case map_of (tot l) d of None \<Rightarrow> 0 | Some n \<Rightarrow> n)"

definition credit :: "addr \<Rightarrow> denom \<Rightarrow> int \<Rightarrow> ledger \<Rightarrow> ledger" where
  "credit a d n l = l\<lparr>bals := ((a, d), held l a d + n) # filter (\<lambda>(k, _). k \<noteq> (a, d)) (bals l)\<rparr>"

definition issue :: "denom \<Rightarrow> int \<Rightarrow> ledger \<Rightarrow> ledger" where
  "issue d n l = l\<lparr>tot := (d, ledger_supply l d + n) # filter (\<lambda>(k, _). k \<noteq> d) (tot l)\<rparr>"

text \<open>The operations take at most one coin at a time, which is all the modules ever send.\<close>

fun ledger_move :: "denom list \<Rightarrow> ledger \<Rightarrow> addr \<Rightarrow> addr \<Rightarrow> coins \<Rightarrow> ledger res" where
  "ledger_move ds l a a' [] = Inr l"
| "ledger_move ds l a a' [(d, n)] =
     (if d \<in> set ds \<and> 0 \<le> n \<and> n \<le> held l a d then Inr (credit a' d n (credit a d (- n) l)) else Inl BankError)"
| "ledger_move ds l a a' _ = Inl BankError"

fun ledger_mint :: "denom list \<Rightarrow> ledger \<Rightarrow> addr \<Rightarrow> coins \<Rightarrow> ledger res" where
  "ledger_mint ds l a [] = Inr l"
| "ledger_mint ds l a [(d, n)] =
     (if d \<in> set ds \<and> 0 \<le> n then Inr (issue d n (credit a d n l)) else Inl BankError)"
| "ledger_mint ds l a _ = Inl BankError"

fun ledger_burn :: "denom list \<Rightarrow> ledger \<Rightarrow> addr \<Rightarrow> coins \<Rightarrow> ledger res" where
  "ledger_burn ds l a [] = Inr l"
| "ledger_burn ds l a [(d, n)] =
     (if d \<in> set ds \<and> 0 \<le> n \<and> n \<le> held l a d then Inr (issue d (- n) (credit a d (- n) l)) else Inl BankError)"
| "ledger_burn ds l a _ = Inl BankError"

definition ledger_coins :: "denom list \<Rightarrow> ledger \<Rightarrow> addr \<Rightarrow> coins" where
  "ledger_coins ds l a = filter (\<lambda>(d, n). n \<noteq> 0) (map (\<lambda>d. (d, held l a d)) ds)"

definition parse_digits :: "string \<Rightarrow> int option" where
  "parse_digits s = (if s \<noteq> [] \<and> list_all is_digit s then Some (foldl (\<lambda>a c. 10 * a + int (digit_val c)) 0 s) else None)"

definition parse_signed :: "(string \<Rightarrow> int option) \<Rightarrow> string \<Rightarrow> int option" where
  "parse_signed p s =
     (case s of [] \<Rightarrow> None
      | c # t \<Rightarrow> if c = CHR ''-'' then map_option uminus (p t) else p s)"

definition parse_frac :: "string \<Rightarrow> int option" where
  "parse_frac s =
     (let i = takeWhile (\<lambda>c. c \<noteq> CHR ''.'') s; f = drop (length i + 1) s in
      if length i = length s then map_option to_dec (parse_digits s)
      else if length f \<le> 18 then
        (case (parse_digits i, parse_digits f) of
           (Some a, Some b) \<Rightarrow> Some (to_dec a + b * 10 ^ (18 - length f)) | _ \<Rightarrow> None)
      else None)"

definition ledger_env :: "denom list \<Rightarrow> ledger env" where
  "ledger_env ds = dec_ops.extend sdk_dec
     \<lparr>authority = ''gov'',
      parse_int = parse_signed parse_digits,
      parse_dec = parse_signed parse_frac,
      acc_of = (\<lambda>s. if s = [] \<or> CHR ''/'' \<in> set s then None else Some s),
      str_of = (\<lambda>a. a),
      mod_addr = (\<lambda>m. CHR ''#'' # m),
      new_coins = (\<lambda>d n. if n < 0 \<or> d \<notin> set ds then None else Some (if n = 0 then [] else [(d, n)])),
      bk_send = ledger_move ds,
      bk_acc_to_mod = (\<lambda>l a m. ledger_move ds l a (CHR ''#'' # m)),
      bk_mod_to_acc = (\<lambda>l m a. ledger_move ds l (CHR ''#'' # m) a),
      bk_mod_to_mod = (\<lambda>l m m'. ledger_move ds l (CHR ''#'' # m) (CHR ''#'' # m')),
      bk_mint = (\<lambda>l m. ledger_mint ds l (CHR ''#'' # m)),
      bk_burn = (\<lambda>l m. ledger_burn ds l (CHR ''#'' # m)),
      bk_supply = ledger_supply,
      bk_spendable = ledger_coins ds\<rparr>"

lemma ledger_env_simps [simp]:
  "dec_ops.truncate (ledger_env ds) = sdk_dec"
  "authority (ledger_env ds) = ''gov''"
  "parse_int (ledger_env ds) = parse_signed parse_digits"
  "parse_dec (ledger_env ds) = parse_signed parse_frac"
  "acc_of (ledger_env ds) t = (if t = [] \<or> CHR ''/'' \<in> set t then None else Some t)"
  "str_of (ledger_env ds) a = a"
  "mod_addr (ledger_env ds) m = CHR ''#'' # m"
  "new_coins (ledger_env ds) d n = (if n < 0 \<or> d \<notin> set ds then None else Some (if n = 0 then [] else [(d, n)]))"
  "bk_send (ledger_env ds) = ledger_move ds"
  "bk_acc_to_mod (ledger_env ds) l a m = ledger_move ds l a (CHR ''#'' # m)"
  "bk_mod_to_acc (ledger_env ds) l m a = ledger_move ds l (CHR ''#'' # m) a"
  "bk_mod_to_mod (ledger_env ds) l m m' = ledger_move ds l (CHR ''#'' # m) (CHR ''#'' # m')"
  "bk_mint (ledger_env ds) l m = ledger_mint ds l (CHR ''#'' # m)"
  "bk_burn (ledger_env ds) l m = ledger_burn ds l (CHR ''#'' # m)"
  "bk_supply (ledger_env ds) = ledger_supply"
  "bk_spendable (ledger_env ds) = ledger_coins ds"
  by (simp_all add: ledger_env_def dec_ops.defs sdk_dec_def)

lemma ledger_env_dec [simp]:
  "dmul (ledger_env ds) = dmul sdk_dec"
  "dquo (ledger_env ds) = dquo sdk_dec"
  "dtrunc (ledger_env ds) = dtrunc sdk_dec"
  "dround (ledger_env ds) = dround sdk_dec"
  "dceil (ledger_env ds) = dceil sdk_dec"
  "dpow (ledger_env ds) = dpow sdk_dec"
  "dsqrt (ledger_env ds) = dsqrt sdk_dec"
  by (simp_all add: ledger_env_def dec_ops.defs)

lemma amount_of_ledger_coins:
  "amount_of (ledger_coins ds l a) d = (if d \<in> set ds then held l a d else 0)"
proof -
  have "map_of (filter (\<lambda>(d, n). n \<noteq> 0) (map (\<lambda>d. (d, f d)) xs)) d = (if d \<in> set xs \<and> f d \<noteq> 0 then Some (f d) else None)"
    for xs and f :: "denom \<Rightarrow> int"
    by (induction xs) auto
  then show ?thesis by (simp add: amount_of_def ledger_coins_def)
qed

lemma bal_ledger [simp]: "bal (ledger_env ds) l a d = (if d \<in> set ds then held l a d else 0)"
  by (simp add: bal_def amount_of_ledger_coins)

lemma held_nonneg [simp]: "0 \<le> held l a d"
  by (simp add: held_def split: option.splits)

lemma map_of_filter_neq: "k \<noteq> k' \<Longrightarrow> map_of (filter (\<lambda>(x, _). x \<noteq> k') m) k = map_of m k"
  by (induction m) auto

lemma map_of_credit:
  "map_of (bals (credit a d n l)) k = (if k = (a, d) then Some (held l a d + n) else map_of (bals l) k)"
proof -
  have b: "bals (credit a d n l) = ((a, d), held l a d + n) # filter (\<lambda>(k, _). k \<noteq> (a, d)) (bals l)"
    by (simp add: credit_def)
  show ?thesis by (simp add: b map_of_filter_neq)
qed

lemma map_of_issue:
  "map_of (tot (issue d n l)) k = (if k = d then Some (ledger_supply l d + n) else map_of (tot l) k)"
proof -
  have b: "tot (issue d n l) = (d, ledger_supply l d + n) # filter (\<lambda>(k, _). k \<noteq> d) (tot l)"
    by (simp add: issue_def)
  show ?thesis by (simp add: b map_of_filter_neq)
qed

lemma held_credit [simp]:
  "held (credit a d n l) x d' = (if x = a \<and> d' = d then max 0 (held l a d + n) else held l x d')"
  unfolding held_def [of "credit a d n l"] map_of_credit by (auto simp: held_def)

lemma held_issue [simp]: "held (issue d n l) a d' = held l a d'"
  by (simp add: held_def issue_def)

lemma supply_credit [simp]: "ledger_supply (credit a d n l) d' = ledger_supply l d'"
  by (simp add: ledger_supply_def credit_def)

lemma supply_issue [simp]: "ledger_supply (issue d n l) d' = ledger_supply l d' + (if d' = d then n else 0)"
  unfolding ledger_supply_def [of "issue d n l"] map_of_issue by (auto simp: ledger_supply_def)

lemma amount_of_simps [simp]: "amount_of [] d = 0" "amount_of [(d', n)] d = (if d = d' then n else 0)"
  by (simp_all add: amount_of_def)

lemma ledger_move_moved:
  "ledger_move ds l a a' cs = Inr l' \<Longrightarrow> moved (ledger_env ds) l l' a a' cs"
  by (induction ds l a a' cs rule: ledger_move.induct) (auto simp: moved_def split: if_splits)

interpretation led: sdk "ledger_env ds" for ds
proof -
  have "decimal (ledger_env ds)"
    by (rule decimal_sdk_dec_scheme) simp
  then show "sdk (ledger_env ds)"
  proof (intro sdk.intro sdk_axioms.intro)
    fix b b' :: ledger and m cs
    show "(\<forall>x d. bal (ledger_env ds) b' x d = bal (ledger_env ds) b x d
             + (if x = mod_addr (ledger_env ds) m then amount_of cs d else 0))
      \<and> (\<forall>d. bk_supply (ledger_env ds) b' d = bk_supply (ledger_env ds) b d + amount_of cs d)"
      if "bk_mint (ledger_env ds) b m cs = Inr b'"
      using that by (cases "(ds, b, CHR ''#'' # m, cs)" rule: ledger_mint.cases) (auto split: if_splits)
    show "(\<forall>x d. bal (ledger_env ds) b' x d = bal (ledger_env ds) b x d
             - (if x = mod_addr (ledger_env ds) m then amount_of cs d else 0))
      \<and> (\<forall>d. bk_supply (ledger_env ds) b' d = bk_supply (ledger_env ds) b d - amount_of cs d)"
      if "bk_burn (ledger_env ds) b m cs = Inr b'"
      using that by (cases "(ds, b, CHR ''#'' # m, cs)" rule: ledger_burn.cases) (auto split: if_splits)
  qed (auto simp: ledger_move_moved split: if_splits)
qed

end
