(* ===== verification/DenomParams.thy ===== *)
theory DenomParams
  imports Ledger
begin

text \<open>
  The parameters of \<open>x/denominations\<close> (\<open>types/params.go\<close>): which denominations trade on the dex, which
  are kCoins, which back cAssets and which serve as collateral, with the validation every update
  must pass. \<open>wf_denoms\<close> says declaratively what the validation accepts.

  A field that Go can leave nil is an \<open>option\<close>; comparing a nil number panics. The entries of the
  four lists are never nil pointers here, since they come from decoded parameters or are built by the handlers.
\<close>

definition base_currency :: denom where "base_currency = ''ukopi''"

text \<open>The use of a number that may be nil.\<close>

definition nilR :: "'a option \<Rightarrow> 'a res" where
  "nilR x = of_option Panic x"

lemma nilR_simps [simp]:
  "nilR None = Inl Panic" "nilR (Some a) = Inr a" "(nilR x = Inr a) = (x = Some a)"
  by (simp_all add: nilR_def)

section \<open>Data\<close>

record dex_denom =
  dd_name :: denom
  dd_factor :: "dec option"
  dd_min_liquidity :: "int option"

record kcoin =
  kc_denom :: denom
  kc_references :: "denom list"
  kc_max_supply :: "int option"
  kc_max_mint :: "int option"
  kc_max_burn :: "int option"

record collateral_denom =
  cd_denom :: denom
  cd_ltv :: "dec option"
  cd_max_deposit :: "int option"

record casset =
  ca_name :: denom
  ca_base :: denom
  ca_dex_fee_share :: "dec option"
  ca_borrow_limit :: "dec option"
  ca_min_loan :: "int option"

record denom_params =
  dex_denoms :: "dex_denom list"
  kcoins :: "kcoin list"
  cassets :: "casset list"
  collateral_denoms :: "collateral_denom list"

section \<open>Validation\<close>

definition has_denom :: "dex_denom list \<Rightarrow> denom \<Rightarrow> bool" where
  "has_denom ds d = list_ex (\<lambda>x. dd_name x = d) ds"

definition validate_dex_denom :: "dex_denom \<Rightarrow> unit res" where
  "validate_dex_denom d =
     bindR (checkR (dd_name d \<noteq> []) FmtError) (\<lambda>_.
     if dd_name d \<noteq> base_currency then
       bindR (of_option FmtError (dd_factor d)) (\<lambda>f.
       bindR (checkR (f > 0) FmtError) (\<lambda>_.
       bindR (of_option FmtError (dd_min_liquidity d)) (\<lambda>m.
       checkR (\<not> m \<le> 0) FmtError)))
     else Inr ())"

definition validate_dex_denoms :: "dex_denom list \<Rightarrow> unit res" where
  "validate_dex_denoms ds =
     bindR (foldR (\<lambda>d seen.
        bindR (validate_dex_denom d) (\<lambda>_.
        bindR (checkR (dd_name d \<notin> set seen) FmtError) (\<lambda>_.
        Inr (dd_name d # seen)))) ds []) (\<lambda>_. Inr ())"

definition validate_kcoin :: "dex_denom list \<Rightarrow> kcoin \<Rightarrow> unit res" where
  "validate_kcoin ds k =
     bindR (checkR (has_denom ds (kc_denom k)) FmtError) (\<lambda>_.
     bindR (checkR (kc_references k \<noteq> []) FmtError) (\<lambda>_.
     bindR (foldR (\<lambda>r _.
        bindR (checkR (has_denom ds r) FmtError) (\<lambda>_.
        checkR (r \<noteq> kc_denom k) FmtError)) (kc_references k) ()) (\<lambda>_.
     bindR (of_option FmtError (kc_max_supply k)) (\<lambda>ms.
     bindR (of_option FmtError (kc_max_mint k)) (\<lambda>mm.
     bindR (of_option FmtError (kc_max_burn k)) (\<lambda>mb.
     bindR (checkR (\<not> ms < 0) FmtError) (\<lambda>_.
     bindR (checkR (\<not> mm < 0) FmtError) (\<lambda>_.
     checkR (\<not> mb < 0) FmtError))))))))"

definition validate_kcoins :: "kcoin list \<Rightarrow> dex_denom list \<Rightarrow> unit res" where
  "validate_kcoins ks ds =
     bindR (foldR (\<lambda>k seen.
        bindR (validate_kcoin ds k) (\<lambda>_.
        bindR (checkR (kc_denom k \<notin> set seen) FmtError) (\<lambda>_.
        foldR (\<lambda>r seen.
          bindR (checkR (r \<notin> set seen) FmtError) (\<lambda>_.
          Inr (r # seen))) (kc_references k) (kc_denom k # seen)))) ks []) (\<lambda>_. Inr ())"

definition validate_casset :: "dex_denom list \<Rightarrow> casset \<Rightarrow> unit res" where
  "validate_casset ds c =
     bindR (checkR (has_denom ds (ca_base c)) FmtError) (\<lambda>_.
     bindR (checkR (has_denom ds (ca_name c)) FmtError) (\<lambda>_.
     bindR (of_option FmtError (ca_dex_fee_share c)) (\<lambda>sh.
     bindR (checkR (\<not> sh < 0) FmtError) (\<lambda>_.
     bindR (checkR (\<not> sh > dec_one) FmtError) (\<lambda>_.
     bindR (nilR (ca_borrow_limit c)) (\<lambda>bl.
     bindR (checkR (\<not> bl > dec_one) FmtError) (\<lambda>_.
     bindR (nilR (ca_min_loan c)) (\<lambda>ml.
     checkR (\<not> ml < 0) FmtError))))))))"

definition validate_cassets :: "casset list \<Rightarrow> dex_denom list \<Rightarrow> unit res" where
  "validate_cassets cs ds =
     bindR (foldR (\<lambda>c seen.
        bindR (validate_casset ds c) (\<lambda>_.
        bindR (checkR (ca_name c \<notin> set seen) FmtError) (\<lambda>_.
        bindR (checkR (ca_base c \<notin> set seen) FmtError) (\<lambda>_.
        Inr (ca_base c # ca_name c # seen))))) cs []) (\<lambda>_. Inr ())"

definition validate_collateral_denom :: "dex_denom list \<Rightarrow> collateral_denom \<Rightarrow> unit res" where
  "validate_collateral_denom ds c =
     bindR (of_option FmtError (cd_ltv c)) (\<lambda>l.
     bindR (of_option FmtError (cd_max_deposit c)) (\<lambda>m.
     bindR (checkR (\<not> l < 0) FmtError) (\<lambda>_.
     bindR (checkR (\<not> l > dec_one) FmtError) (\<lambda>_.
     bindR (checkR (\<not> m < 0) FmtError) (\<lambda>_.
     checkR (has_denom ds (cd_denom c)) FmtError)))))"

definition validate_collateral_denoms :: "collateral_denom list \<Rightarrow> dex_denom list \<Rightarrow> unit res" where
  "validate_collateral_denoms cs ds =
     bindR (foldR (\<lambda>c seen.
        bindR (validate_collateral_denom ds c) (\<lambda>_.
        bindR (checkR (cd_denom c \<notin> set seen) FmtError) (\<lambda>_.
        Inr (cd_denom c # seen)))) cs []) (\<lambda>_. Inr ())"

definition validate_denom_params :: "denom_params \<Rightarrow> unit res" where
  "validate_denom_params p =
     bindR (validate_dex_denoms (dex_denoms p)) (\<lambda>_.
     bindR (validate_kcoins (kcoins p) (dex_denoms p)) (\<lambda>_.
     bindR (validate_collateral_denoms (collateral_denoms p) (dex_denoms p)) (\<lambda>_.
     validate_cassets (cassets p) (dex_denoms p))))"

section \<open>Default parameters\<close>

definition default_collateral_denoms :: "collateral_denom list" where
  "default_collateral_denoms =
     (let md = Some 1000000000 in
      [\<lparr>cd_denom = base_currency, cd_ltv = Some (dec_prec 5 1), cd_max_deposit = md\<rparr>,
       \<lparr>cd_denom = ''uwusdc'', cd_ltv = Some (dec_prec 9 1), cd_max_deposit = md\<rparr>,
       \<lparr>cd_denom = ''ucwusdc'', cd_ltv = Some (dec_prec 95 2), cd_max_deposit = md\<rparr>,
       \<lparr>cd_denom = ''ukusd'', cd_ltv = Some (dec_prec 9 1), cd_max_deposit = md\<rparr>,
       \<lparr>cd_denom = ''uckusd'', cd_ltv = Some (dec_prec 95 2), cd_max_deposit = md\<rparr>,
       \<lparr>cd_denom = ''swbtc'', cd_ltv = Some (dec_prec 8 1), cd_max_deposit = md\<rparr>,
       \<lparr>cd_denom = ''skbtc'', cd_ltv = Some (dec_prec 8 1), cd_max_deposit = md\<rparr>])"

definition default_casset :: "denom \<Rightarrow> denom \<Rightarrow> casset" where
  "default_casset n b = \<lparr>ca_name = n, ca_base = b, ca_dex_fee_share = Some (dec_prec 5 1),
     ca_borrow_limit = Some (dec_prec 99 2), ca_min_loan = Some 1000\<rparr>"

definition default_cassets :: "casset list" where
  "default_cassets =
     [default_casset ''uckusd'' ''ukusd'', default_casset ''ucwusdc'' ''uwusdc'',
      default_casset ''sckbtc'' ''skbtc'']"

definition default_dex_denoms :: "dex_denom list" where
  "default_dex_denoms =
     \<lparr>dd_name = base_currency, dd_factor = None, dd_min_liquidity = Some 10000\<rparr> #
     map (\<lambda>n. \<lparr>dd_name = n, dd_factor = Some (dec_prec 1 1), dd_min_liquidity = Some 10000000\<rparr>)
       [''uwusdc'', ''uwusdt'', ''ukusd'', ''uckusd'', ''ucwusdc''] @
     map (\<lambda>n. \<lparr>dd_name = n, dd_factor = Some (dec_prec 1 3), dd_min_liquidity = Some 1000\<rparr>)
       [''swbtc'', ''skbtc'', ''sckbtc'']"

definition default_kcoins :: "kcoin list" where
  "default_kcoins =
     [\<lparr>kc_denom = ''ukusd'', kc_references = [''uwusdc'', ''uwusdt''], kc_max_supply = Some 1000000000000,
       kc_max_mint = Some 1000000, kc_max_burn = Some 1000000\<rparr>,
      \<lparr>kc_denom = ''skbtc'', kc_references = [''swbtc''], kc_max_supply = Some 100000000,
       kc_max_mint = Some 10000, kc_max_burn = Some 10000\<rparr>]"

definition default_denom_params :: denom_params where
  "default_denom_params = \<lparr>dex_denoms = default_dex_denoms, kcoins = default_kcoins,
     cassets = default_cassets, collateral_denoms = default_collateral_denoms\<rparr>"

section \<open>What the validation accepts\<close>

definition wf_dex_denom :: "dex_denom \<Rightarrow> bool" where
  "wf_dex_denom d \<longleftrightarrow> dd_name d \<noteq> [] \<and> (dd_name d \<noteq> base_currency \<longrightarrow>
     (\<exists>f m. dd_factor d = Some f \<and> 0 < f \<and> dd_min_liquidity d = Some m \<and> 0 < m))"

definition wf_kcoin :: "denom set \<Rightarrow> kcoin \<Rightarrow> bool" where
  "wf_kcoin ds k \<longleftrightarrow> kc_denom k \<in> ds \<and> kc_references k \<noteq> [] \<and> set (kc_references k) \<subseteq> ds
     \<and> kc_denom k \<notin> set (kc_references k)
     \<and> (\<exists>a b c. kc_max_supply k = Some a \<and> 0 \<le> a \<and> kc_max_mint k = Some b \<and> 0 \<le> b
               \<and> kc_max_burn k = Some c \<and> 0 \<le> c)"

definition wf_casset :: "denom set \<Rightarrow> casset \<Rightarrow> bool" where
  "wf_casset ds c \<longleftrightarrow> ca_base c \<in> ds \<and> ca_name c \<in> ds
     \<and> (\<exists>f b m. ca_dex_fee_share c = Some f \<and> 0 \<le> f \<and> f \<le> dec_one
               \<and> ca_borrow_limit c = Some b \<and> b \<le> dec_one \<and> ca_min_loan c = Some m \<and> 0 \<le> m)"

definition wf_collateral_denom :: "denom set \<Rightarrow> collateral_denom \<Rightarrow> bool" where
  "wf_collateral_denom ds c \<longleftrightarrow> cd_denom c \<in> ds
     \<and> (\<exists>l m. cd_ltv c = Some l \<and> 0 \<le> l \<and> l \<le> dec_one \<and> cd_max_deposit c = Some m \<and> 0 \<le> m)"

text \<open>
  No two dex denominations have the same name; no denomination is named twice among the kCoins and
  their references together; the name and base denominations of two cAssets are disjoint.
\<close>

definition wf_denoms :: "denom_params \<Rightarrow> bool" where
  "wf_denoms p \<longleftrightarrow>
     (let ds = dd_name ` set (dex_denoms p) in
      (\<forall>d \<in> set (dex_denoms p). wf_dex_denom d) \<and> distinct (map dd_name (dex_denoms p))
      \<and> (\<forall>k \<in> set (kcoins p). wf_kcoin ds k)
      \<and> distinct (concat (map (\<lambda>k. kc_denom k # kc_references k) (kcoins p)))
      \<and> (\<forall>c \<in> set (collateral_denoms p). wf_collateral_denom ds c)
      \<and> distinct (map cd_denom (collateral_denoms p))
      \<and> (\<forall>c \<in> set (cassets p). wf_casset ds c)
      \<and> sorted_wrt (\<lambda>a b. {ca_name a, ca_base a} \<inter> {ca_name b, ca_base b} = {}) (cassets p))"

lemma has_denom_iff [simp]: "has_denom ds d \<longleftrightarrow> d \<in> dd_name ` set ds"
  by (auto simp: has_denom_def list_ex_iff)

lemma validate_dex_denom_iff: "validate_dex_denom d = Inr () \<longleftrightarrow> wf_dex_denom d"
  by (auto simp: validate_dex_denom_def wf_dex_denom_def bindR_Inr_iff not_le)

lemma foldR_check_all:
  "foldR (\<lambda>x _. g x) xs () = Inr () \<longleftrightarrow> (\<forall>x \<in> set xs. g x = Inr ())"
  by (induction xs) (auto simp: bindR_Inr_iff)

lemma validate_kcoin_iff: "validate_kcoin ds k = Inr () \<longleftrightarrow> wf_kcoin (dd_name ` set ds) k"
  by (auto simp: validate_kcoin_def wf_kcoin_def bindR_Inr_iff foldR_check_all not_less image_iff
      subset_iff)

lemma validate_casset_iff: "validate_casset ds c = Inr () \<longleftrightarrow> wf_casset (dd_name ` set ds) c"
  by (auto simp: validate_casset_def wf_casset_def bindR_Inr_iff not_less)

lemma validate_collateral_denom_iff:
  "validate_collateral_denom ds c = Inr () \<longleftrightarrow> wf_collateral_denom (dd_name ` set ds) c"
  by (auto simp: validate_collateral_denom_def wf_collateral_denom_def bindR_Inr_iff not_less)

text \<open>The duplicate check of the four loops: a fold that collects the names it has seen.\<close>

lemma foldR_seen:
  assumes "\<And>x. g x = Inr () \<longleftrightarrow> Q x"
  shows "(\<exists>seen'. foldR (\<lambda>x seen. bindR (g x) (\<lambda>_. bindR (checkR (f x \<notin> set seen) FmtError)
            (\<lambda>_. Inr (f x # seen)))) xs seen = Inr seen')
         \<longleftrightarrow> (\<forall>x \<in> set xs. Q x) \<and> distinct (map f xs) \<and> f ` set xs \<inter> set seen = {}"
proof (induction xs arbitrary: seen)
  case (Cons x xs)
  have "(\<exists>seen'. foldR (\<lambda>x seen. bindR (g x) (\<lambda>_. bindR (checkR (f x \<notin> set seen) FmtError)
            (\<lambda>_. Inr (f x # seen)))) (x # xs) seen = Inr seen')
     \<longleftrightarrow> Q x \<and> f x \<notin> set seen \<and> (\<forall>x \<in> set xs. Q x) \<and> distinct (map f xs)
         \<and> f ` set xs \<inter> set (f x # seen) = {}"
    using Cons.IH [of "f x # seen"] by (auto simp: bindR_Inr_iff assms)
  then show ?case by auto
qed simp

lemma validate_dex_denoms_iff:
  "validate_dex_denoms ds = Inr () \<longleftrightarrow> (\<forall>d \<in> set ds. wf_dex_denom d) \<and> distinct (map dd_name ds)"
  using foldR_seen [of validate_dex_denom wf_dex_denom dd_name ds "[]"]
  by (simp add: validate_dex_denoms_def bindR_Inr_iff validate_dex_denom_iff)

lemma validate_collateral_denoms_iff:
  "validate_collateral_denoms cs ds = Inr () \<longleftrightarrow>
   (\<forall>c \<in> set cs. wf_collateral_denom (dd_name ` set ds) c) \<and> distinct (map cd_denom cs)"
  using foldR_seen [of "validate_collateral_denom ds" "wf_collateral_denom (dd_name ` set ds)" cd_denom cs "[]"]
  by (simp add: validate_collateral_denoms_def bindR_Inr_iff validate_collateral_denom_iff)

lemma foldR_references:
  "foldR (\<lambda>r seen. bindR (checkR (r \<notin> set seen) FmtError) (\<lambda>_. Inr (r # seen))) rs seen = Inr seen'
   \<longleftrightarrow> distinct rs \<and> set rs \<inter> set seen = {} \<and> seen' = rev rs @ seen"
  by (induction rs arbitrary: seen) (auto simp: bindR_Inr_iff)

lemma validate_kcoins_iff:
  "validate_kcoins ks ds = Inr () \<longleftrightarrow> (\<forall>k \<in> set ks. wf_kcoin (dd_name ` set ds) k)
     \<and> distinct (concat (map (\<lambda>k. kc_denom k # kc_references k) ks))"
proof -
  have "(\<exists>seen'. foldR (\<lambda>k seen.
        bindR (validate_kcoin ds k) (\<lambda>_.
        bindR (checkR (kc_denom k \<notin> set seen) FmtError) (\<lambda>_.
        foldR (\<lambda>r seen.
          bindR (checkR (r \<notin> set seen) FmtError) (\<lambda>_.
          Inr (r # seen))) (kc_references k) (kc_denom k # seen)))) ks seen = Inr seen')
    \<longleftrightarrow> (\<forall>k \<in> set ks. wf_kcoin (dd_name ` set ds) k)
      \<and> distinct (concat (map (\<lambda>k. kc_denom k # kc_references k) ks))
      \<and> set (concat (map (\<lambda>k. kc_denom k # kc_references k) ks)) \<inter> set seen = {}" for seen
  proof (induction ks arbitrary: seen)
    case (Cons k ks)
    show ?case
      using Cons.IH [of "rev (kc_references k) @ kc_denom k # seen"]
      by (auto simp: bindR_Inr_iff validate_kcoin_iff foldR_references)
  qed simp
  from this [of "[]"] show ?thesis
    by (simp add: validate_kcoins_def bindR_Inr_iff)
qed

lemma validate_cassets_iff:
  "validate_cassets cs ds = Inr () \<longleftrightarrow> (\<forall>c \<in> set cs. wf_casset (dd_name ` set ds) c)
     \<and> sorted_wrt (\<lambda>a b. {ca_name a, ca_base a} \<inter> {ca_name b, ca_base b} = {}) cs"
proof -
  have "(\<exists>seen'. foldR (\<lambda>c seen.
        bindR (validate_casset ds c) (\<lambda>_.
        bindR (checkR (ca_name c \<notin> set seen) FmtError) (\<lambda>_.
        bindR (checkR (ca_base c \<notin> set seen) FmtError) (\<lambda>_.
        Inr (ca_base c # ca_name c # seen))))) cs seen = Inr seen')
    \<longleftrightarrow> (\<forall>c \<in> set cs. wf_casset (dd_name ` set ds) c)
      \<and> sorted_wrt (\<lambda>a b. {ca_name a, ca_base a} \<inter> {ca_name b, ca_base b} = {}) cs
      \<and> (\<forall>c \<in> set cs. ca_name c \<notin> set seen \<and> ca_base c \<notin> set seen)" for seen
  proof (induction cs arbitrary: seen)
    case (Cons c cs)
    show ?case
      using Cons.IH [of "ca_base c # ca_name c # seen"]
      by (auto simp: bindR_Inr_iff validate_casset_iff)
  qed simp
  from this [of "[]"] show ?thesis
    by (simp add: validate_cassets_def bindR_Inr_iff)
qed

end
