(* ===== verification/DenomKeeper.thy ===== *)
theory DenomKeeper
  imports DenomParams
begin

text \<open>
  The keeper of \<open>x/denominations\<close> (\<open>keeper/denoms.go\<close>): the lookups the other modules use, and the
  message handlers through which governance changes the parameters (\<open>keeper/msg_update_params_*.go\<close>).
  The keeper's only state is its parameters, the field \<open>dparams\<close> of the context.

  The lookups read the parameters they are given; the Go methods fetch them from the store first.
  A lookup that panics on an unknown denomination is a \<open>res\<close>.
\<close>

record 'b denom_world = "'b world" +
  dparams :: denom_params

section \<open>Lookups\<close>

definition contains :: "string list \<Rightarrow> string \<Rightarrow> bool" where
  "contains xs v = list_ex (\<lambda>x. x = v) xs"

definition denoms :: "denom_params \<Rightarrow> denom list" where
  "denoms p = map dd_name (dex_denoms p)"

definition is_valid_denom :: "denom_params \<Rightarrow> denom \<Rightarrow> bool" where
  "is_valid_denom p d = contains (denoms p) d"

definition is_kcoin :: "denom_params \<Rightarrow> denom \<Rightarrow> bool" where
  "is_kcoin p d = list_ex (\<lambda>k. kc_denom k = d) (kcoins p)"

definition is_native_denom :: "denom_params \<Rightarrow> denom \<Rightarrow> bool" where
  "is_native_denom p d = (d = base_currency \<or> is_kcoin p d)"

definition kcoin_denoms :: "denom_params \<Rightarrow> denom list" where
  "kcoin_denoms p = map kc_denom (kcoins p)"

definition non_kcoins :: "denom_params \<Rightarrow> denom list" where
  "non_kcoins p = filter (\<lambda>d. \<not> is_valid_denom p d) (map dd_name (dex_denoms p))"

definition reference_denoms :: "denom_params \<Rightarrow> denom \<Rightarrow> denom list" where
  "reference_denoms p d =
     (case find (\<lambda>k. kc_denom k = d) (kcoins p) of None \<Rightarrow> [] | Some k \<Rightarrow> kc_references k)"

definition initial_virtual_liquidity_factor :: "denom_params \<Rightarrow> denom \<Rightarrow> dec res" where
  "initial_virtual_liquidity_factor p d =
     bindR (of_option Panic (find (\<lambda>x. dd_name x = d) (dex_denoms p))) (\<lambda>x. nilR (dd_factor x))"

definition max_supply :: "denom_params \<Rightarrow> denom \<Rightarrow> int option res" where
  "max_supply p d =
     bindR (of_option Panic (find (\<lambda>k. kc_denom k = d) (kcoins p))) (\<lambda>k. Inr (kc_max_supply k))"

definition max_burn_amount :: "denom_params \<Rightarrow> denom \<Rightarrow> int option res" where
  "max_burn_amount p d =
     bindR (of_option Panic (find (\<lambda>k. kc_denom k = d) (kcoins p))) (\<lambda>k. Inr (kc_max_burn k))"

definition max_mint_amount :: "denom_params \<Rightarrow> denom \<Rightarrow> int option res" where
  "max_mint_amount p d =
     bindR (of_option Panic (find (\<lambda>k. kc_denom k = d) (kcoins p))) (\<lambda>k. Inr (kc_max_mint k))"

definition min_liquidity :: "denom_params \<Rightarrow> denom \<Rightarrow> int option res" where
  "min_liquidity p d =
     bindR (of_option Panic (find (\<lambda>x. dd_name x = d) (dex_denoms p))) (\<lambda>x. Inr (dd_min_liquidity x))"

definition get_cassets :: "denom_params \<Rightarrow> casset list" where
  "get_cassets p = cassets p"

definition get_casset_by_base_name :: "denom_params \<Rightarrow> denom \<Rightarrow> casset res" where
  "get_casset_by_base_name p d =
     of_option (DenomE Denom_ErrInvalidCAsset) (find (\<lambda>c. ca_base c = d) (cassets p))"

definition get_casset_by_name :: "denom_params \<Rightarrow> denom \<Rightarrow> casset res" where
  "get_casset_by_name p d =
     of_option (DenomE Denom_ErrInvalidCAsset) (find (\<lambda>c. ca_name c = d) (cassets p))"

definition is_borrowable_denom :: "denom_params \<Rightarrow> denom \<Rightarrow> bool" where
  "is_borrowable_denom p d = list_ex (\<lambda>c. ca_base c = d) (cassets p)"

definition get_collateral_denoms :: "denom_params \<Rightarrow> collateral_denom list" where
  "get_collateral_denoms p = collateral_denoms p"

definition get_collateral_denom :: "denom_params \<Rightarrow> denom \<Rightarrow> collateral_denom option" where
  "get_collateral_denom p d = find (\<lambda>c. cd_denom c = d) (collateral_denoms p)"

definition get_deposit_cap :: "denom_params \<Rightarrow> denom \<Rightarrow> int option res" where
  "get_deposit_cap p d =
     bindR (of_option (DenomE Denom_ErrInvalidCollateralDenom) (find (\<lambda>c. cd_denom c = d) (collateral_denoms p)))
       (\<lambda>c. Inr (cd_max_deposit c))"

definition get_ltv :: "denom_params \<Rightarrow> denom \<Rightarrow> dec option res" where
  "get_ltv p d =
     bindR (of_option (DenomE Denom_ErrInvalidCollateralDenom) (find (\<lambda>c. cd_denom c = d) (collateral_denoms p)))
       (\<lambda>c. Inr (cd_ltv c))"

definition is_valid_collateral_denom :: "denom_params \<Rightarrow> denom \<Rightarrow> bool" where
  "is_valid_collateral_denom p d = list_ex (\<lambda>c. cd_denom c = d) (collateral_denoms p)"

lemma contains_iff [simp]: "contains xs v \<longleftrightarrow> v \<in> set xs"
  by (auto simp: contains_def list_ex_iff)

lemma is_valid_denom_iff: "is_valid_denom p d \<longleftrightarrow> d \<in> dd_name ` set (dex_denoms p)"
  by (simp add: is_valid_denom_def denoms_def)

lemma find_Some_inD: "find P xs = Some x \<Longrightarrow> x \<in> set xs \<and> P x"
  by (auto simp: find_Some_iff)

lemma find_key_in: "v \<in> f ` set xs \<Longrightarrow> \<exists>x. find (\<lambda>x. f x = v) xs = Some x \<and> x \<in> set xs \<and> f x = v"
proof -
  assume "v \<in> f ` set xs"
  then have "find (\<lambda>x. f x = v) xs \<noteq> None" by (auto simp: find_None_iff)
  then show ?thesis by (auto dest: find_Some_inD)
qed

section \<open>Message handlers\<close>

definition set_denom_params :: "denom_params \<Rightarrow> (('b, 'z) denom_world_scheme, unit) cmd" where
  "set_denom_params p s = (Inr (), s\<lparr>dparams := p\<rparr>)"

text \<open>The check of the signer every handler starts with, and the validation and write every handler ends with.\<close>

definition denom_authority :: "'b env \<Rightarrow> string \<Rightarrow> unit res" where
  "denom_authority E signer = checkR (authority E = signer) (DenomE Denom_ErrInvalidSigner)"

definition denom_commit :: "denom_params \<Rightarrow> (('b, 'z) denom_world_scheme, unit) cmd" where
  "denom_commit p s = bindS (validate_denom_params p, s) (\<lambda>_. set_denom_params p)"

text \<open>
  The loop of the update handlers: it copies the entries, changes those that match, and
  remembers whether there was one.
\<close>

fun update_found :: "('x \<Rightarrow> bool) \<Rightarrow> ('x \<Rightarrow> 'x) \<Rightarrow> 'x list \<Rightarrow> 'x list \<times> bool" where
  "update_found P f [] = ([], False)"
| "update_found P f (x # xs) =
     (let (ys, found) = update_found P f xs in
      if P x then (f x # ys, True) else (x # ys, found))"

lemma update_found_eq [simp]:
  "update_found P f xs = (map (\<lambda>x. if P x then f x else x) xs, list_ex P xs)"
  by (induction xs) auto

definition filter_references :: "denom list \<Rightarrow> denom list \<Rightarrow> denom list" where
  "filter_references existing to_remove = filter (\<lambda>r. \<not> contains to_remove r) existing"

definition add_casset ::
  "'b env \<Rightarrow> string \<Rightarrow> denom \<Rightarrow> denom \<Rightarrow> string \<Rightarrow> string \<Rightarrow> string \<Rightarrow> string \<Rightarrow> (('b, 'z) denom_world_scheme, unit) cmd" where
  "add_casset E signer name base fee_share limit factor min_liq s =
     bindS (denom_authority E signer, s) (\<lambda>_ s.
     let p = dparams s in
     bindS (of_option FmtError (parse_dec E fee_share), s) (\<lambda>fs s.
     bindS (of_option FmtError (parse_dec E limit), s) (\<lambda>bl s.
     bindS (of_option FmtError (parse_dec E factor), s) (\<lambda>fac s.
     bindS (of_option FmtError (parse_int E min_liq), s) (\<lambda>ml s.
     denom_commit (p\<lparr>
       cassets := cassets p @ [\<lparr>ca_name = name, ca_base = base, ca_dex_fee_share = Some fs,
                                ca_borrow_limit = Some bl, ca_min_loan = None\<rparr>],
       dex_denoms := dex_denoms p @ [\<lparr>dd_name = name, dd_factor = Some fac, dd_min_liquidity = Some ml\<rparr>]\<rparr>) s)))))"

text \<open>The update of the cAssets named \<open>name\<close>, of a kCoin, of a collateral denomination and of a dex denomination.\<close>

definition update_cassets :: "denom \<Rightarrow> (casset \<Rightarrow> casset) \<Rightarrow> (('b, 'z) denom_world_scheme, unit) cmd" where
  "update_cassets name f s =
     (let p = dparams s; (cs, found) = update_found (\<lambda>c. ca_name c = name) f (cassets p) in
      bindS (checkR found (DenomE Denom_ErrInvalidCAsset), s) (\<lambda>_.
      denom_commit (p\<lparr>cassets := cs\<rparr>)))"

definition update_kcoins :: "denom \<Rightarrow> (kcoin \<Rightarrow> kcoin) \<Rightarrow> (('b, 'z) denom_world_scheme, unit) cmd" where
  "update_kcoins d f s =
     (let p = dparams s; (ks, found) = update_found (\<lambda>k. kc_denom k = d) f (kcoins p) in
      bindS (checkR found (DenomE Denom_ErrInvalidKCoin), s) (\<lambda>_.
      denom_commit (p\<lparr>kcoins := ks\<rparr>)))"

definition update_collaterals ::
  "denom \<Rightarrow> (collateral_denom \<Rightarrow> collateral_denom) \<Rightarrow> (('b, 'z) denom_world_scheme, unit) cmd" where
  "update_collaterals d f s =
     (let p = dparams s; (cs, found) = update_found (\<lambda>c. cd_denom c = d) f (collateral_denoms p) in
      bindS (checkR found (DenomE Denom_ErrInvalidCollateralDenom), s) (\<lambda>_.
      denom_commit (p\<lparr>collateral_denoms := cs\<rparr>)))"

definition update_casset_dex_fee_share :: "'b env \<Rightarrow> string \<Rightarrow> denom \<Rightarrow> string \<Rightarrow> (('b, 'z) denom_world_scheme, unit) cmd" where
  "update_casset_dex_fee_share E signer name v s =
     bindS (denom_authority E signer, s) (\<lambda>_ s.
     bindS (of_option FmtError (parse_dec E v), s) (\<lambda>x.
     update_cassets name (ca_dex_fee_share_update (\<lambda>_. Some x))))"

definition update_casset_borrow_limit :: "'b env \<Rightarrow> string \<Rightarrow> denom \<Rightarrow> string \<Rightarrow> (('b, 'z) denom_world_scheme, unit) cmd" where
  "update_casset_borrow_limit E signer name v s =
     bindS (denom_authority E signer, s) (\<lambda>_ s.
     bindS (of_option FmtError (parse_dec E v), s) (\<lambda>x.
     update_cassets name (ca_borrow_limit_update (\<lambda>_. Some x))))"

definition update_casset_minimum_loan_size :: "'b env \<Rightarrow> string \<Rightarrow> denom \<Rightarrow> string \<Rightarrow> (('b, 'z) denom_world_scheme, unit) cmd" where
  "update_casset_minimum_loan_size E signer name v s =
     bindS (denom_authority E signer, s) (\<lambda>_ s.
     bindS (of_option (DenomE Denom_ErrInvalidAmount) (parse_int E v), s) (\<lambda>x.
     update_cassets name (ca_min_loan_update (\<lambda>_. Some x))))"

definition add_collateral_denom :: "'b env \<Rightarrow> string \<Rightarrow> denom \<Rightarrow> string \<Rightarrow> string \<Rightarrow> (('b, 'z) denom_world_scheme, unit) cmd" where
  "add_collateral_denom E signer d ltv max_dep s =
     bindS (denom_authority E signer, s) (\<lambda>_ s.
     let p = dparams s in
     bindS (of_option FmtError (parse_dec E ltv), s) (\<lambda>l s.
     bindS (of_option FmtError (parse_int E max_dep), s) (\<lambda>m.
     denom_commit (p\<lparr>collateral_denoms := collateral_denoms p @
       [\<lparr>cd_denom = d, cd_ltv = Some l, cd_max_deposit = Some m\<rparr>]\<rparr>))))"

definition update_collateral_denom_ltv :: "'b env \<Rightarrow> string \<Rightarrow> denom \<Rightarrow> string \<Rightarrow> (('b, 'z) denom_world_scheme, unit) cmd" where
  "update_collateral_denom_ltv E signer d v s =
     bindS (denom_authority E signer, s) (\<lambda>_ s.
     bindS (of_option FmtError (parse_dec E v), s) (\<lambda>x.
     update_collaterals d (cd_ltv_update (\<lambda>_. Some x))))"

definition update_collateral_denom_max_deposit :: "'b env \<Rightarrow> string \<Rightarrow> denom \<Rightarrow> string \<Rightarrow> (('b, 'z) denom_world_scheme, unit) cmd" where
  "update_collateral_denom_max_deposit E signer d v s =
     bindS (denom_authority E signer, s) (\<lambda>_ s.
     bindS (of_option FmtError (parse_int E v), s) (\<lambda>x.
     update_collaterals d (cd_max_deposit_update (\<lambda>_. Some x))))"

definition add_dex_denom :: "'b env \<Rightarrow> string \<Rightarrow> denom \<Rightarrow> string \<Rightarrow> string \<Rightarrow> (('b, 'z) denom_world_scheme, unit) cmd" where
  "add_dex_denom E signer name factor min_liq s =
     bindS (denom_authority E signer, s) (\<lambda>_ s.
     let p = dparams s in
     bindS (of_option FmtError (parse_dec E factor), s) (\<lambda>f s.
     bindS (of_option FmtError (parse_int E min_liq), s) (\<lambda>m.
     denom_commit (p\<lparr>dex_denoms := dex_denoms p @
       [\<lparr>dd_name = name, dd_factor = Some f, dd_min_liquidity = Some m\<rparr>]\<rparr>))))"

definition update_dex_denom :: "'b env \<Rightarrow> string \<Rightarrow> denom \<Rightarrow> string \<Rightarrow> (('b, 'z) denom_world_scheme, unit) cmd" where
  "update_dex_denom E signer name min_liq s =
     bindS (denom_authority E signer, s) (\<lambda>_ s.
     let p = dparams s in
     bindS (of_option FmtError (parse_int E min_liq), s) (\<lambda>m s.
     let (ds, found) = update_found (\<lambda>x. dd_name x = name) (dd_min_liquidity_update (\<lambda>_. Some m)) (dex_denoms p) in
     bindS (checkR found (DenomE Denom_ErrInvalidDexAsset), s) (\<lambda>_.
     denom_commit (p\<lparr>dex_denoms := ds\<rparr>))))"

definition add_kcoin ::
  "'b env \<Rightarrow> string \<Rightarrow> denom \<Rightarrow> denom list \<Rightarrow> string \<Rightarrow> string \<Rightarrow> string \<Rightarrow> string \<Rightarrow> string \<Rightarrow> (('b, 'z) denom_world_scheme, unit) cmd" where
  "add_kcoin E signer d refs max_sup max_burn max_mint factor min_liq s =
     bindS (denom_authority E signer, s) (\<lambda>_ s.
     let p = dparams s in
     bindS (of_option FmtError (parse_int E max_sup), s) (\<lambda>ms s.
     bindS (of_option FmtError (parse_int E max_burn), s) (\<lambda>mb s.
     bindS (of_option FmtError (parse_int E max_mint), s) (\<lambda>mm s.
     bindS (of_option FmtError (parse_dec E factor), s) (\<lambda>f s.
     bindS (of_option FmtError (parse_int E min_liq), s) (\<lambda>ml s.
     denom_commit (p\<lparr>
       kcoins := kcoins p @ [\<lparr>kc_denom = d, kc_references = refs, kc_max_supply = Some ms,
                              kc_max_mint = Some mm, kc_max_burn = Some mb\<rparr>],
       dex_denoms := dex_denoms p @ [\<lparr>dd_name = d, dd_factor = Some f, dd_min_liquidity = Some ml\<rparr>]\<rparr>) s))))))"

definition update_kcoin_supply :: "'b env \<Rightarrow> string \<Rightarrow> denom \<Rightarrow> string \<Rightarrow> (('b, 'z) denom_world_scheme, unit) cmd" where
  "update_kcoin_supply E signer d v s =
     bindS (denom_authority E signer, s) (\<lambda>_ s.
     bindS (of_option FmtError (parse_int E v), s) (\<lambda>x.
     update_kcoins d (kc_max_supply_update (\<lambda>_. Some x))))"

definition update_kcoin_mint_amount :: "'b env \<Rightarrow> string \<Rightarrow> denom \<Rightarrow> string \<Rightarrow> (('b, 'z) denom_world_scheme, unit) cmd" where
  "update_kcoin_mint_amount E signer d v s =
     bindS (denom_authority E signer, s) (\<lambda>_ s.
     bindS (of_option FmtError (parse_int E v), s) (\<lambda>x.
     update_kcoins d (kc_max_mint_update (\<lambda>_. Some x))))"

definition update_kcoin_burn_amount :: "'b env \<Rightarrow> string \<Rightarrow> denom \<Rightarrow> string \<Rightarrow> (('b, 'z) denom_world_scheme, unit) cmd" where
  "update_kcoin_burn_amount E signer d v s =
     bindS (denom_authority E signer, s) (\<lambda>_ s.
     bindS (of_option FmtError (parse_int E v), s) (\<lambda>x.
     update_kcoins d (kc_max_burn_update (\<lambda>_. Some x))))"

definition add_kcoin_references :: "'b env \<Rightarrow> string \<Rightarrow> denom \<Rightarrow> denom list \<Rightarrow> (('b, 'z) denom_world_scheme, unit) cmd" where
  "add_kcoin_references E signer d refs s =
     bindS (denom_authority E signer, s) (\<lambda>_.
     update_kcoins d (kc_references_update (\<lambda>rs. rs @ refs)))"

definition remove_kcoin_references :: "'b env \<Rightarrow> string \<Rightarrow> denom \<Rightarrow> denom list \<Rightarrow> (('b, 'z) denom_world_scheme, unit) cmd" where
  "remove_kcoin_references E signer d refs s =
     bindS (denom_authority E signer, s) (\<lambda>_.
     update_kcoins d (kc_references_update (\<lambda>rs. filter_references rs refs)))"

section \<open>The module as a state machine\<close>

datatype denom_msg =
    MsgAddCAsset denom denom string string string string
  | MsgUpdateCAssetDexFeeShare denom string
  | MsgUpdateCAssetBorrowLimit denom string
  | MsgUpdateCAssetMinimumLoanSize denom string
  | MsgAddCollateralDenom denom string string
  | MsgUpdateCollateralDenomLTV denom string
  | MsgUpdateCollateralDenomMaxDeposit denom string
  | MsgAddDEXDenom denom string string
  | MsgUpdateDEXDenom denom string
  | MsgAddKCoin denom "denom list" string string string string string
  | MsgUpdateKCoinSupply denom string
  | MsgUpdateKCoinMintAmount denom string
  | MsgUpdateKCoinBurnAmount denom string
  | MsgAddKCoinReferences denom "denom list"
  | MsgRemoveKCoinReferences denom "denom list"

fun denom_handle :: "'b env \<Rightarrow> string \<times> denom_msg \<Rightarrow> (('b, 'z) denom_world_scheme, unit) cmd" where
  "denom_handle E (a, MsgAddCAsset n b fs bl f ml) = add_casset E a n b fs bl f ml"
| "denom_handle E (a, MsgUpdateCAssetDexFeeShare n v) = update_casset_dex_fee_share E a n v"
| "denom_handle E (a, MsgUpdateCAssetBorrowLimit n v) = update_casset_borrow_limit E a n v"
| "denom_handle E (a, MsgUpdateCAssetMinimumLoanSize n v) = update_casset_minimum_loan_size E a n v"
| "denom_handle E (a, MsgAddCollateralDenom d l m) = add_collateral_denom E a d l m"
| "denom_handle E (a, MsgUpdateCollateralDenomLTV d v) = update_collateral_denom_ltv E a d v"
| "denom_handle E (a, MsgUpdateCollateralDenomMaxDeposit d v) = update_collateral_denom_max_deposit E a d v"
| "denom_handle E (a, MsgAddDEXDenom n f ml) = add_dex_denom E a n f ml"
| "denom_handle E (a, MsgUpdateDEXDenom n ml) = update_dex_denom E a n ml"
| "denom_handle E (a, MsgAddKCoin d rs ms mb mm f ml) = add_kcoin E a d rs ms mb mm f ml"
| "denom_handle E (a, MsgUpdateKCoinSupply d v) = update_kcoin_supply E a d v"
| "denom_handle E (a, MsgUpdateKCoinMintAmount d v) = update_kcoin_mint_amount E a d v"
| "denom_handle E (a, MsgUpdateKCoinBurnAmount d v) = update_kcoin_burn_amount E a d v"
| "denom_handle E (a, MsgAddKCoinReferences d rs) = add_kcoin_references E a d rs"
| "denom_handle E (a, MsgRemoveKCoinReferences d rs) = remove_kcoin_references E a d rs"

definition denom_run :: "'b env \<Rightarrow> (string \<times> denom_msg) list \<Rightarrow> ('b, 'z) denom_world_scheme \<Rightarrow> ('b, 'z) denom_world_scheme" where
  "denom_run E ms s = foldl (\<lambda>s m. snd (denom_handle E m s)) s ms"

definition denom_init_genesis :: "denom_params \<Rightarrow> (('b, 'z) denom_world_scheme, unit) cmd" where
  "denom_init_genesis = set_denom_params"

definition denom_export_genesis :: "('b, 'z) denom_world_scheme \<Rightarrow> denom_params" where
  "denom_export_genesis s = dparams s"

lemmas denom_handlers =
  add_casset_def update_casset_dex_fee_share_def update_casset_borrow_limit_def
  update_casset_minimum_loan_size_def add_collateral_denom_def update_collateral_denom_ltv_def
  update_collateral_denom_max_deposit_def add_dex_denom_def update_dex_denom_def add_kcoin_def
  update_kcoin_supply_def update_kcoin_mint_amount_def update_kcoin_burn_amount_def
  add_kcoin_references_def remove_kcoin_references_def
  update_cassets_def update_kcoins_def update_collaterals_def

lemma denom_commit_ok:
  "denom_commit p s = (Inr u, t) \<longleftrightarrow> validate_denom_params p = Inr () \<and> t = s\<lparr>dparams := p\<rparr>"
  by (auto simp: denom_commit_def set_denom_params_def bindS_Inr_iff)

lemma denom_commit_fail: "fst (denom_commit p s) = Inl e \<Longrightarrow> snd (denom_commit p s) = s"
  by (cases "validate_denom_params p") (auto simp: denom_commit_def set_denom_params_def)

text \<open>
  The shape of every handler: it fails and leaves the state alone, or it was signed by the authority
  and writes parameters that passed the validation and keep the names of the dex denominations.
\<close>

definition denom_step_ok :: "'b env \<Rightarrow> string \<Rightarrow> ('b, 'z) denom_world_scheme \<Rightarrow> (err + unit) \<times> ('b, 'z) denom_world_scheme \<Rightarrow> bool" where
  "denom_step_ok E signer s r \<longleftrightarrow>
     (case r of
        (Inl _, t) \<Rightarrow> t = s
      | (Inr _, t) \<Rightarrow> authority E = signer \<and> t = s\<lparr>dparams := dparams t\<rparr>
          \<and> validate_denom_params (dparams t) = Inr ()
          \<and> prefix (map dd_name (dex_denoms (dparams s))) (map dd_name (dex_denoms (dparams t)))
          \<and> prefix (map kc_denom (kcoins (dparams s))) (map kc_denom (kcoins (dparams t)))
          \<and> prefix (map ca_name (cassets (dparams s))) (map ca_name (cassets (dparams t)))
          \<and> prefix (map cd_denom (collateral_denoms (dparams s))) (map cd_denom (collateral_denoms (dparams t))))"

lemma denom_step_ok_bind:
  assumes "\<And>a. r = Inr a \<Longrightarrow> denom_step_ok E signer s (f a s)"
  shows "denom_step_ok E signer s (bindS (r, s) f)"
  using assms by (cases r) (simp_all add: denom_step_ok_def)

lemma denom_step_ok_commit:
  assumes "authority E = signer"
    and "prefix (map dd_name (dex_denoms (dparams s))) (map dd_name (dex_denoms p))"
    and "prefix (map kc_denom (kcoins (dparams s))) (map kc_denom (kcoins p))"
    and "prefix (map ca_name (cassets (dparams s))) (map ca_name (cassets p))"
    and "prefix (map cd_denom (collateral_denoms (dparams s))) (map cd_denom (collateral_denoms p))"
  shows "denom_step_ok E signer s (denom_commit p s)"
  using assms by (cases "validate_denom_params p")
    (simp_all add: denom_step_ok_def denom_commit_def set_denom_params_def)

lemma map_name_if: "(\<And>x. P x \<Longrightarrow> n (f x) = n x) \<Longrightarrow> map (n \<circ> (\<lambda>x. if P x then f x else x)) xs = map n xs"
  by (simp add: comp_def)

lemma update_cassets_step:
  assumes "authority E = signer" "\<And>c. ca_name (f c) = ca_name c"
  shows "denom_step_ok E signer s (update_cassets n f s)"
  using assms unfolding update_cassets_def Let_def update_found_eq prod.case
  by (intro denom_step_ok_bind denom_step_ok_commit) (simp_all add: map_name_if)

lemma update_kcoins_step:
  assumes "authority E = signer" "\<And>k. kc_denom (f k) = kc_denom k"
  shows "denom_step_ok E signer s (update_kcoins n f s)"
  using assms unfolding update_kcoins_def Let_def update_found_eq prod.case
  by (intro denom_step_ok_bind denom_step_ok_commit) (simp_all add: map_name_if)

lemma update_collaterals_step:
  assumes "authority E = signer" "\<And>c. cd_denom (f c) = cd_denom c"
  shows "denom_step_ok E signer s (update_collaterals n f s)"
  using assms unfolding update_collaterals_def Let_def update_found_eq prod.case
  by (intro denom_step_ok_bind denom_step_ok_commit) (simp_all add: map_name_if)

lemma denom_handle_step: "denom_step_ok E (fst m) s (denom_handle E m s)"
proof -
  obtain a x where m: "m = (a, x)" by (cases m)
  show ?thesis
    unfolding m by (cases x; simp add: denom_handlers(1-15) Let_def denom_authority_def;
      auto intro!: denom_step_ok_bind denom_step_ok_commit update_cassets_step update_kcoins_step
        update_collaterals_step simp: map_name_if)
qed

section \<open>Properties\<close>

lemma denom_handle_fail: "fst (denom_handle E m s) = Inl e \<Longrightarrow> snd (denom_handle E m s) = s"
  using denom_handle_step [of E m s]
  by (cases "denom_handle E m s") (simp add: denom_step_ok_def)

lemma validate_wf: "validate_denom_params p = Inr () \<longleftrightarrow> wf_denoms p"
  by (simp add: validate_denom_params_def wf_denoms_def bindR_Inr_iff validate_dex_denoms_iff
      validate_kcoins_iff validate_collateral_denoms_iff validate_cassets_iff Let_def)

text \<open>
  C24. The validation of the module's parameters accepts exactly the well-formed ones: every dex
  denomination named and, but for the base currency, with a positive factor and minimum liquidity;
  every kCoin, reference, cAsset and collateral denomination a dex denomination; bounds in range;
  no denomination listed twice, and none shared by two kCoins or two cAssets.
\<close>

theorem validate_denom_params_iff: "validate_denom_params p = Inr () \<longleftrightarrow> wf_denoms p"
  by (rule validate_wf)

text \<open>
  The default genesis parameters are well-formed and pass the validation.
\<close>

theorem default_denom_params_valid:
  "validate_denom_params default_denom_params = Inr () \<and> wf_denoms default_denom_params"
proof -
  have "validate_denom_params default_denom_params = Inr ()" by code_simp
  then show ?thesis by (simp add: validate_wf)
qed

lemma denom_handle_wf:
  assumes "wf_denoms (dparams s)"
  shows "wf_denoms (dparams (snd (denom_handle E m s)))"
  using assms denom_handle_step [of E m s]
  by (cases "denom_handle E m s") (auto simp: denom_step_ok_def validate_wf split: sum.splits)

lemma denom_handle_keeps:
  assumes "d \<in> set (denoms (dparams s))"
  shows "d \<in> set (denoms (dparams (snd (denom_handle E m s))))"
  using assms denom_handle_step [of E m s] set_mono_prefix
  by (cases "denom_handle E m s") (fastforce simp: denom_step_ok_def denoms_def split: sum.splits)

text \<open>
  C23. Whatever messages are sent, by whomever and in whatever order: the parameters stay well-formed, a
  denomination once tradable stays tradable, and nothing but the parameters changes.
\<close>

theorem denom_run_invariant:
  assumes "wf_denoms (dparams s)"
  shows "wf_denoms (dparams (denom_run E ms s))
    \<and> (\<forall>d. is_valid_denom (dparams s) d \<longrightarrow> is_valid_denom (dparams (denom_run E ms s)) d)
    \<and> denom_run E ms s = s\<lparr>dparams := dparams (denom_run E ms s)\<rparr>"
  using assms unfolding denom_run_def
proof (induction ms rule: rev_induct)
  case (snoc m ms)
  let ?s = "foldl (\<lambda>s m. snd (denom_handle E m s)) s ms"
  have "snd (denom_handle E m ?s) = ?s\<lparr>dparams := dparams (snd (denom_handle E m ?s))\<rparr>"
    using denom_handle_step [of E m ?s]
    by (cases "denom_handle E m ?s") (auto simp: denom_step_ok_def split: sum.splits)
  then show ?case
    using snoc denom_handle_wf [of ?s E m] denom_handle_keeps [of _ ?s E m]
    by (simp add: is_valid_denom_def) (metis (no_types, lifting) denom_world.surjective denom_world.update_convs(1))
qed simp

definition denom_example :: "ledger denom_world" where
  "denom_example = \<lparr>bank = \<lparr>bals = [], tot = []\<rparr>, height = 1, dparams = default_denom_params\<rparr>"

theorem denom_run_invariant_witness:
  "wf_denoms (dparams (denom_run (ledger_env [])
     [(''gov'', MsgAddDEXDenom ''uatom'' ''0.5'' ''100''), (''eve'', MsgUpdateDEXDenom ''uatom'' ''1'')] denom_example))
   \<and> is_valid_denom (dparams (denom_run (ledger_env [])
     [(''gov'', MsgAddDEXDenom ''uatom'' ''0.5'' ''100''), (''eve'', MsgUpdateDEXDenom ''uatom'' ''1'')] denom_example)) ''swbtc''"
proof -
  have wf: "wf_denoms (dparams denom_example)"
    unfolding validate_wf [symmetric] denom_example_def by code_simp
  have "is_valid_denom (dparams denom_example) ''swbtc''" by code_simp
  then show ?thesis
    using denom_run_invariant [OF wf] by blast
qed

text \<open>
  A message that is not signed by the authority is refused with \<open>ErrInvalidSigner\<close>, whatever it
  asks for, and changes nothing.
\<close>

theorem denom_handle_authority:
  assumes "signer \<noteq> authority E"
  shows "denom_handle E (signer, m) s = (Inl (DenomE Denom_ErrInvalidSigner), s)"
  using assms by (cases m) (simp_all add: denom_handlers(1-15) denom_authority_def)

theorem denom_handle_authority_witness:
  "denom_handle (ledger_env []) (''eve'', MsgUpdateKCoinSupply ''ukusd'' ''7'') denom_example
   = (Inl (DenomE Denom_ErrInvalidSigner), denom_example)"
  by (rule denom_handle_authority) simp

text \<open>
  The lookups the dex makes for a tradable denomination other than the base currency do not
  panic on well-formed parameters and return positive numbers.
\<close>

theorem denom_lookups_positive:
  assumes "wf_denoms p" "is_valid_denom p d" "d \<noteq> base_currency"
  shows "\<exists>f m. initial_virtual_liquidity_factor p d = Inr f \<and> 0 < f
    \<and> min_liquidity p d = Inr (Some m) \<and> 0 < m"
proof -
  obtain x where x: "find (\<lambda>x. dd_name x = d) (dex_denoms p) = Some x" "x \<in> set (dex_denoms p)" "dd_name x = d"
    using find_key_in [of d dd_name "dex_denoms p"] assms(2) by (auto simp: is_valid_denom_iff)
  have "wf_dex_denom x" using assms(1) x(2) by (simp add: wf_denoms_def Let_def)
  with x assms(3) show ?thesis
    by (auto simp: wf_dex_denom_def initial_virtual_liquidity_factor_def min_liquidity_def)
qed

theorem denom_lookups_positive_witness:
  "\<exists>f m. initial_virtual_liquidity_factor default_denom_params ''swbtc'' = Inr f \<and> 0 < f
    \<and> min_liquidity default_denom_params ''swbtc'' = Inr (Some m) \<and> 0 < m"
proof (rule denom_lookups_positive)
  show "wf_denoms default_denom_params" unfolding validate_wf [symmetric] by code_simp
qed code_simp+

text \<open>
  \<open>AddCAsset\<close> never succeeds: it leaves the minimum loan size of the new cAsset unset, so the
  validation, when everything else is in order, ends in a nil dereference.
\<close>

theorem add_casset_never_succeeds:
  "\<exists>e. add_casset E signer name base fee_share limit factor min_liq s = (Inl e, s)"
proof -
  let ?r = "add_casset E signer name base fee_share limit factor min_liq s"
  have "validate_cassets (cs @ [c]) ds \<noteq> Inr ()" if "ca_min_loan c = None" for cs c ds
    using that by (simp add: validate_cassets_iff wf_casset_def)
  then have "?r \<noteq> (Inr u, t)" for u t
    by (auto simp: add_casset_def bindS_Inr_iff denom_commit_ok Let_def validate_denom_params_def
        bindR_Inr_iff)
  then show ?thesis
    using denom_handle_step [of E "(signer, MsgAddCAsset name base fee_share limit factor min_liq)" s]
    by (cases ?r; cases "fst ?r") (auto simp: denom_step_ok_def)
qed

end
