(* ===== verification/DexParams.thy ===== *)
theory DexParams
  imports DenomKeeper
begin

text \<open>
  The state of \<open>x/dex\<close> (the protobuf messages its store holds), its parameters with their validation
  (\<open>types/params.go\<close>) and the seven handlers through which governance changes them
  (\<open>keeper/msg_update_params.go\<close>). Numbers that a message can leave nil are options.
\<close>

section \<open>State\<close>

record liquidity =
  lq_index :: "64 word"
  lq_denom :: denom
  lq_address :: string
  lq_amount :: int

record liquidity_sum =
  ls_denom :: denom
  ls_amount :: int

record liquidity_pair =
  lp_denom :: denom
  lp_base :: dec
  lp_other :: dec

record ratio =
  ra_denom :: denom
  ra_ratio :: "dec option"

record wallet_trade_amount =
  wt_address :: string
  wt_amount :: dec

record order =
  or_index :: "64 word"
  or_creator :: string
  or_from :: denom
  or_to :: denom
  or_given :: int
  or_left :: int
  or_trade_amount :: int
  or_received :: int
  or_max_price :: dec
  or_num_blocks :: "64 word"
  or_interval :: "64 word"
  or_next_execution :: "64 word"
  or_block_end :: "64 word"
  or_incomplete :: bool

record discount_level =
  dl_trade_amount :: "dec option"
  dl_discount :: "dec option"

record dex_params =
  trade_fee :: dec
  reserve_share :: dec
  virtual_liquidity_decay :: dec
  fee_reimbursement :: dec
  trade_amount_decay :: dec
  discount_levels :: "discount_level list"
  max_order_life :: "64 word"

text \<open>One map per key prefix of \<open>types/keys.go\<close>.\<close>

record 'b dex_world = "'b denom_world" +
  xparams :: dex_params
  liquidities :: "liquidity kv"
  liquidity_next :: "64 word"
  liquidity_sums :: "liquidity_sum kv"
  liquidity_pairs :: "liquidity_pair kv"
  liquidity_pair_count :: "64 word"
  ratios :: "ratio kv"
  trade_amounts :: "wallet_trade_amount kv"
  orders :: "order kv"
  order_next :: "64 word"

definition dex_module :: string where "dex_module = ''dex''"
definition pool_fees :: string where "pool_fees = ''pool_dex_fees''"
definition pool_orders :: string where "pool_orders = ''pool_orders''"
definition pool_reserve :: string where "pool_reserve = ''pool_reserve''"
definition pool_liquidity :: string where "pool_liquidity = ''pool_liquidity''"
definition pool_trade :: string where "pool_trade = ''pool_trade''"

lemmas pool_defs = dex_module_def pool_fees_def pool_orders_def pool_reserve_def pool_liquidity_def pool_trade_def

section \<open>Validation of the parameters\<close>

definition validate_less_than_one :: "dec option \<Rightarrow> unit res" where
  "validate_less_than_one d =
     bindR (of_option FmtError d) (\<lambda>v.
     bindR (checkR (\<not> v \<ge> dec_one) FmtError) (\<lambda>_.
     checkR (\<not> v < 0) FmtError))"

definition validate_zero_one :: "dec option \<Rightarrow> unit res" where
  "validate_zero_one d =
     bindR (of_option FmtError d) (\<lambda>v.
     bindR (checkR (\<not> v > dec_one) FmtError) (\<lambda>_.
     checkR (\<not> v \<le> 0) FmtError))"

definition validate_bigger_than_zero :: "64 word \<Rightarrow> unit res" where
  "validate_bigger_than_zero v = checkR (\<not> v < 1) FmtError"

definition validate_between_zero_and_one :: "dec option \<Rightarrow> unit res" where
  "validate_between_zero_and_one d =
     bindR (of_option FmtError d) (\<lambda>v.
     bindR (checkR (v > 0) FmtError) (\<lambda>_.
     checkR (v < dec_one) FmtError))"

definition validate_discount_levels :: "discount_level list \<Rightarrow> unit res" where
  "validate_discount_levels ls =
     foldR (\<lambda>l _.
       bindR (validate_between_zero_and_one (dl_discount l)) (\<lambda>_.
       bindR (nilR (dl_trade_amount l)) (\<lambda>a.
       checkR (a \<noteq> 0) FmtError))) ls ()"

definition validate_dex_params :: "dex_params \<Rightarrow> unit res" where
  "validate_dex_params p =
     bindR (validate_discount_levels (discount_levels p)) (\<lambda>_.
     bindR (validate_zero_one (Some (trade_fee p))) (\<lambda>_.
     bindR (validate_zero_one (Some (virtual_liquidity_decay p))) (\<lambda>_.
     bindR (validate_zero_one (Some (reserve_share p))) (\<lambda>_.
     bindR (validate_less_than_one (Some (fee_reimbursement p))) (\<lambda>_.
     bindR (validate_bigger_than_zero (max_order_life p)) (\<lambda>_.
     validate_between_zero_and_one (Some (trade_amount_decay p))))))))"

definition default_dex_params :: dex_params where
  "default_dex_params = \<lparr>trade_fee = dec_prec 1 3, reserve_share = dec_prec 5 1,
     virtual_liquidity_decay = dec_prec 999997 6, fee_reimbursement = dec_prec 5 1,
     trade_amount_decay = dec_prec 95 2,
     discount_levels = [\<lparr>dl_trade_amount = Some (to_dec 1000000), dl_discount = Some (dec_prec 1 2)\<rparr>,
                        \<lparr>dl_trade_amount = Some (to_dec 10000000), dl_discount = Some (dec_prec 1 1)\<rparr>],
     max_order_life = 60 * 60 * 24 * 7\<rparr>"

text \<open>What the validation accepts.\<close>

definition wf_discount_level :: "discount_level \<Rightarrow> bool" where
  "wf_discount_level l \<longleftrightarrow> (\<exists>a d. dl_trade_amount l = Some a \<and> a \<noteq> 0 \<and> dl_discount l = Some d \<and> 0 < d \<and> d < dec_one)"

definition wf_dex_params :: "dex_params \<Rightarrow> bool" where
  "wf_dex_params p \<longleftrightarrow> (\<forall>l \<in> set (discount_levels p). wf_discount_level l)
     \<and> 0 < trade_fee p \<and> trade_fee p \<le> dec_one
     \<and> 0 < virtual_liquidity_decay p \<and> virtual_liquidity_decay p \<le> dec_one
     \<and> 0 < reserve_share p \<and> reserve_share p \<le> dec_one
     \<and> 0 \<le> fee_reimbursement p \<and> fee_reimbursement p < dec_one
     \<and> max_order_life p \<noteq> 0
     \<and> 0 < trade_amount_decay p \<and> trade_amount_decay p < dec_one"

lemma validate_discount_levels_iff:
  "validate_discount_levels ls = Inr () \<longleftrightarrow> (\<forall>l \<in> set ls. wf_discount_level l)"
  by (auto simp: validate_discount_levels_def foldR_check_all wf_discount_level_def
      validate_between_zero_and_one_def bindR_Inr_iff)

lemma validate_dex_params_wf: "validate_dex_params p = Inr () \<longleftrightarrow> wf_dex_params p"
  by (auto simp: validate_dex_params_def wf_dex_params_def bindR_Inr_iff validate_discount_levels_iff
      validate_zero_one_def validate_less_than_one_def validate_bigger_than_zero_def
      validate_between_zero_and_one_def not_le word_less_1)

section \<open>Message handlers\<close>

definition set_dex_params :: "dex_params \<Rightarrow> (('b, 'z) dex_world_scheme, unit) cmd" where
  "set_dex_params p s = (Inr (), s\<lparr>xparams := p\<rparr>)"

definition dex_authority :: "'b env \<Rightarrow> string \<Rightarrow> unit res" where
  "dex_authority E signer = checkR (authority E = signer) (DexE Dex_ErrInvalidSigner)"

definition dex_commit :: "dex_params \<Rightarrow> (('b, 'z) dex_world_scheme, unit) cmd" where
  "dex_commit p s = bindS (validate_dex_params p, s) (\<lambda>_. set_dex_params p)"

definition update_trade_fee :: "'b env \<Rightarrow> string \<Rightarrow> string \<Rightarrow> (('b, 'z) dex_world_scheme, unit) cmd" where
  "update_trade_fee E signer v s =
     bindS (dex_authority E signer, s) (\<lambda>_ s.
     bindS (of_option FmtError (parse_dec E v), s) (\<lambda>x s.
     dex_commit (xparams s\<lparr>trade_fee := x\<rparr>) s))"

definition update_reserve_share :: "'b env \<Rightarrow> string \<Rightarrow> string \<Rightarrow> (('b, 'z) dex_world_scheme, unit) cmd" where
  "update_reserve_share E signer v s =
     bindS (dex_authority E signer, s) (\<lambda>_ s.
     bindS (of_option FmtError (parse_dec E v), s) (\<lambda>x s.
     dex_commit (xparams s\<lparr>reserve_share := x\<rparr>) s))"

definition update_virtual_liquidity_decay :: "'b env \<Rightarrow> string \<Rightarrow> string \<Rightarrow> (('b, 'z) dex_world_scheme, unit) cmd" where
  "update_virtual_liquidity_decay E signer v s =
     bindS (dex_authority E signer, s) (\<lambda>_ s.
     bindS (of_option FmtError (parse_dec E v), s) (\<lambda>x s.
     dex_commit (xparams s\<lparr>virtual_liquidity_decay := x\<rparr>) s))"

definition update_fee_reimbursement :: "'b env \<Rightarrow> string \<Rightarrow> string \<Rightarrow> (('b, 'z) dex_world_scheme, unit) cmd" where
  "update_fee_reimbursement E signer v s =
     bindS (dex_authority E signer, s) (\<lambda>_ s.
     bindS (of_option FmtError (parse_dec E v), s) (\<lambda>x s.
     dex_commit (xparams s\<lparr>fee_reimbursement := x\<rparr>) s))"

definition update_max_order_life :: "'b env \<Rightarrow> string \<Rightarrow> 64 word \<Rightarrow> (('b, 'z) dex_world_scheme, unit) cmd" where
  "update_max_order_life E signer x s =
     bindS (dex_authority E signer, s) (\<lambda>_ s.
     dex_commit (xparams s\<lparr>max_order_life := x\<rparr>) s)"

definition update_trade_amount_decay :: "'b env \<Rightarrow> string \<Rightarrow> string \<Rightarrow> (('b, 'z) dex_world_scheme, unit) cmd" where
  "update_trade_amount_decay E signer v s =
     bindS (dex_authority E signer, s) (\<lambda>_ s.
     bindS (of_option FmtError (parse_dec E v), s) (\<lambda>x s.
     dex_commit (xparams s\<lparr>trade_amount_decay := x\<rparr>) s))"

definition update_discount_levels :: "'b env \<Rightarrow> string \<Rightarrow> discount_level list \<Rightarrow> (('b, 'z) dex_world_scheme, unit) cmd" where
  "update_discount_levels E signer x s =
     bindS (dex_authority E signer, s) (\<lambda>_ s.
     dex_commit (xparams s\<lparr>discount_levels := x\<rparr>) s)"

datatype dex_param_msg =
    MsgUpdateTradeFee string | MsgUpdateReserveShare string | MsgUpdateVirtualLiquidityDecay string
  | MsgUpdateFeeReimbursement string | MsgUpdateMaxOrderLife "64 word" | MsgUpdateTradeAmountDecay string
  | MsgUpdateDiscountLevels "discount_level list"

fun dex_param_handle :: "'b env \<Rightarrow> string \<times> dex_param_msg \<Rightarrow> (('b, 'z) dex_world_scheme, unit) cmd" where
  "dex_param_handle E (a, MsgUpdateTradeFee v) = update_trade_fee E a v"
| "dex_param_handle E (a, MsgUpdateReserveShare v) = update_reserve_share E a v"
| "dex_param_handle E (a, MsgUpdateVirtualLiquidityDecay v) = update_virtual_liquidity_decay E a v"
| "dex_param_handle E (a, MsgUpdateFeeReimbursement v) = update_fee_reimbursement E a v"
| "dex_param_handle E (a, MsgUpdateMaxOrderLife v) = update_max_order_life E a v"
| "dex_param_handle E (a, MsgUpdateTradeAmountDecay v) = update_trade_amount_decay E a v"
| "dex_param_handle E (a, MsgUpdateDiscountLevels v) = update_discount_levels E a v"

lemmas dex_param_handlers = update_trade_fee_def update_reserve_share_def
  update_virtual_liquidity_decay_def update_fee_reimbursement_def update_max_order_life_def
  update_trade_amount_decay_def update_discount_levels_def

lemma dex_commit_cases:
  obtains (fail) e where "dex_commit p s = (Inl e, s)"
  | (ok) "dex_commit p s = (Inr (), s\<lparr>xparams := p\<rparr>)" "wf_dex_params p"
  by (cases "validate_dex_params p")
    (auto simp: dex_commit_def set_dex_params_def validate_dex_params_wf [symmetric])

text \<open>A handler changes the parameters only, to well-formed ones, and only for the authority.\<close>

definition dex_param_step :: "'b env \<Rightarrow> string \<Rightarrow> ('b, 'z) dex_world_scheme \<Rightarrow> (err + unit) \<times> ('b, 'z) dex_world_scheme \<Rightarrow> bool" where
  "dex_param_step E a s r \<longleftrightarrow>
     (case r of
        (Inl e, t) \<Rightarrow> t = s \<and> (a \<noteq> authority E \<longrightarrow> e = DexE Dex_ErrInvalidSigner)
      | (Inr _, t) \<Rightarrow> a = authority E \<and> wf_dex_params (xparams t) \<and> t = s\<lparr>xparams := xparams t\<rparr>)"

lemma dex_param_step_commit: "a = authority E \<Longrightarrow> dex_param_step E a s (dex_commit p s)"
  by (cases rule: dex_commit_cases [of p s]) (simp_all add: dex_param_step_def)

lemma dex_param_step_bind:
  "(\<And>x. r = Inr x \<Longrightarrow> dex_param_step E a s (f x s)) \<Longrightarrow> a = authority E \<Longrightarrow> dex_param_step E a s (bindS (r, s) f)"
  by (cases r) (simp_all add: dex_param_step_def)

lemma dex_param_step_authority:
  "(a = authority E \<Longrightarrow> dex_param_step E a s (f () s)) \<Longrightarrow> dex_param_step E a s (bindS (dex_authority E a, s) f)"
  by (cases "a = authority E") (simp_all add: dex_param_step_def dex_authority_def)

lemma dex_param_handle_step: "dex_param_step E (fst m) s (dex_param_handle E m s)"
proof -
  obtain a x where m: "m = (a, x)" by (cases m)
  show ?thesis
    unfolding m by (cases x) (auto simp: dex_param_handlers
      intro!: dex_param_step_authority dex_param_step_bind dex_param_step_commit)
qed

text \<open>
  C35. The validation of the dex parameters accepts exactly the well-formed ones, and an accepted
  governance message leaves well-formed parameters and everything else as it was; messages of anyone else are refused.
\<close>

theorem dex_param_messages:
  "(validate_dex_params p = Inr () \<longleftrightarrow> wf_dex_params p)
   \<and> (case dex_param_handle E (signer, m) s of
        (Inl e, t) \<Rightarrow> t = s \<and> (signer \<noteq> authority E \<longrightarrow> e = DexE Dex_ErrInvalidSigner)
      | (Inr _, t) \<Rightarrow> signer = authority E \<and> wf_dex_params (xparams t) \<and> t = s\<lparr>xparams := xparams t\<rparr>)"
  using dex_param_handle_step [of E "(signer, m)" s]
  by (simp add: validate_dex_params_wf dex_param_step_def)

lemma wf_default_dex_params: "wf_dex_params default_dex_params"
proof -
  have "validate_dex_params default_dex_params = Inr ()" by code_simp
  then show ?thesis by (simp add: validate_dex_params_wf)
qed

end
