(* ===== verification/DexLiquidity.thy ===== *)
theory DexLiquidity
  imports DexParams
begin

text \<open>
  The liquidity book of \<open>x/dex\<close>: the entries users provide, their per-denomination sums, the virtual
  liquidity of each pair and the exchange ratios (\<open>keeper/liquidity.go\<close>, \<open>liquidity_sum.go\<close>, \<open>liquidity_next_index.go\<close>,
  \<open>liquidity_pair.go\<close>, \<open>ratio.go\<close>, \<open>price.go\<close>), and the invariant that ties the sums to the entries.

  An iterator visits the entries that the store holds when it is opened, in key order; the loops only
  write the entry they are at. A pair that is not stored has nil virtual amounts, an option here.
\<close>

section \<open>Store keys\<close>

definition key_string :: "string \<Rightarrow> string" where "key_string d = d @ ''/''"

definition key_index :: "64 word \<Rightarrow> string" where "key_index i = itoa (sint i) @ ''/''"

definition key_denom_index :: "denom \<Rightarrow> 64 word \<Rightarrow> string" where
  "key_denom_index d i = d @ ''/'' @ itoa (sint i) @ ''/''"

definition lq_key :: "liquidity \<Rightarrow> string" where
  "lq_key l = key_denom_index (lq_denom l) (lq_index l)"

lemma key_string_inj [simp]: "key_string d = key_string d' \<longleftrightarrow> d = d'"
  by (simp add: key_string_def)

lemma sint_inj [simp]: "sint i = sint j \<longleftrightarrow> i = (j :: 64 word)"
  by (rule word_eq_iff_signed [symmetric])

lemma key_index_inj [simp]: "key_index i = key_index j \<longleftrightarrow> i = j"
  by (simp add: key_index_def itoa_inj)

lemma key_denom_index_inj [simp]: "key_denom_index d i = key_denom_index d' i' \<longleftrightarrow> d = d' \<and> i = i'"
proof -
  have "key_denom_index d i = (d @ CHR ''/'' # itoa (sint i)) @ ''/''" for d and i :: "64 word"
    by (simp add: key_denom_index_def)
  then have "key_denom_index d i = key_denom_index d' i'
      \<longleftrightarrow> d @ CHR ''/'' # itoa (sint i) = d' @ CHR ''/'' # itoa (sint i')"
    by simp
  then show ?thesis
    by (simp add: append_slash_inj slash_notin_itoa itoa_inj)
qed

text \<open>
  The prefix of a denomination covers its own keys, but also those of a denomination that extends it with a
  slash, and the one key of a denomination that it extends itself with a slash and an index.
\<close>

lemma slash_split:
  assumes "c \<notin> set t" "us @ c # w = t @ [c]"
  shows "us = t \<and> w = []"
  using assms by (induction us arbitrary: t) (auto simp: Cons_eq_append_conv append_eq_Cons_conv)

lemma prefix_key_denom_index:
  "prefix (key_string d) (key_denom_index d' i) \<longleftrightarrow>
     d' = d \<or> prefix (key_string d) d' \<or> d = d' @ ''/'' @ itoa (sint i)"
proof
  assume "prefix (key_string d) (key_denom_index d' i)"
  then obtain w where w: "d @ CHR ''/'' # w = d' @ CHR ''/'' # itoa (sint i) @ ''/''"
    by (auto simp: prefix_def key_string_def key_denom_index_def)
  then consider us where "d = d' @ us" "us @ CHR ''/'' # w = CHR ''/'' # itoa (sint i) @ ''/''"
    | us where "d' = d @ us" "us @ CHR ''/'' # itoa (sint i) @ ''/'' = CHR ''/'' # w"
    by (auto simp: append_eq_append_conv2)
  then show "d' = d \<or> prefix (key_string d) d' \<or> d = d' @ ''/'' @ itoa (sint i)"
  proof cases
    case (1 us)
    then show ?thesis
      using slash_split [OF slash_notin_itoa [of "sint i"]] by (cases us) auto
  next
    case (2 us)
    then show ?thesis by (cases us) (auto simp: key_string_def prefix_def)
  qed
next
  assume "d' = d \<or> prefix (key_string d) d' \<or> d = d' @ ''/'' @ itoa (sint i)"
  then show "prefix (key_string d) (key_denom_index d' i)"
    by (auto simp: key_string_def key_denom_index_def prefix_def)
qed

section \<open>Entries and sums\<close>

definition get_liquidity_next_index :: "('b, 'z) dex_world_scheme \<Rightarrow> 64 word" where
  "get_liquidity_next_index s = liquidity_next s"

definition set_liquidity_next_index :: "64 word \<Rightarrow> ('b, 'z) dex_world_scheme \<Rightarrow> ('b, 'z) dex_world_scheme" where
  "set_liquidity_next_index i s = s\<lparr>liquidity_next := i\<rparr>"

definition set_liquidity_sum :: "liquidity_sum \<Rightarrow> ('b, 'z) dex_world_scheme \<Rightarrow> ('b, 'z) dex_world_scheme" where
  "set_liquidity_sum x s = s\<lparr>liquidity_sums := kv_put (key_string (ls_denom x)) x (liquidity_sums s)\<rparr>"

definition get_liquidity_sum :: "('b, 'z) dex_world_scheme \<Rightarrow> denom \<Rightarrow> int \<times> bool" where
  "get_liquidity_sum s d =
     (case kv_get (liquidity_sums s) (key_string d) of None \<Rightarrow> (0, False) | Some x \<Rightarrow> (ls_amount x, True))"

abbreviation liq_sum :: "('b, 'z) dex_world_scheme \<Rightarrow> denom \<Rightarrow> int" where
  "liq_sum s d \<equiv> fst (get_liquidity_sum s d)"

definition get_all_liquidity_sum :: "('b, 'z) dex_world_scheme \<Rightarrow> liquidity_sum list" where
  "get_all_liquidity_sum s = kv_vals [] (liquidity_sums s)"

definition update_liquidity_sum :: "denom \<Rightarrow> int \<Rightarrow> ('b, 'z) dex_world_scheme \<Rightarrow> ('b, 'z) dex_world_scheme" where
  "update_liquidity_sum d change s =
     (let (sum, found) = get_liquidity_sum s d; sum = (if found then sum else 0) in
      set_liquidity_sum \<lparr>ls_denom = d, ls_amount = sum + change\<rparr> s)"

definition set_liquidity :: "liquidity \<Rightarrow> int \<Rightarrow> ('b, 'z) dex_world_scheme \<Rightarrow> ('b, 'z) dex_world_scheme" where
  "set_liquidity l change s =
     (let (l, s) =
        (if lq_index l = 0
         then let n = get_liquidity_next_index s + 1 in (l\<lparr>lq_index := n\<rparr>, set_liquidity_next_index n s)
         else (l, s)) in
      update_liquidity_sum (lq_denom l) change
        (s\<lparr>liquidities := kv_put (key_denom_index (lq_denom l) (lq_index l)) l (liquidities s)\<rparr>))"

definition remove_liquidity :: "denom \<Rightarrow> 64 word \<Rightarrow> int \<Rightarrow> (('b, 'z) dex_world_scheme, unit) cmd" where
  "remove_liquidity d i change s =
     bindS (checkR (\<not> change < 0) Panic, s) (\<lambda>_ s.
     (Inr (), update_liquidity_sum d (- change) (s\<lparr>liquidities := kv_del (key_denom_index d i) (liquidities s)\<rparr>)))"

text \<open>\<open>LiquidityIterator\<close> with its loop: \<open>GetLiquidityEntries\<close>.\<close>

definition liquidity_entries :: "('b, 'z) dex_world_scheme \<Rightarrow> denom \<Rightarrow> liquidity list" where
  "liquidity_entries s d = kv_vals (key_string d) (liquidities s)"

definition get_all_liquidity :: "('b, 'z) dex_world_scheme \<Rightarrow> liquidity list" where
  "get_all_liquidity s = kv_vals [] (liquidities s)"

definition get_liquidity_by_address :: "('b, 'z) dex_world_scheme \<Rightarrow> denom \<Rightarrow> string \<Rightarrow> int" where
  "get_liquidity_by_address s d a =
     foldl (\<lambda>sum l. if lq_address l = a then sum + lq_amount l else sum) 0 (liquidity_entries s d)"

definition get_liquidity_entries_by_address :: "('b, 'z) dex_world_scheme \<Rightarrow> denom \<Rightarrow> string \<Rightarrow> int" where
  "get_liquidity_entries_by_address s d a =
     foldl (\<lambda>n l. if lq_address l = a then n + 1 else n) 0 (liquidity_entries s d)"

text \<open>The loop of \<open>addLiquidity\<close>: the second entry of the address.\<close>

fun second_entry :: "string \<Rightarrow> bool \<Rightarrow> liquidity list \<Rightarrow> liquidity option" where
  "second_entry a seen [] = None"
| "second_entry a seen (l # ls) =
     (if lq_address l = a then (if \<not> seen then second_entry a True ls else Some l)
      else second_entry a seen ls)"

definition add_entry :: "denom \<Rightarrow> string \<Rightarrow> int \<Rightarrow> ('b, 'z) dex_world_scheme \<Rightarrow> ('b, 'z) dex_world_scheme" where
  "add_entry d a amt s =
     (case second_entry a False (liquidity_entries s d) of
        Some l \<Rightarrow> set_liquidity (l\<lparr>lq_amount := lq_amount l + amt\<rparr>) amt s
      | None \<Rightarrow> set_liquidity \<lparr>lq_index = 0, lq_denom = d, lq_address = a, lq_amount = amt\<rparr> amt s)"

section \<open>Ratios and prices\<close>

definition set_ratio :: "ratio \<Rightarrow> ('b, 'z) dex_world_scheme \<Rightarrow> ('b, 'z) dex_world_scheme" where
  "set_ratio r s = s\<lparr>ratios := kv_put (key_string (ra_denom r)) r (ratios s)\<rparr>"

definition remove_ratio :: "ratio \<Rightarrow> ('b, 'z) dex_world_scheme \<Rightarrow> ('b, 'z) dex_world_scheme" where
  "remove_ratio r s = s\<lparr>ratios := kv_del (key_string (ra_denom r)) (ratios s)\<rparr>"

definition get_ratio :: "('b, 'z) dex_world_scheme \<Rightarrow> denom \<Rightarrow> ratio option" where
  "get_ratio s d = kv_get (ratios s) (key_string d)"

definition get_all_ratio :: "('b, 'z) dex_world_scheme \<Rightarrow> ratio list" where
  "get_all_ratio s = kv_vals [] (ratios s)"

text \<open>\<open>ratio.Ratio\<close> after \<open>GetRatio\<close>: nil when there is none.\<close>

definition ratio_value :: "('b, 'z) dex_world_scheme \<Rightarrow> denom \<Rightarrow> dec option" where
  "ratio_value s d = Option.bind (get_ratio s d) ra_ratio"

definition calculate_price :: "'b env \<Rightarrow> ('b, 'z) dex_world_scheme \<Rightarrow> denom \<Rightarrow> denom \<Rightarrow> dec res" where
  "calculate_price E s from to =
     bindR (if from \<noteq> base_currency
            then bindR (of_option (DexE Dex_ErrNilRatio) (ratio_value s from)) (\<lambda>r. quoR E dec_one r)
            else Inr dec_one) (\<lambda>p.
     bindR (if to \<noteq> base_currency
            then bindR (of_option (DexE Dex_ErrNilRatio) (ratio_value s to)) (\<lambda>r. Inr (dmul E p r))
            else Inr p) (\<lambda>p.
     bindR (checkR (p \<noteq> 0) (DexE Dex_ErrZeroPrice)) (\<lambda>_.
     quoR E dec_one p)))"

definition get_price_in_usd :: "'b env \<Rightarrow> ('b, 'z) dex_world_scheme \<Rightarrow> denom \<Rightarrow> dec res" where
  "get_price_in_usd E s d =
     foldR (\<lambda>usd price.
       bindR (calculate_price E s d usd) (\<lambda>p.
       Inr (if price = 0 \<or> p > price then p else price))) (reference_denoms (dparams s) ''ukusd'') 0"

definition get_value_in :: "'b env \<Rightarrow> ('b, 'z) dex_world_scheme \<Rightarrow> denom \<Rightarrow> denom \<Rightarrow> int \<Rightarrow> dec res" where
  "get_value_in E s from to amt =
     (if amt = 0 then Inr 0 else
      bindR (calculate_price E s from to) (\<lambda>p. quoR E (to_dec amt) p))"

definition get_value_in_base :: "'b env \<Rightarrow> ('b, 'z) dex_world_scheme \<Rightarrow> denom \<Rightarrow> int \<Rightarrow> dec res" where
  "get_value_in_base E s d amt = get_value_in E s d base_currency amt"

definition get_value_in_usd :: "'b env \<Rightarrow> ('b, 'z) dex_world_scheme \<Rightarrow> denom \<Rightarrow> int \<Rightarrow> dec res" where
  "get_value_in_usd E s d amt =
     (if amt = 0 then Inr 0 else
      bindR (get_price_in_usd E s d) (\<lambda>p. quoR E (to_dec amt) p))"

section \<open>Pairs\<close>

definition get_liquidity_pair_count :: "('b, 'z) dex_world_scheme \<Rightarrow> 64 word" where
  "get_liquidity_pair_count s = liquidity_pair_count s"

definition set_liquidity_pair_count :: "64 word \<Rightarrow> ('b, 'z) dex_world_scheme \<Rightarrow> ('b, 'z) dex_world_scheme" where
  "set_liquidity_pair_count n s = s\<lparr>liquidity_pair_count := n\<rparr>"

definition set_liquidity_pair :: "liquidity_pair \<Rightarrow> (('b, 'z) dex_world_scheme, unit) cmd" where
  "set_liquidity_pair p s =
     bindS (checkR (lp_denom p \<noteq> []) Panic, s) (\<lambda>_ s.
     bindS (checkR (\<not> lp_base p < 0) Panic, s) (\<lambda>_ s.
     bindS (checkR (\<not> lp_other p < 0) Panic, s) (\<lambda>_ s.
     (Inr (), s\<lparr>liquidity_pairs := kv_put (key_string (lp_denom p)) p (liquidity_pairs s)\<rparr>))))"

definition get_liquidity_pair :: "('b, 'z) dex_world_scheme \<Rightarrow> denom \<Rightarrow> liquidity_pair option" where
  "get_liquidity_pair s d = kv_get (liquidity_pairs s) (key_string d)"

definition get_all_liquidity_pair :: "('b, 'z) dex_world_scheme \<Rightarrow> liquidity_pair list" where
  "get_all_liquidity_pair s = kv_vals [] (liquidity_pairs s)"

definition init_pair :: "'b env \<Rightarrow> int \<Rightarrow> denom \<Rightarrow> (('b, 'z) dex_world_scheme, unit) cmd" where
  "init_pair E liq_base d s =
     bindS (initial_virtual_liquidity_factor (dparams s) d, s) (\<lambda>fac s.
     bindS (case get_liquidity_pair s d of
              None \<Rightarrow> set_liquidity_pair \<lparr>lp_denom = d, lp_base = 0, lp_other = dmul E (to_dec liq_base) fac\<rparr> s
            | Some _ \<Rightarrow> (Inr (), s)) (\<lambda>_ s.
     (Inr (), case ratio_value s d of
                None \<Rightarrow> set_ratio \<lparr>ra_denom = d, ra_ratio = Some fac\<rparr> s
              | Some _ \<Rightarrow> s)))"

definition init_pairs :: "'b env \<Rightarrow> (('b, 'z) dex_world_scheme, unit) cmd" where
  "init_pairs E s =
     (let (liq_base, found) = get_liquidity_sum s base_currency in
      if found then
        foldS (\<lambda>d _ s. if d \<noteq> base_currency then init_pair E liq_base d s else (Inr (), s)) (denoms (dparams s)) () s
      else (Inr (), s))"

definition calc_virtual_amount_other :: "'b env \<Rightarrow> ('b, 'z) dex_world_scheme \<Rightarrow> dec \<Rightarrow> denom \<Rightarrow> dec" where
  "calc_virtual_amount_other E s r d =
     dmul E (to_dec (liq_sum s base_currency)) r - to_dec (liq_sum s d)"

definition calc_virtual_amount_base :: "'b env \<Rightarrow> ('b, 'z) dex_world_scheme \<Rightarrow> dec \<Rightarrow> denom \<Rightarrow> dec res" where
  "calc_virtual_amount_base E s r d =
     bindR (quoR E (to_dec (liq_sum s d)) r) (\<lambda>q. Inr (q - to_dec (liq_sum s base_currency)))"

definition update_pair :: "'b env \<Rightarrow> denom \<Rightarrow> (('b, 'z) dex_world_scheme, unit) cmd" where
  "update_pair E d s =
     (let pair = get_liquidity_pair s d;
          name = (case pair of None \<Rightarrow> [] | Some p \<Rightarrow> lp_denom p) in
      case ratio_value s d of
        Some r \<Rightarrow>
          (let liq_base = to_dec (liq_sum s base_currency); liq_other = to_dec (liq_sum s d) in
           bindS (if dmul E liq_base r > liq_other then Inr (0, calc_virtual_amount_other E s r d)
                  else bindR (calc_virtual_amount_base E s r d) (\<lambda>b. Inr (b, 0)), s) (\<lambda>(vb, vo) s.
           set_liquidity_pair \<lparr>lp_denom = name, lp_base = vb, lp_other = vo\<rparr> s))
      | None \<Rightarrow> init_pair E (liq_sum s base_currency) d s)"

definition update_pairs :: "'b env \<Rightarrow> (('b, 'z) dex_world_scheme, unit) cmd" where
  "update_pairs E s =
     foldS (\<lambda>d _ s. if d \<noteq> base_currency then update_pair E d s else (Inr (), s)) (denoms (dparams s)) () s"

definition sum_liquidity :: "dec \<Rightarrow> dec option \<Rightarrow> dec" where
  "sum_liquidity actual virt = actual + (case virt of None \<Rightarrow> 0 | Some v \<Rightarrow> v)"

definition full_liquidity_base :: "('b, 'z) dex_world_scheme \<Rightarrow> denom \<Rightarrow> dec res" where
  "full_liquidity_base s other =
     bindR (checkR (other \<noteq> base_currency) Panic) (\<lambda>_.
     Inr (sum_liquidity (to_dec (liq_sum s base_currency)) (map_option lp_base (get_liquidity_pair s other))))"

definition full_liquidity_other :: "('b, 'z) dex_world_scheme \<Rightarrow> denom \<Rightarrow> dec" where
  "full_liquidity_other s d =
     sum_liquidity (to_dec (liq_sum s d)) (map_option lp_other (get_liquidity_pair s d))"

definition full_liquidity :: "('b, 'z) dex_world_scheme \<Rightarrow> denom \<Rightarrow> denom \<Rightarrow> dec res" where
  "full_liquidity s d other =
     (if d = base_currency then full_liquidity_base s other else Inr (full_liquidity_other s d))"

definition full_liquidity_base_other :: "('b, 'z) dex_world_scheme \<Rightarrow> denom \<Rightarrow> denom \<Rightarrow> (dec \<times> dec) res" where
  "full_liquidity_base_other s from to =
     (if from = base_currency
      then bindR (full_liquidity_base s to) (\<lambda>b. Inr (b, full_liquidity_other s to))
      else bindR (full_liquidity_base s from) (\<lambda>b. Inr (full_liquidity_other s from, b)))"

definition pair_ratio :: "'b env \<Rightarrow> ('b, 'z) dex_world_scheme \<Rightarrow> denom \<Rightarrow> dec option res" where
  "pair_ratio E s d =
     bindR (full_liquidity_base s d) (\<lambda>b.
     let other = full_liquidity_other s d in
     Inr (if \<not> other > 0 then None else Some (dmul E b other)))"

text \<open>\<open>updateRatios\<close> of \<open>keeper/trade.go\<close>: the exchange ratio is that of the full liquidities.\<close>

definition update_ratios :: "'b env \<Rightarrow> denom \<Rightarrow> (('b, 'z) dex_world_scheme, unit) cmd" where
  "update_ratios E d s =
     (if d \<noteq> base_currency then
        bindS (full_liquidity_base s d, s) (\<lambda>b s.
        let other = full_liquidity_other s d in
        if b > 0 then
          bindS (quoR E other b, s) (\<lambda>r s. (Inr (), set_ratio \<lparr>ra_denom = d, ra_ratio = Some r\<rparr> s))
        else (Inr (), s))
      else (Inr (), s))"

text \<open>A change of the liquidity of the base currency concerns every pair.\<close>

definition update_pair_or_pairs :: "'b env \<Rightarrow> denom \<Rightarrow> (('b, 'z) dex_world_scheme, unit) cmd" where
  "update_pair_or_pairs E d s = (if d \<noteq> base_currency then update_pair E d s else update_pairs E s)"

section \<open>Operations\<close>

definition keeper_add_liquidity :: "'b env \<Rightarrow> addr \<Rightarrow> denom \<Rightarrow> int \<Rightarrow> (('b, 'z) dex_world_scheme, unit) cmd" where
  "keeper_add_liquidity E a d amt s =
     bindS (checkR (is_valid_denom (dparams s) d) (DexE Dex_ErrDenomNotFound), s) (\<lambda>_ s.
     bindS (send_acc_mod E a pool_liquidity d amt s) (\<lambda>_ s.
     bindS (checkR (\<not> (liq_sum s base_currency = 0 \<and> d \<noteq> base_currency)) (DexE Dex_ErrBaseLiqEmpty), s) (\<lambda>_ s.
     update_pair_or_pairs E d (add_entry d (str_of E a) amt s))))"

definition update_virtual_liquidity :: "'b env \<Rightarrow> dec \<Rightarrow> int \<Rightarrow> denom \<Rightarrow> (('b, 'z) dex_world_scheme, unit) cmd" where
  "update_virtual_liquidity E decay liq_base d s =
     (if d \<noteq> base_currency then
        bindS (bindR (min_liquidity (dparams s) d) nilR, s) (\<lambda>m s.
        if liq_sum s d < m then
          (let pair = (case get_liquidity_pair s d of
                         Some p \<Rightarrow> p | None \<Rightarrow> \<lparr>lp_denom = d, lp_base = 0, lp_other = 0\<rparr>) in
           bindS (if lp_other pair = 0
                  then bindR (initial_virtual_liquidity_factor (dparams s) d) (\<lambda>f.
                       bindR (quoR E (to_dec liq_base) f) (\<lambda>q. Inr (pair\<lparr>lp_other := q\<rparr>)))
                  else Inr (pair\<lparr>lp_other := dmul E (lp_other pair) decay\<rparr>), s) (\<lambda>pair s.
           bindS (set_liquidity_pair pair s) (\<lambda>_. update_ratios E (lp_denom pair))))
        else (Inr (), s))
      else (Inr (), s))"

definition update_virtual_liquidities :: "'b env \<Rightarrow> (('b, 'z) dex_world_scheme, unit) cmd" where
  "update_virtual_liquidities E s =
     (let decay = virtual_liquidity_decay (xparams s); liq_base = liq_sum s base_currency in
      foldS (\<lambda>d _. update_virtual_liquidity E decay liq_base d) (denoms (dparams s)) () s)"

definition get_denom_value :: "'b env \<Rightarrow> ('b, 'z) dex_world_scheme \<Rightarrow> denom \<Rightarrow> dec res" where
  "get_denom_value E s d =
     (if d = base_currency then Inr (to_dec (liq_sum s base_currency))
      else bindR (calculate_price E s d base_currency) (\<lambda>p. Inr (dmul E (full_liquidity_other s d) p)))"

end
