(* ===== verification/DexBook.thy ===== *)
theory DexBook
  imports DexLiquidity
begin

text \<open>
  The invariant of the liquidity book and what each operation of \<open>DexLiquidity\<close> does to it: every entry
  sits under its own key, and the stored sum of each denomination is the sum of its entries.
\<close>

section \<open>Operations that leave the book alone\<close>

text \<open>Updating the virtual side of a pair writes pairs and ratios only.\<close>

definition pairs_only :: "('b, 'z) dex_world_scheme \<Rightarrow> ('b, 'z) dex_world_scheme \<Rightarrow> bool" where
  "pairs_only s t \<longleftrightarrow> t = s\<lparr>liquidity_pairs := liquidity_pairs t, ratios := ratios t\<rparr>"

lemma pairs_only_refl [simp]: "pairs_only s s"
  by (simp add: pairs_only_def)

lemma pairs_only_trans:
  assumes "pairs_only s t" "pairs_only t u"
  shows "pairs_only s u"
proof -
  from assms have "u = s\<lparr>liquidity_pairs := liquidity_pairs t, ratios := ratios t\<rparr>
      \<lparr>liquidity_pairs := liquidity_pairs u, ratios := ratios u\<rparr>"
    by (simp add: pairs_only_def)
  then show ?thesis by (simp add: pairs_only_def)
qed

lemma pairs_onlyD:
  assumes "pairs_only s t"
  shows "bank t = bank s" "height t = height s" "dparams t = dparams s" "xparams t = xparams s"
    "liquidities t = liquidities s" "liquidity_next t = liquidity_next s"
    "liquidity_sums t = liquidity_sums s" "trade_amounts t = trade_amounts s"
    "orders t = orders s" "order_next t = order_next s" "dex_world.more t = dex_world.more s"
  by (subst assms [unfolded pairs_only_def], simp)+

text \<open>A transfer writes the bank only.\<close>

lemma bank_onlyD:
  fixes s t :: "('b, 'z) dex_world_scheme"
  assumes "t = s\<lparr>bank := bank t\<rparr>"
  shows "height t = height s" "dparams t = dparams s" "xparams t = xparams s"
    "liquidities t = liquidities s" "liquidity_next t = liquidity_next s"
    "liquidity_sums t = liquidity_sums s" "liquidity_pairs t = liquidity_pairs s" "ratios t = ratios s"
    "trade_amounts t = trade_amounts s" "orders t = orders s" "order_next t = order_next s"
    "dex_world.more t = dex_world.more s"
  by (subst assms, simp)+

lemma pairs_only_bind:
  assumes "pairs_only s (snd r)" "\<And>a t. r = (Inr a, t) \<Longrightarrow> pairs_only t (snd (f a t))"
  shows "pairs_only s (snd (bindS r f))"
proof (cases r)
  case (Pair x t)
  with assms show ?thesis
    by (cases x) (auto intro: pairs_only_trans)
qed

lemma set_liquidity_pair_only [simp]: "pairs_only s (snd (set_liquidity_pair p s))"
  by (simp add: set_liquidity_pair_def checkR_def pairs_only_def)

lemma set_ratio_only [simp]: "pairs_only s (set_ratio r s)"
  by (simp add: set_ratio_def pairs_only_def)

lemma init_pair_only [simp]: "pairs_only s (snd (init_pair E b d s))"
  unfolding init_pair_def by (intro pairs_only_bind) (auto split: option.splits)

lemma update_pair_only [simp]: "pairs_only s (snd (update_pair E d s))"
  unfolding update_pair_def Let_def by (cases "ratio_value s d") (auto intro!: pairs_only_bind)

lemma update_ratios_only [simp]: "pairs_only s (snd (update_ratios E d s))"
  unfolding update_ratios_def Let_def by (auto intro!: pairs_only_bind)

lemma pairs_only_fold:
  assumes "\<And>x c t. pairs_only t (snd (f x c t))"
  shows "pairs_only s (snd (foldS f xs c s))"
  by (rule foldS_inv) (auto intro: pairs_only_trans assms)

lemma update_pairs_only [simp]: "pairs_only s (snd (update_pairs E s))"
  unfolding update_pairs_def by (rule pairs_only_fold) auto

lemma update_pair_or_pairs_only [simp]: "pairs_only s (snd (update_pair_or_pairs E d s))"
  by (simp add: update_pair_or_pairs_def)

lemma init_pairs_only [simp]: "pairs_only s (snd (init_pairs E s))"
  unfolding init_pairs_def by (auto split: prod.splits intro!: pairs_only_fold)

lemma update_virtual_liquidity_only [simp]: "pairs_only s (snd (update_virtual_liquidity E decay b d s))"
  unfolding update_virtual_liquidity_def Let_def by (auto intro!: pairs_only_bind)

lemma update_virtual_liquidities_only [simp]: "pairs_only s (snd (update_virtual_liquidities E s))"
  unfolding update_virtual_liquidities_def Let_def by (rule pairs_only_fold) simp

section \<open>The invariant\<close>

definition amount_in :: "denom \<Rightarrow> liquidity \<Rightarrow> int" where
  "amount_in d l = (if lq_denom l = d then lq_amount l else 0)"

definition entry_ok :: "('b, 'z) dex_world_scheme \<Rightarrow> liquidity \<Rightarrow> bool" where
  "entry_ok s l \<longleftrightarrow> 0 \<le> lq_amount l \<and> lq_index l \<noteq> 0 \<and> lq_index l \<le> liquidity_next s
     \<and> lq_denom l \<in> set (denoms (dparams s))"

definition book_inv :: "('b, 'z) dex_world_scheme \<Rightarrow> bool" where
  "book_inv s \<longleftrightarrow> kv_wf (liquidities s) \<and> kv_wf (liquidity_sums s)
     \<and> (\<forall>k l. kv_get (liquidities s) k = Some l \<longrightarrow> k = lq_key l \<and> entry_ok s l)
     \<and> (\<forall>d. liq_sum s d = kv_sum (amount_in d) (liquidities s))"

text \<open>
  The keys of two denominations do not mix when neither extends the other with a slash. The code
  relies on this of the governed denominations.
\<close>

definition denoms_separate :: "denom_params \<Rightarrow> bool" where
  "denoms_separate p \<longleftrightarrow> (\<forall>d \<in> set (denoms p). \<forall>d' \<in> set (denoms p). \<not> prefix (key_string d) d')"

lemma book_inv_cong:
  "liquidities t = liquidities s \<Longrightarrow> liquidity_sums t = liquidity_sums s \<Longrightarrow> liquidity_next t = liquidity_next s
   \<Longrightarrow> dparams t = dparams s \<Longrightarrow> book_inv t = book_inv s"
  by (simp add: book_inv_def entry_ok_def get_liquidity_sum_def)

lemma liq_sum_cong: "liquidity_sums t = liquidity_sums s \<Longrightarrow> liq_sum t d = liq_sum s d"
  by (simp add: get_liquidity_sum_def)

lemma pairs_only_book: "pairs_only s t \<Longrightarrow> book_inv t = book_inv s"
  by (rule book_inv_cong) (simp_all add: pairs_onlyD)

lemma pairs_only_sum: "pairs_only s t \<Longrightarrow> liq_sum t d = liq_sum s d"
  by (rule liq_sum_cong) (simp add: pairs_onlyD)

lemma book_invD:
  assumes "book_inv s"
  shows "kv_wf (liquidities s)" "kv_wf (liquidity_sums s)"
    "kv_get (liquidities s) k = Some l \<Longrightarrow> k = lq_key l"
    "kv_get (liquidities s) k = Some l \<Longrightarrow> entry_ok s l"
    "liq_sum s d = kv_sum (amount_in d) (liquidities s)"
  using assms by (auto simp: book_inv_def)

lemma liquidity_entries_get:
  assumes "book_inv s" "l \<in> set (liquidity_entries s d)"
  shows "kv_get (liquidities s) (lq_key l) = Some l" "entry_ok s l"
proof -
  obtain k where k: "kv_get (liquidities s) k = Some l"
    using assms kv_vals_get [OF book_invD(1) [OF assms(1)]] by (auto simp: liquidity_entries_def)
  with book_invD(3,4) [OF assms(1) k] show "kv_get (liquidities s) (lq_key l) = Some l" "entry_ok s l"
    by auto
qed

lemma liquidity_entries_iff:
  assumes "book_inv s" "denoms_separate (dparams s)" "d \<in> set (denoms (dparams s))"
  shows "l \<in> set (liquidity_entries s d) \<longleftrightarrow> lq_denom l = d \<and> kv_get (liquidities s) (lq_key l) = Some l"
proof -
  have "l \<in> set (liquidity_entries s d) \<longleftrightarrow> (\<exists>k. kv_get (liquidities s) k = Some l \<and> prefix (key_string d) k)"
    using kvs.set_iter [OF book_invD(1) [OF assms(1)], of "key_string d"]
    by (force simp: liquidity_entries_def kv_vals_def)
  also have "\<dots> \<longleftrightarrow> kv_get (liquidities s) (lq_key l) = Some l \<and> prefix (key_string d) (lq_key l)"
    using book_invD(3) [OF assms(1)] by metis
  also have "\<dots> \<longleftrightarrow> lq_denom l = d \<and> kv_get (liquidities s) (lq_key l) = Some l"
  proof -
    have "lq_denom l \<in> set (denoms (dparams s))" if "kv_get (liquidities s) (lq_key l) = Some l"
      using book_invD(4) [OF assms(1) that] by (simp add: entry_ok_def)
    moreover have "\<not> prefix (key_string d) (lq_denom l)" "d \<noteq> lq_denom l @ CHR ''/'' # r"
      if "lq_denom l \<in> set (denoms (dparams s))" for r
      using assms(2,3) that by (auto simp: denoms_separate_def key_string_def prefix_def)
    ultimately show ?thesis by (auto simp: lq_key_def prefix_key_denom_index)
  qed
  finally show ?thesis .
qed

text \<open>The entries a loop has still to visit are unchanged in the store.\<close>

definition pending :: "liquidity list \<Rightarrow> ('b, 'z) dex_world_scheme \<Rightarrow> bool" where
  "pending xs s \<longleftrightarrow> distinct (map lq_key xs) \<and> (\<forall>l \<in> set xs. kv_get (liquidities s) (lq_key l) = Some l)"

lemma pending_step:
  assumes "pending (l' # xs) s" "\<And>k. k \<noteq> lq_key l' \<Longrightarrow> kv_get (liquidities t) k = kv_get (liquidities s) k"
  shows "pending xs t"
proof -
  have "lq_key l \<noteq> lq_key l'" if "l \<in> set xs" for l
    using assms(1) that by (metis distinct.simps(2) image_eqI list.simps(9) pending_def set_map)
  with assms show ?thesis by (simp add: pending_def)
qed

lemma pending_entries: "book_inv s \<Longrightarrow> pending (liquidity_entries s d) s"
proof -
  assume s: "book_inv s"
  have "map lq_key (kv_vals (key_string d) (liquidities s)) = map fst (kv_iter (key_string d) (liquidities s))"
    using book_invD(3) [OF s] kvs.set_iter [OF book_invD(1) [OF s], of "key_string d"]
    by (auto simp: kv_vals_def)
  then have "distinct (map lq_key (liquidity_entries s d))"
    using kvs.iter_sorted [OF book_invD(1) [OF s], of "key_string d"] by (simp add: liquidity_entries_def)
  with liquidity_entries_get(1) [OF s] show ?thesis by (simp add: pending_def)
qed

section \<open>Writing the book\<close>

lemma get_set_liquidity_sum [simp]:
  "kv_wf (liquidity_sums s) \<Longrightarrow> liq_sum (set_liquidity_sum x s) d = (if d = ls_denom x then ls_amount x else liq_sum s d)"
  by (auto simp: get_liquidity_sum_def set_liquidity_sum_def kvs.get_put)

lemma liq_sum_update:
  "kv_wf (liquidity_sums s) \<Longrightarrow> liq_sum (update_liquidity_sum d c s) d' = liq_sum s d' + (if d' = d then c else 0)"
  by (auto simp: update_liquidity_sum_def Let_def split: prod.splits) (auto simp: get_liquidity_sum_def split: option.splits)

lemma update_liquidity_sum_frame [simp]:
  "bank (update_liquidity_sum d c s) = bank s"
  "dparams (update_liquidity_sum d c s) = dparams s"
  "liquidities (update_liquidity_sum d c s) = liquidities s"
  "liquidity_next (update_liquidity_sum d c s) = liquidity_next s"
  "kv_wf (liquidity_sums s) \<Longrightarrow> kv_wf (liquidity_sums (update_liquidity_sum d c s))"
  by (simp_all add: update_liquidity_sum_def set_liquidity_sum_def split_beta kvs.invar_put)

text \<open>Only the book changes when an entry is written or removed.\<close>

definition book_only :: "('b, 'z) dex_world_scheme \<Rightarrow> ('b, 'z) dex_world_scheme \<Rightarrow> bool" where
  "book_only s t \<longleftrightarrow> t = s\<lparr>liquidities := liquidities t, liquidity_next := liquidity_next t, liquidity_sums := liquidity_sums t\<rparr>"

lemma book_only_refl [simp]: "book_only s s"
  by (simp add: book_only_def)

lemma book_only_trans:
  assumes "book_only s t" "book_only t u"
  shows "book_only s u"
proof -
  from assms have "u = s\<lparr>liquidities := liquidities t, liquidity_next := liquidity_next t, liquidity_sums := liquidity_sums t\<rparr>
      \<lparr>liquidities := liquidities u, liquidity_next := liquidity_next u, liquidity_sums := liquidity_sums u\<rparr>"
    by (simp add: book_only_def)
  then show ?thesis by (simp add: book_only_def)
qed

lemma book_onlyD:
  assumes "book_only s t"
  shows "bank t = bank s" "height t = height s" "dparams t = dparams s" "xparams t = xparams s"
    "liquidity_pairs t = liquidity_pairs s" "ratios t = ratios s" "trade_amounts t = trade_amounts s"
    "orders t = orders s" "order_next t = order_next s" "dex_world.more t = dex_world.more s"
  by (subst assms [unfolded book_only_def], simp)+

lemma set_liquidity_only [simp]: "book_only s (set_liquidity l c s)"
  by (simp add: book_only_def set_liquidity_def Let_def update_liquidity_sum_def set_liquidity_sum_def
      set_liquidity_next_index_def split_beta)

lemma remove_liquidity_only [simp]: "book_only s (snd (remove_liquidity d i c s))"
  by (simp add: book_only_def remove_liquidity_def checkR_def update_liquidity_sum_def set_liquidity_sum_def split_beta)

lemma add_entry_only [simp]: "book_only s (add_entry d a amt s)"
  by (simp add: add_entry_def split: option.splits)

lemma set_liquidity_old:
  assumes "lq_index l \<noteq> 0"
  shows "set_liquidity l c s = update_liquidity_sum (lq_denom l) c (s\<lparr>liquidities := kv_put (lq_key l) l (liquidities s)\<rparr>)"
  using assms by (simp add: set_liquidity_def lq_key_def)

lemma set_liquidity_old_inv:
  assumes s: "book_inv s" and i: "lq_index l \<noteq> 0" and a: "0 \<le> lq_amount l"
    and old: "kv_get (liquidities s) (lq_key l) = Some l'" "c = lq_amount l - lq_amount l'"
  shows "book_inv (set_liquidity l c s)"
    and "liq_sum (set_liquidity l c s) d = liq_sum s d + (if d = lq_denom l then c else 0)"
    and "liquidity_next (set_liquidity l c s) = liquidity_next s"
    and "pending (l' # xs) s \<Longrightarrow> pending xs (set_liquidity l c s)"
proof -
  note wf = book_invD(1,2) [OF s]
  have k: "lq_key l' = lq_key l" using book_invD(3) [OF s old(1)] by simp
  then have dl: "lq_denom l' = lq_denom l" "lq_index l' = lq_index l" by (simp_all add: lq_key_def)
  have ok: "entry_ok s l'" by (rule book_invD(4) [OF s old(1)])
  let ?t = "set_liquidity l c s"
  have g: "kv_get (liquidities ?t) = (kv_get (liquidities s))(lq_key l \<mapsto> l)"
    using wf(1) by (simp add: set_liquidity_old [OF i] kvs.get_put)
  have n: "liquidity_next ?t = liquidity_next s" "dparams ?t = dparams s" by (simp_all add: set_liquidity_old [OF i])
  have sum: "liq_sum ?t d = liq_sum s d + (if d = lq_denom l then c else 0)" for d
    using wf(2) by (simp add: set_liquidity_old [OF i] liq_sum_update) (simp add: get_liquidity_sum_def)
  have "liq_sum ?t d = kv_sum (amount_in d) (liquidities ?t)" for d
    using wf(1) book_invD(5) [OF s, of d]
    by (simp add: sum, simp add: set_liquidity_old [OF i] kv_sum_put old amount_in_def dl)
  moreover have "entry_ok ?t l" using ok a by (simp add: entry_ok_def n dl)
  ultimately show "book_inv ?t"
    using book_invD(3,4) [OF s] wf
    by (auto simp: book_inv_def g n entry_ok_def) (simp_all add: set_liquidity_old [OF i] kvs.invar_put)
  show "liq_sum ?t d = liq_sum s d + (if d = lq_denom l then c else 0)" by (rule sum)
  show "liquidity_next ?t = liquidity_next s" by (rule n)
  show "pending xs ?t" if "pending (l' # xs) s"
    using that by (rule pending_step) (simp add: g k)
qed

lemma set_liquidity_old_sum:
  assumes "book_inv s" "lq_index l \<noteq> 0" "kv_get (liquidities s) (lq_key l) = Some l'"
  shows "kv_sum w (liquidities (set_liquidity l c s)) = kv_sum w (liquidities s) - w l' + w l"
  using assms book_invD(1) [OF assms(1)] by (simp add: set_liquidity_old kv_sum_put)

lemma remove_liquidity_sum:
  assumes "book_inv s" "kv_get (liquidities s) (lq_key l) = Some l"
  shows "kv_sum w (liquidities (snd (remove_liquidity (lq_denom l) (lq_index l) (lq_amount l) s)))
    = kv_sum w (liquidities s) - w l"
  using assms book_invD(1) [OF assms(1)] book_invD(4) [OF assms]
  by (simp add: remove_liquidity_def entry_ok_def kv_sum_del flip: lq_key_def)

lemma set_liquidity_new_inv:
  assumes s: "book_inv s" and l: "lq_index l = 0" "0 \<le> lq_amount l" "lq_denom l \<in> set (denoms (dparams s))"
    and n: "liquidity_next s < - 1" and c: "c = lq_amount l"
  shows "book_inv (set_liquidity l c s)"
    and "liq_sum (set_liquidity l c s) d = liq_sum s d + (if d = lq_denom l then c else 0)"
    and "liquidity_next (set_liquidity l c s) = liquidity_next s + 1"
    and "kv_sum w (liquidities (set_liquidity l c s)) = kv_sum w (liquidities s) + w (l\<lparr>lq_index := liquidity_next s + 1\<rparr>)"
proof -
  note wf = book_invD(1,2) [OF s]
  let ?n = "liquidity_next s + 1"
  let ?l = "l\<lparr>lq_index := ?n\<rparr>"
  have n': "liquidity_next s < ?n" "?n \<noteq> 0"
    using n max_word_wrap [of "liquidity_next s"] by (metis inc_less_eq_self_iff_eq less_irrefl not_le, metis less_irrefl)
  have t: "set_liquidity l c s = update_liquidity_sum (lq_denom l) c
      (s\<lparr>liquidity_next := ?n, liquidities := kv_put (lq_key ?l) ?l (liquidities s)\<rparr>)"
    using l(1) by (simp add: set_liquidity_def lq_key_def Let_def get_liquidity_next_index_def set_liquidity_next_index_def)
  have fresh: "kv_get (liquidities s) (lq_key ?l) = None"
  proof (rule ccontr)
    assume "kv_get (liquidities s) (lq_key ?l) \<noteq> None"
    then obtain l' where l': "kv_get (liquidities s) (lq_key ?l) = Some l'" by auto
    then have "lq_index l' = ?n" "lq_index l' \<le> liquidity_next s"
      using book_invD(3,4) [OF s l'] by (simp_all add: lq_key_def entry_ok_def)
    with n'(1) show False by simp
  qed
  let ?t = "set_liquidity l c s"
  have g: "kv_get (liquidities ?t) = (kv_get (liquidities s))(lq_key ?l \<mapsto> ?l)"
    using wf(1) by (simp add: t kvs.get_put)
  have nx: "liquidity_next ?t = ?n" "dparams ?t = dparams s" by (simp_all add: t)
  have sum: "liq_sum ?t d = liq_sum s d + (if d = lq_denom l then c else 0)" for d
    using wf(2) by (simp add: t liq_sum_update) (simp add: get_liquidity_sum_def)
  have "liq_sum ?t d = kv_sum (amount_in d) (liquidities ?t)" for d
  proof -
    have lt: "liquidities ?t = kv_put (lq_key ?l) ?l (liquidities s)" by (simp add: t)
    show ?thesis
      unfolding lt sum using wf(1) book_invD(5) [OF s, of d] by (simp add: kv_sum_put fresh c amount_in_def)
  qed
  moreover have "entry_ok ?t ?l" using l n' by (simp add: entry_ok_def nx)
  moreover have "entry_ok ?t x" if "entry_ok s x" for x
    using that n'(1) by (auto simp: entry_ok_def nx)
  ultimately show "book_inv ?t"
    using book_invD(3,4) [OF s] wf
    by (auto simp: book_inv_def g) (simp_all add: t kvs.invar_put)
  show "liq_sum ?t d = liq_sum s d + (if d = lq_denom l then c else 0)" by (rule sum)
  show "liquidity_next ?t = ?n" by (rule nx)
  have "liquidities ?t = kv_put (lq_key ?l) ?l (liquidities s)" by (simp add: t)
  then show "kv_sum w (liquidities ?t) = kv_sum w (liquidities s) + w ?l"
    using wf(1) by (simp add: kv_sum_put fresh)
qed

lemma remove_liquidity_inv:
  assumes s: "book_inv s" and old: "kv_get (liquidities s) (lq_key l) = Some l"
  shows "fst (remove_liquidity (lq_denom l) (lq_index l) (lq_amount l) s) = Inr ()"
    and "book_inv (snd (remove_liquidity (lq_denom l) (lq_index l) (lq_amount l) s))"
    and "liq_sum (snd (remove_liquidity (lq_denom l) (lq_index l) (lq_amount l) s)) d
       = liq_sum s d - (if d = lq_denom l then lq_amount l else 0)"
    and "liquidity_next (snd (remove_liquidity (lq_denom l) (lq_index l) (lq_amount l) s)) = liquidity_next s"
    and "pending (l # xs) s \<Longrightarrow> pending xs (snd (remove_liquidity (lq_denom l) (lq_index l) (lq_amount l) s))"
proof -
  note wf = book_invD(1,2) [OF s]
  have ok: "entry_ok s l" by (rule book_invD(4) [OF s old])
  let ?r = "remove_liquidity (lq_denom l) (lq_index l) (lq_amount l) s"
  let ?t = "snd ?r"
  have r: "?r = (Inr (), update_liquidity_sum (lq_denom l) (- lq_amount l) (s\<lparr>liquidities := kv_del (lq_key l) (liquidities s)\<rparr>))"
    using ok by (simp add: remove_liquidity_def entry_ok_def lq_key_def)
  then show "fst ?r = Inr ()" by simp
  have g: "kv_get (liquidities ?t) = (kv_get (liquidities s))(lq_key l := None)"
    using wf(1) by (simp add: r kvs.get_del)
  have n: "liquidity_next ?t = liquidity_next s" "dparams ?t = dparams s" by (simp_all add: r)
  have sum: "liq_sum ?t d = liq_sum s d - (if d = lq_denom l then lq_amount l else 0)" for d
    using wf(2) by (simp add: r liq_sum_update) (simp add: get_liquidity_sum_def)
  have "liq_sum ?t d = kv_sum (amount_in d) (liquidities ?t)" for d
    using wf(1) book_invD(5) [OF s, of d]
    by (simp add: sum, simp add: r kv_sum_del old amount_in_def)
  then show "book_inv ?t"
    using book_invD(3,4) [OF s] wf
    by (auto simp: book_inv_def g n entry_ok_def split: if_splits) (simp_all add: r kvs.invar_del)
  show "liq_sum ?t d = liq_sum s d - (if d = lq_denom l then lq_amount l else 0)" by (rule sum)
  show "liquidity_next ?t = liquidity_next s" by (rule n)
  show "pending xs ?t" if "pending (l # xs) s"
    using that by (rule pending_step) (simp add: g)
qed

text \<open>What an address has provided of a denomination.\<close>

definition by_owner :: "denom \<Rightarrow> string \<Rightarrow> liquidity \<Rightarrow> int" where
  "by_owner d a l = (if lq_denom l = d \<and> lq_address l = a then lq_amount l else 0)"

definition provided :: "('b, 'z) dex_world_scheme \<Rightarrow> denom \<Rightarrow> string \<Rightarrow> int" where
  "provided s d a = kv_sum (by_owner d a) (liquidities s)"

lemma provided_entries: "book_inv s \<Longrightarrow> sum_list (map (by_owner d a) (liquidity_entries s d)) = provided s d a"
  unfolding liquidity_entries_def provided_def
proof (rule kv_sum_vals, clarify)
  fix k l assume s: "book_inv s" and "(k, l) \<in> set (liquidities s)" "\<not> prefix (key_string d) k"
  then have "kv_get (liquidities s) k = Some l"
    using book_invD(1) [OF s] by (simp add: kv_get_def kv_wf_def)
  with \<open>\<not> prefix (key_string d) k\<close> show "by_owner d a l = 0"
    using book_invD(3) [OF s, of k l] by (auto simp: by_owner_def lq_key_def prefix_key_denom_index)
qed

lemma amount_in_entries: "book_inv s \<Longrightarrow> sum_list (map (amount_in d) (liquidity_entries s d)) = liq_sum s d"
  unfolding liquidity_entries_def
proof (subst book_invD(5), assumption, rule kv_sum_vals, clarify)
  fix k l assume s: "book_inv s" and "(k, l) \<in> set (liquidities s)" "\<not> prefix (key_string d) k"
  then have "kv_get (liquidities s) k = Some l"
    using book_invD(1) [OF s] by (simp add: kv_get_def kv_wf_def)
  with \<open>\<not> prefix (key_string d) k\<close> show "amount_in d l = 0"
    using book_invD(3) [OF s, of k l] by (auto simp: amount_in_def lq_key_def prefix_key_denom_index)
qed

lemma second_entry_in: "second_entry a seen ls = Some l \<Longrightarrow> l \<in> set ls \<and> lq_address l = a"
  by (induction a seen ls rule: second_entry.induct) (auto split: if_splits)

lemma add_entry_inv:
  assumes s: "book_inv s" and sep: "denoms_separate (dparams s)"
    and d: "d \<in> set (denoms (dparams s))" and a: "0 \<le> amt" and n: "liquidity_next s < - 1"
  shows "book_inv (add_entry d addr amt s)"
    and "liq_sum (add_entry d addr amt s) d' = liq_sum s d' + (if d' = d then amt else 0)"
    and "liquidity_next (add_entry d addr amt s) = liquidity_next s \<or> liquidity_next (add_entry d addr amt s) = liquidity_next s + 1"
    and "provided (add_entry d addr amt s) d' a' = provided s d' a' + (if d' = d \<and> a' = addr then amt else 0)"
proof -
  consider (new) "second_entry addr False (liquidity_entries s d) = None"
    | (old) l where "second_entry addr False (liquidity_entries s d) = Some l" "l \<in> set (liquidity_entries s d)"
        "lq_address l = addr"
    using second_entry_in by (cases "second_entry addr False (liquidity_entries s d)") auto
  then have "book_inv (add_entry d addr amt s)
    \<and> (\<forall>d'. liq_sum (add_entry d addr amt s) d' = liq_sum s d' + (if d' = d then amt else 0))
    \<and> (liquidity_next (add_entry d addr amt s) = liquidity_next s \<or> liquidity_next (add_entry d addr amt s) = liquidity_next s + 1)
    \<and> (\<forall>d' a'. provided (add_entry d addr amt s) d' a' = provided s d' a' + (if d' = d \<and> a' = addr then amt else 0))"
  proof cases
    case new
    with set_liquidity_new_inv [OF s, of "\<lparr>lq_index = 0, lq_denom = d, lq_address = addr, lq_amount = amt\<rparr>"] d a n
    show ?thesis by (simp add: add_entry_def provided_def by_owner_def)
  next
    case (old l)
    note g = liquidity_entries_get [OF s old(2)]
    have "lq_denom l = d" using liquidity_entries_iff [OF s sep d] old(2) by simp
    with set_liquidity_old_inv [OF s, of "l\<lparr>lq_amount := lq_amount l + amt\<rparr>" l amt]
      set_liquidity_old_sum [OF s, of "l\<lparr>lq_amount := lq_amount l + amt\<rparr>" l] old(1,3) g a
    show ?thesis by (simp add: add_entry_def lq_key_def entry_ok_def provided_def by_owner_def)
  qed
  then show "book_inv (add_entry d addr amt s)"
    and "liq_sum (add_entry d addr amt s) d' = liq_sum s d' + (if d' = d then amt else 0)"
    and "liquidity_next (add_entry d addr amt s) = liquidity_next s \<or> liquidity_next (add_entry d addr amt s) = liquidity_next s + 1"
    and "provided (add_entry d addr amt s) d' a' = provided s d' a' + (if d' = d \<and> a' = addr then amt else 0)"
    by blast+
qed

end
