(* ===== verification/DexMsgs.thy ===== *)
theory DexMsgs
  imports DexBook
begin

text \<open>
  Adding and removing liquidity: the checks of \<open>keeper/validate.go\<close> and the operations of
  \<open>keeper/msg_server_add_liquidity.go\<close>, \<open>msg_server_remove_liquidity.go\<close> and
  \<open>msg_server_remove_all_liquidity.go\<close>, with the theorems that say what each moves.
\<close>

section \<open>Checks\<close>

definition check_spendable_coins :: "'b env \<Rightarrow> addr \<Rightarrow> denom \<Rightarrow> int \<Rightarrow> ('b, 'z) world_scheme \<Rightarrow> unit res" where
  "check_spendable_coins E a d amt s =
     (case map_of (bk_spendable E (bank s) a) d of
        None \<Rightarrow> Inl (DexE Dex_ErrNotEnoughFunds)
      | Some n \<Rightarrow> checkR (\<not> amt > n) (DexE Dex_ErrNotEnoughFunds))"

definition validate_msg :: "'b env \<Rightarrow> string \<Rightarrow> denom \<Rightarrow> int \<Rightarrow> ('b, 'z) denom_world_scheme \<Rightarrow> addr res" where
  "validate_msg E creator d amt s =
     bindR (checkR (amt > 0) (DexE Dex_ErrNegativeAmount)) (\<lambda>_.
     bindR (checkR (is_valid_denom (dparams s) d) (DexE Dex_ErrDenomNotFound)) (\<lambda>_.
     bindR (of_option (DexE Dex_ErrInvalidAddress) (acc_of E creator)) (\<lambda>a.
     bindR (check_spendable_coins E a d amt s) (\<lambda>_. Inr a))))"

definition parse_amount :: "'b env \<Rightarrow> string \<Rightarrow> int res" where
  "parse_amount E str =
     bindR (of_option FmtError (parse_int E (filter (\<lambda>c. c \<noteq> CHR '','') str))) (\<lambda>n.
     bindR (checkR (\<not> n < 0) (DexE Dex_ErrNegativeAmount)) (\<lambda>_. Inr n))"

section \<open>Operations\<close>

definition add_liquidity :: "'b env \<Rightarrow> string \<Rightarrow> denom \<Rightarrow> string \<Rightarrow> (('b, 'z) dex_world_scheme, unit) cmd" where
  "add_liquidity E creator d amt_str s =
     bindS (parse_amount E amt_str, s) (\<lambda>amt s.
     bindS (validate_msg E creator d amt s, s) (\<lambda>a.
     keeper_add_liquidity E a d amt))"

text \<open>The loop of \<open>removeLiquidityForAddress\<close>: what is still to remove, and what has been removed.\<close>

fun remove_loop :: "denom \<Rightarrow> string \<Rightarrow> liquidity list \<Rightarrow> int \<Rightarrow> int \<Rightarrow> (('b, 'z) dex_world_scheme, int \<times> int) cmd" where
  "remove_loop d a [] amt removed s = (Inr (amt, removed), s)"
| "remove_loop d a (l # ls) amt removed s =
     bindS (if lq_address l = a \<and> lq_denom l = d then
              (if lq_amount l > amt then
                 (Inr (0, removed + amt), set_liquidity (l\<lparr>lq_amount := lq_amount l - amt\<rparr>) (- amt) s)
               else bindS (remove_liquidity (lq_denom l) (lq_index l) (lq_amount l) s) (\<lambda>_ s.
                    (Inr (amt - lq_amount l, removed + lq_amount l), s)))
            else (Inr (amt, removed), s)) (\<lambda>(amt, removed) s.
     if amt = 0 then (Inr (amt, removed), s) else remove_loop d a ls amt removed s)"

definition remove_entries_for_address :: "'b env \<Rightarrow> denom \<Rightarrow> string \<Rightarrow> int \<Rightarrow> (('b, 'z) dex_world_scheme, int) cmd" where
  "remove_entries_for_address E d a amt s =
     bindS (remove_loop d a (liquidity_entries s d) amt 0 s) (\<lambda>(amt, removed) s.
     bindS (checkR (\<not> amt > 0) (DexE Dex_ErrNotEnoughFunds), s) (\<lambda>_ s.
     bindS (update_pair_or_pairs E d s) (\<lambda>_ s. (Inr removed, s))))"

definition remove_liquidity_for_address :: "'b env \<Rightarrow> denom \<Rightarrow> addr \<Rightarrow> int \<Rightarrow> (('b, 'z) dex_world_scheme, unit) cmd" where
  "remove_liquidity_for_address E d a amt s =
     bindS (remove_entries_for_address E d (str_of E a) amt s) (\<lambda>removed.
     send_mod_acc E pool_liquidity a d removed)"

definition remove_liquidity_for_module :: "'b env \<Rightarrow> denom \<Rightarrow> string \<Rightarrow> int \<Rightarrow> (('b, 'z) dex_world_scheme, unit) cmd" where
  "remove_liquidity_for_module E d m amt s =
     bindS (remove_entries_for_address E d (str_of E (mod_addr E m)) amt s) (\<lambda>removed.
     send_mod_mod E pool_liquidity m d removed)"

definition remove_liquidity_msg :: "'b env \<Rightarrow> string \<Rightarrow> denom \<Rightarrow> string \<Rightarrow> (('b, 'z) dex_world_scheme, unit) cmd" where
  "remove_liquidity_msg E creator d amt_str s =
     bindS (parse_amount E amt_str, s) (\<lambda>amt s.
     bindS (validate_msg E creator d amt s, s) (\<lambda>a.
     remove_liquidity_for_address E d a amt))"

text \<open>The removal of every entry of an address.\<close>

definition remove_owned :: "denom \<Rightarrow> string \<Rightarrow> liquidity list \<Rightarrow> int \<Rightarrow> (('b, 'z) dex_world_scheme, int) cmd" where
  "remove_owned d a =
     foldS (\<lambda>l removed s.
       if lq_address l = a \<and> lq_denom l = d then
         bindS (remove_liquidity (lq_denom l) (lq_index l) (lq_amount l) s) (\<lambda>_ s. (Inr (removed + lq_amount l), s))
       else (Inr removed, s))"

definition remove_all_entries_for_address :: "'b env \<Rightarrow> denom \<Rightarrow> string \<Rightarrow> (('b, 'z) dex_world_scheme, int) cmd" where
  "remove_all_entries_for_address E d a s =
     bindS (remove_owned d a (liquidity_entries s d) 0 s) (\<lambda>removed s.
     bindS (update_pair_or_pairs E d s) (\<lambda>_ s. (Inr removed, s)))"

definition remove_all_liquidity_for_module :: "'b env \<Rightarrow> denom \<Rightarrow> string \<Rightarrow> (('b, 'z) dex_world_scheme, unit) cmd" where
  "remove_all_liquidity_for_module E d m s =
     bindS (remove_all_entries_for_address E d (str_of E (mod_addr E m)) s) (\<lambda>removed.
     send_mod_mod E pool_liquidity m d removed)"

definition remove_all_liquidity_for_denom :: "'b env \<Rightarrow> string \<Rightarrow> denom \<Rightarrow> (('b, 'z) dex_world_scheme, unit) cmd" where
  "remove_all_liquidity_for_denom E creator d s =
     bindS (of_option (DexE Dex_ErrInvalidAddress) (acc_of E creator), s) (\<lambda>a s.
     remove_liquidity_for_address E d a (get_liquidity_by_address s d creator) s)"

text \<open>The keeper's \<open>RemoveAllLiquidityForAddress\<close> pays from the account of the module itself.\<close>

definition remove_all_liquidity_for_address :: "'b env \<Rightarrow> string \<Rightarrow> denom \<Rightarrow> (('b, 'z) dex_world_scheme, unit) cmd" where
  "remove_all_liquidity_for_address E a d s =
     bindS (remove_owned d a (liquidity_entries s d) 0 s) (\<lambda>amt s.
     bindS (update_pair E d s) (\<lambda>_ s.
     bindS (of_option FmtError (acc_of E a), s) (\<lambda>addr.
     send_mod_acc E dex_module addr d amt)))"

section \<open>Lemmas\<close>

lemma foldl_sum_if:
  "foldl (\<lambda>sum l. if P l then sum + f l else sum) c xs = c + sum_list (map (\<lambda>l. if P l then f l else 0) xs)"
  for c :: int
  by (induction xs arbitrary: c) simp_all

lemma get_liquidity_by_address_provided:
  assumes "book_inv s" "denoms_separate (dparams s)" "d \<in> set (denoms (dparams s))"
  shows "get_liquidity_by_address s d a = provided s d a"
proof -
  have "sum_list (map (\<lambda>l. if lq_address l = a then lq_amount l else 0) (liquidity_entries s d))
      = sum_list (map (by_owner d a) (liquidity_entries s d))"
    using liquidity_entries_iff [OF assms] by (intro arg_cong [where f = sum_list]) (simp add: by_owner_def)
  then show ?thesis
    by (simp add: get_liquidity_by_address_def foldl_sum_if provided_entries [OF assms(1)])
qed

text \<open>An amount of one denomination is taken out of the entries: the sum falls by it, and nothing outside the book changes.\<close>

definition taken :: "denom \<Rightarrow> int \<Rightarrow> ('b, 'z) dex_world_scheme \<Rightarrow> ('b, 'z) dex_world_scheme \<Rightarrow> bool" where
  "taken d m s t \<longleftrightarrow> book_inv t \<and> book_only s t \<and> liquidity_next t = liquidity_next s
     \<and> length (liquidities t) \<le> length (liquidities s)
     \<and> (\<forall>d'. liq_sum t d' = liq_sum s d' - (if d' = d then m else 0))"

text \<open>The same, all of it from the entries of one address.\<close>

definition taken_from :: "denom \<Rightarrow> string \<Rightarrow> int \<Rightarrow> ('b, 'z) dex_world_scheme \<Rightarrow> ('b, 'z) dex_world_scheme \<Rightarrow> bool" where
  "taken_from d a m s t \<longleftrightarrow> taken d m s t
     \<and> (\<forall>d' a'. provided t d' a' = provided s d' a' - (if d' = d \<and> a' = a then m else 0))"

lemma takenD:
  assumes "taken d m s t"
  shows "book_inv t" "book_only s t" "liquidity_next t = liquidity_next s" "length (liquidities t) \<le> length (liquidities s)"
    "liq_sum t d' = liq_sum s d' - (if d' = d then m else 0)"
  using assms by (simp_all add: taken_def)

lemma taken_from_refl: "book_inv s \<Longrightarrow> taken_from d a 0 s s"
  by (simp add: taken_from_def taken_def)

lemma taken_trans: "taken d m s t \<Longrightarrow> taken d n t u \<Longrightarrow> taken d (m + n) s u"
  using book_only_trans [of s t u] by (auto simp: taken_def)

lemma taken_from_trans: "taken_from d a m s t \<Longrightarrow> taken_from d a n t u \<Longrightarrow> taken_from d a (m + n) s u"
  using taken_trans [of d m s t n u] by (auto simp: taken_from_def)

lemma taken_part:
  assumes "book_inv s" "kv_get (liquidities s) (lq_key l) = Some l" "n \<le> lq_amount l"
  shows "taken_from (lq_denom l) (lq_address l) n s (set_liquidity (l\<lparr>lq_amount := lq_amount l - n\<rparr>) (- n) s)"
proof -
  let ?l = "l\<lparr>lq_amount := lq_amount l - n\<rparr>"
  have k: "lq_key ?l = lq_key l" by (simp add: lq_key_def)
  have i: "lq_index l \<noteq> 0" using book_invD(4) [OF assms(1,2)] by (simp add: entry_ok_def)
  note 1 = set_liquidity_old_inv [of s ?l l "- n", simplified k, OF assms(1)]
    and 2 = set_liquidity_old_sum [of s ?l l, simplified k, OF assms(1)]
  have "length (liquidities (set_liquidity ?l (- n) s)) = length (liquidities s)"
    using i assms(2) book_invD(1) [OF assms(1)] k by (simp add: set_liquidity_old length_kv_put_old)
  moreover have "by_owner d' a' ?l = by_owner d' a' l - (if d' = lq_denom l \<and> a' = lq_address l then n else 0)" for d' a'
    by (auto simp: by_owner_def)
  ultimately show ?thesis
    using 1(1-3) 2 i assms(2,3) by (auto simp: taken_from_def taken_def provided_def)
qed

lemma taken_all:
  assumes "book_inv s" "kv_get (liquidities s) (lq_key l) = Some l"
  shows "\<exists>t. remove_liquidity (lq_denom l) (lq_index l) (lq_amount l) s = (Inr (), t)
    \<and> taken_from (lq_denom l) (lq_address l) (lq_amount l) s t \<and> (\<forall>xs. pending (l # xs) s \<longrightarrow> pending xs t)"
proof -
  note 1 = remove_liquidity_inv [OF assms] and 2 = remove_liquidity_sum [OF assms]
  obtain t where t: "remove_liquidity (lq_denom l) (lq_index l) (lq_amount l) s = (Inr (), t)"
    using 1(1) by (cases "remove_liquidity (lq_denom l) (lq_index l) (lq_amount l) s") auto
  have "length (liquidities t) \<le> length (liquidities s)"
    using t by (auto simp: remove_liquidity_def bindS_Inr_iff length_kv_del)
  then show ?thesis
    using 1 2 t remove_liquidity_only [of s "lq_denom l" "lq_index l" "lq_amount l"]
    by (auto simp: taken_from_def taken_def provided_def by_owner_def)
qed

lemma pending_nonneg:
  assumes "book_inv s" "pending ls s"
  shows "\<forall>l \<in> set ls. 0 \<le> lq_amount l"
  using assms book_invD(4) by (fastforce simp: pending_def entry_ok_def)

text \<open>
  The removal loop never fails; it takes as much as the remaining entries of the address hold, up to the
  amount, and lowers the sum and the address's own liquidity by exactly that.
\<close>

lemma remove_loop_spec:
  assumes "book_inv s" "pending ls s" "0 \<le> amt" "m = min amt (sum_list (map (by_owner d a) ls))"
  shows "\<exists>t. remove_loop d a ls amt removed s = (Inr (amt - m, removed + m), t) \<and> taken_from d a m s t"
  using assms
proof (induction ls arbitrary: amt removed s m)
  case Nil
  then show ?case by (simp add: taken_from_refl)
next
  case (Cons l ls)
  have g: "kv_get (liquidities s) (lq_key l) = Some l" and p: "pending ls s" using Cons.prems(2) by (simp_all add: pending_def)
  have ok: "0 \<le> lq_amount l" "0 \<le> sum_list (map (by_owner d a) ls)"
    using pending_nonneg [OF Cons.prems(1,2)] by (auto simp: by_owner_def intro!: sum_list_nonneg)
  consider "lq_address l \<noteq> a \<or> lq_denom l \<noteq> d" | "lq_address l = a" "lq_denom l = d" "lq_amount l > amt"
    | "lq_address l = a" "lq_denom l = d" "lq_amount l \<le> amt" by fastforce
  then show ?case
  proof cases
    case 1
    then have "by_owner d a l = 0" by (auto simp: by_owner_def)
    with 1 Cons.prems ok Cons.IH [OF Cons.prems(1) p Cons.prems(3), of m removed] show ?thesis
      by (auto simp: taken_from_refl)
  next
    case 2
    then have "by_owner d a l = lq_amount l" by (simp add: by_owner_def)
    with 2 Cons.prems(3,4) ok have "m = amt" by simp
    with 2 taken_part [OF Cons.prems(1) g, of amt] show ?thesis by auto
  next
    case 3
    let ?n = "m - lq_amount l"
    obtain t where t: "remove_liquidity d (lq_index l) (lq_amount l) s = (Inr (), t)"
      "taken_from d a (lq_amount l) s t" "pending ls t"
      using taken_all [OF Cons.prems(1) g] Cons.prems(2) 3 by auto
    have n: "?n = min (amt - lq_amount l) (sum_list (map (by_owner d a) ls))" "0 \<le> amt - lq_amount l"
      using 3 Cons.prems(4) by_owner_def [of d a l] by simp_all
    obtain u where u: "remove_loop d a ls (amt - lq_amount l) (removed + lq_amount l) t = (Inr (amt - m, removed + m), u)"
      "taken_from d a ?n t u"
      using Cons.IH [OF _ t(3) n(2) n(1), of "removed + lq_amount l"] t(2) by (auto simp: taken_from_def taken_def)
    show ?thesis
    proof (cases "amt = lq_amount l")
      case True
      with n ok(2) have "m = amt" by simp
      with True 3 t show ?thesis by simp
    next
      case False
      with 3 t(1) u(1) taken_from_trans [OF t(2) u(2)] show ?thesis by simp
    qed
  qed
qed

lemma liq_sum_provided_cong:
  "liquidities t = liquidities s \<Longrightarrow> provided t d a = provided s d a"
  by (simp add: provided_def)

lemma remove_entries_ok:
  assumes s: "book_inv s" and amt: "0 \<le> amt"
    and r: "remove_entries_for_address E d a amt s = (Inr removed, t)"
  shows "removed = amt" "amt \<le> provided s d a" "book_inv t" "bank t = bank s" "dparams t = dparams s"
    "liq_sum t d' = liq_sum s d' - (if d' = d then amt else 0)"
    "provided t d' a' = provided s d' a' - (if d' = d \<and> a' = a then amt else 0)"
    "orders t = orders s" "trade_amounts t = trade_amounts s" "order_next t = order_next s" "xparams t = xparams s"
    "height t = height s" "dex_world.more t = dex_world.more s"
proof -
  let ?R = "remove_loop d a (liquidity_entries s d) amt 0 s"
  let ?m = "min amt (sum_list (map (by_owner d a) (liquidity_entries s d)))"
  obtain v where v: "?R = (Inr (amt - ?m, ?m), v)" "taken_from d a ?m s v"
    using remove_loop_spec [OF s pending_entries [OF s] amt refl, of d a d 0] by auto
  from v(2) have spec: "taken d ?m s v" "provided v d' a' = provided s d' a' - (if d' = d \<and> a' = a then ?m else 0)" for d' a'
    by (simp_all add: taken_from_def)
  from r v(1) obtain w where m: "\<not> amt - ?m > 0" and u: "update_pair_or_pairs E d v = (Inr w, t)" and rem: "removed = ?m"
    by (auto simp: remove_entries_for_address_def bindS_Inr_iff)
  then have "?m = amt" by auto
  with rem provided_entries [OF s] show "removed = amt" "amt \<le> provided s d a" by auto
  have p: "pairs_only v t" using update_pair_or_pairs_only [of v E d] u by simp
  note tk = takenD [OF spec(1)] and b = book_onlyD [OF takenD(2) [OF spec(1)]]
  show "book_inv t" using pairs_only_book [OF p] tk(1) by simp
  show "bank t = bank s" "dparams t = dparams s" "orders t = orders s" "trade_amounts t = trade_amounts s"
    "order_next t = order_next s" "xparams t = xparams s" "height t = height s" "dex_world.more t = dex_world.more s"
    using b pairs_onlyD [OF p] by simp_all
  show "liq_sum t d' = liq_sum s d' - (if d' = d then amt else 0)"
    using tk(5) pairs_only_sum [OF p] \<open>?m = amt\<close> by simp
  show "provided t d' a' = provided s d' a' - (if d' = d \<and> a' = a then amt else 0)"
    using spec(2) liq_sum_provided_cong [OF pairs_onlyD(5) [OF p]] \<open>?m = amt\<close> by simp
qed

text \<open>What a transfer between an address and the pool of liquidity does to the balances.\<close>

definition pool_move :: "'b env \<Rightarrow> addr \<Rightarrow> denom \<Rightarrow> int \<Rightarrow> 'b \<Rightarrow> 'b \<Rightarrow> bool" where
  "pool_move E a d n b b' \<longleftrightarrow>
     (\<forall>x d'. bal E b' x d' = bal E b x d' - (if x = a \<and> d' = d then n else 0)
                                        + (if x = mod_addr E pool_liquidity \<and> d' = d then n else 0))"

lemma keeper_add_liquidity_ok:
  assumes "sdk E" "book_inv s" "denoms_separate (dparams s)" "liquidity_next s < - 1"
    and r: "keeper_add_liquidity E a d amt s = (Inr u, t)"
  shows "0 \<le> amt" "d \<in> set (denoms (dparams s))" "book_inv t" "dparams t = dparams s"
    "liq_sum t d' = liq_sum s d' + (if d' = d then amt else 0)"
    "provided t d' a' = provided s d' a' + (if d' = d \<and> a' = str_of E a then amt else 0)"
    "pool_move E a d amt (bank s) (bank t)" "bk_supply E (bank t) d' = bk_supply E (bank s) d'"
    "orders t = orders s" "trade_amounts t = trade_amounts s"
proof -
  from r obtain v where d: "is_valid_denom (dparams s) d" and v: "send_acc_mod E a pool_liquidity d amt s = (Inr (), v)"
    and u: "update_pair_or_pairs E d (add_entry d (str_of E a) amt v) = (Inr (), t)"
    by (auto simp: keeper_add_liquidity_def bindS_Inr_iff)
  note c = sdk.send_acc_mod_ok [OF assms(1) v]
  show amt: "0 \<le> amt" by (rule c)
  show d': "d \<in> set (denoms (dparams s))" using d by (simp add: is_valid_denom_def)
  have f: "dparams v = dparams s" "liquidities v = liquidities s" "liquidity_next v = liquidity_next s"
    "liquidity_sums v = liquidity_sums s" "orders v = orders s" "trade_amounts v = trade_amounts s"
    by (simp_all add: bank_onlyD [OF c(4)])
  have bv: "book_inv v" using assms(2) book_inv_cong [OF f(2,4,3,1)] by simp
  note e = add_entry_inv [OF bv assms(3) [folded f(1)] d' [folded f(1)] amt assms(4) [folded f(3)]]
  let ?w = "add_entry d (str_of E a) amt v"
  have p: "pairs_only ?w t" using update_pair_or_pairs_only [of ?w E d] u by simp
  note o = book_onlyD [OF add_entry_only [of v d "str_of E a" amt]] and q = pairs_onlyD [OF p]
  show "book_inv t" using pairs_only_book [OF p] e(1) by simp
  show "dparams t = dparams s" "orders t = orders s" "trade_amounts t = trade_amounts s" by (simp_all add: q o f)
  show "liq_sum t d' = liq_sum s d' + (if d' = d then amt else 0)"
    using pairs_only_sum [OF p] e(2) liq_sum_cong [OF f(4)] by simp
  show "provided t d' a' = provided s d' a' + (if d' = d \<and> a' = str_of E a then amt else 0)"
    using liq_sum_provided_cong [OF q(5)] e(4) liq_sum_provided_cong [OF f(2)] by simp
  show "pool_move E a d amt (bank s) (bank t)" using c(2) by (simp add: pool_move_def q o)
  show "bk_supply E (bank t) d' = bk_supply E (bank s) d'" using c(3) by (simp add: q o)
qed

lemma add_liquidity_ok:
  assumes "sdk E" "book_inv s" "denoms_separate (dparams s)" "liquidity_next s < - 1"
    and "add_liquidity E creator d amt_str s = (Inr (), t)"
  shows "\<exists>amt a. parse_amount E amt_str = Inr amt \<and> 0 < amt \<and> acc_of E creator = Some a \<and> book_inv t
    \<and> (\<forall>d'. liq_sum t d' = liq_sum s d' + (if d' = d then amt else 0))
    \<and> (\<forall>d' a'. provided t d' a' = provided s d' a' + (if d' = d \<and> a' = str_of E a then amt else 0))
    \<and> pool_move E a d amt (bank s) (bank t)"
proof -
  from assms(5) obtain amt a where p: "parse_amount E amt_str = Inr amt" "validate_msg E creator d amt s = Inr a"
    and k: "keeper_add_liquidity E a d amt s = (Inr (), t)"
    by (auto simp: add_liquidity_def bindS_Inr_iff)
  from p(2) have "0 < amt" "acc_of E creator = Some a" by (auto simp: validate_msg_def bindR_Inr_iff)
  with p(1) keeper_add_liquidity_ok [OF assms(1-4) k] show ?thesis
    by (intro exI [of _ amt] exI [of _ a]) simp
qed

section \<open>An example chain\<close>

text \<open>A fresh chain on which alice and carol hold the base currency and bob a stable coin.\<close>

definition dex_env :: "ledger env" where
  "dex_env = ledger_env [''ukopi'', ''uwusdc'', ''ukusd'']"

definition dex_denoms_example :: denom_params where
  "dex_denoms_example = \<lparr>dex_denoms = [\<lparr>dd_name = ''ukopi'', dd_factor = None, dd_min_liquidity = Some 10000\<rparr>,
       \<lparr>dd_name = ''uwusdc'', dd_factor = Some (dec_prec 1 1), dd_min_liquidity = Some 1000\<rparr>,
       \<lparr>dd_name = ''ukusd'', dd_factor = Some (dec_prec 1 1), dd_min_liquidity = Some 1000\<rparr>],
     kcoins = [\<lparr>kc_denom = ''ukusd'', kc_references = [''uwusdc''], kc_max_supply = Some 1000000,
       kc_max_mint = Some 1000, kc_max_burn = Some 1000\<rparr>],
     cassets = [], collateral_denoms = []\<rparr>"

definition dex_start :: "ledger dex_world" where
  "dex_start = \<lparr>bank = \<lparr>bals = [((''alice'', ''ukopi''), 500000), ((''bob'', ''uwusdc''), 50000), ((''carol'', ''ukopi''), 5000)],
       tot = [(''ukopi'', 505000), (''uwusdc'', 50000)]\<rparr>,
     height = 1, dparams = dex_denoms_example, xparams = default_dex_params,
     liquidities = [], liquidity_next = 0, liquidity_sums = [], liquidity_pairs = [], liquidity_pair_count = 0,
     ratios = [], trade_amounts = [], orders = [], order_next = 0\<rparr>"

text \<open>The chain after alice has added 100000 ukopi and bob 10000 uwusdc.\<close>

definition dex_base :: "ledger dex_world" where
  "dex_base = snd (add_liquidity dex_env ''alice'' ''ukopi'' ''100,000'' dex_start)"

definition dex_pool :: "ledger dex_world" where
  "dex_pool = snd (add_liquidity dex_env ''bob'' ''uwusdc'' ''10000'' dex_base)"

lemma sdk_dex_env: "sdk dex_env"
  unfolding dex_env_def by (rule led.sdk_axioms)

lemma dex_example_runs:
  "fst (add_liquidity dex_env ''alice'' ''ukopi'' ''100,000'' dex_start) = Inr ()"
  "fst (add_liquidity dex_env ''bob'' ''uwusdc'' ''10000'' dex_base) = Inr ()"
  "fst (remove_liquidity_msg dex_env ''bob'' ''uwusdc'' ''4000'' dex_pool) = Inr ()"
  by code_simp+

lemma dex_example_steps:
  "add_liquidity dex_env ''alice'' ''ukopi'' ''100,000'' dex_start = (Inr (), dex_base)"
  "add_liquidity dex_env ''bob'' ''uwusdc'' ''10000'' dex_base = (Inr (), dex_pool)"
  "remove_liquidity_msg dex_env ''bob'' ''uwusdc'' ''4000'' dex_pool
     = (Inr (), snd (remove_liquidity_msg dex_env ''bob'' ''uwusdc'' ''4000'' dex_pool))"
  using dex_example_runs by (simp_all add: prod_eq_iff dex_base_def dex_pool_def)

text \<open>Its state in full, from which later examples are evaluated.\<close>

lemma dex_pool_value: "dex_pool =
  \<lparr>bank =
      \<lparr>bals =
         [((''#pool_liquidity'', ''uwusdc''), 10000),
          ((''bob'', ''uwusdc''), 40000),
          ((''#pool_liquidity'', ''ukopi''), 100000),
          ((''alice'', ''ukopi''), 400000), ((''carol'', ''ukopi''), 5000)],
         tot = [(''ukopi'', 505000), (''uwusdc'', 50000)]\<rparr>,
      height = 1,
      dparams =
        \<lparr>dex_denoms =
           [\<lparr>dd_name = ''ukopi'', dd_factor = None,
               dd_min_liquidity = Some 10000\<rparr>,
            \<lparr>dd_name = ''uwusdc'', dd_factor = Some 100000000000000000,
               dd_min_liquidity = Some 1000\<rparr>,
            \<lparr>dd_name = ''ukusd'', dd_factor = Some 100000000000000000,
               dd_min_liquidity = Some 1000\<rparr>],
           kcoins =
             [\<lparr>kc_denom = ''ukusd'', kc_references = [''uwusdc''],
                 kc_max_supply = Some 1000000, kc_max_mint = Some 1000,
                 kc_max_burn = Some 1000\<rparr>],
           cassets = [], collateral_denoms = []\<rparr>,
      xparams =
        \<lparr>trade_fee = 1000000000000000, reserve_share = 500000000000000000,
           virtual_liquidity_decay = 999997000000000000,
           fee_reimbursement = 500000000000000000,
           trade_amount_decay = 950000000000000000,
           discount_levels =
             [\<lparr>dl_trade_amount = Some 1000000000000000000000000,
                 dl_discount = Some 10000000000000000\<rparr>,
              \<lparr>dl_trade_amount = Some 10000000000000000000000000,
                 dl_discount = Some 100000000000000000\<rparr>],
           max_order_life = 604800\<rparr>,
      liquidities =
        [(''ukopi/1/'',
          \<lparr>lq_index = 1, lq_denom = ''ukopi'', lq_address = ''alice'',
             lq_amount = 100000\<rparr>),
         (''uwusdc/2/'',
          \<lparr>lq_index = 2, lq_denom = ''uwusdc'', lq_address = ''bob'',
             lq_amount = 10000\<rparr>)],
      liquidity_next = 2,
      liquidity_sums =
        [(''ukopi/'', \<lparr>ls_denom = ''ukopi'', ls_amount = 100000\<rparr>),
         (''uwusdc/'', \<lparr>ls_denom = ''uwusdc'', ls_amount = 10000\<rparr>)],
      liquidity_pairs =
        [(''ukusd/'',
          \<lparr>lp_denom = ''ukusd'', lp_base = 0,
             lp_other = 10000000000000000000000\<rparr>),
         (''uwusdc/'', \<lparr>lp_denom = ''uwusdc'', lp_base = 0, lp_other = 0\<rparr>)],
      liquidity_pair_count = 0,
      ratios =
        [(''ukusd/'',
          \<lparr>ra_denom = ''ukusd'', ra_ratio = Some 100000000000000000\<rparr>),
         (''uwusdc/'',
          \<lparr>ra_denom = ''uwusdc'', ra_ratio = Some 100000000000000000\<rparr>)],
      trade_amounts = [], orders = [], order_next = 0\<rparr>"
  by code_simp

declare dex_pool_value [code]

lemma dex_example_conds:
  "denoms_separate (dparams dex_start)" "liquidity_next dex_start < - 1"
  "denoms_separate (dparams dex_base)" "liquidity_next dex_base < - 1"
  by code_simp+

lemma dex_example_inv: "book_inv dex_start" "book_inv dex_base" "book_inv dex_pool"
proof -
  show 1: "book_inv dex_start"
    by (simp add: book_inv_def dex_start_def kv_wf_def get_liquidity_sum_def)
  show 2: "book_inv dex_base"
    using add_liquidity_ok [OF sdk_dex_env 1 _ _ dex_example_steps(1)] dex_example_conds by blast
  show "book_inv dex_pool"
    using add_liquidity_ok [OF sdk_dex_env 2 _ _ dex_example_steps(2)] dex_example_conds by blast
qed

section \<open>Properties\<close>

text \<open>
  C7. Adding liquidity: an accepted \<open>AddLiquidity\<close> moves exactly the given amount from the sender
  to the pool, raises the sender's liquidity and the stored sum of the denomination by it and nothing else, and keeps
  the book consistent. So the pool keeps backing the sums.
\<close>

theorem add_liquidity_spec:
  assumes "sdk E" "book_inv s" "denoms_separate (dparams s)" "liquidity_next s < - 1"
    and "add_liquidity E creator d amt_str s = (Inr (), t)"
  shows "\<exists>amt a. parse_amount E amt_str = Inr amt \<and> 0 < amt \<and> acc_of E creator = Some a \<and> book_inv t
    \<and> (\<forall>d'. liq_sum t d' = liq_sum s d' + (if d' = d then amt else 0))
    \<and> (\<forall>d' a'. provided t d' a' = provided s d' a' + (if d' = d \<and> a' = str_of E a then amt else 0))
    \<and> pool_move E a d amt (bank s) (bank t)"
  using assms by (rule add_liquidity_ok)

theorem add_liquidity_spec_witness:
  "\<exists>amt. parse_amount dex_env ''10000'' = Inr amt \<and> liq_sum dex_pool ''uwusdc'' = liq_sum dex_base ''uwusdc'' + amt"
  using add_liquidity_spec [OF sdk_dex_env dex_example_inv(2) _ _ dex_example_steps(2)] dex_example_conds by auto

text \<open>
  C8. Removing liquidity: an accepted \<open>RemoveLiquidity\<close> pays exactly the requested amount from the
  pool to the sender, who must have provided at least as much; the sender's liquidity and the stored sum
  fall by it, everyone else's liquidity is unchanged, and the book stays consistent.
\<close>

theorem remove_liquidity_spec:
  assumes "sdk E" "book_inv s" "remove_liquidity_msg E creator d amt_str s = (Inr (), t)"
  shows "\<exists>amt a. parse_amount E amt_str = Inr amt \<and> 0 < amt \<and> acc_of E creator = Some a
    \<and> amt \<le> provided s d (str_of E a) \<and> book_inv t
    \<and> (\<forall>d'. liq_sum t d' = liq_sum s d' - (if d' = d then amt else 0))
    \<and> (\<forall>d' a'. provided t d' a' = provided s d' a' - (if d' = d \<and> a' = str_of E a then amt else 0))
    \<and> pool_move E a d (- amt) (bank s) (bank t)"
proof -
  from assms(3) obtain amt a removed v where p: "parse_amount E amt_str = Inr amt" "validate_msg E creator d amt s = Inr a"
    and k: "remove_entries_for_address E d (str_of E a) amt s = (Inr removed, v)"
    and b: "send_mod_acc E pool_liquidity a d removed v = (Inr (), t)"
    by (auto simp: remove_liquidity_msg_def remove_liquidity_for_address_def bindS_Inr_iff)
  from p(2) have amt: "0 < amt" "acc_of E creator = Some a" by (auto simp: validate_msg_def bindR_Inr_iff)
  note e = remove_entries_ok [OF assms(2) less_imp_le [OF amt(1)] k]
  note c = sdk.send_mod_acc_ok [OF assms(1) b]
  have f: "dparams t = dparams v" "liquidities t = liquidities v" "liquidity_next t = liquidity_next v"
    "liquidity_sums t = liquidity_sums v"
    by (simp_all add: bank_onlyD [OF c(4)])
  have "book_inv t" using e(3) book_inv_cong [OF f(2,4,3,1)] by simp
  moreover have "liq_sum t d' = liq_sum s d' - (if d' = d then amt else 0)" for d'
    using e(6) liq_sum_cong [OF f(4)] by simp
  moreover have "provided t d' a' = provided s d' a' - (if d' = d \<and> a' = str_of E a then amt else 0)" for d' a'
    using e(7) liq_sum_provided_cong [OF f(2)] by simp
  moreover have "pool_move E a d (- amt) (bank s) (bank t)"
    using c(2) by (simp add: pool_move_def e(1,4))
  ultimately show ?thesis
    using p(1) amt e(2) by (intro exI [of _ amt] exI [of _ a]) simp
qed

theorem remove_liquidity_spec_witness:
  "\<exists>amt. parse_amount dex_env ''4000'' = Inr amt
    \<and> liq_sum (snd (remove_liquidity_msg dex_env ''bob'' ''uwusdc'' ''4000'' dex_pool)) ''uwusdc'' = liq_sum dex_pool ''uwusdc'' - amt"
  using remove_liquidity_spec [OF sdk_dex_env dex_example_inv(3) dex_example_steps(3)] by auto

text \<open>Governance can change the trade fee of the example chain, and nobody else can.\<close>

theorem dex_param_messages_witness:
  "snd (dex_param_handle dex_env (''bob'', MsgUpdateTradeFee ''0.002'') dex_start) = dex_start
   \<and> wf_dex_params (xparams (snd (dex_param_handle dex_env (''gov'', MsgUpdateTradeFee ''0.002'') dex_start)))"
proof -
  have r: "fst (dex_param_handle dex_env (''bob'', MsgUpdateTradeFee ''0.002'') dex_start) = Inl (DexE Dex_ErrInvalidSigner)"
    "fst (dex_param_handle dex_env (''gov'', MsgUpdateTradeFee ''0.002'') dex_start) = Inr ()"
    by code_simp+
  obtain t u where tu: "dex_param_handle dex_env (''bob'', MsgUpdateTradeFee ''0.002'') dex_start = (Inl (DexE Dex_ErrInvalidSigner), t)"
    "dex_param_handle dex_env (''gov'', MsgUpdateTradeFee ''0.002'') dex_start = (Inr (), u)"
    using r by (metis prod.collapse)
  from dex_param_messages [where E = dex_env and signer = "''bob''" and m = "MsgUpdateTradeFee ''0.002''" and s = dex_start, unfolded tu(1)]
    dex_param_messages [where E = dex_env and signer = "''gov''" and m = "MsgUpdateTradeFee ''0.002''" and s = dex_start, unfolded tu(2)]
  show ?thesis unfolding tu by simp
qed

end
