(* ===== verification/DexTrade.thy ===== *)
theory DexTrade
  imports DexMsgs
begin

text \<open>
  Trading on \<open>x/dex\<close>: the price curves (\<open>keeper/constant_product.go\<close>), the traded volume of each wallet
  and the discount it earns (\<open>trade_amount.go\<close>), the fee (\<open>msg_server_trade.go\<close>), the use of the liquidity
  entries (\<open>liquidity_providers.go\<close>) and the execution and simulation of trades (\<open>trade.go\<close>), and the
  parity of a kCoin (\<open>parity.go\<close>). Every trade runs in two steps, to and from the base currency.
\<close>

section \<open>Price curves\<close>

datatype trade_calculation = ConstantProduct | FlatPrice

definition constant_product_forward :: "'b env \<Rightarrow> dec \<Rightarrow> dec \<Rightarrow> dec \<Rightarrow> int res" where
  "constant_product_forward E pool_from pool_to offer =
     (let k = dmul E pool_from pool_to in
      bindR (quoR E k (pool_from + offer)) (\<lambda>q. Inr (dtrunc E (pool_to - q))))"

definition constant_product_backward :: "'b env \<Rightarrow> dec \<Rightarrow> dec \<Rightarrow> dec \<Rightarrow> int res" where
  "constant_product_backward E pool_from pool_to result =
     (let k = dmul E pool_from pool_to in
      bindR (quoR E k (pool_to - result)) (\<lambda>q. Inr (dtrunc E (q - pool_from))))"

definition flat_price_forward :: "'b env \<Rightarrow> dec \<Rightarrow> int res" where
  "flat_price_forward E offer = Inr (dround E offer)"

definition flat_price_backward :: "'b env \<Rightarrow> dec \<Rightarrow> int res" where
  "flat_price_backward E result = Inr (dround E result)"

text \<open>The methods of the interface \<open>TradeCalculation\<close>.\<close>

fun trade_forward :: "'b env \<Rightarrow> trade_calculation \<Rightarrow> dec \<Rightarrow> dec \<Rightarrow> dec \<Rightarrow> int res" where
  "trade_forward E ConstantProduct pf pt offer = constant_product_forward E pf pt offer"
| "trade_forward E FlatPrice pf pt offer = flat_price_forward E offer"

fun trade_backward :: "'b env \<Rightarrow> trade_calculation \<Rightarrow> dec \<Rightarrow> dec \<Rightarrow> dec \<Rightarrow> int res" where
  "trade_backward E ConstantProduct pf pt result = constant_product_backward E pf pt result"
| "trade_backward E FlatPrice pf pt result = flat_price_backward E result"

definition constant_product_trade :: "'b env \<Rightarrow> dec \<Rightarrow> dec \<Rightarrow> dec \<Rightarrow> dec res" where
  "constant_product_trade E pool_from pool_to offer =
     (let k = dmul E pool_from pool_to in
      bindR (quoR E k (pool_from + offer)) (\<lambda>q. Inr (pool_to - q)))"

definition keeper_constant_product_trade :: "'b env \<Rightarrow> ('b, 'z) dex_world_scheme \<Rightarrow> denom \<Rightarrow> denom \<Rightarrow> dec \<Rightarrow> dec res" where
  "keeper_constant_product_trade E s from to offer =
     bindR (full_liquidity_base_other s from to) (\<lambda>(pf, pt). constant_product_trade E pf pt offer)"

section \<open>Traded volume and discounts\<close>

definition set_trade_amount :: "wallet_trade_amount \<Rightarrow> ('b, 'z) dex_world_scheme \<Rightarrow> ('b, 'z) dex_world_scheme" where
  "set_trade_amount x s = s\<lparr>trade_amounts := kv_put (key_string (wt_address x)) x (trade_amounts s)\<rparr>"

definition get_trade_amount :: "('b, 'z) dex_world_scheme \<Rightarrow> string \<Rightarrow> wallet_trade_amount" where
  "get_trade_amount s a =
     (case kv_get (trade_amounts s) (key_string a) of
        None \<Rightarrow> \<lparr>wt_address = a, wt_amount = 0\<rparr> | Some x \<Rightarrow> x)"

definition add_trade_amount :: "string \<Rightarrow> int \<Rightarrow> ('b, 'z) dex_world_scheme \<Rightarrow> ('b, 'z) dex_world_scheme" where
  "add_trade_amount a n s =
     (let x = get_trade_amount s a in set_trade_amount (x\<lparr>wt_amount := wt_amount x + to_dec n\<rparr>) s)"

definition remove_trade_amount :: "wallet_trade_amount \<Rightarrow> ('b, 'z) dex_world_scheme \<Rightarrow> ('b, 'z) dex_world_scheme" where
  "remove_trade_amount x s = s\<lparr>trade_amounts := kv_del (key_string (wt_address x)) (trade_amounts s)\<rparr>"

definition trade_amount_decay_all :: "'b env \<Rightarrow> ('b, 'z) dex_world_scheme \<Rightarrow> ('b, 'z) dex_world_scheme" where
  "trade_amount_decay_all E s =
     (let decay = trade_amount_decay (xparams s) in
      foldl (\<lambda>s x. let x = x\<lparr>wt_amount := dmul E (wt_amount x) decay\<rparr> in
                   if wt_amount x < to_dec 1000000 then remove_trade_amount x s else set_trade_amount x s)
        s (kv_vals [] (trade_amounts s)))"

text \<open>The loop over the discount levels: the threshold and discount of the best level so far.\<close>

definition best_discount :: "dec \<Rightarrow> discount_level list \<Rightarrow> (dec \<times> dec option) res" where
  "best_discount amount ls =
     foldR (\<lambda>l (threshold, discount).
       bindR (nilR (dl_trade_amount l)) (\<lambda>a.
       Inr (if a \<ge> threshold \<and> amount \<ge> a then (a, dl_discount l) else (threshold, discount)))) ls (0, Some 0)"

definition get_trade_discount :: "('b, 'z) dex_world_scheme \<Rightarrow> string \<Rightarrow> bool \<Rightarrow> dec option res" where
  "get_trade_discount s a exclude =
     (if exclude then Inr (Some 0)
      else if a = [] then Inr (Some 0)
      else let x = get_trade_amount s a in
        if wt_amount x = 0 then Inr (Some 0)
        else bindR (best_discount (wt_amount x) (discount_levels (xparams s))) (\<lambda>(_, discount). Inr discount))"

definition get_trade_fee :: "'b env \<Rightarrow> ('b, 'z) dex_world_scheme \<Rightarrow> denom \<Rightarrow> denom \<Rightarrow> string \<Rightarrow> bool \<Rightarrow> dec res" where
  "get_trade_fee E s from to a exclude =
     bindR (if from \<noteq> base_currency \<and> to \<noteq> base_currency
            then quoR E (trade_fee (xparams s)) (to_dec 2) else Inr (trade_fee (xparams s))) (\<lambda>fee.
     bindR (bindR (get_trade_discount s a exclude) nilR) (\<lambda>discount.
     Inr (dmul E fee (dec_one - discount))))"

definition get_reserve_fee_share :: "('b, 'z) dex_world_scheme \<Rightarrow> dec" where
  "get_reserve_fee_share s = reserve_share (xparams s)"

definition get_provider_fee :: "'b env \<Rightarrow> ('b, 'z) dex_world_scheme \<Rightarrow> dec" where
  "get_provider_fee E s = dmul E (trade_fee (xparams s)) (get_reserve_fee_share s)"

definition add_provider_fee :: "'b env \<Rightarrow> ('b, 'z) dex_world_scheme \<Rightarrow> dec \<Rightarrow> dec \<Rightarrow> dec res" where
  "add_provider_fee E s amount fee =
     (let share = dec_one - get_reserve_fee_share s in
      quoR E amount (dec_one - dmul E fee share))"

text \<open>The fee on an amount: what the trader pays, the reserve's part and the liquidity providers'.\<close>

definition manage_fee :: "'b env \<Rightarrow> ('b, 'z) dex_world_scheme \<Rightarrow> int \<Rightarrow> dec \<Rightarrow> int \<times> int \<times> int" where
  "manage_fee E s amount fee =
     (let fee_amount = dmul E (to_dec amount) fee;
          for_reserve = dmul E fee_amount (get_reserve_fee_share s);
          for_providers = dround E fee_amount - dround E for_reserve in
      (dround E fee_amount, dround E for_reserve, for_providers))"

section \<open>Liquidity providers\<close>

record liquidity_provider =
  lv_index :: "64 word"
  lv_address :: string
  lv_provided :: dec
  lv_share :: "dec option"

definition sum_provided :: "liquidity_provider list \<Rightarrow> dec" where
  "sum_provided lps = foldl (\<lambda>sum lp. sum + lv_provided lp) 0 lps"

definition provided_shares :: "'b env \<Rightarrow> liquidity_provider list \<Rightarrow> liquidity_provider list" where
  "provided_shares E lps =
     (let sum = sum_provided lps in
      map (\<lambda>lp. lp\<lparr>lv_share := Some (if sum > 0 then dquo E (lv_provided lp) sum else 0)\<rparr>) lps)"

text \<open>The loop of \<open>determineLiquidityProviders\<close>: what is still to be received, what has been used, and by whom it was provided.\<close>

fun use_entries :: "denom \<Rightarrow> liquidity list \<Rightarrow> int \<Rightarrow> int \<Rightarrow> liquidity_provider list \<Rightarrow>
    (('b, 'z) dex_world_scheme, int \<times> int \<times> liquidity_provider list) cmd" where
  "use_entries d [] left used lps s = (Inr (left, used, lps), s)"
| "use_entries d (l # ls) left used lps s =
     (if left \<le> 0 then (Inr (left, used, lps), s)
      else
        let (u, left) = (if left < lq_amount l then (left, 0) else (lq_amount l, left - lq_amount l));
            lp = \<lparr>lv_index = lq_index l, lv_address = lq_address l, lv_provided = to_dec u, lv_share = None\<rparr>;
            l = l\<lparr>lq_amount := lq_amount l - u\<rparr> in
        bindS (if lq_amount l = 0 then remove_liquidity d (lq_index l) u s
               else (Inr (), set_liquidity l (- u) s)) (\<lambda>_.
        use_entries d ls left (used + u) (lps @ [lp])))"

definition determine_liquidity_providers :: "'b env \<Rightarrow> int \<Rightarrow> denom \<Rightarrow> denom \<Rightarrow>
    (('b, 'z) dex_world_scheme, liquidity_provider list \<times> int) cmd" where
  "determine_liquidity_providers E left from to s =
     bindS (use_entries to (liquidity_entries s to) left 0 [] s) (\<lambda>(left, used, lps) s.
     bindS (send_mod_mod E pool_liquidity pool_trade to used s) (\<lambda>_ s.
     (Inr (lps, left), s)))"

text \<open>
  The distribution of the fee pays each provider at most what it provided, in order, until the fee is used up, and
  scales down what the provider counts as having provided. It indexes past the end of the list if the fee exceeds all of it.
\<close>

fun distribute_fee :: "'b env \<Rightarrow> dec \<Rightarrow> denom \<Rightarrow> liquidity_provider list \<Rightarrow> int \<Rightarrow>
    (('b, 'z) dex_world_scheme, liquidity_provider list) cmd" where
  "distribute_fee E provider_fee d [] left s = (if left > 0 then (Inl Panic, s) else (Inr [], s))"
| "distribute_fee E provider_fee d (lp # lps) left s =
     (if \<not> left > 0 then (Inr (lp # lps), s)
      else
        let amount = min left (dround E (lv_provided lp)) in
        bindS (send_mod_mod E pool_trade pool_liquidity d amount (add_entry d (lv_address lp) amount s)) (\<lambda>_ s.
        bindS (distribute_fee E provider_fee d lps (left - amount) s) (\<lambda>lps s.
        (Inr (lp\<lparr>lv_provided := dmul E (lv_provided lp) provider_fee\<rparr> # lps), s))))"

definition distribute_fee_for_liquidity_providers :: "'b env \<Rightarrow> liquidity_provider list \<Rightarrow> int \<Rightarrow> denom \<Rightarrow>
    (('b, 'z) dex_world_scheme, liquidity_provider list) cmd" where
  "distribute_fee_for_liquidity_providers E lps fee d s = distribute_fee E (get_provider_fee E s) d lps fee s"

definition distribute_given_funds :: "'b env \<Rightarrow> liquidity_provider list \<Rightarrow> int \<Rightarrow> denom \<Rightarrow> (('b, 'z) dex_world_scheme, unit) cmd" where
  "distribute_given_funds E lps funds d s =
     bindS (foldS (\<lambda>lp _ s.
         bindS (nilR (lv_share lp), s) (\<lambda>share s.
         let eligible = dround E (dmul E share (to_dec funds)) in
         (Inr (), add_entry d (lv_address lp) eligible s))) (provided_shares E lps) () s) (\<lambda>_.
     send_mod_mod E pool_trade pool_liquidity d funds)"

section \<open>Limits of a trade\<close>

definition calculate_amount_given_price :: "'b env \<Rightarrow> ('b, 'z) dex_world_scheme \<Rightarrow> denom \<Rightarrow> denom \<Rightarrow> dec \<Rightarrow> dec \<Rightarrow> dec res" where
  "calculate_amount_given_price E s from to max_price fee =
     bindR (full_liquidity s from to) (\<lambda>liq_from.
     bindR (full_liquidity s to from) (\<lambda>liq_to.
     let max_price = dmul E max_price (dec_one - fee) in
     Inr (dmul E max_price liq_to - liq_from)))"

definition single_maximum :: "'b env \<Rightarrow> dec \<Rightarrow> dec \<Rightarrow> dec option \<Rightarrow> dec \<Rightarrow> dec option res" where
  "single_maximum E actual_from actual_to virtual_from virtual_to =
     (if virtual_to = 0 then Inr None
      else bindR (nilR virtual_from) (\<lambda>vf.
        let a = actual_from + vf; b = actual_to + virtual_to; k = dmul E a b in
        bindR (quoR E k virtual_to) (\<lambda>q. Inr (Some (q - a)))))"

definition calculate_single_maximum_tradable_amount ::
  "'b env \<Rightarrow> ('b, 'z) dex_world_scheme \<Rightarrow> denom \<Rightarrow> denom \<Rightarrow> int option \<Rightarrow> int option res" where
  "calculate_single_maximum_tradable_amount E s from to max_actual =
     (let pool = mod_addr E pool_liquidity;
          actual_from = to_dec (bal E (bank s) pool from);
          actual_to = to_dec (bal E (bank s) pool to);
          (virtual_from, virtual_to) =
            (if from = base_currency
             then (map_option lp_base (get_liquidity_pair s to), map_option lp_other (get_liquidity_pair s to))
             else (map_option lp_other (get_liquidity_pair s from), map_option lp_base (get_liquidity_pair s from))) in
      bindR (nilR virtual_to) (\<lambda>virtual_to.
      let (actual_to, virtual_to) =
            (case max_actual of
               Some m \<Rightarrow> if to_dec m < actual_to then (to_dec m, actual_to + virtual_to - to_dec m)
                        else (actual_to, virtual_to)
             | None \<Rightarrow> (actual_to, virtual_to)) in
      if virtual_to = 0 then Inr None
      else bindR (single_maximum E actual_from actual_to virtual_from virtual_to) (\<lambda>m.
        Inr (map_option (dtrunc E) m))))"

definition calculate_maximum_tradable_amount :: "'b env \<Rightarrow> ('b, 'z) dex_world_scheme \<Rightarrow> denom \<Rightarrow> denom \<Rightarrow> int option res" where
  "calculate_maximum_tradable_amount E s from to =
     bindR (if to \<noteq> base_currency
            then calculate_single_maximum_tradable_amount E s base_currency to None else Inr None) (\<lambda>max2.
     if from \<noteq> base_currency
     then calculate_single_maximum_tradable_amount E s from base_currency max2 else Inr max2)"

definition check_pool_liquidities :: "('b, 'z) dex_world_scheme \<Rightarrow> denom \<Rightarrow> denom \<Rightarrow> unit res" where
  "check_pool_liquidities s from to =
     bindR (full_liquidity_base_other s from to) (\<lambda>(pf, pt).
     bindR (checkR (pt \<noteq> 0) (DexE Dex_ErrNotEnoughLiquidity)) (\<lambda>_.
     checkR (pf \<noteq> 0) (DexE Dex_ErrNotEnoughLiquidity)))"

definition check_trade_pool_liquidities :: "('b, 'z) dex_world_scheme \<Rightarrow> denom \<Rightarrow> denom \<Rightarrow> unit res" where
  "check_trade_pool_liquidities s start finish =
     bindR (if start \<noteq> base_currency then check_pool_liquidities s start base_currency else Inr ()) (\<lambda>_.
     if finish \<noteq> base_currency then check_pool_liquidities s base_currency finish else Inr ())"

definition get_spendable_coins :: "'b env \<Rightarrow> addr \<Rightarrow> denom \<Rightarrow> ('b, 'z) world_scheme \<Rightarrow> int" where
  "get_spendable_coins E a d s = (case map_of (bk_spendable E (bank s) a) d of None \<Rightarrow> 0 | Some n \<Rightarrow> n)"

text \<open>The error of the transfer is dropped; a panic is not.\<close>

definition reimburse_fee :: "'b env \<Rightarrow> int \<Rightarrow> (('b, 'z) dex_world_scheme, int) cmd" where
  "reimburse_fee E fee_paid s =
     (if fee_paid = 0 then (Inr 0, s)
      else
        let available = get_spendable_coins E (mod_addr E pool_fees) base_currency s;
            reimburse = min (dround E (dmul E (to_dec fee_paid) (fee_reimbursement (xparams s)))) available in
        if reimburse \<le> 0 then (Inr 0, s)
        else case send_mod_mod E pool_fees dex_module base_currency reimburse s of
               (Inl Panic, s) \<Rightarrow> (Inl Panic, s)
             | (_, s) \<Rightarrow> (Inr reimburse, s))"

section \<open>Execution\<close>

record trade_options =
  to_given :: int
  to_max_price :: "dec option"
  to_start :: denom
  to_end :: denom
  to_incomplete :: bool
  to_exclude :: bool
  to_protocol :: bool
  to_source :: "addr option"
  to_target :: "addr option"
  to_discount :: "addr option"
  to_calc :: "trade_calculation option"

definition validate_trade_options :: "trade_options \<Rightarrow> ('b, 'z) dex_world_scheme \<Rightarrow> (addr \<times> addr \<times> trade_calculation) res" where
  "validate_trade_options opts s =
     bindR (of_option (DexE Dex_ErrNoCoinSourceGiven) (to_source opts)) (\<lambda>source.
     bindR (of_option (DexE Dex_ErrNoCoinTargetGiven) (to_target opts)) (\<lambda>target.
     bindR (checkR (to_start opts \<noteq> to_end opts) (DexE Dex_ErrSameDenom)) (\<lambda>_.
     bindR (checkR (to_given opts \<noteq> 0) (DexE Dex_ErrZeroAmount)) (\<lambda>_.
     bindR (checkR (\<not> to_given opts < 0) (DexE Dex_ErrNegativeAmount)) (\<lambda>_.
     bindR (checkR (is_valid_denom (dparams s) (to_start opts)) (DexE Dex_ErrDenomNotFound)) (\<lambda>_.
     bindR (checkR (is_valid_denom (dparams s) (to_end opts)) (DexE Dex_ErrDenomNotFound)) (\<lambda>_.
     Inr (source, target, case to_calc opts of None \<Rightarrow> ConstantProduct | Some c \<Rightarrow> c))))))))"

text \<open>The options of a step: the trade it belongs to, its two denominations, its amount and fee.\<close>

record trade_step =
  ts_source :: addr
  ts_target :: addr
  ts_start :: denom
  ts_end :: denom
  ts_calc :: trade_calculation
  ts_from :: denom
  ts_to :: denom
  ts_amount :: int
  ts_fee :: dec

definition trade_to_base :: "addr \<Rightarrow> addr \<Rightarrow> trade_calculation \<Rightarrow> denom \<Rightarrow> denom \<Rightarrow> int \<Rightarrow> dec \<Rightarrow> trade_step" where
  "trade_to_base source target c start finish given fee =
     \<lparr>ts_source = source, ts_target = target, ts_start = start, ts_end = finish, ts_calc = c,
      ts_from = start, ts_to = base_currency, ts_amount = given, ts_fee = fee\<rparr>"

definition trade_to_target :: "addr \<Rightarrow> addr \<Rightarrow> trade_calculation \<Rightarrow> denom \<Rightarrow> denom \<Rightarrow> int \<Rightarrow> dec \<Rightarrow> trade_step" where
  "trade_to_target source target c start finish amount fee =
     \<lparr>ts_source = source, ts_target = target, ts_start = start, ts_end = finish, ts_calc = c,
      ts_from = base_currency, ts_to = finish, ts_amount = amount, ts_fee = fee\<rparr>"

text \<open>The parts of \<open>ExecuteTradeStep\<close>: the source pays, the providers and the reserve get theirs, the trader is paid out.\<close>

definition charge_source :: "'b env \<Rightarrow> trade_step \<Rightarrow> int \<Rightarrow> (('b, 'z) dex_world_scheme, unit) cmd" where
  "charge_source E opts used s =
     (if used > 0 \<and> ts_from opts \<noteq> base_currency
      then send_acc_mod E (ts_source opts) pool_trade (ts_from opts) used s else (Inr (), s))"

definition settle_step :: "'b env \<Rightarrow> trade_step \<Rightarrow> liquidity_provider list \<Rightarrow> int \<Rightarrow> int \<Rightarrow> (('b, 'z) dex_world_scheme, int) cmd" where
  "settle_step E opts lps gross used s =
     (let (fee_paid, for_reserve, for_providers) = manage_fee E s gross (ts_fee opts) in
      bindS (distribute_fee_for_liquidity_providers E lps for_providers (ts_to opts) s) (\<lambda>lps s.
      bindS (distribute_given_funds E lps used (ts_from opts) s) (\<lambda>_ s.
      bindS (if for_reserve > 0
             then send_mod_mod E pool_trade pool_reserve (ts_to opts) for_reserve s else (Inr (), s)) (\<lambda>_ s.
      (Inr fee_paid, s)))))"

definition pay_trader :: "'b env \<Rightarrow> trade_step \<Rightarrow> (('b, 'z) dex_world_scheme, int) cmd" where
  "pay_trader E opts s =
     (let payout = bal E (bank s) (mod_addr E pool_trade) (ts_to opts) in
      bindS (if payout > 0 \<and> ts_to opts \<noteq> base_currency
             then send_mod_acc E pool_trade (ts_target opts) (ts_to opts) payout s else (Inr (), s)) (\<lambda>_ s.
      (Inr payout, s)))"

definition execute_trade_step :: "'b env \<Rightarrow> trade_step \<Rightarrow> (('b, 'z) dex_world_scheme, int \<times> int \<times> int) cmd" where
  "execute_trade_step E opts s =
     (if ts_to opts = base_currency \<and> ts_start opts = base_currency then
        bindS (send_acc_mod E (ts_source opts) pool_trade base_currency (ts_amount opts) s) (\<lambda>_ s.
        (Inr (ts_amount opts, ts_amount opts, 0), s))
      else if ts_from opts = base_currency \<and> ts_end opts = base_currency then
        bindS (send_mod_acc E pool_trade (ts_target opts) (ts_to opts) (ts_amount opts) s) (\<lambda>_ s.
        (Inr (ts_amount opts, ts_amount opts, 0), s))
      else
        bindS (full_liquidity_base_other s (ts_from opts) (ts_to opts), s) (\<lambda>(pf, pt) s.
        bindS (trade_forward E (ts_calc opts) pf pt (to_dec (ts_amount opts)), s) (\<lambda>to_receive s.
        if to_receive = 0 then (Inr (0, 0, 0), s)
        else
          bindS (determine_liquidity_providers E to_receive (ts_from opts) (ts_to opts) s) (\<lambda>(lps, left) s.
          let gross = to_receive - left in
          bindS (quoR E (to_dec gross) (to_dec to_receive), s) (\<lambda>share_used s.
          let used = dround E (dmul E share_used (to_dec (ts_amount opts))) in
          bindS (charge_source E opts used s) (\<lambda>_ s.
          bindS (settle_step E opts lps gross used s) (\<lambda>fee_paid s.
          bindS (pay_trader E opts s) (\<lambda>payout s.
          (Inr (used, payout, fee_paid), s)))))))))"

text \<open>The amount that is traded once the price limit and the liquidity limit are applied.\<close>

definition limit_by_price :: "'b env \<Rightarrow> trade_options \<Rightarrow> dec \<Rightarrow> ('b, 'z) dex_world_scheme \<Rightarrow> int \<Rightarrow> int res" where
  "limit_by_price E opts fee s given =
     (case to_max_price opts of
        None \<Rightarrow> Inr given
      | Some max_price \<Rightarrow>
          bindR (calculate_amount_given_price E s (to_start opts) (to_end opts) max_price fee) (\<lambda>x.
          let price_amount = dtrunc E x in
          bindR (checkR (\<not> price_amount \<le> 0) (DexE Dex_ErrPriceTooLow)) (\<lambda>_.
          if price_amount < given then
            (if to_incomplete opts then Inr price_amount else Inl (DexE Dex_ErrPriceTooLow))
          else Inr given)))"

definition limit_by_liquidity :: "'b env \<Rightarrow> trade_options \<Rightarrow> ('b, 'z) dex_world_scheme \<Rightarrow> int \<Rightarrow> int res" where
  "limit_by_liquidity E opts s given =
     bindR (calculate_maximum_tradable_amount E s (to_start opts) (to_end opts)) (\<lambda>m.
     case m of
       None \<Rightarrow> Inr given
     | Some m \<Rightarrow>
         if m < given then
           (if m > 0 \<and> to_incomplete opts then Inr m else Inl (DexE Dex_ErrNotEnoughLiquidity))
         else Inr given)"

text \<open>
  The first part of \<open>ExecuteTrade\<close> only reads the state: it checks the options and the sender's funds, and fixes the
  fee and the amount to trade.
\<close>

definition prepare_trade :: "'b env \<Rightarrow> trade_options \<Rightarrow> ('b, 'z) dex_world_scheme \<Rightarrow> (addr \<times> addr \<times> trade_calculation \<times> dec \<times> int) res" where
  "prepare_trade E opts s =
     bindR (validate_trade_options opts s) (\<lambda>(source, target, calc).
     let discount = (case to_discount opts of None \<Rightarrow> target | Some a \<Rightarrow> a) in
     bindR (get_trade_fee E s (to_start opts) (to_end opts) (str_of E discount) (to_exclude opts)) (\<lambda>fee.
     bindR (limit_by_price E opts fee s (to_given opts)) (\<lambda>given.
     bindR (limit_by_liquidity E opts s given) (\<lambda>given.
     bindR (checkR (\<not> given < 1000) (DexE Dex_ErrTradeAmountTooSmall)) (\<lambda>_.
     bindR (check_spendable_coins E source (to_start opts) given s) (\<lambda>_.
     Inr (source, target, calc, fee, given)))))))"

text \<open>The second part executes the two steps and records the new ratios and the traded volume.\<close>

definition run_trade :: "'b env \<Rightarrow> denom \<Rightarrow> denom \<Rightarrow> addr \<Rightarrow> addr \<Rightarrow> trade_calculation \<Rightarrow> dec \<Rightarrow> int \<Rightarrow>
    (('b, 'z) dex_world_scheme, int \<times> int \<times> int \<times> int) cmd" where
  "run_trade E start finish source target calc fee given s =
     bindS (execute_trade_step E (trade_to_base source target calc start finish given fee) s) (\<lambda>(used1, received1, fee1) s.
     bindS (reimburse_fee E fee1 s) (\<lambda>reimbursement s.
     let received1 = received1 + reimbursement in
     bindS (execute_trade_step E (trade_to_target source target calc start finish received1 fee) s) (\<lambda>(used2, received2, fee2) s.
     bindS (update_ratios E start s) (\<lambda>_ s.
     bindS (update_ratios E finish s) (\<lambda>_ s.
     let used = (if start \<noteq> base_currency then used1 else used2) in
     (Inr (used, received2, fee1, fee2), add_trade_amount (str_of E target) received1 s))))))"

text \<open>
  The results are the amounts used and received and the fees of the two steps; the first two are nil
  when an incomplete trade finds an empty pool.
\<close>

definition execute_trade :: "'b env \<Rightarrow> trade_options \<Rightarrow> (('b, 'z) dex_world_scheme, int option \<times> int option \<times> int \<times> int) cmd" where
  "execute_trade E opts s =
     bindS (prepare_trade E opts s, s) (\<lambda>(source, target, calc, fee, given) s.
     case check_trade_pool_liquidities s (to_start opts) (to_end opts) of
       Inl Panic \<Rightarrow> (Inl Panic, s)
     | Inl _ \<Rightarrow> (if to_incomplete opts then (Inr (None, None, 0, 0), s) else (Inl (DexE Dex_ErrNotEnoughLiquidity), s))
     | Inr _ \<Rightarrow>
         bindS (run_trade E (to_start opts) (to_end opts) source target calc fee given s) (\<lambda>(used, received, fee1, fee2) s.
         (Inr (Some used, Some received, fee1, fee2), s)))"

section \<open>Simulation\<close>

definition calculate_single_trade :: "'b env \<Rightarrow> ('b, 'z) dex_world_scheme \<Rightarrow> denom \<Rightarrow> denom \<Rightarrow> dec \<Rightarrow> dec \<Rightarrow> dec res" where
  "calculate_single_trade E s from to offer fee =
     (if from = to then Inr offer
      else
        bindR (if from = base_currency
               then bindR (full_liquidity_base s to) (\<lambda>b. Inr (b, full_liquidity_other s to))
               else bindR (full_liquidity_base s from) (\<lambda>b. Inr (full_liquidity_other s from, b))) (\<lambda>(pf, pt).
        bindR (checkR (pf \<noteq> 0) FmtError) (\<lambda>_.
        bindR (checkR (pt \<noteq> 0) FmtError) (\<lambda>_.
        bindR (constant_product_trade E pf pt offer) (\<lambda>amount.
        Inr (amount - dmul E amount fee))))))"

definition simulate_trade_with_fee :: "'b env \<Rightarrow> ('b, 'z) dex_world_scheme \<Rightarrow> denom \<Rightarrow> denom \<Rightarrow> int \<Rightarrow> dec \<Rightarrow> (int \<times> dec \<times> dec) res" where
  "simulate_trade_with_fee E s from to amount fee =
     (if from = to then Inr (amount, 0, dec_one)
      else if amount = 0 then Inr (0, 0, 0)
      else
        bindR (checkR (is_valid_denom (dparams s) from \<and> is_valid_denom (dparams s) to) (DexE Dex_ErrDenomNotFound)) (\<lambda>_.
        let start = to_dec amount; fee_paid = dmul E start fee; start = start - fee_paid in
        bindR (calculate_single_trade E s from base_currency start fee) (\<lambda>received.
        bindR (calculate_single_trade E s base_currency to received fee) (\<lambda>received.
        bindR (quoR E start received) (\<lambda>price.
        Inr (dtrunc E received, fee_paid, price))))))"

definition trade_simulation :: "'b env \<Rightarrow> ('b, 'z) dex_world_scheme \<Rightarrow> denom \<Rightarrow> denom \<Rightarrow> string \<Rightarrow> int \<Rightarrow> bool \<Rightarrow> (int \<times> dec \<times> dec) res" where
  "trade_simulation E s from to a amount exclude =
     bindR (get_trade_fee E s from to a exclude) (simulate_trade_with_fee E s from to amount)"

definition simulate_trade_for_reserve :: "'b env \<Rightarrow> ('b, 'z) dex_world_scheme \<Rightarrow> denom \<Rightarrow> denom \<Rightarrow> int \<Rightarrow> (int \<times> dec \<times> dec) res" where
  "simulate_trade_for_reserve E s from to amount =
     bindR (get_trade_fee E s from to [] True) (\<lambda>fee.
     simulate_trade_with_fee E s from to amount (dmul E fee (dec_one - reserve_share (xparams s))))"

definition calculate_payout_amount :: "'b env \<Rightarrow> ('b, 'z) dex_world_scheme \<Rightarrow> addr \<Rightarrow> denom \<Rightarrow> int res" where
  "calculate_payout_amount E s a d = Inr (bal E (bank s) a d - liq_sum s d)"

section \<open>The message \<open>Trade\<close>\<close>

definition get_max_price :: "'b env \<Rightarrow> string \<Rightarrow> dec option res" where
  "get_max_price E str =
     (if str = [] then Inr None
      else bindR (of_option (DexE Dex_ErrInvalidPriceFormat) (parse_dec E (filter (\<lambda>c. c \<noteq> CHR '','') str))) (\<lambda>p.
        Inr (Some p)))"

text \<open>\<open>Int.Int64\<close> panics on nil and out of range.\<close>

definition int64R :: "int option \<Rightarrow> int res" where
  "int64R x = bindR (nilR x) (\<lambda>n. bindR (checkR (- (2 ^ 63) \<le> n \<and> n < 2 ^ 63) Panic) (\<lambda>_. Inr n))"

definition trade_msg :: "'b env \<Rightarrow> string \<Rightarrow> denom \<Rightarrow> denom \<Rightarrow> string \<Rightarrow> string \<Rightarrow> bool \<Rightarrow> (('b, 'z) dex_world_scheme, int \<times> int) cmd" where
  "trade_msg E creator from to amt_str max_price_str incomplete s =
     bindS (checkR (from \<noteq> to) (DexE Dex_ErrSameDenom), s) (\<lambda>_ s.
     bindS (parse_amount E amt_str, s) (\<lambda>amt s.
     bindS (checkR (amt \<noteq> 0) (DexE Dex_ErrZeroAmount), s) (\<lambda>_ s.
     bindS (validate_msg E creator from amt s, s) (\<lambda>a s.
     bindS (get_max_price E max_price_str, s) (\<lambda>max_price s.
     bindS (execute_trade E \<lparr>to_given = amt, to_max_price = max_price, to_start = from, to_end = to,
               to_incomplete = incomplete, to_exclude = False, to_protocol = False,
               to_source = Some a, to_target = Some a, to_discount = None, to_calc = None\<rparr> s) (\<lambda>(used, received, _, _) s.
     bindS (int64R received, s) (\<lambda>received s.
     bindS (int64R used, s) (\<lambda>used s.
     (Inr (received, used), s)))))))))"

section \<open>Parity\<close>

definition get_highest_price_denom :: "'b env \<Rightarrow> ('b, 'z) dex_world_scheme \<Rightarrow> denom \<Rightarrow> (dec \<times> denom) res" where
  "get_highest_price_denom E s k =
     foldR (\<lambda>r (price, denom).
       bindR (calculate_price E s k r) (\<lambda>p. Inr (if p > price then (p, r) else (price, denom))))
       (reference_denoms (dparams s) k) (0, [])"

text \<open>
  The second result is the reference denomination found so far when a price is missing: that of the loop
  up to the failing reference. Only the case of a computed parity uses it.
\<close>

fun highest_before_error :: "'b env \<Rightarrow> ('b, 'z) dex_world_scheme \<Rightarrow> denom \<Rightarrow> denom list \<Rightarrow> dec \<times> denom \<Rightarrow> denom" where
  "highest_before_error E s k [] (price, denom) = denom"
| "highest_before_error E s k (r # rs) (price, denom) =
     (case calculate_price E s k r of
        Inl _ \<Rightarrow> denom
      | Inr p \<Rightarrow> highest_before_error E s k rs (if p > price then (p, r) else (price, denom)))"

definition calculate_parity :: "'b env \<Rightarrow> ('b, 'z) dex_world_scheme \<Rightarrow> denom \<Rightarrow> (dec option \<times> denom) res" where
  "calculate_parity E s k =
     (case get_highest_price_denom E s k of
        Inl e \<Rightarrow>
          (if e = DexE Dex_ErrNoLiquidity \<or> e = DexE Dex_ErrNilRatio
           then Inr (None, highest_before_error E s k (reference_denoms (dparams s) k) (0, [])) else Inl e)
      | Inr (_, reference) \<Rightarrow>
          (case ratio_value s reference of
             None \<Rightarrow> Inr (None, reference)
           | Some r \<Rightarrow>
               bindR (nilR (ratio_value s k)) (\<lambda>kr.
               bindR (quoR E r kr) (\<lambda>parity. Inr (Some parity, reference)))))"

end
