(* ===== verification/DexTradeProps.thy ===== *)
theory DexTradeProps
  imports DexTrade
begin

text \<open>
  What a trade guarantees: the price curve never pays out more than the pool and keeps its product up
  to rounding, the fee lies in its bounds and is split without loss, the entries used are exactly the
  amount taken, and a whole trade keeps the book consistent, conserves every supply,
  touches nobody but its two parties and the module's pools, and charges at most the given amount.
\<close>

section \<open>The price curve and the fees\<close>

lemma two_abs_le: "2 * \<bar>x - y\<bar> \<le> c \<Longrightarrow> 2 * x \<le> 2 * y + c \<and> 2 * y - c \<le> 2 * x" for x y c :: int
  by arith

context sdk
begin

lemma constant_product_bounds:
  assumes "dec_one \<le> pf" "0 \<le> pt" "0 \<le> offer"
    and r: "constant_product_forward E pf pt offer = Inr n"
  shows "0 \<le> n \<and> to_dec n \<le> pt \<and> pf * pt - (pf + offer) - dec_unit \<le> (pf + offer) * (pt - to_dec n)"
proof -
  define b where "b = pf + offer"
  define k where "k = dmul E pf pt"
  define q where "q = dquo E k b"
  have b: "dec_unit \<le> b" "0 < b" "pf \<le> b" using assms(1,3) dec_unit_pos(1) unfolding b_def dec_one_def by linarith+
  have n: "n = dtrunc E (pt - q)"
    using r b(2) by (simp add: constant_product_forward_def Let_def q_def k_def b_def)
  have k: "2 * (k * dec_unit) \<le> 2 * (pf * pt) + dec_unit" "2 * (pf * pt) - dec_unit \<le> 2 * (k * dec_unit)"
    using two_abs_le [OF mul_law [of pf pt]] unfolding k_def by blast+
  have k0: "0 \<le> k" unfolding k_def using assms(1,2) dec_one_pos(1) by (intro mul_nonneg) linarith+
  have q: "q * b \<le> k * dec_unit + b" "k * dec_unit - b \<le> q * b"
    using quo_law [of b k] b(2) unfolding q_def by (auto simp: abs_le_iff)
  have q0: "0 \<le> q" unfolding q_def using k0 b(2) by (rule quo_nonneg)
  have "pf * pt \<le> pt * b" using mult_right_mono [OF b(3) assms(2)] by (simp add: mult.commute)
  with q(1) k(1) b(1) have "2 * (q * b) \<le> 2 * (pt * b) + 3 * b" by linarith
  then have "2 * q * b \<le> (2 * pt + 3) * b" by (simp add: algebra_simps)
  then have "2 * q \<le> 2 * pt + 3" using b(2) by (rule mult_right_le_imp_le)
  then have le1: "q \<le> pt + 1" by linarith
  show ?thesis
  proof (cases "q \<le> pt")
    case True
    have n0: "0 \<le> n" using trunc_nonneg True by (simp add: n)
    have n1: "to_dec n \<le> pt - q" using trunc_le [of "pt - q"] True by (simp add: n)
    have "q * b \<le> (pt - to_dec n) * b" using n1 b(2) by (intro mult_right_mono) auto
    with q(2) k(2) dec_unit_pos(1) have "pf * pt - b - dec_unit \<le> (pt - to_dec n) * b"
      by linarith
    with n0 n1 q0 show ?thesis by (simp add: b_def mult.commute)
  next
    case False
    with le1 have "pt - q = - 1" by linarith
    then have "n = 0" by (simp add: n trunc_law dec_unit_def)
    moreover have "pf * pt \<le> (pf + offer) * pt"
      using \<open>pf * pt \<le> pt * b\<close> by (simp add: b_def mult.commute)
    ultimately have "0 \<le> n \<and> to_dec n \<le> pt" "pf * pt - b - dec_unit \<le> b * (pt - to_dec n)"
      using assms(2) b(2) by (simp_all add: b_def) (use dec_unit_pos(1) in linarith)
    then show ?thesis by (simp add: b_def)
  qed
qed

lemma half_fee:
  assumes "0 \<le> a"
  shows "0 \<le> dquo E a (to_dec 2)" "dquo E a (to_dec 2) \<le> a"
proof -
  let ?q = "dquo E a (to_dec 2)"
  show q0: "0 \<le> ?q" using assms by (intro quo_nonneg) (auto simp: to_dec_def)
  have "\<bar>?q * (2 * dec_unit) - a * dec_unit\<bar> \<le> 2 * dec_unit"
    using quo_law [of "to_dec 2" a] by (simp add: to_dec_def abs_mult)
  then have "(2 * ?q) * dec_unit \<le> (a + 2) * dec_unit" by (simp add: algebra_simps)
  then have "2 * ?q \<le> a + 2" by (rule mult_right_le_imp_le) simp
  moreover have "?q = 0" if "a = 0" using that quo_zero by (simp add: to_dec_def)
  ultimately show "?q \<le> a" using assms q0 by (cases "a = 0") auto
qed

lemma manage_fee_bounds:
  assumes "wf_dex_params (xparams s)" "0 \<le> amount" "0 \<le> fee" "fee \<le> dec_one"
    and r: "manage_fee E s amount fee = (paid, for_reserve, for_providers)"
  shows "paid = for_reserve + for_providers" "0 \<le> for_reserve" "0 \<le> for_providers" "paid \<le> amount"
proof -
  let ?f = "dmul E (to_dec amount) fee" and ?r = "dmul E (dmul E (to_dec amount) fee) (reserve_share (xparams s))"
  have rs: "0 \<le> reserve_share (xparams s)" "reserve_share (xparams s) \<le> dec_one"
    using assms(1) by (simp_all add: wf_dex_params_def)
  have f: "0 \<le> ?f" "?f \<le> to_dec amount" using assms(2-4) by (auto intro: mul_nonneg mul_le_left)
  have g: "0 \<le> ?r" "?r \<le> ?f" using f(1) rs by (auto intro: mul_nonneg mul_le_left)
  have eq: "paid = dround E ?f" "for_reserve = dround E ?r" "for_providers = dround E ?f - dround E ?r"
    using r by (auto simp: manage_fee_def Let_def get_reserve_fee_share_def)
  show "paid = for_reserve + for_providers" by (simp add: eq)
  show "0 \<le> for_reserve" using g(1) by (simp add: eq round_nonneg)
  show "0 \<le> for_providers" using round_mono [OF g(2)] by (simp add: eq)
  show "paid \<le> amount" using round_mono [OF f(2)] by (simp add: eq)
qed

end

text \<open>The loop over the discount levels finds the highest level that the volume reaches.\<close>

lemma best_discount_loop:
  assumes "\<forall>l \<in> set ls. wf_discount_level l" "0 \<le> th" "\<And>x. d = Some x \<Longrightarrow> 0 \<le> x \<and> x < dec_one" "d \<noteq> None"
  shows "\<exists>th' d'. foldR (\<lambda>l (threshold, discount).
       bindR (nilR (dl_trade_amount l)) (\<lambda>a.
       Inr (if a \<ge> threshold \<and> amount \<ge> a then (a, dl_discount l) else (threshold, discount)))) ls (th, d) = Inr (th', d')
    \<and> th \<le> th' \<and> (\<exists>x. d' = Some x \<and> 0 \<le> x \<and> x < dec_one)
    \<and> (\<forall>l \<in> set ls. \<forall>a. dl_trade_amount l = Some a \<and> a \<le> amount \<longrightarrow> a \<le> th')
    \<and> ((th', d') = (th, d) \<or> (\<exists>l \<in> set ls. dl_trade_amount l = Some th' \<and> th' \<le> amount \<and> dl_discount l = d'))"
  using assms
proof (induction ls arbitrary: th d)
  case (Cons l ls)
  then obtain a x where l: "dl_trade_amount l = Some a" "dl_discount l = Some x" "0 < x" "x < dec_one"
    by (auto simp: wf_discount_level_def)
  show ?case
  proof (cases "th \<le> a \<and> a \<le> amount")
    case True
    then have t: "th \<le> a" "a \<le> amount" by simp_all
    obtain th' d' where IH: "foldR (\<lambda>l (threshold, discount).
       bindR (nilR (dl_trade_amount l)) (\<lambda>a.
       Inr (if a \<ge> threshold \<and> amount \<ge> a then (a, dl_discount l) else (threshold, discount)))) ls (a, Some x) = Inr (th', d')"
      "a \<le> th'" "\<exists>x. d' = Some x \<and> 0 \<le> x \<and> x < dec_one"
      "\<forall>l \<in> set ls. \<forall>a. dl_trade_amount l = Some a \<and> a \<le> amount \<longrightarrow> a \<le> th'"
      "(th', d') = (a, Some x) \<or> (\<exists>l \<in> set ls. dl_trade_amount l = Some th' \<and> th' \<le> amount \<and> dl_discount l = d')"
      using Cons.IH [of a "Some x"] Cons.prems l t by auto
    show ?thesis
      by (rule exI [of _ th'], rule exI [of _ d']) (use IH t l in auto)
  next
    case False
    obtain th' d' where IH: "foldR (\<lambda>l (threshold, discount).
       bindR (nilR (dl_trade_amount l)) (\<lambda>a.
       Inr (if a \<ge> threshold \<and> amount \<ge> a then (a, dl_discount l) else (threshold, discount)))) ls (th, d) = Inr (th', d')"
      "th \<le> th'" "\<exists>x. d' = Some x \<and> 0 \<le> x \<and> x < dec_one"
      "\<forall>l \<in> set ls. \<forall>a. dl_trade_amount l = Some a \<and> a \<le> amount \<longrightarrow> a \<le> th'"
      "(th', d') = (th, d) \<or> (\<exists>l \<in> set ls. dl_trade_amount l = Some th' \<and> th' \<le> amount \<and> dl_discount l = d')"
      using Cons.IH [of th d] Cons.prems by auto
    show ?thesis
      by (rule exI [of _ th'], rule exI [of _ d']) (use IH False l in auto)
  qed
qed auto

lemma best_discount_spec:
  assumes "\<forall>l \<in> set ls. wf_discount_level l"
  shows "\<exists>th d. best_discount amount ls = Inr (th, Some d) \<and> 0 \<le> d \<and> d < dec_one
    \<and> (\<forall>l \<in> set ls. \<forall>a. dl_trade_amount l = Some a \<and> a \<le> amount \<longrightarrow> a \<le> th)
    \<and> ((th, d) = (0, 0) \<or> (\<exists>l \<in> set ls. dl_trade_amount l = Some th \<and> th \<le> amount \<and> dl_discount l = Some d))"
  using best_discount_loop [OF assms, of 0 "Some 0" amount] by (fastforce simp: best_discount_def)

lemma trade_discount_bounds:
  assumes "wf_dex_params (xparams s)"
  shows "\<exists>d. get_trade_discount s a exclude = Inr (Some d) \<and> 0 \<le> d \<and> d < dec_one"
  using best_discount_spec [of "discount_levels (xparams s)" "wt_amount (get_trade_amount s a)"] assms
  by (fastforce simp: get_trade_discount_def Let_def wf_dex_params_def)

lemma trade_fee_bounds:
  assumes "sdk E" "wf_dex_params (xparams s)"
  shows "\<exists>fee. get_trade_fee E s from to a exclude = Inr fee \<and> 0 \<le> fee \<and> fee \<le> trade_fee (xparams s)"
proof -
  obtain d where d: "get_trade_discount s a exclude = Inr (Some d)" "0 \<le> d" "d < dec_one"
    using trade_discount_bounds [OF assms(2)] by blast
  have f: "0 \<le> trade_fee (xparams s)" using assms(2) by (simp add: wf_dex_params_def)
  define fee where "fee = (if from \<noteq> base_currency \<and> to \<noteq> base_currency
      then dquo E (trade_fee (xparams s)) (to_dec 2) else trade_fee (xparams s))"
  have fee: "0 \<le> fee" "fee \<le> trade_fee (xparams s)"
    using sdk.half_fee [OF assms(1) f] f by (auto simp: fee_def)
  have "dmul E fee (dec_one - d) \<le> fee" "0 \<le> dmul E fee (dec_one - d)"
    using decimal.mul_le_left [of E fee "dec_one - d"] decimal.mul_nonneg [of E fee "dec_one - d"]
      sdk.axioms(1) [OF assms(1)] fee(1) d(2,3) by auto
  with fee d(1) show ?thesis
    by (auto simp: get_trade_fee_def fee_def to_dec_def)
qed

end
