(* ===== verification/DexTradeBook.thy ===== *)
theory DexTradeBook
  imports DexTradeProps
begin

text \<open>
  The effect of a trade on the liquidity book and on the balances, step by step.
\<close>

section \<open>Rounded shares\<close>

text \<open>What is shared out of \<open>F\<close> in rounded shares exceeds it by less than one unit per share, and a tiny fraction of \<open>F\<close>.\<close>

lemma two_abs_upper: "2 * \<bar>a - b\<bar> \<le> u \<Longrightarrow> 2 * a \<le> 2 * b + (u :: int)"
  by arith

context decimal
begin

lemma shares_round:
  fixes F S :: int
  assumes "0 \<le> F" "0 < S" "\<forall>p \<in> set ps. 0 \<le> p"
  shows "2 * to_dec (\<Sum>p \<leftarrow> ps. dround D (dmul D (dquo D p S) (to_dec F))) \<le> 2 * F * (\<Sum>p \<leftarrow> ps. dquo D p S) + int (length ps) * dec_unit"
    and "S * (\<Sum>p \<leftarrow> ps. dquo D p S) \<le> dec_unit * sum_list ps + int (length ps) * S"
proof -
  have r: "2 * to_dec (dround D (dmul D x (to_dec F))) \<le> 2 * F * x + dec_unit" for x
    using two_abs_upper [OF round_law [of "x * F"]] by (simp add: mul_to_dec mult.commute mult.left_commute)
  show "2 * to_dec (\<Sum>p \<leftarrow> ps. dround D (dmul D (dquo D p S) (to_dec F))) \<le> 2 * F * (\<Sum>p \<leftarrow> ps. dquo D p S) + int (length ps) * dec_unit"
  proof (induction ps)
    case (Cons p ps)
    with r [of "dquo D p S"] show ?case by (simp add: to_dec_add algebra_simps)
  qed simp
  have q: "S * dquo D p S \<le> dec_unit * p + S" for p
    using quo_law [of S p] assms(2) by (simp add: abs_le_iff algebra_simps)
  show "S * (\<Sum>p \<leftarrow> ps. dquo D p S) \<le> dec_unit * sum_list ps + int (length ps) * S"
  proof (induction ps)
    case (Cons p ps)
    with q [of p] show ?case by (simp add: algebra_simps)
  qed simp
qed

lemma shares_sum:
  fixes F :: int
  assumes "0 \<le> F" "\<forall>p \<in> set ps. 0 \<le> p"
  shows "2 * to_dec ((\<Sum>p \<leftarrow> ps. dround D (dmul D (if sum_list ps > 0 then dquo D p (sum_list ps) else 0) (to_dec F))) - F)
    \<le> int (length ps) * (2 * F + dec_unit)"
proof (cases "sum_list ps > 0")
  case False
  have "to_dec (- F) \<le> 0" using assms(1) by (simp add: to_dec_minus)
  moreover have "0 \<le> int (length ps) * (2 * F + dec_unit)" using assms(1) by simp
  ultimately show ?thesis using False by (simp add: sum_list_0)
next
  case True
  let ?X = "\<Sum>p \<leftarrow> ps. dquo D p (sum_list ps)"
  note r = shares_round [OF assms(1) True assms(2)]
  have "sum_list ps * ?X \<le> sum_list ps * (dec_unit + int (length ps))" using r(2) by (simp add: algebra_simps)
  then have "?X \<le> dec_unit + int (length ps)" using True by simp
  then have "2 * F * ?X \<le> 2 * F * (dec_unit + int (length ps))" using assms(1) by (intro mult_left_mono) simp_all
  with r(1) True show ?thesis by (simp add: to_dec_diff algebra_simps) (simp add: to_dec_def algebra_simps)
qed

end

section \<open>Using the entries\<close>

text \<open>
  Walking through the entries takes what is left to take, as far as they hold it, and lists who provided how much of it.
\<close>

lemma use_entries_spec:
  assumes "book_inv s" "pending ls s" "\<forall>l \<in> set ls. lq_denom l = d" "0 \<le> left" "m = min left (sum_list (map lq_amount ls))"
  shows "\<exists>lps' t. use_entries d ls left used lps s = (Inr (left - m, used + m, lps @ lps'), t) \<and> taken d m s t
    \<and> sum_list (map lv_provided lps') = to_dec m \<and> (\<forall>lp \<in> set lps'. 0 \<le> lv_provided lp) \<and> length lps' \<le> length ls"
  using assms
proof (induction ls arbitrary: left used lps s m)
  case Nil
  then show ?case by (simp add: taken_def)
next
  case (Cons l ls)
  have g: "kv_get (liquidities s) (lq_key l) = Some l" using Cons.prems(2) by (simp add: pending_def)
  have ok: "0 \<le> lq_amount l" "0 \<le> sum_list (map lq_amount ls)"
    using pending_nonneg [OF Cons.prems(1,2)] by (auto intro!: sum_list_nonneg)
  have dl: "lq_denom l = d" "\<forall>l \<in> set ls. lq_denom l = d" using Cons.prems(3) by simp_all
  consider "left = 0" | "left \<noteq> 0" "left < lq_amount l" | "left \<noteq> 0" "lq_amount l \<le> left" by fastforce
  then show ?case
  proof cases
    case 1
    with Cons.prems(1,5) ok show ?thesis by (simp add: taken_def)
  next
    case 2
    let ?lp = "\<lparr>lv_index = lq_index l, lv_address = lq_address l, lv_provided = to_dec left, lv_share = None\<rparr>"
    have m: "m = left" using 2 Cons.prems(5) ok by simp
    have "use_entries d (l # ls) left used lps s
        = (Inr (0, used + left, lps @ [?lp]), set_liquidity (l\<lparr>lq_amount := lq_amount l - left\<rparr>) (- left) s)"
      using 2 Cons.prems(4) by (cases ls) auto
    with taken_part [OF Cons.prems(1) g, of left] 2 Cons.prems(4) dl show ?thesis by (simp add: taken_from_def m)
  next
    case 3
    let ?lp = "\<lparr>lv_index = lq_index l, lv_address = lq_address l, lv_provided = to_dec (lq_amount l), lv_share = None\<rparr>"
    obtain t where t: "remove_liquidity d (lq_index l) (lq_amount l) s = (Inr (), t)" "taken d (lq_amount l) s t" "pending ls t"
      using taken_all [OF Cons.prems(1) g] Cons.prems(2) dl by (auto simp: taken_from_def)
    have n: "0 \<le> left - lq_amount l" "m - lq_amount l = min (left - lq_amount l) (sum_list (map lq_amount ls))"
      using 3 Cons.prems(5) by auto
    obtain lps' u where u: "use_entries d ls (left - lq_amount l) (used + lq_amount l) (lps @ [?lp]) t
        = (Inr (left - m, used + m, lps @ ?lp # lps'), u)" "taken d (m - lq_amount l) t u"
      "sum_list (map lv_provided lps') = to_dec (m - lq_amount l)" "\<forall>lp \<in> set lps'. 0 \<le> lv_provided lp" "length lps' \<le> length ls"
      using Cons.IH [OF takenD(1) [OF t(2)] t(3) dl(2) n, of "used + lq_amount l" "lps @ [?lp]"] by auto
    have "use_entries d (l # ls) left used lps s = (Inr (left - m, used + m, lps @ ?lp # lps'), u)"
      using 3 Cons.prems(4) t(1) u(1) by simp
    with u(3-5) ok taken_trans [OF t(2) u(2)] show ?thesis
      by (intro exI [of _ "?lp # lps'"] exI [of _ u]) (simp add: to_dec_diff)
  qed
qed

section \<open>Who is touched\<close>

definition dex_pools :: "'b env \<Rightarrow> addr set" where
  "dex_pools E = mod_addr E ` {pool_liquidity, pool_trade, pool_reserve, pool_fees, dex_module}"

text \<open>Only the pools' balances and the book change.\<close>

definition pools_only :: "'b env \<Rightarrow> ('b, 'z) dex_world_scheme \<Rightarrow> ('b, 'z) dex_world_scheme \<Rightarrow> bool" where
  "pools_only E s t \<longleftrightarrow>
     (\<forall>x d. x \<notin> dex_pools E \<longrightarrow> bal E (bank t) x d = bal E (bank s) x d)
     \<and> (\<forall>d. bk_supply E (bank t) d = bk_supply E (bank s) d)
     \<and> dparams t = dparams s \<and> xparams t = xparams s \<and> orders t = orders s \<and> order_next t = order_next s
     \<and> height t = height s \<and> trade_amounts t = trade_amounts s \<and> dex_world.more t = dex_world.more s"

lemma pools_only_refl [simp]: "pools_only E s s"
  by (simp add: pools_only_def)

lemma pools_only_trans: "pools_only E s t \<Longrightarrow> pools_only E t u \<Longrightarrow> pools_only E s u"
  by (simp add: pools_only_def)

lemma pools_only_book: "book_only s t \<Longrightarrow> pools_only E s t"
  by (simp add: pools_only_def book_onlyD)

lemma pools_only_pairs: "pairs_only s t \<Longrightarrow> pools_only E s t"
  by (simp add: pools_only_def pairs_onlyD)

text \<open>The book is consistent, has at most \<open>N\<close> entries and room for \<open>n\<close> more indices.\<close>

definition book_room :: "nat \<Rightarrow> nat \<Rightarrow> ('b, 'z) dex_world_scheme \<Rightarrow> bool" where
  "book_room N n s \<longleftrightarrow> book_inv s \<and> denoms_separate (dparams s) \<and> length (liquidities s) \<le> N
     \<and> unat (liquidity_next s) + n < 2 ^ 64 - 1"

lemma book_room_mono: "book_room N n s \<Longrightarrow> N \<le> N' \<Longrightarrow> n' \<le> n \<Longrightarrow> book_room N' n' s"
  by (simp add: book_room_def)

lemma book_room_cong:
  "liquidities t = liquidities s \<Longrightarrow> liquidity_sums t = liquidity_sums s \<Longrightarrow> liquidity_next t = liquidity_next s
   \<Longrightarrow> dparams t = dparams s \<Longrightarrow> book_room N n t = book_room N n s"
  using book_inv_cong [of t s] by (simp add: book_room_def)

lemma book_room_pairs: "pairs_only s t \<Longrightarrow> book_room N n t = book_room N n s"
  by (rule book_room_cong) (simp_all add: pairs_onlyD)

lemma room_not_max: "unat (i :: 64 word) + n < 2 ^ 64 - 1 \<Longrightarrow> i < - 1"
  by (simp add: word_less_nat_alt unsigned_minus_1_eq_mask mask_eq_exp_minus_1)

lemma unat_Suc_le: "unat (i + 1 :: 64 word) \<le> Suc (unat i)"
  using unatSuc [of i] by (cases "i + 1 = 0") (simp_all add: add.commute)

lemma add_entry_room:
  assumes "book_room N (Suc n) s" "d \<in> set (denoms (dparams s))" "0 \<le> amt"
  shows "book_room (Suc N) n (add_entry d a amt s)"
proof -
  have s: "book_inv s" "denoms_separate (dparams s)" "length (liquidities s) \<le> N"
    "unat (liquidity_next s) + Suc n < 2 ^ 64 - 1" using assms(1) by (simp_all add: book_room_def)
  note e = add_entry_inv [OF s(1,2) assms(2,3) room_not_max [OF s(4)], of a]
  have "length (liquidities (add_entry d a amt s)) \<le> Suc (length (liquidities s))"
    using length_kv_put by (auto simp: add_entry_def set_liquidity_def Let_def set_liquidity_next_index_def
        split: option.splits)
  moreover have "unat (liquidity_next (add_entry d a amt s)) \<le> Suc (unat (liquidity_next s))"
    using e(3) unat_Suc_le [of "liquidity_next s"] by auto
  ultimately show ?thesis
    using e(1) s book_onlyD(3) [OF add_entry_only [of s d a amt]] by (simp add: book_room_def)
qed

section \<open>The gap of the pool\<close>

text \<open>What the book promises to the providers beyond what the pool holds.\<close>

definition pool_gap :: "'b env \<Rightarrow> ('b, 'z) dex_world_scheme \<Rightarrow> denom \<Rightarrow> int" where
  "pool_gap E s d = liq_sum s d - bal E (bank s) (mod_addr E pool_liquidity) d"

definition pools_apart :: "'b env \<Rightarrow> bool" where
  "pools_apart E \<longleftrightarrow> mod_addr E pool_liquidity \<noteq> mod_addr E pool_trade \<and> mod_addr E pool_liquidity \<noteq> mod_addr E pool_fees"

text \<open>It grows by at most half of \<open>f\<close>, counted in \<open>10\<^sup>-\<^sup>1\<^sup>8\<close> of a unit, while the recorded volumes stay.\<close>

definition gap_grows :: "'b env \<Rightarrow> (denom \<Rightarrow> int) \<Rightarrow> ('b, 'z) dex_world_scheme \<Rightarrow> ('b, 'z) dex_world_scheme \<Rightarrow> bool" where
  "gap_grows E f s t \<longleftrightarrow> trade_amounts t = trade_amounts s \<and> (pools_apart E \<longrightarrow> (\<forall>d. 2 * to_dec (pool_gap E t d - pool_gap E s d) \<le> f d))"

text \<open>The rounding of \<open>n\<close> shares of \<open>F\<close>.\<close>

definition share_drift :: "nat \<Rightarrow> int \<Rightarrow> denom \<Rightarrow> denom \<Rightarrow> int" where
  "share_drift n F d d' = (if d' = d then int n * (2 * F + dec_unit) else 0)"

lemma share_drift_mono: "n \<le> m \<Longrightarrow> F \<le> G \<Longrightarrow> 0 \<le> F \<Longrightarrow> share_drift n F d d' \<le> share_drift m G d d'"
  by (auto simp: share_drift_def intro!: mult_mono)

lemma share_drift_nonneg: "0 \<le> F \<Longrightarrow> 0 \<le> share_drift n F d d'"
  by (simp add: share_drift_def)

lemma gap_grows_eq: "trade_amounts t = trade_amounts s \<Longrightarrow> (\<And>d. pools_apart E \<Longrightarrow> pool_gap E t d \<le> pool_gap E s d) \<Longrightarrow> gap_grows E (\<lambda>_. 0) s t"
  by (auto simp: gap_grows_def to_dec_def mult_le_0_iff)

lemma gap_grows_mono: "gap_grows E f s t \<Longrightarrow> (\<And>d. f d \<le> g d) \<Longrightarrow> gap_grows E g s t"
  unfolding gap_grows_def by (meson order_trans)

lemma gap_grows_trans:
  assumes "gap_grows E f s t" "gap_grows E g t u"
  shows "gap_grows E (\<lambda>d. f d + g d) s u"
  unfolding gap_grows_def
proof (intro conjI impI allI)
  show "trade_amounts u = trade_amounts s" using assms by (simp add: gap_grows_def)
next
  fix d
  assume "pools_apart E"
  with assms have "2 * to_dec (pool_gap E t d - pool_gap E s d) \<le> f d" "2 * to_dec (pool_gap E u d - pool_gap E t d) \<le> g d"
    by (simp_all add: gap_grows_def)
  then show "2 * to_dec (pool_gap E u d - pool_gap E s d) \<le> f d + g d" by (simp add: to_dec_def algebra_simps)
qed

lemma gap_grows_0_trans: "gap_grows E (\<lambda>_. 0) s t \<Longrightarrow> gap_grows E f t u \<Longrightarrow> gap_grows E f s u"
  "gap_grows E f s t \<Longrightarrow> gap_grows E (\<lambda>_. 0) t u \<Longrightarrow> gap_grows E f s u"
  using gap_grows_trans [of E "\<lambda>_. 0" s t f u] gap_grows_trans [of E f s t "\<lambda>_. 0" u] by simp_all

lemma gap_grows_refl [simp]: "gap_grows E (\<lambda>_. 0) s s"
  by (rule gap_grows_eq) simp_all

lemma pool_gap_cong: "bank t = bank s \<Longrightarrow> liquidity_sums t = liquidity_sums s \<Longrightarrow> pool_gap E t d = pool_gap E s d"
  using liq_sum_cong [of t s d] by (simp add: pool_gap_def)

lemma gap_grows_pairs: "pairs_only s t \<Longrightarrow> gap_grows E (\<lambda>_. 0) s t"
  using pool_gap_cong [of t s E] by (intro gap_grows_eq) (simp_all add: pairs_onlyD)

lemma add_entry_gap:
  assumes "book_room N (Suc n) s" "d \<in> set (denoms (dparams s))" "0 \<le> amt"
  shows "pool_gap E (add_entry d a amt s) d' = pool_gap E s d' + (if d' = d then amt else 0)"
  using assms add_entry_inv(2) [of s d amt a d'] room_not_max [of "liquidity_next s" "Suc n"] book_onlyD(1) [OF add_entry_only [of s d a amt]]
  by (simp add: pool_gap_def book_room_def)

section \<open>The parts of a step\<close>

lemma pool_in [simp]:
  "mod_addr E pool_liquidity \<in> dex_pools E" "mod_addr E pool_trade \<in> dex_pools E"
  "mod_addr E pool_reserve \<in> dex_pools E" "mod_addr E pool_fees \<in> dex_pools E" "mod_addr E dex_module \<in> dex_pools E"
  by (simp_all add: dex_pools_def)

lemma pools_only_bank:
  assumes "t = s\<lparr>bank := bank t\<rparr>" "\<And>x d. x \<notin> dex_pools E \<Longrightarrow> bal E (bank t) x d = bal E (bank s) x d"
    "\<And>d. bk_supply E (bank t) d = bk_supply E (bank s) d"
  shows "pools_only E s t"
  using assms(2,3) bank_onlyD [OF assms(1)] by (simp add: pools_only_def)

lemma send_mod_mod_pools:
  assumes "sdk E" "send_mod_mod E m m' d n s = (Inr u, t)" "mod_addr E m \<in> dex_pools E" "mod_addr E m' \<in> dex_pools E"
  shows "0 \<le> n" "pools_only E s t" "book_room N k t = book_room N k s" "liq_sum t d' = liq_sum s d'"
    "pool_gap E t d' = pool_gap E s d' + (if mod_addr E pool_liquidity = mod_addr E m \<and> d' = d then n else 0)
       - (if mod_addr E pool_liquidity = mod_addr E m' \<and> d' = d then n else 0)"
proof -
  note c = sdk.send_mod_mod_ok [OF assms(1,2)]
  show "pool_gap E t d' = pool_gap E s d' + (if mod_addr E pool_liquidity = mod_addr E m \<and> d' = d then n else 0)
       - (if mod_addr E pool_liquidity = mod_addr E m' \<and> d' = d then n else 0)"
    using liq_sum_cong [of t s d'] by (simp add: pool_gap_def c(2) bank_onlyD [OF c(4)])
  show "0 \<le> n" by (rule c)
  show "pools_only E s t" using assms(3,4) c(2,3) by (intro pools_only_bank [OF c(4)]) auto
  show "book_room N k t = book_room N k s" by (rule book_room_cong) (simp_all add: bank_onlyD [OF c(4)])
  show "liq_sum t d' = liq_sum s d'" by (rule liq_sum_cong) (simp add: bank_onlyD [OF c(4)])
qed

lemma determine_liquidity_providers_ok:
  assumes "sdk E" and b: "book_room N n s" and d: "to \<in> set (denoms (dparams s))"
    and r: "determine_liquidity_providers E left from to s = (Inr (lps, left'), t)"
  defines "m \<equiv> min (max 0 left) (liq_sum s to)"
  shows "left' = left - m" "0 \<le> m" "m \<le> max 0 left" "book_room N n t" "pools_only E s t"
    "liq_sum t d' = liq_sum s d' - (if d' = to then m else 0)"
    "sum_list (map lv_provided lps) = to_dec m" "\<forall>lp \<in> set lps. 0 \<le> lv_provided lp" "length lps \<le> N"
    "bal E (bank t) x d' = bal E (bank s) x d' - (if x = mod_addr E pool_liquidity \<and> d' = to then m else 0)
       + (if x = mod_addr E pool_trade \<and> d' = to then m else 0)"
    "gap_grows E (\<lambda>_. 0) s t"
proof -
  have s: "book_inv s" "denoms_separate (dparams s)" "length (liquidities s) \<le> N"
    "unat (liquidity_next s) + n < 2 ^ 64 - 1" using b by (simp_all add: book_room_def)
  let ?ls = "liquidity_entries s to" and ?R = "use_entries to (liquidity_entries s to) left 0 [] s"
  have dl: "\<forall>l \<in> set ?ls. lq_denom l = to" using liquidity_entries_iff [OF s(1,2) d] by blast
  have "sum_list (map lq_amount ?ls) = sum_list (map (amount_in to) ?ls)"
    using dl by (intro arg_cong [where f = sum_list]) (simp add: amount_in_def)
  then have sum: "sum_list (map lq_amount ?ls) = liq_sum s to" using amount_in_entries [OF s(1)] by simp
  have nonneg: "0 \<le> liq_sum s to"
    unfolding sum [symmetric] using liquidity_entries_get(2) [OF s(1)] by (intro sum_list_nonneg) (auto simp: entry_ok_def)
  have len: "length ?ls \<le> length (liquidities s)"
    by (simp add: liquidity_entries_def kv_vals_def kv_iter_def)
  obtain lps' v where R: "?R = (Inr (left - m, m, lps'), v)" "taken to m s v"
    "sum_list (map lv_provided lps') = to_dec m" "\<forall>lp \<in> set lps'. 0 \<le> lv_provided lp" "length lps' \<le> length ?ls"
  proof (cases "left \<le> 0")
    case True
    then have "?R = (Inr (left, 0, []), s)" "m = 0" using nonneg by (cases ?ls; simp add: m_def)+
    with True s nonneg show ?thesis by (intro that [of "[]" s]) (simp_all add: taken_def)
  next
    case False
    then have "m = min left (sum_list (map lq_amount ?ls))" and "0 \<le> left" by (simp_all add: m_def sum)
    with use_entries_spec [OF s(1) pending_entries [OF s(1)] dl, of left m 0 "[]"] show ?thesis using that by auto
  qed
  note tk = takenD [OF R(2)]
  from r R(1) have snd: "send_mod_mod E pool_liquidity pool_trade to m v = (Inr (), t)" and eq: "lps = lps'" "left' = left - m"
    by (auto simp: determine_liquidity_providers_def bindS_Inr_iff)
  note c = send_mod_mod_pools [OF assms(1) snd pool_in(1,2)] and c' = sdk.send_mod_mod_ok [OF assms(1) snd]
  show "left' = left - m" by (rule eq)
  show "0 \<le> m" "m \<le> max 0 left" using nonneg by (simp_all add: m_def)
  have "book_room N n v" using tk(1-4) s book_onlyD(3) [OF tk(2)] by (simp add: book_room_def)
  then show "book_room N n t" by (simp add: c(3))
  show "pools_only E s t" using pools_only_trans [OF pools_only_book [OF tk(2)] c(2)] .
  show "liq_sum t d' = liq_sum s d' - (if d' = to then m else 0)" using c(4) tk(5) by simp
  show "sum_list (map lv_provided lps) = to_dec m" "\<forall>lp \<in> set lps. 0 \<le> lv_provided lp" "length lps \<le> N"
    using R(3-5) len s(3) by (simp_all add: eq)
  show "bal E (bank t) x d' = bal E (bank s) x d' - (if x = mod_addr E pool_liquidity \<and> d' = to then m else 0)
       + (if x = mod_addr E pool_trade \<and> d' = to then m else 0)"
    using c'(2) book_onlyD(1) [OF tk(2)] by simp
  show "gap_grows E (\<lambda>_. 0) s t"
    using tk(5) c(2,5) book_onlyD(1,7) [OF tk(2)] by (intro gap_grows_eq) (simp_all add: pools_apart_def pool_gap_def pools_only_def)
qed

lemma distribute_fee_ok:
  assumes "sdk E" "0 \<le> provider_fee"
  shows "distribute_fee E provider_fee d lps left s = (Inr lps', t) \<Longrightarrow> book_room N (n + length lps) s \<Longrightarrow>
    d \<in> set (denoms (dparams s)) \<Longrightarrow> \<forall>lp \<in> set lps. 0 \<le> lv_provided lp \<Longrightarrow>
    book_room (N + length lps) n t \<and> pools_only E s t \<and> length lps' = length lps \<and> (\<forall>lp \<in> set lps'. 0 \<le> lv_provided lp)
    \<and> gap_grows E (\<lambda>_. 0) s t"
proof (induction lps arbitrary: left s lps' N)
  case Nil
  then show ?case by (auto split: if_splits)
next
  case (Cons lp lps)
  note dec = sdk.axioms(1) [OF assms(1)]
  show ?case
  proof (cases "left > 0")
    case False
    with Cons.prems show ?thesis by (auto elim: book_room_mono)
  next
    case True
    let ?a = "min left (dround E (lv_provided lp))" and ?w = "add_entry d (lv_address lp) (min left (dround E (lv_provided lp))) s"
    from True Cons.prems(1) obtain v lps'' where v: "send_mod_mod E pool_trade pool_liquidity d ?a ?w = (Inr (), v)"
      "distribute_fee E provider_fee d lps (left - ?a) v = (Inr lps'', t)"
      and l: "lps' = lp\<lparr>lv_provided := dmul E (lv_provided lp) provider_fee\<rparr> # lps''"
      by (auto simp: bindS_Inr_iff Let_def)
    have a0: "0 \<le> ?a" using True decimal.round_nonneg [OF dec] Cons.prems(4) by simp
    have "book_room (Suc N) (n + length lps) ?w"
      using add_entry_room [of N "n + length lps" s d ?a] Cons.prems(2,3) a0 by simp
    note c = send_mod_mod_pools [OF assms(1) v(1) pool_in(2,1)]
    have bv: "book_room (Suc N) (n + length lps) v" using c(3) \<open>book_room (Suc N) (n + length lps) ?w\<close> by blast
    have gap: "gap_grows E (\<lambda>_. 0) s v"
      using c(2,5) book_onlyD(7) [OF add_entry_only [of s d "lv_address lp" ?a]] add_entry_gap [of N "n + length lps" s d ?a E "lv_address lp"] Cons.prems(2,3) a0
      by (intro gap_grows_eq) (simp_all add: pools_apart_def pools_only_def)
    have p: "pools_only E s v" using pools_only_trans [OF pools_only_book [OF add_entry_only] c(2)] .
    then have "d \<in> set (denoms (dparams v))" using Cons.prems(3) by (simp add: pools_only_def)
    from Cons.IH [OF v(2) bv this] Cons.prems(4) pools_only_trans [OF p] l
      decimal.mul_nonneg [OF dec, of "lv_provided lp" provider_fee] assms(2)
    show ?thesis using gap_grows_0_trans(1) [OF gap] by simp
  qed
qed

text \<open>One entry per provider: the part of the received funds that its share says.\<close>

definition eligible_amt :: "'b env \<Rightarrow> int \<Rightarrow> liquidity_provider \<Rightarrow> int" where
  "eligible_amt E funds lp = dround E (dmul E (the (lv_share lp)) (to_dec funds))"

definition add_share :: "'b env \<Rightarrow> int \<Rightarrow> denom \<Rightarrow> liquidity_provider \<Rightarrow> unit \<Rightarrow> (('b, 'z) dex_world_scheme, unit) cmd" where
  "add_share E funds d lp _ s = bindS (nilR (lv_share lp), s) (\<lambda>share s.
     let eligible = dround E (dmul E share (to_dec funds)) in
     (Inr (), add_entry d (lv_address lp) eligible s))"

lemma distribute_given_funds_add_share:
  "distribute_given_funds E lps funds d s = bindS (foldS (add_share E funds d) (provided_shares E lps) () s) (\<lambda>_ s.
     send_mod_mod E pool_trade pool_liquidity d funds s)"
  by (simp add: distribute_given_funds_def add_share_def [abs_def])

lemma add_share_some:
  "lv_share lp = Some x \<Longrightarrow> add_share E funds d lp u s = (Inr (), add_entry d (lv_address lp) (eligible_amt E funds lp) s)"
  by (simp add: add_share_def eligible_amt_def Let_def)

lemma add_shares_ok:
  assumes "sdk E" "0 \<le> funds" "foldS (add_share E funds d) lps () s = (Inr (), t)" "book_room N (n + length lps) s"
    "d \<in> set (denoms (dparams s))" "\<forall>lp \<in> set lps. \<exists>x. lv_share lp = Some x \<and> 0 \<le> x"
  shows "book_room (N + length lps) n t \<and> pools_only E s t
    \<and> (\<forall>d'. pool_gap E t d' = pool_gap E s d' + (if d' = d then (\<Sum>lp \<leftarrow> lps. eligible_amt E funds lp) else 0))"
  using assms(3-6)
proof (induction lps arbitrary: s N)
  case (Cons lp lps)
  note dec = sdk.axioms(1) [OF assms(1)]
  let ?e = "eligible_amt E funds lp" and ?w = "add_entry d (lv_address lp) (eligible_amt E funds lp) s"
  obtain x where x: "lv_share lp = Some x" "0 \<le> x" using Cons.prems(4) by auto
  have e: "0 \<le> ?e"
    using decimal.round_nonneg [OF dec] decimal.mul_nonneg [OF dec] x assms(2) by (simp add: eligible_amt_def)
  have w: "book_room (Suc N) (n + length lps) ?w"
    using add_entry_room [of N "n + length lps" s d ?e] Cons.prems(2,3) e by simp
  have p: "pools_only E s ?w" by (rule pools_only_book) simp
  then have "d \<in> set (denoms (dparams ?w))" using Cons.prems(3) by (simp add: pools_only_def)
  moreover have "foldS (add_share E funds d) lps () ?w = (Inr (), t)"
    using Cons.prems(1) by (simp add: add_share_some [OF x(1)])
  moreover have "pool_gap E ?w d' = pool_gap E s d' + (if d' = d then ?e else 0)" for d'
    using add_entry_gap [of N "n + length lps" s d ?e] Cons.prems(2,3) e by simp
  ultimately show ?case using Cons.IH [OF _ w] Cons.prems(4) pools_only_trans [OF p] by simp
qed simp

lemma distribute_given_funds_ok:
  assumes "sdk E" "distribute_given_funds E lps funds d s = (Inr u, t)" "book_room N (n + length lps) s"
    "d \<in> set (denoms (dparams s))" "\<forall>lp \<in> set lps. 0 \<le> lv_provided lp" "0 \<le> funds"
  shows "book_room (N + length lps) n t \<and> pools_only E s t
    \<and> gap_grows E (share_drift (length lps) funds d) s t"
proof -
  note dec = sdk.axioms(1) [OF assms(1)]
  have sh: "\<forall>lp \<in> set (provided_shares E lps). \<exists>x. lv_share lp = Some x \<and> 0 \<le> x"
    using assms(5) decimal.quo_nonneg [OF dec] by (auto simp: provided_shares_def Let_def)
  from assms(2) obtain v where v: "foldS (add_share E funds d) (provided_shares E lps) () s = (Inr (), v)"
    "send_mod_mod E pool_trade pool_liquidity d funds v = (Inr (), t)"
    by (auto simp: distribute_given_funds_add_share bindS_Inr_iff)
  have len: "length (provided_shares E lps) = length lps" by (simp add: provided_shares_def Let_def)
  note c = send_mod_mod_pools [OF assms(1) v(2) pool_in(2,1)]
  have l: "book_room (N + length lps) n v" "pools_only E s v"
    "pool_gap E v d' = pool_gap E s d' + (if d' = d then (\<Sum>lp \<leftarrow> provided_shares E lps. eligible_amt E funds lp) else 0)" for d'
    using add_shares_ok [OF assms(1,6) v(1) _ assms(4) sh, of N n] assms(3) by (simp_all add: len)
  let ?ps = "map lv_provided lps"
  have "sum_provided lps = sum_list ?ps" unfolding sum_provided_def by (simp add: foldl_sum)
  then have es: "(\<Sum>lp \<leftarrow> provided_shares E lps. eligible_amt E funds lp)
      = (\<Sum>p \<leftarrow> ?ps. dround E (dmul E (if sum_list ?ps > 0 then dquo E p (sum_list ?ps) else 0) (to_dec funds)))"
    by (simp add: provided_shares_def Let_def eligible_amt_def comp_def)
  have "2 * to_dec ((\<Sum>lp \<leftarrow> provided_shares E lps. eligible_amt E funds lp) - funds) \<le> int (length lps) * (2 * funds + dec_unit)"
    unfolding es using decimal.shares_sum [OF dec assms(6), of ?ps] assms(5) by simp
  moreover have "pool_gap E t d' = pool_gap E v d' - (if d' = d then funds else 0)" if "pools_apart E" for d'
    using c(5) [of d'] that by (simp add: pools_apart_def)
  ultimately have "gap_grows E (share_drift (length lps) funds d) s t"
    using l(2) c(2) by (simp add: gap_grows_def share_drift_def l(3) pools_only_def)
  with l(1,2) c(2,3) pools_only_trans show ?thesis by blast
qed

end
