(* ===== verification/DexTradeMain.thy ===== *)
theory DexTradeMain
  imports DexTradeBook
begin

text \<open>
  A whole trade: its effect on the balances of its two parties, on everyone else and on the book, and the properties
  of \<open>x/dex\<close>'s trading that rest on \<open>DexTradeProps\<close> and \<open>DexTradeBook\<close>.
\<close>

section \<open>The effect on the balances\<close>

text \<open>
  Outside the pools only the addresses of \<open>A\<close> are touched, and nobody loses anything but \<open>src\<close>,
  which loses at most \<open>n\<close> of \<open>d\<close>; every supply is conserved.
\<close>

definition trade_effect :: "'b env \<Rightarrow> addr set \<Rightarrow> addr \<Rightarrow> denom \<Rightarrow> int \<Rightarrow> ('b, 'z) dex_world_scheme \<Rightarrow> ('b, 'z) dex_world_scheme \<Rightarrow> bool" where
  "trade_effect E A src d n s t \<longleftrightarrow>
     (\<forall>x d'. x \<notin> dex_pools E \<longrightarrow> x \<notin> A \<longrightarrow> bal E (bank t) x d' = bal E (bank s) x d')
     \<and> (\<forall>x d'. x \<notin> dex_pools E \<longrightarrow> bal E (bank s) x d' - (if x = src \<and> d' = d then n else 0) \<le> bal E (bank t) x d')
     \<and> (\<forall>d'. bk_supply E (bank t) d' = bk_supply E (bank s) d')
     \<and> dparams t = dparams s \<and> xparams t = xparams s \<and> orders t = orders s \<and> order_next t = order_next s
     \<and> height t = height s \<and> dex_world.more t = dex_world.more s"

lemma trade_effect_pools: "pools_only E s t \<Longrightarrow> trade_effect E A src d 0 s t"
  by (simp add: pools_only_def trade_effect_def)

lemma trade_effect_trans:
  assumes "trade_effect E A src d n s t" "trade_effect E A src d m t u"
  shows "trade_effect E A src d (n + m) s u"
proof -
  have "bal E (bank s) x d' - (if x = src \<and> d' = d then n + m else 0) \<le> bal E (bank u) x d'" if "x \<notin> dex_pools E" for x d'
  proof -
    have "bal E (bank s) x d' - (if x = src \<and> d' = d then n else 0) \<le> bal E (bank t) x d'"
      "bal E (bank t) x d' - (if x = src \<and> d' = d then m else 0) \<le> bal E (bank u) x d'"
      using assms that unfolding trade_effect_def by blast+
    then show ?thesis by (auto split: if_splits)
  qed
  with assms show ?thesis unfolding trade_effect_def by simp
qed

lemma trade_effect_mono:
  assumes "trade_effect E A src d n s t" "n \<le> m"
  shows "trade_effect E A src d m s t"
proof -
  have "bal E (bank s) x d' - (if x = src \<and> d' = d then m else 0) \<le> bal E (bank t) x d'" if "x \<notin> dex_pools E" for x d'
  proof -
    have "bal E (bank s) x d' - (if x = src \<and> d' = d then n else 0) \<le> bal E (bank t) x d'"
      using assms(1) that unfolding trade_effect_def by blast
    then show ?thesis using assms(2) by (auto split: if_splits)
  qed
  with assms(1) show ?thesis unfolding trade_effect_def by simp
qed

lemma trade_effect_other: "trade_effect E A src d' 0 s t \<Longrightarrow> trade_effect E A src d 0 s t"
  by (simp add: trade_effect_def)

lemma trade_effect_step: "trade_effect E A src d n s t \<Longrightarrow> trade_effect E A src d 0 t u \<Longrightarrow> trade_effect E A src d n s u"
  using trade_effect_trans [of E A src d n s t 0 u] by simp

lemma send_acc_mod_effect:
  assumes "sdk E" "send_acc_mod E src m d n s = (Inr u, t)" "mod_addr E m \<in> dex_pools E" "src \<in> A"
  shows "trade_effect E A src d n s t" "book_room N k t = book_room N k s" "0 \<le> n"
    "src \<noteq> mod_addr E pool_liquidity \<Longrightarrow> gap_grows E (\<lambda>_. 0) s t"
proof -
  note c = sdk.send_acc_mod_ok [OF assms(1,2)]
  show "gap_grows E (\<lambda>_. 0) s t" if "src \<noteq> mod_addr E pool_liquidity"
    using that c(1,2) liq_sum_cong [of t s] by (intro gap_grows_eq) (simp_all add: pool_gap_def bank_onlyD [OF c(4)])
  show "trade_effect E A src d n s t"
    using assms(3,4) c(1,2,3) bank_onlyD [OF c(4)] by (auto simp: trade_effect_def)
  show "book_room N k t = book_room N k s" by (rule book_room_cong) (simp_all add: bank_onlyD [OF c(4)])
  show "0 \<le> n" by (rule c)
qed

lemma send_mod_acc_effect:
  assumes "sdk E" "send_mod_acc E m tgt d n s = (Inr u, t)" "mod_addr E m \<in> dex_pools E" "tgt \<in> A"
  shows "trade_effect E A src d' 0 s t" "book_room N k t = book_room N k s" "0 \<le> n"
    "m = pool_trade \<Longrightarrow> gap_grows E (\<lambda>_. 0) s t"
proof -
  note c = sdk.send_mod_acc_ok [OF assms(1,2)]
  show "gap_grows E (\<lambda>_. 0) s t" if "m = pool_trade"
    using that c(1,2) bank_onlyD(6,9) [OF c(4)] liq_sum_cong [of t s] by (intro gap_grows_eq) (auto simp: pool_gap_def pools_apart_def)
  show "trade_effect E A src d' 0 s t"
    using assms(3,4) c(1,2,3) bank_onlyD [OF c(4)] by (auto simp: trade_effect_def)
  show "book_room N k t = book_room N k s" by (rule book_room_cong) (simp_all add: bank_onlyD [OF c(4)])
  show "0 \<le> n" by (rule c)
qed

section \<open>A step\<close>

text \<open>What a step takes from the source: nothing in the second step, which spends what the first one bought.\<close>

definition step_charge :: "trade_step \<Rightarrow> int \<Rightarrow> int" where
  "step_charge opts used =
     (if ts_to opts = base_currency \<and> ts_start opts = base_currency then ts_amount opts
      else if ts_from opts = base_currency then 0 else used)"

text \<open>The rounding when a step shares out what was used; passing the base currency on shares out nothing.\<close>

definition step_drift :: "nat \<Rightarrow> trade_step \<Rightarrow> int \<Rightarrow> denom \<Rightarrow> int" where
  "step_drift N opts used =
     (if ts_to opts = base_currency \<and> ts_start opts = base_currency \<or> ts_from opts = base_currency \<and> ts_end opts = base_currency
      then (\<lambda>_. 0) else share_drift N used (ts_from opts))"

lemma step_drift_nonneg: "0 \<le> used \<Longrightarrow> 0 \<le> step_drift N opts used d"
  by (simp add: step_drift_def share_drift_nonneg)

lemma share_used_le:
  assumes "sdk E" "0 \<le> gross" "gross \<le> max 0 whole" "whole \<noteq> 0" "0 \<le> amount"
  shows "0 \<le> dround E (dmul E (dquo E (to_dec gross) (to_dec whole)) (to_dec amount))"
    "dround E (dmul E (dquo E (to_dec gross) (to_dec whole)) (to_dec amount)) \<le> amount"
proof -
  note dec = sdk.axioms(1) [OF assms(1)]
  let ?q = "dquo E (to_dec gross) (to_dec whole)"
  have q: "0 \<le> ?q" "?q \<le> dec_one"
    using decimal.quo_nonneg [OF dec, of "to_dec gross" "to_dec whole"]
      decimal.quo_mono [OF dec, of "to_dec gross" "to_dec whole" "to_dec whole"]
      decimal.quo_self [OF dec, of "to_dec whole"] decimal.quo_zero [OF dec, of "to_dec whole"] assms(2-4)
    by (cases "0 < whole"; simp)+
  then show "0 \<le> dround E (dmul E ?q (to_dec amount))"
    using decimal.round_nonneg [OF dec] decimal.mul_nonneg [OF dec] assms(5) by simp
  have "dmul E (to_dec amount) ?q \<le> to_dec amount"
    using decimal.mul_le_left [OF dec, of "to_dec amount" ?q] q(2) assms(5) by simp
  from decimal.round_mono [OF dec this] show "dround E (dmul E ?q (to_dec amount)) \<le> amount"
    by (simp add: decimal.mul_comm [OF dec, of ?q] decimal.round_to_dec [OF dec])
qed

lemma charge_source_ok:
  assumes "sdk E" "charge_source E opts used s = (Inr u, t)" "book_room N n s" "ts_source opts \<in> A"
    and "0 \<le> used" "\<not> (ts_to opts = base_currency \<and> ts_start opts = base_currency)"
  shows "trade_effect E A (ts_source opts) (ts_from opts) (step_charge opts used) s t" "book_room N n t"
    "ts_source opts \<noteq> mod_addr E pool_liquidity \<Longrightarrow> gap_grows E (\<lambda>_. 0) s t"
proof -
  have "trade_effect E A (ts_source opts) (ts_from opts) (step_charge opts used) s t \<and> book_room N n t
    \<and> (ts_source opts \<noteq> mod_addr E pool_liquidity \<longrightarrow> gap_grows E (\<lambda>_. 0) s t)"
  proof (cases "used > 0 \<and> ts_from opts \<noteq> base_currency")
    case True
    with assms(2) have v: "send_acc_mod E (ts_source opts) pool_trade (ts_from opts) used s = (Inr (), t)"
      by (simp add: charge_source_def)
    from send_acc_mod_effect [OF assms(1) v pool_in(2) assms(4)] True assms(3,6) show ?thesis
      by (auto simp: step_charge_def)
  next
    case False
    with assms(2) have "t = s" by (auto simp: charge_source_def)
    moreover have "0 \<le> step_charge opts used" using assms(5,6) by (auto simp: step_charge_def)
    ultimately show ?thesis using assms(3) by (simp add: trade_effect_def)
  qed
  then show "trade_effect E A (ts_source opts) (ts_from opts) (step_charge opts used) s t" "book_room N n t"
    "ts_source opts \<noteq> mod_addr E pool_liquidity \<Longrightarrow> gap_grows E (\<lambda>_. 0) s t" by simp_all
qed

lemma settle_step_ok:
  assumes "sdk E" and r: "settle_step E opts lps gross used s = (Inr paid, t)"
    and b: "book_room N (n + 2 * N) s" and wf: "wf_dex_params (xparams s)"
    and d: "ts_from opts \<in> set (denoms (dparams s))" "ts_to opts \<in> set (denoms (dparams s))"
    and l: "\<forall>lp \<in> set lps. 0 \<le> lv_provided lp" "length lps \<le> N" and used: "0 \<le> used"
  shows "pools_only E s t" "book_room (3 * N) n t" "gap_grows E (share_drift N used (ts_from opts)) s t"
proof -
  obtain paid' for_reserve for_providers where mf: "manage_fee E s gross (ts_fee opts) = (paid', for_reserve, for_providers)"
    by (cases "manage_fee E s gross (ts_fee opts)")
  with r obtain lps' s3 s4 where
    h3: "distribute_fee_for_liquidity_providers E lps for_providers (ts_to opts) s = (Inr lps', s3)"
    and h4: "distribute_given_funds E lps' used (ts_from opts) s3 = (Inr (), s4)"
    and h5: "(if for_reserve > 0 then send_mod_mod E pool_trade pool_reserve (ts_to opts) for_reserve s4 else (Inr (), s4)) = (Inr (), t)"
    by (auto simp: settle_step_def bindS_Inr_iff)
  have pf: "0 \<le> get_provider_fee E s"
    using decimal.mul_nonneg [OF sdk.axioms(1) [OF assms(1)]] wf
    by (simp add: get_provider_fee_def get_reserve_fee_share_def wf_dex_params_def)
  have b2: "book_room N ((n + N) + length lps) s" using b l(2) by (auto elim: book_room_mono)
  note 3 = distribute_fee_ok [OF assms(1) pf h3 [unfolded distribute_fee_for_liquidity_providers_def] b2 d(2) l(1)]
  have f3: "dparams s3 = dparams s" using 3 by (simp add: pools_only_def)
  have b3: "book_room (2 * N) (n + length lps') s3" using 3 l(2) by (auto elim: book_room_mono)
  have nonneg: "\<forall>lp \<in> set lps'. 0 \<le> lv_provided lp" using 3 by blast
  note 4 = distribute_given_funds_ok [OF assms(1) h4 b3 d(1) [folded f3] nonneg used]
  have b4: "book_room (3 * N) n s4" using 4 3 l(2) by (auto elim: book_room_mono)
  have "pools_only E s4 t \<and> book_room (3 * N) n t \<and> gap_grows E (\<lambda>_. 0) s4 t"
  proof (cases "for_reserve > 0")
    case True
    with h5 have v: "send_mod_mod E pool_trade pool_reserve (ts_to opts) for_reserve s4 = (Inr (), t)" by simp
    note c = send_mod_mod_pools [OF assms(1) v pool_in(2,3)]
    have "gap_grows E (\<lambda>_. 0) s4 t"
      using c(1,2,5) by (intro gap_grows_eq) (auto simp: pools_only_def pools_apart_def)
    with b4 c(2,3) show ?thesis by simp
  qed (use h5 b4 in simp)
  with 3 4 show "pools_only E s t" "book_room (3 * N) n t" by (blast intro: pools_only_trans)+
  have "gap_grows E (share_drift (length lps') used (ts_from opts)) s t"
    using gap_grows_0_trans(2) [OF gap_grows_0_trans(1) [of E s s3]] 3 4 \<open>pools_only E s4 t \<and> _\<close> by blast
  then show "gap_grows E (share_drift N used (ts_from opts)) s t"
    by (rule gap_grows_mono) (use 3 l(2) used in \<open>simp add: share_drift_mono\<close>)
qed

lemma pay_trader_ok:
  assumes "sdk E" "pay_trader E opts s = (Inr payout, t)" "book_room N n s" "ts_target opts \<in> A"
  shows "trade_effect E A src d 0 s t" "book_room N n t" "0 \<le> payout" "gap_grows E (\<lambda>_. 0) s t"
proof -
  have p: "payout = bal E (bank s) (mod_addr E pool_trade) (ts_to opts)"
    and h: "(if payout > 0 \<and> ts_to opts \<noteq> base_currency
                 then send_mod_acc E pool_trade (ts_target opts) (ts_to opts) payout s else (Inr (), s)) = (Inr (), t)"
    using assms(2) by (auto simp: pay_trader_def Let_def bindS_Inr_iff)
  have "trade_effect E A src d 0 s t \<and> book_room N n t \<and> gap_grows E (\<lambda>_. 0) s t"
    using h assms(3) send_mod_acc_effect [OF assms(1) _ pool_in(2) assms(4), of "ts_to opts" payout s "()" t]
    by (auto split: if_splits intro: trade_effect_pools)
  then show "trade_effect E A src d 0 s t" "book_room N n t" "gap_grows E (\<lambda>_. 0) s t" by simp_all
  show "0 \<le> payout" unfolding p by (rule sdk.bal_nonneg [OF assms(1)])
qed

text \<open>What a step of a trade guarantees; first for a step through the pool, then for those that only pass the base currency on.\<close>

definition step_outcome :: "'b env \<Rightarrow> addr set \<Rightarrow> nat \<Rightarrow> nat \<Rightarrow> trade_step \<Rightarrow> int \<Rightarrow> int \<Rightarrow> ('b, 'z) dex_world_scheme \<Rightarrow> ('b, 'z) dex_world_scheme \<Rightarrow> bool" where
  "step_outcome E A N n opts used payout s t \<longleftrightarrow> trade_effect E A (ts_source opts) (ts_from opts) (step_charge opts used) s t
     \<and> book_room (3 * N) n t \<and> 0 \<le> payout \<and> used \<le> ts_amount opts \<and> 0 \<le> used
     \<and> (ts_source opts \<noteq> mod_addr E pool_liquidity \<longrightarrow> gap_grows E (step_drift N opts used) s t)"

lemma step_through_pool:
  fixes opts :: trade_step
  assumes "sdk E" and wf: "wf_dex_params (xparams s)" and b: "book_room N (n + 2 * N) s"
    and d: "ts_from opts \<in> set (denoms (dparams s))" "ts_to opts \<in> set (denoms (dparams s))"
    and amt: "0 \<le> ts_amount opts" and A: "ts_source opts \<in> A" "ts_target opts \<in> A" and nz: "to_receive \<noteq> 0"
    and nb: "\<not> (ts_to opts = base_currency \<and> ts_start opts = base_currency)" "\<not> (ts_from opts = base_currency \<and> ts_end opts = base_currency)"
    and h: "determine_liquidity_providers E to_receive (ts_from opts) (ts_to opts) s = (Inr (lps, left), s1)"
    and u: "used = dround E (dmul E (dquo E (to_dec (to_receive - left)) (to_dec to_receive)) (to_dec (ts_amount opts)))"
    and h2: "charge_source E opts used s1 = (Inr (), s2)"
    and h3: "settle_step E opts lps (to_receive - left) used s2 = (Inr paid, s3)"
    and h4: "pay_trader E opts s3 = (Inr payout, t)"
  shows "step_outcome E A N n opts used payout s t"
proof -
  let ?src = "ts_source opts" and ?from = "ts_from opts"
  note 1 = determine_liquidity_providers_ok [OF assms(1) b d(2) h]
  have used: "0 \<le> used" "used \<le> ts_amount opts"
    unfolding u using share_used_le [OF assms(1) _ _ nz amt, of "to_receive - left"] 1(1-3) by simp_all
  note 2 = charge_source_ok [OF assms(1) h2 1(4) A(1) used(1) nb(1)]
  have f2: "dparams s2 = dparams s" "xparams s2 = xparams s"
    using trade_effect_pools [OF 1(5)] 2(1) by (simp_all add: pools_only_def trade_effect_def)
  note 3 = settle_step_ok [OF assms(1) h3 2(2) wf [folded f2(2)] d [folded f2(1)] 1(8,9) used(1)]
  note 4 = pay_trader_ok(1) [OF assms(1) h4 3(2) A(2), of ?src ?from] pay_trader_ok(2-4) [OF assms(1) h4 3(2) A(2)]
  have gap: "?src \<noteq> mod_addr E pool_liquidity \<longrightarrow> gap_grows E (step_drift N opts used) s t"
    using gap_grows_0_trans(1) [OF gap_grows_0_trans(1) [OF 1(11) 2(3)] gap_grows_0_trans(2) [OF 3(3) 4(4)]] nb
    by (auto simp: step_drift_def)
  have "trade_effect E A ?src ?from (0 + step_charge opts used) s s2"
    by (rule trade_effect_trans [OF trade_effect_pools [OF 1(5)] 2(1)])
  then have "trade_effect E A ?src ?from (step_charge opts used) s s3"
    using trade_effect_step [OF _ trade_effect_pools [OF 3(1)]] by simp
  from trade_effect_step [OF this 4(1)] 4(2,3) used gap show ?thesis by (simp add: step_outcome_def)
qed

lemma execute_trade_step_ok:
  fixes opts :: trade_step
  assumes "sdk E" and wf: "wf_dex_params (xparams s)" and b: "book_room N (n + 2 * N) s"
    and d: "ts_from opts \<in> set (denoms (dparams s))" "ts_to opts \<in> set (denoms (dparams s))"
    and amt: "0 \<le> ts_amount opts"
    and st: "ts_to opts = base_currency \<Longrightarrow> ts_start opts = base_currency \<Longrightarrow> ts_from opts = base_currency"
    and A: "ts_source opts \<in> A" "ts_target opts \<in> A"
    and r: "execute_trade_step E opts s = (Inr (used, payout, paid), t)"
  shows "trade_effect E A (ts_source opts) (ts_from opts) (step_charge opts used) s t"
    "book_room (3 * N) n t" "0 \<le> payout" "used \<le> ts_amount opts" "0 \<le> used"
    "ts_source opts \<noteq> mod_addr E pool_liquidity \<Longrightarrow> gap_grows E (step_drift N opts used) s t"
proof -
  have "step_outcome E A N n opts used payout s t"
  proof (cases "ts_to opts = base_currency \<and> ts_start opts = base_currency")
    case True
    with r have v: "send_acc_mod E (ts_source opts) pool_trade base_currency (ts_amount opts) s = (Inr (), t)"
      and eq: "used = ts_amount opts" "payout = ts_amount opts"
      by (auto simp: execute_trade_step_def bindS_Inr_iff)
    from send_acc_mod_effect [OF assms(1) v pool_in(2) A(1)] b True st amt show ?thesis
      by (auto simp: step_outcome_def eq step_charge_def step_drift_def elim: book_room_mono)
  next
    case nb: False
    consider (out) "ts_from opts = base_currency \<and> ts_end opts = base_currency" | (none) "(used, payout, paid) = (0, 0, 0) \<and> t = s"
      | (pool) "\<not> (ts_from opts = base_currency \<and> ts_end opts = base_currency)" "\<not> ((used, payout, paid) = (0, 0, 0) \<and> t = s)" by blast
    then show ?thesis
    proof cases
      case out
      with r nb have v: "send_mod_acc E pool_trade (ts_target opts) (ts_to opts) (ts_amount opts) s = (Inr (), t)"
        and eq: "used = ts_amount opts" "payout = ts_amount opts"
        by (auto simp: execute_trade_step_def bindS_Inr_iff)
      from send_mod_acc_effect [OF assms(1) v pool_in(2) A(2)] b out nb amt show ?thesis
        by (auto simp: step_outcome_def eq step_charge_def step_drift_def elim: book_room_mono)
    next
      case none
      moreover have "gap_grows E (step_drift N opts 0) s s"
        by (rule gap_grows_mono [OF gap_grows_refl]) (simp add: step_drift_nonneg)
      ultimately show ?thesis using b amt
        by (auto simp: step_outcome_def trade_effect_def step_charge_def elim: book_room_mono)
    next
      case pool
      with r nb show ?thesis
        by (auto simp: execute_trade_step_def bindS_Inr_iff Let_def split: if_splits
            intro: step_through_pool [OF assms(1) wf b d amt A _ nb pool(1)])
    qed
  qed
  then show "trade_effect E A (ts_source opts) (ts_from opts) (step_charge opts used) s t"
    "book_room (3 * N) n t" "0 \<le> payout" "used \<le> ts_amount opts" "0 \<le> used"
    "ts_source opts \<noteq> mod_addr E pool_liquidity \<Longrightarrow> gap_grows E (step_drift N opts used) s t"
    by (simp_all add: step_outcome_def)
qed

section \<open>A trade\<close>

lemma limit_by_price_le: "limit_by_price E opts fee s given = Inr n \<Longrightarrow> n \<le> given"
  by (cases "to_max_price opts") (auto simp: limit_by_price_def bindR_Inr_iff Let_def split: if_splits)

lemma limit_by_liquidity_le: "limit_by_liquidity E opts s given = Inr n \<Longrightarrow> n \<le> given"
proof -
  assume "limit_by_liquidity E opts s given = Inr n"
  then obtain m where "(case m of None \<Rightarrow> Inr given
      | Some m \<Rightarrow> if m < given then (if m > 0 \<and> to_incomplete opts then Inr m else Inl (DexE Dex_ErrNotEnoughLiquidity))
         else Inr given) = Inr n"
    unfolding limit_by_liquidity_def by (rule bindR_InrE) auto
  then show "n \<le> given" by (cases m) (auto split: if_splits)
qed

lemma reimburse_fee_ok:
  assumes "sdk E" "reimburse_fee E paid s = (Inr x, t)"
  shows "pools_only E s t" "book_room N k t = book_room N k s" "0 \<le> x" "paid = 0 \<Longrightarrow> x = 0"
    "gap_grows E (\<lambda>_. 0) s t"
proof -
  define n where "n = min (dround E (dmul E (to_dec paid) (fee_reimbursement (xparams s))))
    (get_spendable_coins E (mod_addr E pool_fees) base_currency s)"
  have "pools_only E s t \<and> book_room N k t = book_room N k s \<and> 0 \<le> x \<and> (paid = 0 \<longrightarrow> x = 0)
    \<and> gap_grows E (\<lambda>_. 0) s t"
  proof (cases "paid = 0 \<or> n \<le> 0")
    case True
    with assms(2) have "x = 0" "t = s"
      by (auto simp: reimburse_fee_def Let_def n_def [symmetric] split: if_splits)
    then show ?thesis by simp
  next
    case False
    obtain y v where y: "send_mod_mod E pool_fees dex_module base_currency n s = (y, v)" by fastforce
    with assms(2) False have x: "x = n" "t = v"
      by (auto simp: reimburse_fee_def Let_def n_def [symmetric] split: sum.splits err.splits)
    show ?thesis
    proof (cases y)
      case (Inl e)
      with y bank_ops_fail(4) have "v = s" by blast
      with x False show ?thesis by simp
    next
      case (Inr u)
      note c = send_mod_mod_pools [OF assms(1) y [unfolded Inr] pool_in(4,5)]
      have "gap_grows E (\<lambda>_. 0) s v"
        using c(1,2,5) by (intro gap_grows_eq) (auto simp: pools_only_def pools_apart_def)
      with c x False show ?thesis by simp
    qed
  qed
  then show "pools_only E s t" "book_room N k t = book_room N k s" "0 \<le> x" "paid = 0 \<Longrightarrow> x = 0"
    "gap_grows E (\<lambda>_. 0) s t" by simp_all
qed

lemma add_trade_amount_ok:
  "trade_effect E A src d 0 s (add_trade_amount a x s)" "book_room N k (add_trade_amount a x s) = book_room N k s"
  by (simp_all add: trade_effect_def add_trade_amount_def Let_def set_trade_amount_def book_room_def book_inv_def
      entry_ok_def get_liquidity_sum_def)

lemma step_fee_base:
  assumes "execute_trade_step E opts s = (Inr (used, payout, paid), t)"
    "ts_to opts = base_currency" "ts_start opts = base_currency"
  shows "paid = 0 \<and> payout = ts_amount opts"
  using assms by (auto simp: execute_trade_step_def bindS_Inr_iff)

text \<open>
  The gap that a trade leaves at most: the roundings of what it used of the start denomination and of the volume \<open>V\<close> in the base
  currency, which it records for its target.
\<close>

definition trade_drift :: "nat \<Rightarrow> denom \<Rightarrow> int \<Rightarrow> int \<Rightarrow> denom \<Rightarrow> int" where
  "trade_drift N start used V d = share_drift (3 * N) used start d + share_drift (3 * N) V base_currency d"

definition trade_drifts :: "'b env \<Rightarrow> (int \<Rightarrow> denom \<Rightarrow> int) \<Rightarrow> string \<Rightarrow> ('b, 'z) dex_world_scheme \<Rightarrow> ('b, 'z) dex_world_scheme \<Rightarrow> bool" where
  "trade_drifts E f a s t \<longleftrightarrow>
     (\<exists>V \<ge> 0. trade_amounts t = trade_amounts (add_trade_amount a V s)
        \<and> (\<forall>d. 2 * to_dec (pool_gap E t d - pool_gap E s d) \<le> f V d))"

lemma trade_drifts_add:
  assumes "gap_grows E (f V) s t" "0 \<le> V" "pools_apart E"
  shows "trade_drifts E f a s (add_trade_amount a V t)"
proof -
  have "pool_gap E (add_trade_amount a V t) d = pool_gap E t d" for d
    by (rule pool_gap_cong) (simp_all add: add_trade_amount_def Let_def set_trade_amount_def)
  moreover have "trade_amounts (add_trade_amount a V t) = trade_amounts (add_trade_amount a V s)"
    using assms(1) by (simp add: gap_grows_def add_trade_amount_def Let_def set_trade_amount_def get_trade_amount_def)
  ultimately show ?thesis using assms by (auto simp: trade_drifts_def gap_grows_def)
qed

lemma step_drifts_le:
  assumes "start \<noteq> finish" "0 \<le> used1" "0 \<le> used2" "used2 \<le> V"
  shows "step_drift N (trade_to_base src tgt calc start finish given fee) used1 d
      + step_drift (3 * N) (trade_to_target src tgt calc start finish V fee) used2 d
    \<le> trade_drift N start (if start \<noteq> base_currency then used1 else used2) V d"
proof (cases "start = base_currency")
  case True
  with assms show ?thesis by (simp add: step_drift_def trade_to_base_def trade_to_target_def trade_drift_def share_drift_nonneg)
next
  case False
  have "share_drift N used1 start d \<le> share_drift (3 * N) used1 start d"
    "share_drift (3 * N) used2 base_currency d \<le> share_drift (3 * N) V base_currency d"
    using assms by (simp_all add: share_drift_mono)
  with False assms share_drift_nonneg [of V "3 * N" base_currency d]
  show ?thesis by (simp add: step_drift_def trade_to_base_def trade_to_target_def trade_drift_def)
qed

text \<open>The first leg: from the start denomination into the base currency, and what is reimbursed of its fee.\<close>

lemma first_leg_ok:
  assumes "sdk E" and wf: "wf_dex_params (xparams s)" and b: "book_room N (n + 8 * N) s"
    and d: "start \<in> set (denoms (dparams s))" "base_currency \<in> set (denoms (dparams s))" and given: "0 \<le> given"
    and st: "execute_trade_step E (trade_to_base src tgt calc start finish given fee) s = (Inr (used, received, paid), v)"
    and rb: "reimburse_fee E paid v = (Inr rb, t)"
  shows "trade_effect E {src, tgt} src start (if start = base_currency then given else used) s t" "book_room (3 * N) (n + 6 * N) t"
    "0 \<le> received + rb" "used \<le> given" "0 \<le> used" "start = base_currency \<Longrightarrow> received + rb = given"
    "src \<noteq> mod_addr E pool_liquidity \<Longrightarrow> gap_grows E (step_drift N (trade_to_base src tgt calc start finish given fee) used) s t"
proof -
  have b1: "book_room N ((n + 6 * N) + 2 * N) s" using b by (simp add: algebra_simps)
  note 1 = execute_trade_step_ok [OF assms(1) wf b1 _ _ _ _ _ _ st, of "{src, tgt}", simplified trade_to_base_def trade_step.simps,
      OF d given]
  note 2 = reimburse_fee_ok [OF assms(1) rb]
  have "trade_effect E {src, tgt} src start (if start = base_currency then given else used) s v"
    using 1(1) by (auto simp: step_charge_def split: if_splits)
  then show "trade_effect E {src, tgt} src start (if start = base_currency then given else used) s t"
    using trade_effect_step [OF _ trade_effect_pools [OF 2(1)]] by blast
  show "book_room (3 * N) (n + 6 * N) t" "0 \<le> received + rb" "used \<le> given" "0 \<le> used"
    using 1 2(2,3) by auto
  show "received + rb = given" if "start = base_currency"
    using step_fee_base [OF st] 2(4) that by (simp add: trade_to_base_def)
  show "gap_grows E (step_drift N (trade_to_base src tgt calc start finish given fee) used) s t" if "src \<noteq> mod_addr E pool_liquidity"
    using gap_grows_0_trans(2) [OF _ 2(5)] 1(6) that by (simp add: trade_to_base_def)
qed

text \<open>The second leg: from the base currency into the target; afterwards the ratios of both denominations are refreshed.\<close>

lemma second_leg_ok:
  assumes "sdk E" and wf: "wf_dex_params (xparams s)" and b: "book_room N (n + 2 * N) s"
    and d: "start \<noteq> finish" "finish \<in> set (denoms (dparams s))" "base_currency \<in> set (denoms (dparams s))" and amt: "0 \<le> V"
    and st: "execute_trade_step E (trade_to_target src tgt calc start finish V fee) s = (Inr (used, received, paid), v)"
    and u: "update_ratios E start v = (Inr (), w)" "update_ratios E finish w = (Inr (), t)"
  shows "trade_effect E {src, tgt} src start 0 s t" "book_room (3 * N) n t" "0 \<le> received" "used \<le> V" "0 \<le> used"
    "src \<noteq> mod_addr E pool_liquidity \<Longrightarrow> gap_grows E (step_drift N (trade_to_target src tgt calc start finish V fee) used) s t"
proof -
  note 1 = execute_trade_step_ok [OF assms(1) wf b _ _ _ _ _ _ st, of "{src, tgt}", simplified trade_to_target_def trade_step.simps,
      OF d(3,2) amt]
  have c0: "finish \<noteq> base_currency \<or> start \<noteq> base_currency" using d(1) by auto
  have p: "pairs_only v t"
    using pairs_only_trans [of v w t] update_ratios_only [of v E start] update_ratios_only [of w E finish] u by simp
  have "trade_effect E {src, tgt} src start 0 s v"
    using 1(1) c0 by (auto simp: step_charge_def trade_effect_def split: if_splits)
  then show "trade_effect E {src, tgt} src start 0 s t"
    using trade_effect_step [OF _ trade_effect_pools [OF pools_only_pairs [OF p]]] by blast
  show "book_room (3 * N) n t" "0 \<le> received" "used \<le> V" "0 \<le> used"
    using 1(2-5) c0 book_room_pairs [OF p] by auto
  show "gap_grows E (step_drift N (trade_to_target src tgt calc start finish V fee) used) s t" if "src \<noteq> mod_addr E pool_liquidity"
    using gap_grows_0_trans(2) [OF _ gap_grows_pairs [OF p]] 1(6) that c0 by (simp add: trade_to_target_def)
qed

lemma run_trade_ok:
  assumes "sdk E" and wf: "wf_dex_params (xparams s)" and b: "book_room N (n + 8 * N) s"
    and d: "start \<noteq> finish" "start \<in> set (denoms (dparams s))" "finish \<in> set (denoms (dparams s))"
      "base_currency \<in> set (denoms (dparams s))"
    and given: "0 \<le> given"
    and r: "run_trade E start finish src tgt calc fee given s = (Inr (used, received, fee1, fee2), t)"
  shows "trade_effect E {src, tgt} src start (if start = base_currency then given else used) s t" "book_room (9 * N) n t"
    "0 \<le> received" "0 \<le> used" "used \<le> given"
    "pools_apart E \<Longrightarrow> src \<noteq> mod_addr E pool_liquidity \<Longrightarrow> trade_drifts E (trade_drift N start used) (str_of E tgt) s t"
proof -
  from r obtain used1 received1 s1 rb s2 used2 s3 s4 s5 where
    st1: "execute_trade_step E (trade_to_base src tgt calc start finish given fee) s = (Inr (used1, received1, fee1), s1)"
    and rb: "reimburse_fee E fee1 s1 = (Inr rb, s2)"
    and st2: "execute_trade_step E (trade_to_target src tgt calc start finish (received1 + rb) fee) s2 = (Inr (used2, received, fee2), s3)"
    and u: "update_ratios E start s3 = (Inr (), s4)" "update_ratios E finish s4 = (Inr (), s5)"
    and t: "t = add_trade_amount (str_of E tgt) (received1 + rb) s5"
    and used: "used = (if start \<noteq> base_currency then used1 else used2)"
    by (auto simp: run_trade_def bindS_Inr_iff Let_def)
  note 1 = first_leg_ok [OF assms(1) wf b d(2,4) given st1 rb]
  have f: "dparams s2 = dparams s" "xparams s2 = xparams s" using 1(1) by (simp_all add: trade_effect_def)
  have b2: "book_room (3 * N) (n + 2 * (3 * N)) s2" using 1(2) by (simp add: algebra_simps)
  note 2 = second_leg_ok [OF assms(1) wf [folded f(2)] b2 d(1) d(3,4) [folded f(1)] 1(3) st2 u]
  have e: "trade_effect E {src, tgt} src start (if start = base_currency then given else used) s s5"
    using trade_effect_step [OF 1(1) 2(1)] by (simp add: used split: if_splits)
  show "trade_effect E {src, tgt} src start (if start = base_currency then given else used) s t"
    unfolding t by (rule trade_effect_step [OF e add_trade_amount_ok(1)])
  show "book_room (9 * N) n t" using 2(2) by (simp add: t add_trade_amount_ok(2))
  show "0 \<le> received" "0 \<le> used" "used \<le> given" using 1(4-6) 2(3-5) by (auto simp: used)
  show "trade_drifts E (trade_drift N start used) (str_of E tgt) s t" if ap: "pools_apart E" and sp: "src \<noteq> mod_addr E pool_liquidity"
  proof -
    note le = step_drifts_le [OF d(1) 1(5) 2(5,4)]
    have "gap_grows E (trade_drift N start used (received1 + rb)) s s5"
      by (rule gap_grows_mono [OF gap_grows_trans [OF 1(7) [OF sp] 2(6) [OF sp]]]) (use le in \<open>simp add: used\<close>)
    from trade_drifts_add [where f = "trade_drift N start used", OF this 1(3) ap] show ?thesis by (simp add: t)
  qed
qed

section \<open>Properties\<close>

text \<open>
  C30. The constant-product curve: for a non-negative offer to a pool of at least one unit, the amount paid out is
  not negative, never exceeds the pool, and the product of the two pools after the exchange is not below
  the product before it by more than the rounding of the 18th decimal.
\<close>

theorem constant_product_safe:
  assumes "sdk E" "dec_one \<le> pool_from" "0 \<le> pool_to" "0 \<le> offer"
    and "constant_product_forward E pool_from pool_to offer = Inr n"
  shows "0 \<le> n \<and> to_dec n \<le> pool_to
    \<and> pool_from * pool_to - (pool_from + offer) - dec_unit \<le> (pool_from + offer) * (pool_to - to_dec n)"
  using sdk.constant_product_bounds [OF assms] .

theorem constant_product_safe_witness:
  "0 \<le> (90 :: int) \<and> constant_product_forward dex_env (to_dec 1000) (to_dec 1000) (to_dec 100) = Inr 90"
proof -
  have r: "constant_product_forward dex_env (to_dec 1000) (to_dec 1000) (to_dec 100) = Inr 90" by code_simp
  have "dec_one \<le> to_dec 1000" "0 \<le> to_dec 1000" "0 \<le> to_dec 100" by code_simp+
  from constant_product_safe [OF sdk_dex_env this r] r show ?thesis by blast
qed

text \<open>
  C31. The fee on an amount is split without loss between the reserve and the liquidity providers, no
  part is negative, and the fee never exceeds the amount.
\<close>

theorem manage_fee_split:
  assumes "sdk E" "wf_dex_params (xparams s)" "0 \<le> amount" "0 \<le> fee" "fee \<le> dec_one"
    and "manage_fee E s amount fee = (paid, for_reserve, for_providers)"
  shows "paid = for_reserve + for_providers \<and> 0 \<le> for_reserve \<and> 0 \<le> for_providers \<and> paid \<le> amount"
  using sdk.manage_fee_bounds [OF assms] by blast

theorem manage_fee_split_witness:
  "\<exists>a b. manage_fee dex_env dex_start 10000 (dec_prec 1 3) = (10, a, b) \<and> 10 = a + b"
proof -
  have r: "manage_fee dex_env dex_start 10000 (dec_prec 1 3) = (10, 5, 5)" by code_simp
  have f: "0 \<le> dec_prec 1 3" "dec_prec 1 3 \<le> dec_one" by code_simp+
  have "wf_dex_params (xparams dex_start)" by (simp add: dex_start_def wf_default_dex_params)
  from manage_fee_split [OF sdk_dex_env this _ f r] r show ?thesis by simp
qed

text \<open>
  The fee rate of a trade is always computed without a panic and lies between zero and the governed trade fee;
  the discount applied to it is that of the highest level the wallet's traded volume reaches.
\<close>

theorem trade_fee_in_bounds:
  assumes "sdk E" "wf_dex_params (xparams s)"
  shows "(\<exists>fee. get_trade_fee E s from to a exclude = Inr fee \<and> 0 \<le> fee \<and> fee \<le> trade_fee (xparams s))
    \<and> (\<exists>threshold d. best_discount amount (discount_levels (xparams s)) = Inr (threshold, Some d) \<and> 0 \<le> d \<and> d < dec_one
        \<and> (\<forall>l \<in> set (discount_levels (xparams s)). \<forall>x. dl_trade_amount l = Some x \<and> x \<le> amount \<longrightarrow> x \<le> threshold)
        \<and> ((threshold, d) = (0, 0) \<or> (\<exists>l \<in> set (discount_levels (xparams s)).
             dl_trade_amount l = Some threshold \<and> threshold \<le> amount \<and> dl_discount l = Some d)))"
  using trade_fee_bounds [OF assms] best_discount_spec assms(2) by (simp add: wf_dex_params_def)

theorem trade_fee_in_bounds_witness:
  "\<exists>fee. get_trade_fee dex_env dex_start ''ukopi'' ''uwusdc'' ''alice'' False = Inr fee \<and> 0 \<le> fee \<and> fee \<le> dec_prec 1 3"
proof -
  have x: "xparams dex_start = default_dex_params" by (simp add: dex_start_def)
  have "trade_fee default_dex_params = dec_prec 1 3" by (simp add: default_dex_params_def)
  with trade_fee_in_bounds [OF sdk_dex_env, of dex_start "''ukopi''" "''uwusdc''" "''alice''" False] show ?thesis
    by (simp add: x wf_default_dex_params)
qed

text \<open>
  C2. The search for liquidity takes exactly what is asked for as far as the denomination's
  entries reach, moves it from the pool of liquidity to the pool of the trade, attributes all of it to the providers
  whose entries it used, and lowers the stored sum of that denomination alone by it.
\<close>

theorem determine_liquidity_providers_exact:
  assumes "sdk E" "book_inv s" "denoms_separate (dparams s)" "to \<in> set (denoms (dparams s))" "0 \<le> amount"
    and "liquidity_next s < - 1"
    and "determine_liquidity_providers E amount from to s = (Inr (lps, left), t)"
  shows "left = amount - min amount (liq_sum s to) \<and> sum_list (map lv_provided lps) = to_dec (amount - left) \<and> book_inv t
    \<and> (\<forall>d. liq_sum t d = liq_sum s d - (if d = to then amount - left else 0))
    \<and> (\<forall>x d. bal E (bank t) x d = bal E (bank s) x d
         - (if x = mod_addr E pool_liquidity \<and> d = to then amount - left else 0)
         + (if x = mod_addr E pool_trade \<and> d = to then amount - left else 0))"
proof -
  have "unat (liquidity_next s) < unat (- 1 :: 64 word)" using assms(6) by (simp add: word_less_nat_alt)
  then have "book_room (length (liquidities s)) 0 s"
    using assms(2,3) by (simp add: book_room_def unsigned_minus_1_eq_mask mask_eq_exp_minus_1)
  note d = determine_liquidity_providers_ok [OF assms(1) this assms(4,7)]
  have "max 0 amount = amount" using assms(5) by simp
  with d show ?thesis by (simp add: book_room_def)
qed

lemma determine_example:
  "determine_liquidity_providers dex_env 4000 ''ukopi'' ''uwusdc'' dex_pool
   = (Inr ([\<lparr>lv_index = 2, lv_address = ''bob'', lv_provided = to_dec 4000, lv_share = None\<rparr>], 0),
      snd (determine_liquidity_providers dex_env 4000 ''ukopi'' ''uwusdc'' dex_pool))"
proof -
  have "fst (determine_liquidity_providers dex_env 4000 ''ukopi'' ''uwusdc'' dex_pool)
    = Inr ([\<lparr>lv_index = 2, lv_address = ''bob'', lv_provided = to_dec 4000, lv_share = None\<rparr>], 0)"
    by code_simp
  then show ?thesis by (simp add: prod_eq_iff)
qed

lemma dex_pool_conds:
  "denoms_separate (dparams dex_pool)" "liquidity_next dex_pool < - 1" "''uwusdc'' \<in> set (denoms (dparams dex_pool))"
  "unat (liquidity_next dex_pool) = 2" "length (liquidities dex_pool) = 2"
  by code_simp+

theorem determine_liquidity_providers_exact_witness:
  "liq_sum (snd (determine_liquidity_providers dex_env 4000 ''ukopi'' ''uwusdc'' dex_pool)) ''uwusdc''
   = liq_sum dex_pool ''uwusdc'' - 4000"
  using determine_liquidity_providers_exact [OF sdk_dex_env dex_example_inv(3) dex_pool_conds(1,3) _ dex_pool_conds(2)
      determine_example] by simp

text \<open>
  What a trade may take from its source: what it used, or all that was given when it starts at the base currency,
  where the first step takes the whole amount before the second one knows how much of it can be used.
\<close>

definition trade_charge :: "trade_options \<Rightarrow> int option \<Rightarrow> int" where
  "trade_charge opts used =
     (case used of None \<Rightarrow> 0 | Some u \<Rightarrow> if to_start opts = base_currency then to_given opts else u)"

lemma execute_trade_ok:
  assumes "sdk E" "wf_dex_params (xparams s)" "book_room N (n + 8 * N) s" "base_currency \<in> set (denoms (dparams s))"
    and src: "to_source opts = Some src" "to_target opts = Some tgt"
    and r: "execute_trade E opts s = (Inr (used, received, fee1, fee2), t)"
  shows "trade_effect E {src, tgt} src (to_start opts) (trade_charge opts used) s t \<and> book_room (9 * N) n t
    \<and> (\<forall>u. used = Some u \<longrightarrow> 0 \<le> u \<and> u \<le> to_given opts) \<and> (\<forall>x. received = Some x \<longrightarrow> 0 \<le> x)
    \<and> (case used of None \<Rightarrow> t = s | Some u \<Rightarrow> pools_apart E \<longrightarrow> src \<noteq> mod_addr E pool_liquidity \<longrightarrow>
        trade_drifts E (trade_drift N (to_start opts) u) (str_of E tgt) s t)"
proof -
  from r obtain source target calc fee given where p: "prepare_trade E opts s = Inr (source, target, calc, fee, given)"
    and r2: "(case check_trade_pool_liquidities s (to_start opts) (to_end opts) of
       Inl Panic \<Rightarrow> (Inl Panic, s)
     | Inl _ \<Rightarrow> (if to_incomplete opts then (Inr (None, None, 0, 0), s) else (Inl (DexE Dex_ErrNotEnoughLiquidity), s))
     | Inr _ \<Rightarrow>
         bindS (run_trade E (to_start opts) (to_end opts) source target calc fee given s) (\<lambda>(used, received, fee1, fee2) s.
         (Inr (Some used, Some received, fee1, fee2), s))) = (Inr (used, received, fee1, fee2), t)"
    unfolding execute_trade_def by (rule bindS_InrE) auto
  from p obtain given1 where v: "validate_trade_options opts s = Inr (source, target, calc)"
    and g: "limit_by_price E opts fee s (to_given opts) = Inr given1" "limit_by_liquidity E opts s given1 = Inr given" "\<not> given < 1000"
    by (auto simp: prepare_trade_def bindR_Inr_iff Let_def)
  have d: "to_start opts \<noteq> to_end opts" "to_start opts \<in> set (denoms (dparams s))" "to_end opts \<in> set (denoms (dparams s))"
    "source = src" "target = tgt" "0 \<le> to_given opts"
    using v src by (auto simp: validate_trade_options_def bindR_Inr_iff is_valid_denom_def)
  have le: "given \<le> to_given opts" using limit_by_price_le [OF g(1)] limit_by_liquidity_le [OF g(2)] by simp
  show ?thesis
  proof (cases "check_trade_pool_liquidities s (to_start opts) (to_end opts)")
    case (Inl e)
    with r2 have "used = None" "received = None" "t = s"
      by (cases e; simp split: if_splits)+
    with assms(3) d(6) show ?thesis by (auto simp: trade_effect_def trade_charge_def elim: book_room_mono)
  next
    case (Inr a)
    with r2 obtain u x where run: "run_trade E (to_start opts) (to_end opts) src tgt calc fee given s = (Inr (u, x, fee1, fee2), t)"
      and eq: "used = Some u" "received = Some x"
      by (auto simp: bindS_Inr_iff d(4,5))
    note ok = run_trade_ok [OF assms(1-3) d(1-3) assms(4) _ run]
    have "trade_effect E {src, tgt} src (to_start opts) (trade_charge opts used) s t"
      by (rule trade_effect_mono [OF ok(1)]) (use g(3) le in \<open>simp_all add: eq trade_charge_def\<close>)
    with ok(2-6) g(3) le show ?thesis by (simp add: eq)
  qed
qed

text \<open>
  C1. A completed trade conserves the supply of every denomination, changes no balance but
  those of its source, its target and the module's pools, takes from the source nothing but the start
  denomination, and of it no more than it reports as used (the given amount, if that is the base currency), and lowers no other balance outside the pools; and
  it leaves the liquidity book consistent. It reports using no more than was given.
\<close>

theorem execute_trade_safe:
  assumes "sdk E" "wf_dex_params (xparams s)" "book_inv s" "denoms_separate (dparams s)"
    and "base_currency \<in> set (denoms (dparams s))"
    and "unat (liquidity_next s) + 8 * length (liquidities s) < 2 ^ 64 - 1"
    and "to_source opts = Some src" "to_target opts = Some tgt"
    and "execute_trade E opts s = (Inr (used, received, fee1, fee2), t)"
  shows "(\<forall>d. bk_supply E (bank t) d = bk_supply E (bank s) d)
    \<and> (\<forall>x d. x \<notin> dex_pools E \<longrightarrow> x \<noteq> src \<longrightarrow> x \<noteq> tgt \<longrightarrow> bal E (bank t) x d = bal E (bank s) x d)
    \<and> (\<forall>x d. x \<notin> dex_pools E \<longrightarrow>
         bal E (bank s) x d - (if x = src \<and> d = to_start opts then trade_charge opts used else 0) \<le> bal E (bank t) x d)
    \<and> book_inv t \<and> (\<forall>u. used = Some u \<longrightarrow> 0 \<le> u \<and> u \<le> to_given opts)"
proof -
  have "book_room (length (liquidities s)) (0 + 8 * length (liquidities s)) s"
    using assms(3,4,6) by (simp add: book_room_def)
  note ok = execute_trade_ok [OF assms(1,2) this assms(5,7,8,9)]
  then show ?thesis by (simp add: trade_effect_def book_room_def)
qed

text \<open>
  C4. The pool of liquidity stays funded: a completed trade that the pool itself does not pay lets the book promise the
  providers hardly more than the pool holds. The gap of the start denomination grows by less than half a unit, and
  \<open>10\<^sup>-\<^sup>1\<^sup>8\<close> of what was used, for each entry that could take a share, that of the base currency likewise for the volume \<open>V\<close> that the trade
  records; that of no other denomination grows.
\<close>

theorem pool_stays_funded:
  assumes "sdk E" "wf_dex_params (xparams s)" "book_inv s" "denoms_separate (dparams s)"
    and "base_currency \<in> set (denoms (dparams s))"
    and "unat (liquidity_next s) + 8 * length (liquidities s) < 2 ^ 64 - 1" "pools_apart E"
    and "to_source opts = Some src" "to_target opts = Some tgt" "src \<noteq> mod_addr E pool_liquidity"
    and "execute_trade E opts s = (Inr (Some used, received, fee1, fee2), t)"
  shows "\<exists>V \<ge> 0. trade_amounts t = trade_amounts (add_trade_amount (str_of E tgt) V s)
    \<and> (\<forall>d. let n = int (3 * length (liquidities s)) in
         2 * to_dec ((liq_sum t d - bal E (bank t) (mod_addr E pool_liquidity) d) - (liq_sum s d - bal E (bank s) (mod_addr E pool_liquidity) d))
         \<le> (if d = to_start opts then n * (2 * used + dec_unit) else 0) + (if d = base_currency then n * (2 * V + dec_unit) else 0))"
proof -
  have "book_room (length (liquidities s)) (0 + 8 * length (liquidities s)) s"
    using assms(3,4,6) by (simp add: book_room_def)
  from execute_trade_ok [OF assms(1,2) this assms(5,8,9,11)] assms(7,10)
  have "trade_drifts E (trade_drift (length (liquidities s)) (to_start opts) used) (str_of E tgt) s t" by simp
  then show ?thesis unfolding trade_drifts_def trade_drift_def share_drift_def pool_gap_def Let_def .
qed

definition trade_example :: trade_options where
  "trade_example = \<lparr>to_given = 2000, to_max_price = None, to_start = ''ukopi'', to_end = ''uwusdc'',
     to_incomplete = False, to_exclude = False, to_protocol = False, to_source = Some ''carol'',
     to_target = Some ''carol'', to_discount = None, to_calc = None\<rparr>"

text \<open>Carol trades in a pool of two entries: the book promises no more stable coins than before beyond what the pool holds.\<close>

lemma trade_example_runs: "fst (execute_trade dex_env trade_example dex_pool) = Inr (Some 2000, Some 196, 0, 0)"
  by code_simp

lemma trade_example_conds:
  "execute_trade dex_env trade_example dex_pool = (Inr (Some 2000, Some 196, 0, 0), snd (execute_trade dex_env trade_example dex_pool))"
  "wf_dex_params (xparams dex_pool)" "base_currency \<in> set (denoms (dparams dex_pool))"
  "to_source trade_example = Some ''carol''" "to_target trade_example = Some ''carol''" "to_start trade_example = ''ukopi''"
  "unat (liquidity_next dex_pool) + 8 * length (liquidities dex_pool) < 2 ^ 64 - 1"
proof -
  show "execute_trade dex_env trade_example dex_pool = (Inr (Some 2000, Some 196, 0, 0), snd (execute_trade dex_env trade_example dex_pool))"
    using trade_example_runs by (simp add: prod_eq_iff)
  have "xparams dex_pool = default_dex_params" by code_simp
  then show "wf_dex_params (xparams dex_pool)" by (simp add: wf_default_dex_params)
  show "base_currency \<in> set (denoms (dparams dex_pool))" by code_simp
qed (simp_all add: trade_example_def dex_pool_conds)

theorem execute_trade_safe_witness:
  "bk_supply dex_env (bank (snd (execute_trade dex_env trade_example dex_pool))) ''ukopi'' = bk_supply dex_env (bank dex_pool) ''ukopi''
   \<and> book_inv (snd (execute_trade dex_env trade_example dex_pool))"
  using execute_trade_safe [OF sdk_dex_env trade_example_conds(2) dex_example_inv(3) dex_pool_conds(1) trade_example_conds(3,7,4,5,1)]
  by simp

theorem pool_stays_funded_witness:
  "liq_sum (snd (execute_trade dex_env trade_example dex_pool)) ''uwusdc''
     - bal dex_env (bank (snd (execute_trade dex_env trade_example dex_pool))) (mod_addr dex_env pool_liquidity) ''uwusdc''
   \<le> liq_sum dex_pool ''uwusdc'' - bal dex_env (bank dex_pool) (mod_addr dex_env pool_liquidity) ''uwusdc''"
proof -
  have a: "pools_apart dex_env" "''carol'' \<noteq> mod_addr dex_env pool_liquidity"
    by (simp_all add: pools_apart_def dex_env_def pool_liquidity_def pool_trade_def pool_fees_def)
  from pool_stays_funded [OF sdk_dex_env trade_example_conds(2) dex_example_inv(3) dex_pool_conds(1) trade_example_conds(3,7)
      a(1) trade_example_conds(4,5) a(2) trade_example_conds(1)]
  obtain V :: int where "\<forall>d. let n = int (3 * length (liquidities dex_pool)) in
     2 * to_dec ((liq_sum (snd (execute_trade dex_env trade_example dex_pool)) d
         - bal dex_env (bank (snd (execute_trade dex_env trade_example dex_pool))) (mod_addr dex_env pool_liquidity) d)
       - (liq_sum dex_pool d - bal dex_env (bank dex_pool) (mod_addr dex_env pool_liquidity) d))
     \<le> (if d = to_start trade_example then n * (2 * 2000 + dec_unit) else 0) + (if d = base_currency then n * (2 * V + dec_unit) else 0)"
    by blast
  from this [THEN spec, of "''uwusdc''"] show ?thesis
    by (simp add: trade_example_conds(6) base_currency_def to_dec_def mult_le_0_iff)
qed

end
