(* ===== verification/DexOrders.thy ===== *)
theory DexOrders
  imports DexTradeMain
begin

text \<open>
  Orders and the block hooks of \<open>x/dex\<close>: the store of orders (\<open>keeper/order.go\<close>, \<open>order_next_index.go\<close>),
  the messages that add, change and remove them (\<open>msg_server_add_order.go\<close>, \<open>msg_server_update_order.go\<close>,
  \<open>msg_server_remove_order.go\<close>), their execution at the end of a block (\<open>order_execution.go\<close>), the reserve
  (\<open>reserve.go\<close>), the hooks of \<open>module/module.go\<close> and the genesis state (\<open>module/genesis.go\<close>).
  Block heights are \<open>int64\<close> values, here integers; an order keeps them as \<open>uint64\<close>.
\<close>

section \<open>The store of orders\<close>

definition get_order_next_index :: "('b, 'z) dex_world_scheme \<Rightarrow> 64 word" where
  "get_order_next_index s = order_next s"

definition set_order_next_index :: "64 word \<Rightarrow> ('b, 'z) dex_world_scheme \<Rightarrow> ('b, 'z) dex_world_scheme" where
  "set_order_next_index i s = s\<lparr>order_next := i\<rparr>"

definition set_order :: "order \<Rightarrow> ('b, 'z) dex_world_scheme \<Rightarrow> 64 word \<times> ('b, 'z) dex_world_scheme" where
  "set_order x s =
     (let (x, s) =
        (if or_index x = 0
         then let n = get_order_next_index s + 1 in (x\<lparr>or_index := n\<rparr>, set_order_next_index n s)
         else (x, s)) in
      (or_index x, s\<lparr>orders := kv_put (key_index (or_index x)) x (orders s)\<rparr>))"

definition get_order :: "('b, 'z) dex_world_scheme \<Rightarrow> 64 word \<Rightarrow> order option" where
  "get_order s i = kv_get (orders s) (key_index i)"

definition remove_order :: "order \<Rightarrow> ('b, 'z) dex_world_scheme \<Rightarrow> ('b, 'z) dex_world_scheme" where
  "remove_order x s = s\<lparr>orders := kv_del (key_index (or_index x)) (orders s)\<rparr>"

definition get_all_orders :: "('b, 'z) dex_world_scheme \<Rightarrow> order list" where
  "get_all_orders s = kv_vals [] (orders s)"

definition get_all_orders_by_address :: "('b, 'z) dex_world_scheme \<Rightarrow> string \<Rightarrow> order list" where
  "get_all_orders_by_address s a = filter (\<lambda>x. or_creator x = a) (get_all_orders s)"

section \<open>Messages\<close>

text \<open>The end of an order's life: a life longer than the parameter allows is capped; the sum wraps around.\<close>

definition calculate_block_end :: "('b, 'z) dex_world_scheme \<Rightarrow> 64 word \<Rightarrow> 64 word \<Rightarrow> 64 word" where
  "calculate_block_end s blocks h =
     (let max_life = max_order_life (xparams s) in (if blocks > max_life then max_life else blocks) + h)"

text \<open>An empty trade amount of a message stands for \<open>0\<close>.\<close>

definition parse_trade_amount :: "'b env \<Rightarrow> string \<Rightarrow> int res" where
  "parse_trade_amount E str = parse_amount E (if str = [] then ''0'' else str)"

definition new_order :: "('b, 'z) dex_world_scheme \<Rightarrow> string \<Rightarrow> denom \<Rightarrow> denom \<Rightarrow> int \<Rightarrow> int \<Rightarrow> dec \<Rightarrow> 64 word \<Rightarrow> 64 word \<Rightarrow> bool \<Rightarrow> order" where
  "new_order s creator from to amt trade_amt max_price blocks interval incomplete =
     (let h = word_of_int (height s) in
      \<lparr>or_index = 0, or_creator = creator, or_from = from, or_to = to, or_given = amt, or_left = amt,
       or_trade_amount = trade_amt, or_received = 0, or_max_price = max_price, or_num_blocks = blocks,
       or_interval = interval, or_next_execution = h, or_block_end = calculate_block_end s blocks h,
       or_incomplete = incomplete\<rparr>)"

definition add_order :: "'b env \<Rightarrow> string \<Rightarrow> denom \<Rightarrow> denom \<Rightarrow> string \<Rightarrow> string \<Rightarrow> string \<Rightarrow> 64 word \<Rightarrow> 64 word \<Rightarrow> bool
    \<Rightarrow> (('b, 'z) dex_world_scheme, order) cmd" where
  "add_order E creator from to amt_str trade_str price_str blocks interval incomplete s =
     bindS (checkR (from \<noteq> to) (DexE Dex_ErrSameDenom), s) (\<lambda>_ s.
     bindS (parse_amount E amt_str, s) (\<lambda>amt s.
     bindS (parse_trade_amount E trade_str, s) (\<lambda>trade_amt s.
     bindS (validate_msg E creator from amt s, s) (\<lambda>a s.
     bindS (get_max_price E price_str, s) (\<lambda>max_price s.
     bindS (of_option (DexE Dex_ErrMaxPriceNotSet) max_price, s) (\<lambda>max_price s.
     bindS (checkR (\<not> max_price \<le> 0) (DexE Dex_ErrNegativePrice), s) (\<lambda>_ s.
     bindS (send_acc_mod E a pool_orders from amt s) (\<lambda>_ s.
     let x = new_order s creator from to amt trade_amt max_price blocks interval incomplete;
         (i, s) = set_order x s in
     (Inr (x\<lparr>or_index := i\<rparr>), s)))))))))"

definition update_order :: "'b env \<Rightarrow> string \<Rightarrow> 64 word \<Rightarrow> string \<Rightarrow> string \<Rightarrow> string \<Rightarrow> (('b, 'z) dex_world_scheme, order) cmd" where
  "update_order E creator i amt_str trade_str price_str s =
     bindS (of_option (DexE Dex_ErrOrderNotFound) (get_order s i), s) (\<lambda>x s.
     bindS (of_option (DexE Dex_ErrInvalidAddress) (acc_of E creator), s) (\<lambda>a s.
     bindS (checkR (or_creator x = creator) (DexE Dex_ErrInvalidCreator), s) (\<lambda>_ s.
     bindS (parse_amount E amt_str, s) (\<lambda>amt s.
     bindS (parse_trade_amount E trade_str, s) (\<lambda>trade_amt s.
     bindS (send_mod_acc E pool_orders a (or_from x) (or_left x) s) (\<lambda>_ s.
     bindS (check_spendable_coins E a (or_from x) amt s, s) (\<lambda>_ s.
     bindS (send_acc_mod E a pool_orders (or_from x) amt s) (\<lambda>_ s.
     bindS (get_max_price E price_str, s) (\<lambda>max_price s.
     let x = x\<lparr>or_left := amt, or_trade_amount := trade_amt,
               or_max_price := (case max_price of None \<Rightarrow> or_max_price x | Some p \<Rightarrow> p)\<rparr> in
     (Inr x, snd (set_order x s)))))))))))"

text \<open>
  The refund of what is left of an order. The error of the address's decoding is dropped; the
  address is then the empty one.
\<close>

definition refund_order :: "'b env \<Rightarrow> order \<Rightarrow> (('b, 'z) dex_world_scheme, unit) cmd" where
  "refund_order E x s =
     (if or_left x > 0
      then send_mod_acc E pool_orders (case acc_of E (or_creator x) of None \<Rightarrow> [] | Some a \<Rightarrow> a) (or_from x) (or_left x) s
      else (Inr (), s))"

definition remove_order_msg :: "'b env \<Rightarrow> string \<Rightarrow> 64 word \<Rightarrow> (('b, 'z) dex_world_scheme, unit) cmd" where
  "remove_order_msg E creator i s =
     bindS (of_option (DexE Dex_ErrItemNotFound) (get_order s i), s) (\<lambda>x s.
     bindS (checkR (or_creator x = creator) (DexE Dex_ErrInvalidCreator), s) (\<lambda>_ s.
     bindS (refund_order E x s) (\<lambda>_ s.
     (Inr (), remove_order x s))))"

definition remove_orders :: "string \<Rightarrow> (('b, 'z) dex_world_scheme, unit) cmd" where
  "remove_orders creator s = (Inr (), foldl (\<lambda>s x. remove_order x s) s (get_all_orders_by_address s creator))"

section \<open>Execution\<close>

definition order_trade_options :: "'b env \<Rightarrow> order \<Rightarrow> addr \<Rightarrow> int \<Rightarrow> trade_options" where
  "order_trade_options E x a amt =
     \<lparr>to_given = amt, to_max_price = Some (or_max_price x), to_start = or_from x, to_end = or_to x,
      to_incomplete = or_incomplete x, to_exclude = False, to_protocol = False,
      to_source = Some (mod_addr E pool_orders), to_target = Some a, to_discount = None, to_calc = None\<rparr>"

text \<open>What follows the trade: a trade that is too small or finds no liquidity leaves the order for a later block.\<close>

definition record_execution :: "order \<Rightarrow> int \<Rightarrow> (err + int option \<times> int option \<times> int \<times> int) \<times> ('b, 'z) dex_world_scheme
    \<Rightarrow> (err + bool \<times> order) \<times> ('b, 'z) dex_world_scheme" where
  "record_execution x h r =
     (case r of
        (Inl e, s) \<Rightarrow>
          (if e = DexE Dex_ErrTradeAmountTooSmall \<or> e = DexE Dex_ErrNotEnoughLiquidity
           then (Inr (False, x), s) else (Inl e, s))
      | (Inr (used, received, _, _), s) \<Rightarrow>
          bindS (nilR used, s) (\<lambda>used s.
          if used = 0 then (Inr (False, x), s)
          else
            bindS (nilR received, s) (\<lambda>received s.
            let x = x\<lparr>or_left := or_left x - used, or_received := or_received x + received,
                      or_next_execution := word_of_int h + or_interval x\<rparr> in
            bindS (checkR (\<not> or_left x < 0) FmtError, s) (\<lambda>_ s.
            (Inr (or_left x \<le> 0, x), snd (set_order x s))))))"

text \<open>The results say whether the order has been executed in full, and the order as it is then.\<close>

definition execute_order :: "'b env \<Rightarrow> order \<Rightarrow> int \<Rightarrow> (('b, 'z) dex_world_scheme, bool \<times> order) cmd" where
  "execute_order E x h s =
     bindS (calculate_amount_given_price E s (or_from x) (or_to x) (or_max_price x) (trade_fee (xparams s)), s) (\<lambda>p s.
     let price_amount = dtrunc E p; amt = min (or_left x) price_amount in
     if price_amount \<le> 0 then (Inr (False, x), s)
     else if amt \<le> 0 then (Inr (False, x), s)
     else
       let amt = (if or_trade_amount x > 0 then min amt (or_trade_amount x) else amt) in
       bindS (of_option Panic (acc_of E (or_creator x)), s) (\<lambda>a s.
       record_execution x h (execute_trade E (order_trade_options E x a amt) s)))"

text \<open>The body of the loop of \<open>ExecuteOrders\<close>. An expired order is refunded and removed, and then executed like any other.\<close>

definition process_order :: "'b env \<Rightarrow> int \<Rightarrow> order \<Rightarrow> (('b, 'z) dex_world_scheme, unit) cmd" where
  "process_order E h x s =
     bindS (if h > sint (or_block_end x)
            then bindS (refund_order E x s) (\<lambda>_ s. (Inr (), remove_order x s))
            else (Inr (), s)) (\<lambda>_ s.
     if word_of_int h < or_next_execution x then (Inr (), s)
     else
       bindS (execute_order E x h s) (\<lambda>(remove, x) s.
       (Inr (), if remove then remove_order x s else s)))"

definition execute_orders :: "'b env \<Rightarrow> int \<Rightarrow> (('b, 'z) dex_world_scheme, unit) cmd" where
  "execute_orders E h s = foldS (\<lambda>x _. process_order E h x) (get_all_orders s) () s"

end
