(* ===== verification/DexEscrow.thy ===== *)
theory DexEscrow
  imports DexOrders
begin

text \<open>
  The escrow of the orders: what is left of all orders lies in the account \<open>pool_orders\<close>. The theory gives
  the invariant of the order store and what each message and each execution does to the surplus of
  that account over what the orders claim.
\<close>

section \<open>The invariant\<close>

definition order_ok :: "('b, 'z) dex_world_scheme \<Rightarrow> order \<Rightarrow> bool" where
  "order_ok s x \<longleftrightarrow> or_index x \<noteq> 0 \<and> or_index x \<le> order_next s \<and> 0 \<le> or_left x"

definition order_inv :: "('b, 'z) dex_world_scheme \<Rightarrow> bool" where
  "order_inv s \<longleftrightarrow> kv_wf (orders s)
     \<and> (\<forall>k x. kv_get (orders s) k = Some x \<longrightarrow> k = key_index (or_index x) \<and> order_ok s x)"

definition left_in :: "denom \<Rightarrow> order \<Rightarrow> int" where
  "left_in d x = (if or_from x = d then or_left x else 0)"

text \<open>What the orders claim of a denomination, and what the account holds beyond it.\<close>

definition escrow :: "('b, 'z) dex_world_scheme \<Rightarrow> denom \<Rightarrow> int" where
  "escrow s d = kv_sum (left_in d) (orders s)"

definition surplus :: "'b env \<Rightarrow> ('b, 'z) dex_world_scheme \<Rightarrow> denom \<Rightarrow> int" where
  "surplus E s d = bal E (bank s) (mod_addr E pool_orders) d - escrow s d"

lemma order_invD:
  assumes "order_inv s"
  shows "kv_wf (orders s)" "kv_get (orders s) k = Some x \<Longrightarrow> k = key_index (or_index x)"
    "kv_get (orders s) k = Some x \<Longrightarrow> order_ok s x"
  using assms by (auto simp: order_inv_def)

lemma order_inv_cong: "orders t = orders s \<Longrightarrow> order_next t = order_next s \<Longrightarrow> order_inv t = order_inv s"
  by (simp add: order_inv_def order_ok_def)

lemma escrow_cong: "orders t = orders s \<Longrightarrow> escrow t d = escrow s d"
  by (simp add: escrow_def)

lemma get_all_orders_get:
  assumes "order_inv s" "x \<in> set (get_all_orders s)"
  shows "get_order s (or_index x) = Some x"
proof -
  obtain k where k: "kv_get (orders s) k = Some x"
    using assms kv_vals_get [OF order_invD(1) [OF assms(1)]] by (auto simp: get_all_orders_def)
  with order_invD(2) [OF assms(1) k] show ?thesis by (simp add: get_order_def)
qed

lemma get_order_ok:
  assumes "order_inv s" "get_order s i = Some x"
  shows "or_index x = i" "order_ok s x"
  using order_invD(2,3) [OF assms(1) assms(2) [unfolded get_order_def]] by simp_all

section \<open>Writing the store\<close>

lemma set_order_old:
  assumes "or_index x \<noteq> 0"
  shows "set_order x s = (or_index x, s\<lparr>orders := kv_put (key_index (or_index x)) x (orders s)\<rparr>)"
  using assms by (simp add: set_order_def)

lemma set_order_old_inv:
  assumes s: "order_inv s" and x: "or_index x \<noteq> 0" "or_index x \<le> order_next s" "0 \<le> or_left x"
    and t: "t = snd (set_order x s)"
  shows "order_inv t" "escrow t d = escrow s d - weight (left_in d) (get_order s (or_index x)) + left_in d x"
    "get_order t i = (if i = or_index x then Some x else get_order s i)"
    "t = s\<lparr>orders := orders t\<rparr>"
proof -
  note wf = order_invD(1) [OF s]
  have o: "orders t = kv_put (key_index (or_index x)) x (orders s)" "order_next t = order_next s"
    by (simp_all add: t set_order_old [OF x(1)])
  have g: "kv_get (orders t) = (kv_get (orders s))(key_index (or_index x) \<mapsto> x)"
    by (simp add: o kvs.get_put [OF wf])
  show "order_inv t"
    using order_invD(2,3) [OF s] x
    by (auto simp: order_inv_def g o(2) order_ok_def) (simp add: o kvs.invar_put [OF wf])
  show "escrow t d = escrow s d - weight (left_in d) (get_order s (or_index x)) + left_in d x"
    by (simp add: escrow_def o kv_sum_put [OF wf] get_order_def)
  show "get_order t i = (if i = or_index x then Some x else get_order s i)"
    by (simp add: get_order_def g)
  show "t = s\<lparr>orders := orders t\<rparr>" by (simp add: t set_order_old [OF x(1)])
qed

lemma set_order_new_inv:
  assumes s: "order_inv s" and x: "or_index x = 0" "0 \<le> or_left x" and n: "order_next s < - 1"
    and t: "set_order x s = (i, t)"
  shows "order_inv t" "escrow t d = escrow s d + left_in d x" "i = order_next s + 1"
    "get_order t i = Some (x\<lparr>or_index := i\<rparr>)" "get_order s i = None" "bank t = bank s" "dparams t = dparams s"
    "liquidities t = liquidities s" "liquidity_sums t = liquidity_sums s" "liquidity_next t = liquidity_next s"
    "xparams t = xparams s" "height t = height s"
proof -
  note wf = order_invD(1) [OF s]
  let ?n = "order_next s + 1"
  let ?x = "x\<lparr>or_index := ?n\<rparr>"
  have n': "order_next s < ?n" "?n \<noteq> 0"
    using n max_word_wrap [of "order_next s"] by (metis inc_less_eq_self_iff_eq less_irrefl not_le, metis less_irrefl)
  have it: "i = ?n" "t = s\<lparr>order_next := ?n, orders := kv_put (key_index ?n) ?x (orders s)\<rparr>"
    using t x(1) by (auto simp: set_order_def Let_def get_order_next_index_def set_order_next_index_def)
  have fresh: "kv_get (orders s) (key_index ?n) = None"
  proof (rule ccontr)
    assume "kv_get (orders s) (key_index ?n) \<noteq> None"
    then obtain y where y: "kv_get (orders s) (key_index ?n) = Some y" by auto
    have "or_index y = ?n" using order_invD(2) [OF s y] by simp
    with order_invD(3) [OF s y] n'(1) show False by (auto simp: order_ok_def)
  qed
  have g: "kv_get (orders t) = (kv_get (orders s))(key_index ?n \<mapsto> ?x)"
    by (simp add: it kvs.get_put [OF wf])
  have o: "order_next t = ?n" "kv_wf (orders t)" by (simp_all add: it kvs.invar_put [OF wf])
  have "y = ?x \<and> k = key_index ?n \<or> kv_get (orders s) k = Some y" if "kv_get (orders t) k = Some y" for k y
    using that by (auto simp: g split: if_splits)
  with order_invD(2,3) [OF s] x(2) n' show "order_inv t"
    by (fastforce simp: order_inv_def o order_ok_def)
  show "escrow t d = escrow s d + left_in d x"
    by (simp add: escrow_def it kv_sum_put [OF wf] fresh left_in_def)
  show "i = order_next s + 1" "get_order t i = Some (x\<lparr>or_index := i\<rparr>)" "get_order s i = None"
    by (simp_all add: get_order_def g it(1) fresh)
  show "bank t = bank s" "dparams t = dparams s" "liquidities t = liquidities s"
    "liquidity_sums t = liquidity_sums s" "liquidity_next t = liquidity_next s" "xparams t = xparams s" "height t = height s"
    by (simp_all add: it)
qed

lemma remove_order_inv:
  assumes s: "order_inv s"
  shows "order_inv (remove_order x s)"
    "escrow (remove_order x s) d = escrow s d - weight (left_in d) (get_order s (or_index x))"
    "get_order (remove_order x s) i = (if i = or_index x then None else get_order s i)"
    "remove_order x s = s\<lparr>orders := orders (remove_order x s)\<rparr>"
proof -
  note wf = order_invD(1) [OF s]
  show "order_inv (remove_order x s)"
    using order_invD(2,3) [OF s]
    by (auto simp: order_inv_def remove_order_def kvs.get_del [OF wf] order_ok_def kvs.invar_del [OF wf] split: if_splits)
  show "escrow (remove_order x s) d = escrow s d - weight (left_in d) (get_order s (or_index x))"
    by (simp add: escrow_def remove_order_def kv_sum_del [OF wf] get_order_def)
  show "get_order (remove_order x s) i = (if i = or_index x then None else get_order s i)"
    by (simp add: get_order_def remove_order_def kvs.get_del [OF wf])
  show "remove_order x s = s\<lparr>orders := orders (remove_order x s)\<rparr>" by (simp add: remove_order_def)
qed

section \<open>The messages\<close>

text \<open>The messages about orders change the bank and the orders only.\<close>

definition orders_only :: "('b, 'z) dex_world_scheme \<Rightarrow> ('b, 'z) dex_world_scheme \<Rightarrow> bool" where
  "orders_only s t \<longleftrightarrow> t = s\<lparr>bank := bank t, orders := orders t, order_next := order_next t\<rparr>"

lemma orders_only_refl [simp]: "orders_only s s"
  by (simp add: orders_only_def)

lemma orders_only_trans:
  assumes "orders_only s t" "orders_only t u"
  shows "orders_only s u"
proof -
  from assms have "u = s\<lparr>bank := bank t, orders := orders t, order_next := order_next t\<rparr>
      \<lparr>bank := bank u, orders := orders u, order_next := order_next u\<rparr>"
    by (simp add: orders_only_def)
  then show ?thesis by (simp add: orders_only_def)
qed

lemma orders_onlyD:
  assumes "orders_only s t"
  shows "height t = height s" "dparams t = dparams s" "xparams t = xparams s"
    "liquidities t = liquidities s" "liquidity_next t = liquidity_next s"
    "liquidity_sums t = liquidity_sums s" "liquidity_pairs t = liquidity_pairs s" "ratios t = ratios s"
    "trade_amounts t = trade_amounts s" "dex_world.more t = dex_world.more s"
  by (subst assms [unfolded orders_only_def], simp)+

lemma orders_only_book: "orders_only s t \<Longrightarrow> book_room N n t = book_room N n s"
  by (rule book_room_cong) (simp_all add: orders_onlyD)

lemma orders_only_bank:
  fixes s t :: "('b, 'z) dex_world_scheme"
  assumes "t = s\<lparr>bank := bank t\<rparr>"
  shows "orders_only s t"
proof -
  have "s\<lparr>bank := bank t\<rparr> = s\<lparr>bank := bank t, orders := orders t, order_next := order_next t\<rparr>"
    by (simp add: bank_onlyD [OF assms])
  with assms show ?thesis unfolding orders_only_def by simp
qed

lemma orders_only_set: "orders_only s (snd (set_order x s))"
  by (simp add: orders_only_def set_order_def Let_def set_order_next_index_def)

lemma orders_only_remove: "orders_only s (remove_order x s)"
  by (simp add: orders_only_def remove_order_def)

text \<open>A payment into or out of the escrow account.\<close>

lemma send_pool_orders:
  assumes "sdk E" "send_acc_mod E a pool_orders d n s = (Inr u, t)" "a \<noteq> mod_addr E pool_orders"
  shows "0 \<le> n" "bal E (bank t) (mod_addr E pool_orders) d' = bal E (bank s) (mod_addr E pool_orders) d' + (if d' = d then n else 0)"
    "bal E (bank t) a d' = bal E (bank s) a d' - (if d' = d then n else 0)"
    "x \<noteq> a \<Longrightarrow> x \<noteq> mod_addr E pool_orders \<Longrightarrow> bal E (bank t) x d' = bal E (bank s) x d'" "t = s\<lparr>bank := bank t\<rparr>"
  using sdk.send_acc_mod_ok [OF assms(1,2)] assms(3) by auto

lemma pay_pool_orders:
  assumes "sdk E" "send_mod_acc E pool_orders a d n s = (Inr u, t)" "a \<noteq> mod_addr E pool_orders"
  shows "0 \<le> n" "bal E (bank t) (mod_addr E pool_orders) d' = bal E (bank s) (mod_addr E pool_orders) d' - (if d' = d then n else 0)"
    "bal E (bank t) a d' = bal E (bank s) a d' + (if d' = d then n else 0)"
    "x \<noteq> a \<Longrightarrow> x \<noteq> mod_addr E pool_orders \<Longrightarrow> bal E (bank t) x d' = bal E (bank s) x d'" "t = s\<lparr>bank := bank t\<rparr>"
  using sdk.send_mod_acc_ok [OF assms(1,2)] assms(3) by auto

lemma new_order_simps [simp]:
  "or_index (new_order s c f g n m p b i inc) = 0" "or_creator (new_order s c f g n m p b i inc) = c"
  "or_from (new_order s c f g n m p b i inc) = f" "or_to (new_order s c f g n m p b i inc) = g"
  "or_given (new_order s c f g n m p b i inc) = n" "or_left (new_order s c f g n m p b i inc) = n"
  "or_max_price (new_order s c f g n m p b i inc) = p"
  "or_next_execution (new_order s c f g n m p b i inc) = word_of_int (height s)"
  "or_block_end (new_order s c f g n m p b i inc) = calculate_block_end s b (word_of_int (height s))"
  by (simp_all add: new_order_def Let_def)

lemma add_order_ok:
  assumes "sdk E" "order_inv s" "order_next s < - 1"
    and r: "add_order E creator from to amt_str trade_str price_str blocks interval incomplete s = (Inr x, t)"
    and pool: "acc_of E creator \<noteq> Some (mod_addr E pool_orders)"
  obtains a amt where "acc_of E creator = Some a" "parse_amount E amt_str = Inr amt" "0 < amt" "from \<noteq> to"
    "or_creator x = creator" "or_from x = from" "or_to x = to" "or_left x = amt" "or_given x = amt" "0 < or_max_price x"
    "or_block_end x = calculate_block_end s blocks (word_of_int (height s))" "or_next_execution x = word_of_int (height s)"
    "get_order s (or_index x) = None" "get_order t (or_index x) = Some x" "order_inv t" "orders_only s t"
    "\<And>d. surplus E t d = surplus E s d"
    "\<And>d. bal E (bank t) a d = bal E (bank s) a d - (if d = from then amt else 0)"
    "\<And>y d. y \<noteq> a \<Longrightarrow> y \<noteq> mod_addr E pool_orders \<Longrightarrow> bal E (bank t) y d = bal E (bank s) y d"
proof -
  from r obtain amt trade_amt a p v where
    c: "from \<noteq> to" "parse_amount E amt_str = Inr amt" "validate_msg E creator from amt s = Inr a" "\<not> p \<le> 0"
    and v: "send_acc_mod E a pool_orders from amt s = (Inr (), v)"
    and t: "t = snd (set_order (new_order v creator from to amt trade_amt p blocks interval incomplete) v)"
    and x: "x = new_order v creator from to amt trade_amt p blocks interval incomplete
      \<lparr>or_index := fst (set_order (new_order v creator from to amt trade_amt p blocks interval incomplete) v)\<rparr>"
    by (auto simp: add_order_def bindS_Inr_iff Let_def split_beta)
  define i where "i = fst (set_order (new_order v creator from to amt trade_amt p blocks interval incomplete) v)"
  note x = x [folded i_def]
  have w: "set_order (new_order v creator from to amt trade_amt p blocks interval incomplete) v = (i, t)"
    by (simp add: t i_def)
  from c(3) have a: "acc_of E creator = Some a" "0 < amt" by (auto simp: validate_msg_def bindR_Inr_iff)
  with pool have na: "a \<noteq> mod_addr E pool_orders" by auto
  note p = send_pool_orders [OF assms(1) v na]
  note f = bank_onlyD [OF p(5)]
  have vi: "order_inv v" "order_next v < - 1" using assms(2,3) order_inv_cong [of v s] by (simp_all add: f)
  note n = set_order_new_inv [OF vi(1) _ _ vi(2) w, simplified]
  have nn: "0 \<le> amt" using a by simp
  show thesis
  proof (rule that [of a amt])
    show "get_order s (or_index x) = None" using n(5) [OF nn] by (simp add: x get_order_def f)
    show "get_order t (or_index x) = Some x" using n(4) [OF nn] by (simp add: x)
    show "orders_only s t"
      using orders_only_trans [OF orders_only_bank [OF p(5)] orders_only_set] w by (metis snd_conv)
    show "surplus E t d = surplus E s d" for d
      using n(2) [OF nn, of d] p(2) escrow_cong [of v s d] by (simp add: surplus_def n(6) [OF nn] left_in_def f)
  qed (use c a n(1,6) [OF nn] p f in \<open>simp_all add: x calculate_block_end_def\<close>)
qed

lemma update_order_ok:
  assumes "sdk E" "order_inv s"
    and r: "update_order E creator i amt_str trade_str price_str s = (Inr x, t)"
    and pool: "acc_of E creator \<noteq> Some (mod_addr E pool_orders)"
  obtains a amt y where "acc_of E creator = Some a" "parse_amount E amt_str = Inr amt" "get_order s i = Some y"
    "or_creator y = creator" "0 \<le> amt" "or_left x = amt" "or_from x = or_from y" "or_creator x = creator"
    "or_block_end x = or_block_end y" "or_index x = i"
    "get_order t i = Some x" "order_inv t" "orders_only s t"
    "\<And>d. surplus E t d = surplus E s d"
    "\<And>d. bal E (bank t) a d = bal E (bank s) a d + (if d = or_from y then or_left y - amt else 0)"
    "\<And>z d. z \<noteq> a \<Longrightarrow> z \<noteq> mod_addr E pool_orders \<Longrightarrow> bal E (bank t) z d = bal E (bank s) z d"
    "order_next t = order_next s"
proof -
  from r obtain y a amt trade_amt v w p where
    y: "get_order s i = Some y" "or_creator y = creator" and a: "acc_of E creator = Some a"
    and amt: "parse_amount E amt_str = Inr amt"
    and v: "send_mod_acc E pool_orders a (or_from y) (or_left y) s = (Inr (), v)"
    and w: "send_acc_mod E a pool_orders (or_from y) amt v = (Inr (), w)"
    and x: "x = y\<lparr>or_left := amt, or_trade_amount := trade_amt, or_max_price := (case p of None \<Rightarrow> or_max_price y | Some q \<Rightarrow> q)\<rparr>"
    and t: "t = snd (set_order x w)"
    by (auto simp: update_order_def bindS_Inr_iff Let_def)
  from a pool have na: "a \<noteq> mod_addr E pool_orders" by auto
  note p1 = pay_pool_orders [OF assms(1) v na] and p2 = send_pool_orders [OF assms(1) w na]
  have b: "orders_only s w" using orders_only_bank [OF p1(5)] orders_only_bank [OF p2(5)] by (rule orders_only_trans)
  have f: "orders w = orders s" "order_next w = order_next s"
    by (simp_all add: bank_onlyD [OF p2(5)] bank_onlyD [OF p1(5)])
  have wi: "order_inv w" using assms(2) order_inv_cong [OF f] by simp
  have ok: "or_index y = i" "order_ok s y" using get_order_ok [OF assms(2) y(1)] .
  have g: "get_order w i = Some y" using y(1) by (simp add: get_order_def f)
  have xo: "or_index x \<noteq> 0" "or_index x \<le> order_next w" "0 \<le> or_left x" "or_index x = i"
    using ok p2(1) by (simp_all add: x order_ok_def f)
  note n = set_order_old_inv [OF wi xo(1-3) t]
  have tb: "bank t = bank w" "order_next t = order_next w" by (subst n(4), simp)+
  show thesis
  proof (rule that [of a amt y])
    show "orders_only s t" using orders_only_trans [OF b orders_only_set] by (simp add: t)
    show "surplus E t d = surplus E s d" for d
      using n(2) [of d, unfolded xo(4) g] p1(2) p2(2) escrow_cong [OF f(1), of d] by (simp add: surplus_def tb left_in_def x)
    show "bal E (bank t) a d = bal E (bank s) a d + (if d = or_from y then or_left y - amt else 0)" for d
      using p1(3) p2(3) by (simp add: tb)
    show "bal E (bank t) z d = bal E (bank s) z d" if "z \<noteq> a" "z \<noteq> mod_addr E pool_orders" for z d
      using p1(4) [OF that] p2(4) [OF that] by (simp add: tb)
  qed (use y a amt n(1,3) xo p2(1) ok in \<open>simp_all add: x tb f\<close>)
qed

lemma refund_order_ok:
  assumes "sdk E" "refund_order E x s = (Inr u, t)"
    and a: "acc_of E (or_creator x) = Some a" "a \<noteq> mod_addr E pool_orders"
  shows "t = s\<lparr>bank := bank t\<rparr>"
    "bal E (bank t) a d = bal E (bank s) a d + (if d = or_from x then max 0 (or_left x) else 0)"
    "bal E (bank t) (mod_addr E pool_orders) d = bal E (bank s) (mod_addr E pool_orders) d - (if d = or_from x then max 0 (or_left x) else 0)"
    "z \<noteq> a \<Longrightarrow> z \<noteq> mod_addr E pool_orders \<Longrightarrow> bal E (bank t) z d = bal E (bank s) z d"
proof -
  have "t = s\<lparr>bank := bank t\<rparr> \<and> bal E (bank t) a d = bal E (bank s) a d + (if d = or_from x then max 0 (or_left x) else 0)
    \<and> bal E (bank t) (mod_addr E pool_orders) d = bal E (bank s) (mod_addr E pool_orders) d - (if d = or_from x then max 0 (or_left x) else 0)
    \<and> (z \<noteq> a \<longrightarrow> z \<noteq> mod_addr E pool_orders \<longrightarrow> bal E (bank t) z d = bal E (bank s) z d)"
  proof (cases "or_left x > 0")
    case True
    with assms(2) a(1) have "send_mod_acc E pool_orders a (or_from x) (or_left x) s = (Inr (), t)"
      by (simp add: refund_order_def)
    from pay_pool_orders [OF assms(1) this a(2)] True show ?thesis by simp
  qed (use assms(2) in \<open>simp add: refund_order_def\<close>)
  then show "t = s\<lparr>bank := bank t\<rparr>"
    "bal E (bank t) a d = bal E (bank s) a d + (if d = or_from x then max 0 (or_left x) else 0)"
    "bal E (bank t) (mod_addr E pool_orders) d = bal E (bank s) (mod_addr E pool_orders) d - (if d = or_from x then max 0 (or_left x) else 0)"
    "z \<noteq> a \<Longrightarrow> z \<noteq> mod_addr E pool_orders \<Longrightarrow> bal E (bank t) z d = bal E (bank s) z d"
    by blast+
qed

lemma remove_order_msg_ok:
  assumes "sdk E" "order_inv s" "remove_order_msg E creator i s = (Inr u, t)"
    and a: "acc_of E creator = Some a" "a \<noteq> mod_addr E pool_orders"
  obtains x where "get_order s i = Some x" "or_creator x = creator" "get_order t i = None" "order_inv t" "orders_only s t"
    "\<And>d. surplus E t d = surplus E s d"
    "\<And>d. bal E (bank t) a d = bal E (bank s) a d + (if d = or_from x then or_left x else 0)"
    "\<And>z d. z \<noteq> a \<Longrightarrow> z \<noteq> mod_addr E pool_orders \<Longrightarrow> bal E (bank t) z d = bal E (bank s) z d"
    "order_next t = order_next s"
proof -
  from assms(3) obtain x v where x: "get_order s i = Some x" "or_creator x = creator"
    and v: "refund_order E x s = (Inr (), v)" and t: "t = remove_order x v"
    by (auto simp: remove_order_msg_def bindS_Inr_iff)
  note p = refund_order_ok [OF assms(1) v, unfolded x(2), OF a]
  note f = bank_onlyD [OF p(1)]
  have ok: "or_index x = i" "order_ok s x" using get_order_ok [OF assms(2) x(1)] .
  have vi: "order_inv v" using assms(2) order_inv_cong [of v s] by (simp add: f)
  have g: "get_order v i = Some x" using x(1) by (simp add: get_order_def f)
  note n = remove_order_inv [OF vi, of x, folded t]
  have tb: "bank t = bank v" "order_next t = order_next v" by (simp_all add: t remove_order_def)
  have nn: "max 0 (or_left x) = or_left x" using ok(2) by (simp add: order_ok_def)
  show thesis
  proof (rule that [of x])
    show "orders_only s t" using orders_only_trans [OF orders_only_bank [OF p(1)] orders_only_remove] by (simp add: t)
    show "surplus E t d = surplus E s d" for d
      using n(2) [of d] p(3) [of d] escrow_cong [of v s d] by (simp add: surplus_def tb ok(1) g left_in_def nn f)
  qed (use x n(1,3) p(2,4) ok(1) nn in \<open>simp_all add: tb f\<close>)
qed

text \<open>Removing a list of stored orders without a refund raises the surplus by what was left of them.\<close>

lemma remove_orders_ok:
  assumes "order_inv s" "distinct (map or_index xs)" "\<forall>x \<in> set xs. get_order s (or_index x) = Some x"
  shows "order_inv (foldl (\<lambda>s x. remove_order x s) s xs) \<and> orders_only s (foldl (\<lambda>s x. remove_order x s) s xs)
    \<and> bank (foldl (\<lambda>s x. remove_order x s) s xs) = bank s
    \<and> escrow (foldl (\<lambda>s x. remove_order x s) s xs) d = escrow s d - sum_list (map (left_in d) xs)
    \<and> get_order (foldl (\<lambda>s x. remove_order x s) s xs) i = (if i \<in> or_index ` set xs then None else get_order s i)
    \<and> order_next (foldl (\<lambda>s x. remove_order x s) s xs) = order_next s"
  using assms
proof (induction xs arbitrary: s)
  case (Cons x xs)
  note n = remove_order_inv [OF Cons.prems(1), of x]
  have y: "\<forall>y \<in> set xs. get_order (remove_order x s) (or_index y) = Some y"
  proof
    fix y assume y: "y \<in> set xs"
    with Cons.prems(2) have "or_index y \<noteq> or_index x" by (metis distinct.simps(2) image_eqI list.simps(9) set_map)
    with y Cons.prems(3) show "get_order (remove_order x s) (or_index y) = Some y" by (simp only: n(3)) simp
  qed
  have d: "distinct (map or_index xs)" using Cons.prems(2) by simp
  note IH = Cons.IH [OF n(1) d y]
  with orders_only_trans [OF orders_only_remove]
  have IH: "order_inv (foldl (\<lambda>s x. remove_order x s) (remove_order x s) xs)"
    "orders_only s (foldl (\<lambda>s x. remove_order x s) (remove_order x s) xs)"
    "bank (foldl (\<lambda>s x. remove_order x s) (remove_order x s) xs) = bank (remove_order x s)"
    "escrow (foldl (\<lambda>s x. remove_order x s) (remove_order x s) xs) d = escrow (remove_order x s) d - sum_list (map (left_in d) xs)"
    "get_order (foldl (\<lambda>s x. remove_order x s) (remove_order x s) xs) i = (if i \<in> or_index ` set xs then None else get_order (remove_order x s) i)"
    "order_next (foldl (\<lambda>s x. remove_order x s) (remove_order x s) xs) = order_next (remove_order x s)"
    by blast+
  have x: "get_order s (or_index x) = Some x" using Cons.prems(3) by simp
  have "bank (remove_order x s) = bank s" "order_next (remove_order x s) = order_next s" by (simp_all add: remove_order_def)
  with IH show ?case by (simp add: n(2,3) x)
qed simp

lemma get_all_orders_distinct:
  assumes "order_inv s"
  shows "distinct (map or_index (get_all_orders s))"
proof -
  have "map (key_index \<circ> or_index) (get_all_orders s) = map fst (kv_iter [] (orders s))"
    using order_invD(2) [OF assms] kvs.set_iter [OF order_invD(1) [OF assms], of "[]"]
    by (auto simp: get_all_orders_def kv_vals_def)
  then have "distinct (map key_index (map or_index (get_all_orders s)))"
    using kvs.iter_sorted [OF order_invD(1) [OF assms], of "[]"] by simp
  then show ?thesis by (rule distinct_map [THEN iffD1, THEN conjunct1])
qed

end
