(* ===== verification/DexErrors.thy ===== *)
theory DexErrors
  imports DexOrders
begin

text \<open>
  Which errors the execution of a trade can end with once its checks have passed: a panic or an error of the bank,
  and none of the module's own. So an own error of \<open>ExecuteTrade\<close> means that nothing has been written.
\<close>

definition low_err :: "(err + 'a) \<times> 's \<Rightarrow> bool" where
  "low_err r \<longleftrightarrow> (\<forall>e. fst r = Inl e \<longrightarrow> e = Panic \<or> e = BankError)"

named_theorems low

lemma low_Inr [low]: "low_err (Inr a, s)"
  by (simp add: low_err_def)

lemma low_Panic [low]: "low_err (Inl Panic, s)"
  by (simp add: low_err_def)

lemma low_bindS [low]: "low_err r \<Longrightarrow> (\<And>a s. low_err (f a s)) \<Longrightarrow> low_err (bindS r f)"
  by (cases r; cases "fst r") (auto simp: low_err_def)

lemma low_quoR [low]: "low_err (quoR E a b, s)"
  by (simp add: low_err_def quoR_def checkR_def)

lemma low_nilR [low]: "low_err (nilR x, s)"
  by (cases x) (simp_all add: low_err_def)

lemma low_checkR [low]: "low_err (checkR c Panic, s)"
  by (simp add: low_err_def checkR_def)

lemma low_bindR [low]: "low_err (r, s) \<Longrightarrow> (\<And>a. low_err (f a, s)) \<Longrightarrow> low_err (bindR r f, s)"
  by (cases r) (auto simp: low_err_def)

lemma low_if [low]: "low_err r \<Longrightarrow> low_err r' \<Longrightarrow> low_err (if c then r else r')"
  by simp

lemma low_foldS [low]: "(\<And>x c s. low_err (f x c s)) \<Longrightarrow> low_err (foldS f xs c s)"
  by (induction xs arbitrary: c s) (auto intro: low)

lemma low_bank [low]:
  "low_err (send_acc_mod E a m d n s)" "low_err (send_mod_acc E m a d n s)" "low_err (send_mod_mod E m m' d n s)"
  by (auto simp: low_err_def bank_ops_defs dest: bank_call_err)

lemma low_full_liquidity [low]: "low_err (full_liquidity_base s d, t)" "low_err (full_liquidity_base_other s d d', t)"
  unfolding full_liquidity_base_def full_liquidity_base_other_def by (auto intro!: low)

lemma low_forward [low]: "low_err (trade_forward E c pf pt x, s)"
  by (cases c) (auto simp: constant_product_forward_def flat_price_forward_def Let_def intro!: low)

lemma low_remove_liquidity [low]: "low_err (remove_liquidity d i n s)"
  unfolding remove_liquidity_def by (auto intro!: low)

lemma low_use_entries [low]: "low_err (use_entries d ls left used lps s)"
  by (induction d ls left used lps s rule: use_entries.induct) (auto simp: Let_def intro!: low)

lemma low_distribute_fee [low]: "low_err (distribute_fee E pf d lps left s)"
  by (induction E pf d lps left s rule: distribute_fee.induct) (auto simp: Let_def intro!: low)

lemma low_step_parts [low]:
  "low_err (determine_liquidity_providers E n from to s)" "low_err (distribute_given_funds E lps n d s)"
  "low_err (charge_source E st n s)" "low_err (pay_trader E st s)"
  unfolding determine_liquidity_providers_def distribute_given_funds_def charge_source_def pay_trader_def Let_def
  by (auto intro!: low split: prod.splits)

lemma low_settle [low]: "low_err (settle_step E st lps gross used s)"
  unfolding settle_step_def distribute_fee_for_liquidity_providers_def
  by (auto simp: split_beta intro!: low)

lemma low_execute_trade_step [low]: "low_err (execute_trade_step E st s)"
  unfolding execute_trade_step_def Let_def by (auto simp: split_beta intro!: low)

lemma low_reimburse_fee [low]: "low_err (reimburse_fee E n s)"
  unfolding reimburse_fee_def Let_def by (auto intro!: low split: prod.splits sum.splits err.splits)

lemma low_update_ratios [low]: "low_err (update_ratios E d s)"
  unfolding update_ratios_def Let_def by (auto intro!: low)

lemma low_run_trade: "low_err (run_trade E start finish src tgt calc fee given s)"
  unfolding run_trade_def Let_def by (auto simp: split_beta intro!: low)

text \<open>An own error of the module leaves the state as it was.\<close>

lemma execute_trade_own_error:
  assumes "execute_trade E opts s = (Inl e, t)" "e \<noteq> Panic" "e \<noteq> BankError"
  shows "t = s"
proof (cases "prepare_trade E opts s")
  case (Inl e')
  with assms(1) show ?thesis by (simp add: execute_trade_def)
next
  case (Inr p)
  obtain source target calc fee given where p: "p = (source, target, calc, fee, given)" by (cases p)
  show ?thesis
  proof (cases "check_trade_pool_liquidities s (to_start opts) (to_end opts)")
    case (Inl e')
    with Inr assms(1) show ?thesis by (cases e') (simp_all add: execute_trade_def p split: if_splits)
  next
    case ok: (Inr u)
    let ?r = "run_trade E (to_start opts) (to_end opts) source target calc fee given s"
    have "low_err (bindS ?r (\<lambda>(used, received, fee1, fee2) s. (Inr (Some used, Some received, fee1, fee2), s)))"
      by (rule low_bindS [OF low_run_trade]) (auto simp: low_err_def split_beta)
    moreover have "bindS ?r (\<lambda>(used, received, fee1, fee2) s. (Inr (Some used, Some received, fee1, fee2), s)) = (Inl e, t)"
      using assms(1) Inr ok by (simp add: execute_trade_def p)
    ultimately show ?thesis using assms(2,3) by (simp add: low_err_def)
  qed
qed

end
