(* ===== verification/DexExecution.thy ===== *)
theory DexExecution
  imports DexEscrow DexErrors
begin

text \<open>
  The execution of orders at the end of a block: what one execution and the whole loop do to the escrow, and the
  theorems about orders.
\<close>

section \<open>One order\<close>

text \<open>
  What an execution leaves of the state: the invariants hold, the escrow's surplus has not fallen in any
  denomination but the base currency, and nobody outside the module's accounts has lost anything.
\<close>

definition exec_effect :: "'b env \<Rightarrow> ('b, 'z) dex_world_scheme \<Rightarrow> ('b, 'z) dex_world_scheme \<Rightarrow> bool" where
  "exec_effect E s t \<longleftrightarrow> order_inv t
     \<and> (\<forall>d. d \<noteq> base_currency \<longrightarrow> surplus E s d \<le> surplus E t d)
     \<and> (\<forall>z d. z \<notin> dex_pools E \<longrightarrow> z \<noteq> mod_addr E pool_orders \<longrightarrow> bal E (bank s) z d \<le> bal E (bank t) z d)
     \<and> (\<forall>d. bk_supply E (bank t) d = bk_supply E (bank s) d)
     \<and> dparams t = dparams s \<and> xparams t = xparams s \<and> height t = height s \<and> order_next t = order_next s
     \<and> dex_world.more t = dex_world.more s"

lemma exec_effect_refl: "order_inv s \<Longrightarrow> exec_effect E s s"
  by (simp add: exec_effect_def)

lemma exec_effect_trans:
  assumes "exec_effect E s t" "exec_effect E t u"
  shows "exec_effect E s u"
proof -
  have "surplus E s d \<le> surplus E u d" if "d \<noteq> base_currency" for d
    using assms that unfolding exec_effect_def by (blast intro: order_trans)
  moreover have "bal E (bank s) z d \<le> bal E (bank u) z d" if "z \<notin> dex_pools E" "z \<noteq> mod_addr E pool_orders" for z d
    using assms that unfolding exec_effect_def by (blast intro: order_trans)
  ultimately show ?thesis using assms by (simp add: exec_effect_def)
qed

text \<open>A trade paid by the escrow account.\<close>

lemma trade_effect_lost:
  "trade_effect E A src d0 n s t \<Longrightarrow> z \<notin> dex_pools E \<Longrightarrow>
    bal E (bank s) z d - (if z = src \<and> d = d0 then n else 0) \<le> bal E (bank t) z d"
  unfolding trade_effect_def by blast

lemma trade_exec_effect:
  assumes e: "trade_effect E A (mod_addr E pool_orders) d0 n s t" and s: "order_inv s"
    and np: "mod_addr E pool_orders \<notin> dex_pools E" and n: "d0 \<noteq> base_currency \<Longrightarrow> n \<le> 0"
  shows "exec_effect E s t"
proof -
  have o: "orders t = orders s" "order_next t = order_next s" using e by (simp_all add: trade_effect_def)
  have "surplus E s d \<le> surplus E t d" if "d \<noteq> base_currency" for d
    using trade_effect_lost [OF e np, of d] n that by (auto simp: surplus_def escrow_cong [OF o(1)] split: if_splits)
  moreover have "bal E (bank s) z d \<le> bal E (bank t) z d" if "z \<notin> dex_pools E" "z \<noteq> mod_addr E pool_orders" for z d
    using trade_effect_lost [OF e that(1), of d] that(2) by simp
  ultimately show ?thesis
    using e s order_inv_cong [OF o] by (simp add: exec_effect_def trade_effect_def)
qed

text \<open>The same when the order is written back with what the trade used taken off.\<close>

lemma exec_effect_write:
  assumes e: "trade_effect E A (mod_addr E pool_orders) (or_from x) n s s'" and s: "order_inv s"
    and np: "mod_addr E pool_orders \<notin> dex_pools E" and n: "or_from x \<noteq> base_currency \<Longrightarrow> n = used"
    and x: "get_order s (or_index x) = Some x"
    and y: "or_index y = or_index x" "or_from y = or_from x" "or_left y = or_left x - used"
    and t: "t = snd (set_order y s')" and nz: "or_index y \<noteq> 0" "order_inv t"
  shows "exec_effect E s t"
proof -
  have o: "orders s' = orders s" "order_next s' = order_next s" using e by (simp_all add: trade_effect_def)
  have t: "t = s'\<lparr>orders := kv_put (key_index (or_index x)) y (orders s)\<rparr>"
    using set_order_old [OF nz(1), of s'] by (simp add: t y o)
  have es: "escrow t d = escrow s d - (if d = or_from x then used else 0)" for d
    using kv_sum_put [OF order_invD(1) [OF s], of "left_in d" "key_index (or_index x)" y] x
    by (simp add: escrow_def t get_order_def left_in_def y(2,3))
  have tb: "bank t = bank s'" by (simp add: t)
  note lost = trade_effect_lost [OF e]
  show ?thesis
    unfolding exec_effect_def
  proof (intro conjI allI impI)
    show "surplus E s d \<le> surplus E t d" if "d \<noteq> base_currency" for d
      using lost [OF np, of d] n that by (auto simp: surplus_def es tb split: if_splits)
    show "bal E (bank s) z d \<le> bal E (bank t) z d" if "z \<notin> dex_pools E" "z \<noteq> mod_addr E pool_orders" for z d
      using lost [OF that(1), of d] that(2) by (simp add: t)
  qed (use e nz in \<open>simp_all add: t trade_effect_def\<close>)
qed

lemma record_execution_cases:
  assumes "record_execution x h (q, s') = (Inr (rm, y), t)"
  obtains (err) e where "q = Inl e" "e = DexE Dex_ErrTradeAmountTooSmall \<or> e = DexE Dex_ErrNotEnoughLiquidity"
      "rm = False" "y = x" "t = s'"
  | (zero) received f1 f2 where "q = Inr (Some 0, received, f1, f2)" "rm = False" "y = x" "t = s'"
  | (exec) used received f1 f2 where "q = Inr (Some used, Some received, f1, f2)"
      "y = x\<lparr>or_left := or_left x - used, or_received := or_received x + received, or_next_execution := word_of_int h + or_interval x\<rparr>"
      "t = snd (set_order y s')" "used \<le> or_left x" "rm = (or_left x \<le> used)"
proof (cases q)
  case (Inl e)
  with assms show thesis by (intro err [of e]) (auto simp: record_execution_def split: if_splits)
next
  case (Inr z)
  obtain u received f1 f2 where z: "z = (u, received, f1, f2)" by (cases z)
  with assms Inr obtain used where u: "u = Some used" by (cases u) (auto simp: record_execution_def)
  show thesis
  proof (cases "used = 0")
    case True
    with assms Inr z u show thesis by (intro zero) (auto simp: record_execution_def)
  next
    case False
    with assms Inr z u obtain rec where "received = Some rec" by (cases received) (auto simp: record_execution_def)
    with False assms Inr z u show thesis
      by (intro exec [of used rec f1 f2]) (auto simp: record_execution_def bindS_Inr_iff Let_def)
  qed
qed

lemma execute_order_cases:
  assumes "execute_order E x h s = (Inr (rm, y), t)"
  obtains (same) "rm = False" "y = x" "t = s"
  | (trade) a amt used received f1 f2 s' where
      "execute_trade E (order_trade_options E x a amt) s = (Inr (Some used, received, f1, f2), s')" "amt \<le> or_left x"
      "(rm = False \<and> y = x \<and> t = s' \<and> used = 0) \<or>
       (\<exists>rec. y = x\<lparr>or_left := or_left x - used, or_received := rec, or_next_execution := word_of_int h + or_interval x\<rparr>
          \<and> t = snd (set_order y s') \<and> used \<le> or_left x \<and> rm = (or_left x \<le> used))"
proof -
  from assms obtain p where p: "(if dtrunc E p \<le> 0 then (Inr (False, x), s)
       else if min (or_left x) (dtrunc E p) \<le> 0 then (Inr (False, x), s)
       else bindS (of_option Panic (acc_of E (or_creator x)), s) (\<lambda>a s.
         record_execution x h (execute_trade E (order_trade_options E x a
           (if or_trade_amount x > 0 then min (min (or_left x) (dtrunc E p)) (or_trade_amount x) else min (or_left x) (dtrunc E p))) s)))
      = (Inr (rm, y), t)"
    unfolding execute_order_def Let_def by (rule bindS_InrE) auto
  define amt where "amt = (if or_trade_amount x > 0 then min (min (or_left x) (dtrunc E p)) (or_trade_amount x) else min (or_left x) (dtrunc E p))"
  have le: "amt \<le> or_left x" by (auto simp: amt_def min_le_iff_disj)
  show thesis
  proof (cases "dtrunc E p \<le> 0 \<or> min (or_left x) (dtrunc E p) \<le> 0")
    case True
    with p show thesis by (intro same) (auto split: if_splits)
  next
    case False
    with p obtain a where r: "record_execution x h (execute_trade E (order_trade_options E x a amt) s) = (Inr (rm, y), t)"
      unfolding amt_def by (auto simp: bindS_Inr_iff)
    obtain q s' where q: "execute_trade E (order_trade_options E x a amt) s = (q, s')" by fastforce
    from r [unfolded q] show thesis
    proof (cases rule: record_execution_cases)
      case (err e)
      with execute_trade_own_error [OF q [unfolded err(1)]] show thesis by (intro same) auto
    next
      case (zero received f1 f2)
      then show thesis by (intro trade [OF q [unfolded zero(1)] le]) simp
    next
      case (exec used received f1 f2)
      then show thesis by (intro trade [OF q [unfolded exec(1)] le]) auto
    qed
  qed
qed

lemma execute_order_ok:
  assumes "sdk E" "wf_dex_params (xparams s)" "order_inv s" "book_room N (n + 8 * N) s"
    and "base_currency \<in> set (denoms (dparams s))" and np: "mod_addr E pool_orders \<notin> dex_pools E"
    and x: "get_order s (or_index x) = Some x"
    and r: "execute_order E x h s = (Inr (rm, y), t)"
  shows "exec_effect E s t \<and> book_room (9 * N) n t \<and> get_order t (or_index x) = Some y \<and> or_index y = or_index x
    \<and> (\<forall>i. i \<noteq> or_index x \<longrightarrow> get_order t i = get_order s i)
    \<and> or_creator y = or_creator x \<and> or_from y = or_from x \<and> or_block_end y = or_block_end x
    \<and> 0 \<le> or_left y \<and> or_left y \<le> or_left x \<and> (rm \<longrightarrow> or_left y = 0)"
proof -
  have ok: "or_index x \<noteq> 0" "or_index x \<le> order_next s" "0 \<le> or_left x"
    using get_order_ok(2) [OF assms(3) x] by (simp_all add: order_ok_def)
  from r show ?thesis
  proof (cases rule: execute_order_cases)
    case same
    with x ok assms(3,4) show ?thesis by (auto simp: exec_effect_refl elim: book_room_mono)
  next
    case (trade a amt used received f1 f2 s')
    let ?src = "mod_addr E pool_orders" and ?o = "order_trade_options E x a amt"
    have so: "to_source ?o = Some ?src" "to_target ?o = Some a" "to_start ?o = or_from x" "to_given ?o = amt"
      by (simp_all add: order_trade_options_def)
    note e = execute_trade_ok [OF assms(1,2,4,5) so(1,2) trade(1), unfolded so]
    have used: "0 \<le> used" "used \<le> amt" using e by auto
    have f: "orders s' = orders s" "order_next s' = order_next s"
      using e by (simp_all add: trade_effect_def)
    have si: "order_inv s'" using assms(3) order_inv_cong [OF f(1,2)] by simp
    have gs: "get_order s' i = get_order s i" for i by (simp add: get_order_def f)
    from trade(3) consider (zero) "rm = False" "y = x" "t = s'" "used = 0"
      | (exec) rec where "y = x\<lparr>or_left := or_left x - used, or_received := rec, or_next_execution := word_of_int h + or_interval x\<rparr>"
         "t = snd (set_order y s')" "used \<le> or_left x" "rm = (or_left x \<le> used)" by blast
    then show ?thesis
    proof cases
      case zero
      have "exec_effect E s s'"
        by (rule trade_exec_effect [OF conjunct1 [OF e] assms(3) np]) (simp add: trade_charge_def so zero(4))
      with zero e x ok gs show ?thesis by simp
    next
      case exec
      have y: "or_index y \<noteq> 0" "or_index y \<le> order_next s'" "0 \<le> or_left y" "or_index y = or_index x" "or_from y = or_from x"
        "or_creator y = or_creator x" "or_block_end y = or_block_end x" "or_left y = or_left x - used"
        using ok exec(3) by (simp_all add: exec(1) f)
      note w = set_order_old_inv [OF si y(1-3) exec(2), unfolded y(4) gs x]
      have c: "or_from x \<noteq> base_currency \<Longrightarrow> trade_charge ?o (Some used) = used" by (simp add: trade_charge_def so)
      have "exec_effect E s t"
        by (rule exec_effect_write [OF conjunct1 [OF e] assms(3) np c x y(4,5,8) exec(2)]) (use w(1) y(1) in simp_all)
      moreover have "book_room (9 * N) n t"
        using e orders_only_book [OF orders_only_set, of "9 * N" n y s'] by (simp add: exec(2))
      ultimately show ?thesis using y used exec(3,4) w(3) gs by auto
    qed
  qed
qed

section \<open>The loop\<close>

lemma process_order_ok:
  assumes "sdk E" "wf_dex_params (xparams s)" "order_inv s" "book_room N (n + 8 * N) s"
    and "base_currency \<in> set (denoms (dparams s))" "mod_addr E pool_orders \<notin> dex_pools E"
    and x: "get_order s (or_index x) = Some x" "h \<le> sint (or_block_end x)"
    and r: "process_order E h x s = (Inr u, t)"
  shows "exec_effect E s t \<and> book_room (9 * N) n t \<and> (\<forall>i. i \<noteq> or_index x \<longrightarrow> get_order t i = get_order s i)"
proof (cases "word_of_int h < or_next_execution x")
  case True
  with r x(2) have "t = s" by (simp add: process_order_def)
  with assms(3,4) show ?thesis by (auto simp: exec_effect_refl elim: book_room_mono)
next
  case False
  with r x(2) obtain rm y v where v: "execute_order E x h s = (Inr (rm, y), v)" and t: "t = (if rm then remove_order y v else v)"
    by (auto simp: process_order_def bindS_Inr_iff)
  note e = execute_order_ok [OF assms(1-6) x(1) v]
  have vi: "order_inv v" using e by (simp add: exec_effect_def)
  show ?thesis
  proof (cases rm)
    case True
    note w = remove_order_inv [OF vi, of y]
    have tb: "bank (remove_order y v) = bank v" "dparams (remove_order y v) = dparams v" "xparams (remove_order y v) = xparams v"
      "height (remove_order y v) = height v" "order_next (remove_order y v) = order_next v" "dex_world.more (remove_order y v) = dex_world.more v"
      by (simp_all add: remove_order_def)
    have "surplus E (remove_order y v) d = surplus E v d" for d
      using e True w(2) [of d] by (simp add: surplus_def tb left_in_def)
    then have "exec_effect E v (remove_order y v)" using w(1) by (simp add: exec_effect_def tb)
    with e have "exec_effect E s t" unfolding t using True exec_effect_trans by auto
    moreover have "book_room (9 * N) n t" using e orders_only_book [OF orders_only_remove, of "9 * N" n y v] True by (simp add: t)
    ultimately show ?thesis using e True w(3) by (simp add: t)
  qed (use e t in simp)
qed

text \<open>Every trade multiplies the entries of the book by at most nine: the room of \<open>k + 1\<close> trades.\<close>

lemma trade_room_Suc: "(9 ^ Suc k - 1) * N = (9 ^ k - 1) * (9 * N) + 8 * (N :: nat)"
proof -
  have "9 ^ k = (9 ^ k - 1) + (1 :: nat)" by simp
  then obtain m where "(9 :: nat) ^ k = m + 1" by blast
  then show ?thesis by (simp add: algebra_simps)
qed

lemma execute_orders_loop:
  assumes "sdk E" "mod_addr E pool_orders \<notin> dex_pools E"
    and "wf_dex_params (xparams s)" "order_inv s" "book_room N (n + (9 ^ length xs - 1) * N) s"
    and "base_currency \<in> set (denoms (dparams s))"
    and "distinct (map or_index xs)" "\<forall>x \<in> set xs. get_order s (or_index x) = Some x \<and> h \<le> sint (or_block_end x)"
    and "foldS (\<lambda>x _. process_order E h x) xs c s = (Inr u, t)"
  shows "exec_effect E s t \<and> book_room (9 ^ length xs * N) n t"
  using assms(3-)
proof (induction xs arbitrary: N c s)
  case Nil
  then show ?case by (simp add: exec_effect_refl)
next
  case (Cons x xs)
  from Cons.prems(7) obtain c' v where v: "process_order E h x s = (Inr c', v)"
    and r: "foldS (\<lambda>x _. process_order E h x) xs c' v = (Inr u, t)"
    by (auto simp: bindS_Inr_iff)
  have b: "book_room N ((n + (9 ^ length xs - 1) * (9 * N)) + 8 * N) s"
    using Cons.prems(3) by (simp only: list.size add_Suc_right add_0_right trade_room_Suc add.assoc)
  have x: "get_order s (or_index x) = Some x" "h \<le> sint (or_block_end x)" using Cons.prems(6) by simp_all
  note e = process_order_ok [OF assms(1) Cons.prems(1,2) b Cons.prems(4) assms(2) x v]
  have f: "wf_dex_params (xparams v)" "order_inv v" "base_currency \<in> set (denoms (dparams v))"
    using e Cons.prems(1,4) by (simp_all add: exec_effect_def)
  have d: "distinct (map or_index xs)" using Cons.prems(5) by simp
  have st: "\<forall>y \<in> set xs. get_order v (or_index y) = Some y \<and> h \<le> sint (or_block_end y)"
  proof
    fix y assume y: "y \<in> set xs"
    with Cons.prems(5) have "or_index y \<noteq> or_index x" by (metis distinct.simps(2) image_eqI list.simps(9) set_map)
    with e y Cons.prems(6) show "get_order v (or_index y) = Some y \<and> h \<le> sint (or_block_end y)" by simp
  qed
  have b2: "book_room (9 * N) (n + (9 ^ length xs - 1) * (9 * N)) v" using e by blast
  from Cons.IH [OF f(1,2) b2 f(3) d st r] e show ?case
    by (auto intro: exec_effect_trans simp: mult.assoc mult.left_commute)
qed

section \<open>Frames\<close>

lemma bank_orders:
  "orders (snd (send_acc_mod E a m d n s)) = orders s" "orders (snd (send_mod_acc E m a d n s)) = orders s"
  using bank_ops_frame(2) [of E a m d n s] bank_ops_frame(3) [of E m a d n s] by auto

lemma update_order_frame:
  assumes "order_inv s" "update_order E c j amt_str trade_str price_str s = (Inr y, t)"
  shows "\<exists>z. get_order s j = Some z \<and> or_creator z = c \<and> (\<forall>i. i \<noteq> j \<longrightarrow> get_order t i = get_order s i)"
proof -
  from assms(2) obtain z a amt trade_amt v w p where
    z: "get_order s j = Some z" "or_creator z = c"
    and v: "send_mod_acc E pool_orders a (or_from z) (or_left z) s = (Inr (), v)"
    and w: "send_acc_mod E a pool_orders (or_from z) amt v = (Inr (), w)"
    and y: "y = z\<lparr>or_left := amt, or_trade_amount := trade_amt, or_max_price := p\<rparr>"
    and t: "t = snd (set_order y w)"
    by (auto simp: update_order_def bindS_Inr_iff Let_def)
  have o: "orders w = orders s"
    using bank_orders(1) [of E a pool_orders "or_from z" amt v] bank_orders(2) [of E pool_orders a "or_from z" "or_left z" s]
    by (simp add: v w)
  have i: "or_index y = j" "or_index y \<noteq> 0"
    using get_order_ok [OF assms(1) z(1)] by (simp_all add: y order_ok_def)
  have "get_order t i = get_order s i" if "i \<noteq> j" for i
    using that i by (simp add: t set_order_old get_order_def o kvs.get_put_other [OF order_invD(1) [OF assms(1)]])
  with z show ?thesis by blast
qed

lemma remove_order_frame:
  assumes "order_inv s" "remove_order_msg E c j s = (Inr u, t)"
  shows "\<exists>z. get_order s j = Some z \<and> or_creator z = c \<and> (\<forall>i. i \<noteq> j \<longrightarrow> get_order t i = get_order s i)"
proof -
  from assms(2) obtain z v where z: "get_order s j = Some z" "or_creator z = c"
    and v: "refund_order E z s = (Inr (), v)" and t: "t = remove_order z v"
    by (auto simp: remove_order_msg_def bindS_Inr_iff)
  have "orders (snd (refund_order E z s)) = orders s" by (simp add: refund_order_def bank_orders)
  then have o: "orders v = orders s" by (simp add: v)
  have "or_index z = j" using get_order_ok [OF assms(1) z(1)] by simp
  then have "get_order t i = get_order s i" if "i \<noteq> j" for i
    using that by (simp add: t remove_order_def get_order_def o kvs.get_del [OF order_invD(1) [OF assms(1)]])
  with z show ?thesis by blast
qed

lemma remove_orders_by_address:
  assumes "order_inv s"
  defines "t \<equiv> \<lambda>c. foldl (\<lambda>s x. remove_order x s) s (get_all_orders_by_address s c)"
  shows "order_inv (t c) \<and> orders_only s (t c) \<and> bank (t c) = bank s
    \<and> (\<forall>d. escrow (t c) d = escrow s d - sum_list (map (left_in d) (get_all_orders_by_address s c)))
    \<and> (\<forall>i. get_order (t c) i = (if i \<in> or_index ` set (get_all_orders_by_address s c) then None else get_order s i))"
proof -
  have d: "distinct (map or_index (get_all_orders_by_address s c))"
    using get_all_orders_distinct [OF assms(1)] by (simp add: get_all_orders_by_address_def distinct_map_filter)
  have g: "\<forall>x \<in> set (get_all_orders_by_address s c). get_order s (or_index x) = Some x"
    using get_all_orders_get [OF assms(1)] by (simp add: get_all_orders_by_address_def)
  show ?thesis using remove_orders_ok [OF assms(1) d g] unfolding t_def by simp
qed

lemma get_order_in:
  assumes "order_inv s" "get_order s i = Some x"
  shows "x \<in> set (get_all_orders s)"
  using assms kvs.set_iter [OF order_invD(1) [OF assms(1)], of "[]"]
  by (force simp: get_order_def get_all_orders_def kv_vals_def)

section \<open>An example\<close>

text \<open>Carol orders uwusdc for 3000 ukopi, 1000 per block, and lets the order live to the end of the block.\<close>

definition dex_ordered :: "ledger dex_world" where
  "dex_ordered = snd (add_order dex_env ''carol'' ''ukopi'' ''uwusdc'' ''3,000'' ''1000'' ''12'' 0 1 False dex_pool)"

definition dex_executed :: "ledger dex_world" where
  "dex_executed = snd (execute_orders dex_env 1 dex_ordered)"

lemma order_example:
  "add_order dex_env ''carol'' ''ukopi'' ''uwusdc'' ''3,000'' ''1000'' ''12'' 0 1 False dex_pool
   = (Inr \<lparr>or_index = 1, or_creator = ''carol'', or_from = ''ukopi'', or_to = ''uwusdc'', or_given = 3000, or_left = 3000,
        or_trade_amount = 1000, or_received = 0, or_max_price = to_dec 12, or_num_blocks = 0,
        or_interval = 1, or_next_execution = 1, or_block_end = 1, or_incomplete = False\<rparr>, dex_ordered)"
proof -
  have "fst (add_order dex_env ''carol'' ''ukopi'' ''uwusdc'' ''3,000'' ''1000'' ''12'' 0 1 False dex_pool)
   = Inr \<lparr>or_index = 1, or_creator = ''carol'', or_from = ''ukopi'', or_to = ''uwusdc'', or_given = 3000, or_left = 3000,
        or_trade_amount = 1000, or_received = 0, or_max_price = to_dec 12, or_num_blocks = 0,
        or_interval = 1, or_next_execution = 1, or_block_end = 1, or_incomplete = False\<rparr>"
    by code_simp
  then show ?thesis by (simp add: prod_eq_iff dex_ordered_def)
qed

lemma dex_executed_value: "dex_executed =
  \<lparr>bank =
      \<lparr>bals =
         [((''carol'', ''uwusdc''), 99), ((''#pool_trade'', ''uwusdc''), 0),
          ((''#pool_liquidity'', ''ukopi''), 101000),
          ((''#pool_trade'', ''ukopi''), 0),
          ((''#pool_liquidity'', ''uwusdc''), 9901),
          ((''#pool_orders'', ''ukopi''), 2000),
          ((''carol'', ''ukopi''), 2000), ((''bob'', ''uwusdc''), 40000),
          ((''alice'', ''ukopi''), 400000)],
         tot = [(''ukopi'', 505000), (''uwusdc'', 50000)]\<rparr>,
      height = 1,
      dparams =
        \<lparr>dex_denoms =
           [\<lparr>dd_name = ''ukopi'', dd_factor = None,
               dd_min_liquidity = Some 10000\<rparr>,
            \<lparr>dd_name = ''uwusdc'', dd_factor = Some 100000000000000000,
               dd_min_liquidity = Some 1000\<rparr>,
            \<lparr>dd_name = ''ukusd'', dd_factor = Some 100000000000000000,
               dd_min_liquidity = Some 1000\<rparr>],
           kcoins =
             [\<lparr>kc_denom = ''ukusd'', kc_references = [''uwusdc''],
                 kc_max_supply = Some 1000000, kc_max_mint = Some 1000,
                 kc_max_burn = Some 1000\<rparr>],
           cassets = [], collateral_denoms = []\<rparr>,
      xparams =
        \<lparr>trade_fee = 1000000000000000, reserve_share = 500000000000000000,
           virtual_liquidity_decay = 999997000000000000,
           fee_reimbursement = 500000000000000000,
           trade_amount_decay = 950000000000000000,
           discount_levels =
             [\<lparr>dl_trade_amount = Some 1000000000000000000000000,
                 dl_discount = Some 10000000000000000\<rparr>,
              \<lparr>dl_trade_amount = Some 10000000000000000000000000,
                 dl_discount = Some 100000000000000000\<rparr>],
           max_order_life = 604800\<rparr>,
      liquidities =
        [(''ukopi/1/'',
          \<lparr>lq_index = 1, lq_denom = ''ukopi'', lq_address = ''alice'',
             lq_amount = 100000\<rparr>),
         (''ukopi/3/'',
          \<lparr>lq_index = 3, lq_denom = ''ukopi'', lq_address = ''bob'',
             lq_amount = 1000\<rparr>),
         (''uwusdc/2/'',
          \<lparr>lq_index = 2, lq_denom = ''uwusdc'', lq_address = ''bob'',
             lq_amount = 9901\<rparr>)],
      liquidity_next = 3,
      liquidity_sums =
        [(''ukopi/'', \<lparr>ls_denom = ''ukopi'', ls_amount = 101000\<rparr>),
         (''uwusdc/'', \<lparr>ls_denom = ''uwusdc'', ls_amount = 9901\<rparr>)],
      liquidity_pairs =
        [(''ukusd/'',
          \<lparr>lp_denom = ''ukusd'', lp_base = 0,
             lp_other = 10000000000000000000000\<rparr>),
         (''uwusdc/'', \<lparr>lp_denom = ''uwusdc'', lp_base = 0, lp_other = 0\<rparr>)],
      liquidity_pair_count = 0,
      ratios =
        [(''ukusd/'',
          \<lparr>ra_denom = ''ukusd'', ra_ratio = Some 100000000000000000\<rparr>),
         (''uwusdc/'',
          \<lparr>ra_denom = ''uwusdc'', ra_ratio = Some 98029702970297030\<rparr>)],
      trade_amounts =
        [(''carol/'',
          \<lparr>wt_address = ''carol'', wt_amount = 1000000000000000000000\<rparr>)],
      orders =
        [(''1/'',
          \<lparr>or_index = 1, or_creator = ''carol'', or_from = ''ukopi'',
             or_to = ''uwusdc'', or_given = 3000, or_left = 2000,
             or_trade_amount = 1000, or_received = 99,
             or_max_price = 12000000000000000000, or_num_blocks = 0,
             or_interval = 1, or_next_execution = 2, or_block_end = 1,
             or_incomplete = False\<rparr>)],
      order_next = 1\<rparr>"
  by code_simp

declare dex_executed_value [code]

lemma execute_example: "execute_orders dex_env 1 dex_ordered = (Inr (), dex_executed)"
proof -
  have "fst (execute_orders dex_env 1 dex_ordered) = Inr ()" by code_simp
  then show ?thesis by (simp add: prod_eq_iff dex_executed_def)
qed

lemma dex_pool_orders: "orders dex_pool = []" "order_next dex_pool < - 1" "height dex_pool = 1"
  by code_simp+

lemma dex_ordered_conds:
  "denoms_separate (dparams dex_ordered)" "base_currency \<in> set (denoms (dparams dex_ordered))"
  "mod_addr dex_env pool_orders \<notin> dex_pools dex_env" "xparams dex_ordered = default_dex_params"
  "unat (liquidity_next dex_ordered) = 2" "length (liquidities dex_ordered) = 2" "length (get_all_orders dex_ordered) = 1"
  "list_all (\<lambda>x. 1 \<le> sint (or_block_end x)) (get_all_orders dex_ordered)"
  "acc_of dex_env ''carol'' \<noteq> Some (mod_addr dex_env pool_orders)" "order_next dex_ordered < - 1"
  by (code_simp, code_simp, code_simp, code_simp, code_simp, code_simp, code_simp, code_simp, code_simp, code_simp)

lemma dex_pool_order_inv: "order_inv dex_pool"
  by (simp add: order_inv_def dex_pool_orders kv_wf_def)

lemma dex_ordered_inv: "order_inv dex_ordered" and dex_ordered_book: "book_inv dex_ordered"
proof -
  from order_example obtain "order_inv dex_ordered" "orders_only dex_pool dex_ordered"
    by (rule add_order_ok [OF sdk_dex_env dex_pool_order_inv dex_pool_orders(2) _ dex_ordered_conds(9)])
  then show "order_inv dex_ordered" "book_inv dex_ordered"
    using book_inv_cong [of dex_ordered dex_pool] dex_example_inv(3) by (simp_all add: orders_onlyD)
qed

lemma dex_executed_inv: "order_inv dex_executed" "book_inv dex_executed"
proof -
  have w: "wf_dex_params (xparams dex_ordered)" by (simp add: dex_ordered_conds wf_default_dex_params)
  have b: "book_room 2 (0 + (9 ^ length (get_all_orders dex_ordered) - 1) * 2) dex_ordered"
    using dex_ordered_book dex_ordered_conds by (simp add: book_room_def)
  have x: "\<forall>x \<in> set (get_all_orders dex_ordered). get_order dex_ordered (or_index x) = Some x \<and> 1 \<le> sint (or_block_end x)"
    using get_all_orders_get [OF dex_ordered_inv] dex_ordered_conds(8) by (auto simp: list_all_iff)
  from execute_orders_loop [OF sdk_dex_env dex_ordered_conds(3) w dex_ordered_inv b dex_ordered_conds(2)
      get_all_orders_distinct [OF dex_ordered_inv] x execute_example [unfolded execute_orders_def]]
  show "order_inv dex_executed" "book_inv dex_executed" by (simp_all add: exec_effect_def book_room_def)
qed

section \<open>Properties\<close>

text \<open>
  C10. Adding an order: an accepted \<open>AddOrder\<close> takes exactly the given amount from the sender, holds it in the
  escrow account for the new order, which is stored under an index no order had, and changes no other balance; the
  orders' claims stay exactly as covered as they were.
\<close>

theorem add_order_spec:
  assumes "sdk E" "order_inv s" "order_next s < - 1" "acc_of E creator \<noteq> Some (mod_addr E pool_orders)"
    and "add_order E creator from to amt_str trade_str price_str blocks interval incomplete s = (Inr x, t)"
  shows "\<exists>a amt. acc_of E creator = Some a \<and> parse_amount E amt_str = Inr amt \<and> 0 < amt
    \<and> get_order s (or_index x) = None \<and> get_order t (or_index x) = Some x
    \<and> or_creator x = creator \<and> or_from x = from \<and> or_left x = amt \<and> 0 < or_max_price x \<and> order_inv t
    \<and> (\<forall>d. bal E (bank t) a d = bal E (bank s) a d - (if d = from then amt else 0))
    \<and> (\<forall>y d. y \<noteq> a \<and> y \<noteq> mod_addr E pool_orders \<longrightarrow> bal E (bank t) y d = bal E (bank s) y d)
    \<and> (\<forall>d. surplus E t d = surplus E s d)"
proof -
  show ?thesis
  proof (rule add_order_ok [OF assms(1,2,3,5,4)], goal_cases)
    case (1 a amt)
    then show ?case by (intro exI [of _ a] exI [of _ amt] conjI allI impI) simp_all
  qed
qed

theorem add_order_spec_witness:
  "bal dex_env (bank dex_ordered) ''carol'' ''ukopi'' = bal dex_env (bank dex_pool) ''carol'' ''ukopi'' - 3000
   \<and> surplus dex_env dex_ordered ''ukopi'' = surplus dex_env dex_pool ''ukopi'' \<and> order_inv dex_ordered"
proof -
  have p: "parse_amount dex_env ''3,000'' = Inr 3000" "acc_of dex_env ''carol'' = Some ''carol''" by code_simp+
  from add_order_spec [OF sdk_dex_env dex_pool_order_inv dex_pool_orders(2) dex_ordered_conds(9) order_example]
  show ?thesis unfolding p by auto
qed

text \<open>
  The end of an order's life never lies further ahead than the governed maximum: it is the current height plus
  the smaller of the requested and the maximal life, as long as that sum is an \<open>int64\<close>.
\<close>

theorem order_life_bounded:
  assumes "sdk E" "order_inv s" "order_next s < - 1" "acc_of E creator \<noteq> Some (mod_addr E pool_orders)"
    and "add_order E creator from to amt_str trade_str price_str blocks interval incomplete s = (Inr x, t)"
    and "0 \<le> height s" "height s + uint (max_order_life (xparams s)) < 2 ^ 63"
  shows "sint (or_block_end x) = height s + min (uint blocks) (uint (max_order_life (xparams s)))
    \<and> uint (or_next_execution x) = height s"
proof -
  from assms(1,2,3,5,4) have e: "or_block_end x = calculate_block_end s blocks (word_of_int (height s))"
    "or_next_execution x = word_of_int (height s)"
    by (rule add_order_ok, simp)+
  define l where "l = (if blocks > max_order_life (xparams s) then max_order_life (xparams s) else blocks)"
  have l: "uint l = min (uint blocks) (uint (max_order_life (xparams s)))"
    by (auto simp: l_def min_def word_less_def)
  have h: "height s < 2 ^ 63" using assms(6,7) uint_ge_0 [of "max_order_life (xparams s)"] by linarith
  then have uh: "uint (word_of_int (height s) :: 64 word) = height s" using assms(6) by (simp add: uint_word_of_int)
  have sum: "0 \<le> uint l + height s" "uint l + height s < 2 ^ 63" using assms(6,7) uint_ge_0 [of l] unfolding l by linarith+
  have "uint (l + word_of_int (height s)) = uint l + height s"
    unfolding uint_word_ariths uh using sum by simp
  then have "sint (l + word_of_int (height s)) = signed_take_bit 63 (uint l + height s)" by (simp add: sint_uint)
  also have "\<dots> = uint l + height s" by (rule signed_take_bit_int_eq_self) (use sum in simp_all)
  finally have "sint (l + word_of_int (height s)) = uint l + height s" .
  moreover have "calculate_block_end s blocks (word_of_int (height s)) = l + word_of_int (height s)"
    by (simp add: calculate_block_end_def l_def Let_def)
  ultimately show ?thesis using l uh by (simp add: e)
qed

theorem order_life_bounded_witness:
  "sint (or_block_end (the (get_order dex_ordered 1))) = 1"
proof -
  have m: "0 \<le> height dex_pool" "height dex_pool + uint (max_order_life (xparams dex_pool)) < 2 ^ 63" by code_simp+
  have g: "sint (or_block_end (the (get_order dex_ordered 1))) = sint (1 :: 64 word)" by code_simp
  from order_life_bounded [OF sdk_dex_env dex_pool_order_inv dex_pool_orders(2) dex_ordered_conds(9) order_example m]
  show ?thesis unfolding g by simp
qed



text \<open>
  C37. \<open>RemoveOrders\<close> pays nothing back: it deletes all orders of the sender and leaves every balance as it was, so
  that what was left of them stays in the escrow account with no order to claim it.
\<close>

theorem remove_orders_strands_funds:
  assumes "order_inv s" "remove_orders c s = (Inr u, t)"
  shows "bank t = bank s \<and> get_all_orders_by_address t c = []
    \<and> (\<forall>d. surplus E t d = surplus E s d + sum_list (map (left_in d) (get_all_orders_by_address s c)))"
proof -
  have t: "t = foldl (\<lambda>s x. remove_order x s) s (get_all_orders_by_address s c)"
    using assms(2) by (simp add: remove_orders_def)
  note r = remove_orders_by_address [OF assms(1), of c, folded t]
  have "x \<notin> set (get_all_orders_by_address t c)" for x
  proof
    assume "x \<in> set (get_all_orders_by_address t c)"
    then have x: "x \<in> set (get_all_orders t)" "or_creator x = c" by (auto simp: get_all_orders_by_address_def)
    have g: "get_order t (or_index x) = Some x" using r by (intro get_all_orders_get x) blast
    with r have i: "or_index x \<notin> or_index ` set (get_all_orders_by_address s c)" "get_order s (or_index x) = Some x"
      by (metis option.distinct(1), metis option.distinct(1))
    have "x \<in> set (get_all_orders_by_address s c)"
      using get_order_in [OF assms(1) i(2)] x(2) by (simp add: get_all_orders_by_address_def)
    with i(1) show False by blast
  qed
  then have "get_all_orders_by_address t c = []" by (metis list.set_intros(1) neq_Nil_conv)
  with r show ?thesis by (simp add: surplus_def)
qed

theorem remove_orders_strands_funds_witness:
  "surplus dex_env (snd (remove_orders ''carol'' dex_ordered)) ''ukopi'' = surplus dex_env dex_ordered ''ukopi'' + 3000"
proof -
  have r: "remove_orders ''carol'' dex_ordered = (Inr (), snd (remove_orders ''carol'' dex_ordered))"
    by (simp add: remove_orders_def)
  have "sum_list (map (left_in ''ukopi'') (get_all_orders_by_address dex_ordered ''carol'')) = 3000" by code_simp
  with remove_orders_strands_funds [OF dex_ordered_inv r, of dex_env] show ?thesis by simp
qed

lemma execute_orders_ok:
  assumes "sdk E" "wf_dex_params (xparams s)" "order_inv s" "book_inv s" "denoms_separate (dparams s)"
    and "base_currency \<in> set (denoms (dparams s))" "mod_addr E pool_orders \<notin> dex_pools E"
    and "unat (liquidity_next s) + 9 ^ length (get_all_orders s) * length (liquidities s) < 2 ^ 64 - 1"
    and "list_all (\<lambda>x. h \<le> sint (or_block_end x)) (get_all_orders s)"
    and "execute_orders E h s = (Inr u, t)"
  shows "exec_effect E s t \<and> book_inv t"
proof -
  let ?n = "length (get_all_orders s)" and ?N = "length (liquidities s)"
  have "(9 ^ ?n - 1) * ?N \<le> 9 ^ ?n * ?N" by simp
  with assms(8) have "unat (liquidity_next s) + (0 + (9 ^ ?n - 1) * ?N) < 2 ^ 64 - 1" by linarith
  then have b: "book_room ?N (0 + (9 ^ ?n - 1) * ?N) s" using assms(4,5) by (simp add: book_room_def)
  have x: "\<forall>x \<in> set (get_all_orders s). get_order s (or_index x) = Some x \<and> h \<le> sint (or_block_end x)"
    using get_all_orders_get [OF assms(3)] assms(9) by (auto simp: list_all_iff)
  from execute_orders_loop [OF assms(1,7,2,3) b assms(6) get_all_orders_distinct [OF assms(3)] x
      assms(10) [unfolded execute_orders_def]]
  show ?thesis by (simp add: book_room_def)
qed



text \<open>
  An expired order whose next execution is due stops the chain: the order is refunded and removed, and then
  executed all the same; the escrow account no longer holds its coins, so that \<open>ExecuteOrders\<close>, and with it \<open>EndBlock\<close>,
  returns an error. An order of carol's that lives for one block shows it, in two consecutive blocks.
\<close>

theorem expired_order_fails_block:
  "is_ok (fst (add_order dex_env ''carol'' ''ukopi'' ''uwusdc'' ''3,000'' ''1000'' ''12'' 0 1 False dex_pool))
   \<and> fst (execute_orders dex_env 1 dex_ordered) = Inr ()
   \<and> fst (execute_orders dex_env 2 (snd (execute_orders dex_env 1 dex_ordered))) = Inl (DexE Dex_ErrNotEnoughFunds)"
proof -
  have "fst (execute_orders dex_env 2 dex_executed) = Inl (DexE Dex_ErrNotEnoughFunds)" by code_simp
  then show ?thesis by (simp add: order_example execute_example)
qed

end
