(* ===== verification/DexBlock.thy ===== *)
theory DexBlock
  imports DexExecution
begin

text \<open>
  The reserve of \<open>x/dex\<close> (\<open>keeper/reserve.go\<close>), the hooks that run at the beginning and at the end of a
  block (\<open>module/module.go\<close>) and the genesis state (\<open>module/genesis.go\<close>, \<open>types/genesis.go\<close>).
\<close>

section \<open>The reserve\<close>

definition pool_vault :: string where "pool_vault = ''pool_vault''"

text \<open>The error of the transfer is dropped; the amount counts as sent all the same.\<close>

definition send_to_money_market :: "'b env \<Rightarrow> denom \<Rightarrow> int \<Rightarrow> dec \<Rightarrow> (('b, 'z) dex_world_scheme, int) cmd" where
  "send_to_money_market E d amt share s =
     (let n = dround E (dmul E (to_dec amt) share) in
      case send_mod_mod E pool_reserve pool_vault d n s of
        (Inl Panic, s) \<Rightarrow> (Inl Panic, s)
      | (_, s) \<Rightarrow> (Inr n, s))"

definition check_reserve_for_denom :: "'b env \<Rightarrow> addr \<Rightarrow> denom \<Rightarrow> int \<Rightarrow> (('b, 'z) dex_world_scheme, unit) cmd" where
  "check_reserve_for_denom E a d amt s =
     (if amt = 0 then (Inr (), s)
      else
        bindS (case get_casset_by_base_name (dparams s) d of
                 Inl _ \<Rightarrow> (Inr amt, s)
               | Inr c \<Rightarrow>
                   bindS (nilR (ca_dex_fee_share c), s) (\<lambda>share s.
                   bindS (send_to_money_market E d amt share s) (\<lambda>sent s. (Inr (amt - sent), s)))) (\<lambda>amt s.
        if is_kcoin (dparams s) d then burn_coins E pool_reserve d amt s
        else keeper_add_liquidity E a d amt s))"

text \<open>The base currency first, then every other coin of the reserve.\<close>

definition check_reserve :: "'b env \<Rightarrow> (('b, 'z) dex_world_scheme, unit) cmd" where
  "check_reserve E s =
     (let a = mod_addr E pool_reserve; cs = bk_spendable E (bank s) a in
      bindS (case map_of cs base_currency of
               None \<Rightarrow> (Inr (), s)
             | Some n \<Rightarrow> check_reserve_for_denom E a base_currency n s) (\<lambda>_.
      foldS (\<lambda>(d, n) _ s. if d = base_currency then (Inr (), s) else check_reserve_for_denom E a d n s) cs ()))"

text \<open>Heights are not negative, so that Go's remainder is \<open>mod\<close>.\<close>

definition begin_block_check_reserve :: "'b env \<Rightarrow> int \<Rightarrow> (('b, 'z) dex_world_scheme, unit) cmd" where
  "begin_block_check_reserve E h s = (if h mod 1000 = 1 then check_reserve E s else (Inr (), s))"

section \<open>The hooks\<close>

definition dex_begin_block :: "'b env \<Rightarrow> (('b, 'z) dex_world_scheme, unit) cmd" where
  "dex_begin_block E s =
     bindS (update_virtual_liquidities E s) (\<lambda>_ s. begin_block_check_reserve E (height s) s)"

definition dex_end_block :: "'b env \<Rightarrow> (('b, 'z) dex_world_scheme, unit) cmd" where
  "dex_end_block E s =
     bindS (execute_orders E (height s) s) (\<lambda>_ s.
     (Inr (), if height s mod 86400 = 0 then trade_amount_decay_all E s else s))"

section \<open>Genesis\<close>

record dex_genesis =
  gs_params :: dex_params
  gs_liquidity_list :: "liquidity list"
  gs_liquidity_next :: "64 word"
  gs_pair_list :: "liquidity_pair list"
  gs_pair_count :: "64 word"
  gs_ratio_list :: "ratio list"
  gs_sum_list :: "liquidity_sum list"
  gs_order_list :: "order list"
  gs_order_next :: "64 word"
  gs_trade_amounts :: "wallet_trade_amount list"

definition default_dex_genesis :: dex_genesis where
  "default_dex_genesis = \<lparr>gs_params = default_dex_params, gs_liquidity_list = [], gs_liquidity_next = 0, gs_pair_list = [],
     gs_pair_count = 0, gs_ratio_list = [], gs_sum_list = [], gs_order_list = [], gs_order_next = 0, gs_trade_amounts = []\<rparr>"

definition validate_dex_genesis :: "dex_genesis \<Rightarrow> unit res" where
  "validate_dex_genesis g = validate_dex_params (gs_params g)"

text \<open>The ratio of a pair is recomputed; the lists of ratios and of traded amounts are not read.\<close>

definition dex_init_genesis :: "'b env \<Rightarrow> dex_genesis \<Rightarrow> (('b, 'z) dex_world_scheme, unit) cmd" where
  "dex_init_genesis E g s =
     (let s = foldl (\<lambda>s l. set_liquidity l (lq_amount l) s) s (gs_liquidity_list g) in
      bindS (foldS (\<lambda>p _. set_liquidity_pair p) (gs_pair_list g) () s) (\<lambda>_ s.
      bindS (foldS (\<lambda>p _ s. bindS (pair_ratio E s (lp_denom p), s) (\<lambda>r s.
               (Inr (), set_ratio \<lparr>ra_denom = lp_denom p, ra_ratio = r\<rparr> s))) (gs_pair_list g) () s) (\<lambda>_ s.
      let s = set_liquidity_pair_count (gs_pair_count g) s;
          s = foldl (\<lambda>s x. set_liquidity_sum x s) s (gs_sum_list g);
          s = foldl (\<lambda>s x. snd (set_order x s)) s (gs_order_list g);
          s = set_order_next_index (gs_order_next g) s in
      bindS (set_dex_params (gs_params g) s) (\<lambda>_ s.
      (Inr (), set_liquidity_next_index (gs_liquidity_next g) s)))))"

definition dex_export_genesis :: "('b, 'z) dex_world_scheme \<Rightarrow> dex_genesis" where
  "dex_export_genesis s = default_dex_genesis
     \<lparr>gs_params := xparams s,
      gs_liquidity_list := get_all_liquidity s, gs_liquidity_next := get_liquidity_next_index s,
      gs_pair_list := get_all_liquidity_pair s, gs_pair_count := get_liquidity_pair_count s,
      gs_ratio_list := get_all_ratio s, gs_sum_list := get_all_liquidity_sum s,
      gs_order_list := get_all_orders s, gs_order_next := get_order_next_index s\<rparr>"

section \<open>What the beginning of a block changes\<close>

text \<open>
  Only the reserve, the pool of liquidity and the vault change their balances; only kCoins can be burned.
\<close>

definition reserve_effect :: "'b env \<Rightarrow> ('b, 'z) dex_world_scheme \<Rightarrow> ('b, 'z) dex_world_scheme \<Rightarrow> bool" where
  "reserve_effect E s t \<longleftrightarrow>
     (\<forall>x d. x \<notin> mod_addr E ` {pool_reserve, pool_liquidity, pool_vault} \<longrightarrow> bal E (bank t) x d = bal E (bank s) x d)
     \<and> (\<forall>d. bk_supply E (bank t) d \<le> bk_supply E (bank s) d)
     \<and> (\<forall>d. \<not> is_kcoin (dparams s) d \<longrightarrow> bk_supply E (bank t) d = bk_supply E (bank s) d)
     \<and> dparams t = dparams s \<and> xparams t = xparams s \<and> orders t = orders s \<and> order_next t = order_next s
     \<and> height t = height s \<and> trade_amounts t = trade_amounts s \<and> dex_world.more t = dex_world.more s"

lemma reserve_effect_refl [simp]: "reserve_effect E s s"
  by (simp add: reserve_effect_def)

lemma reserve_effect_trans:
  assumes "reserve_effect E s t" "reserve_effect E t u"
  shows "reserve_effect E s u"
proof -
  have "bk_supply E (bank u) d \<le> bk_supply E (bank s) d" for d
    using assms unfolding reserve_effect_def by (blast intro: order_trans)
  with assms show ?thesis by (simp add: reserve_effect_def)
qed

lemma reserve_effect_pairs: "pairs_only s t \<Longrightarrow> reserve_effect E s t"
  by (simp add: reserve_effect_def pairs_onlyD)

lemma reserve_effect_bank:
  assumes "t = s\<lparr>bank := bank t\<rparr>"
    and "\<And>x d. x \<notin> mod_addr E ` {pool_reserve, pool_liquidity, pool_vault} \<Longrightarrow> bal E (bank t) x d = bal E (bank s) x d"
    and "\<And>d. bk_supply E (bank t) d \<le> bk_supply E (bank s) d"
    and "\<And>d. \<not> is_kcoin (dparams s) d \<Longrightarrow> bk_supply E (bank t) d = bk_supply E (bank s) d"
  shows "reserve_effect E s t" "book_room N n t = book_room N n s"
proof -
  show "reserve_effect E s t"
    unfolding reserve_effect_def by (intro conjI allI impI assms(2-4) bank_onlyD [OF assms(1)])
  show "book_room N n t = book_room N n s" by (rule book_room_cong) (simp_all add: bank_onlyD [OF assms(1)])
qed

lemma keeper_add_liquidity_room:
  assumes "sdk E" "book_room N (Suc n) s" "keeper_add_liquidity E (mod_addr E pool_reserve) d amt s = (Inr u, t)"
  shows "reserve_effect E s t" "book_room (Suc N) n t"
proof -
  let ?a = "mod_addr E pool_reserve"
  from assms(3) obtain v where d: "is_valid_denom (dparams s) d" and v: "send_acc_mod E ?a pool_liquidity d amt s = (Inr (), v)"
    and u: "update_pair_or_pairs E d (add_entry d (str_of E ?a) amt v) = (Inr (), t)"
    by (auto simp: keeper_add_liquidity_def bindS_Inr_iff)
  note c = sdk.send_acc_mod_ok [OF assms(1) v]
  have b: "reserve_effect E s v" "book_room N (Suc n) v"
    using reserve_effect_bank [OF c(4), of E] c(2,3) assms(2) by auto
  have dv: "d \<in> set (denoms (dparams v))" using d by (simp add: is_valid_denom_def bank_onlyD [OF c(4)])
  let ?w = "add_entry d (str_of E ?a) amt v"
  have p: "pairs_only ?w t" using update_pair_or_pairs_only [of ?w E d] u by simp
  show "book_room (Suc N) n t" using add_entry_room [OF b(2) dv c(1)] book_room_pairs [OF p] by simp
  have "reserve_effect E v ?w" using book_onlyD [OF add_entry_only [of v d "str_of E ?a" amt]] by (simp add: reserve_effect_def)
  with b(1) show "reserve_effect E s t" using reserve_effect_pairs [OF p] reserve_effect_trans by blast
qed

lemma send_to_money_market_ok:
  assumes "sdk E" "send_to_money_market E d amt share s = (Inr n, t)"
  shows "reserve_effect E s t" "book_room N k t = book_room N k s"
proof -
  let ?n = "dround E (dmul E (to_dec amt) share)"
  obtain y v where y: "send_mod_mod E pool_reserve pool_vault d ?n s = (y, v)" by fastforce
  with assms(2) have t: "t = v" by (auto simp: send_to_money_market_def Let_def split: sum.splits err.splits)
  have "reserve_effect E s v \<and> book_room N k v = book_room N k s"
  proof (cases y)
    case (Inl e)
    with y bank_ops_fail(4) have "v = s" by blast
    then show ?thesis by simp
  next
    case (Inr u)
    note c = sdk.send_mod_mod_ok [OF assms(1) y [unfolded Inr]]
    from reserve_effect_bank [OF c(4), of E] c(2,3) show ?thesis by auto
  qed
  then show "reserve_effect E s t" "book_room N k t = book_room N k s" by (simp_all add: t)
qed

lemma check_reserve_for_denom_ok:
  assumes "sdk E" "book_room N (Suc n) s"
    and r: "check_reserve_for_denom E (mod_addr E pool_reserve) d amt s = (Inr u, t)"
  shows "reserve_effect E s t \<and> book_room (Suc N) n t"
proof (cases "amt = 0")
  case True
  with r have "t = s" by (simp add: check_reserve_for_denom_def)
  with assms(2) show ?thesis by (auto elim: book_room_mono)
next
  case False
  with r obtain k v where v: "(case get_casset_by_base_name (dparams s) d of
                 Inl _ \<Rightarrow> (Inr amt, s)
               | Inr c \<Rightarrow>
                   bindS (nilR (ca_dex_fee_share c), s) (\<lambda>share s.
                   bindS (send_to_money_market E d amt share s) (\<lambda>sent s. (Inr (amt - sent), s)))) = (Inr k, v)"
    and t: "(if is_kcoin (dparams v) d then burn_coins E pool_reserve d k v
        else keeper_add_liquidity E (mod_addr E pool_reserve) d k v) = (Inr u, t)"
    unfolding check_reserve_for_denom_def by (auto elim!: bindS_InrE)
  have v: "reserve_effect E s v \<and> book_room N (Suc n) v"
  proof (cases "get_casset_by_base_name (dparams s) d")
    case (Inl e)
    with v assms(2) show ?thesis by simp
  next
    case (Inr c)
    with v obtain share sent where "send_to_money_market E d amt share s = (Inr sent, v)" by (auto simp: bindS_Inr_iff)
    from send_to_money_market_ok [OF assms(1) this] assms(2) show ?thesis by simp
  qed
  have f: "dparams v = dparams s" using v by (simp add: reserve_effect_def)
  show ?thesis
  proof (cases "is_kcoin (dparams v) d")
    case True
    with t have b: "burn_coins E pool_reserve d k v = (Inr (), t)" by simp
    note c = sdk.burn_coins_ok [OF assms(1) b]
    have "\<And>x d'. x \<notin> mod_addr E ` {pool_reserve, pool_liquidity, pool_vault} \<Longrightarrow> bal E (bank t) x d' = bal E (bank v) x d'"
      "\<And>d'. bk_supply E (bank t) d' \<le> bk_supply E (bank v) d'"
      "\<And>d'. \<not> is_kcoin (dparams v) d' \<Longrightarrow> bk_supply E (bank t) d' = bk_supply E (bank v) d'"
      using c(1-3) True by auto
    from reserve_effect_bank [OF c(4) this] v have "reserve_effect E v t \<and> book_room N (Suc n) t" by simp
    with v reserve_effect_trans [of E s v t] book_room_mono [of N "Suc n" t "Suc N" n] show ?thesis by simp
  next
    case False
    with t have "keeper_add_liquidity E (mod_addr E pool_reserve) d k v = (Inr u, t)" by simp
    from keeper_add_liquidity_room [OF assms(1) conjunct2 [OF v] this] v reserve_effect_trans [of E s v t] show ?thesis by simp
  qed
qed

lemma check_reserve_loop:
  assumes "sdk E" "book_room N (n + length cs) s"
    and "foldS (\<lambda>(d, k) _ s. if d = base_currency then (Inr (), s) else check_reserve_for_denom E (mod_addr E pool_reserve) d k s) cs () s
      = (Inr u, t)"
  shows "reserve_effect E s t \<and> book_room (N + length cs) n t"
  using assms(2,3)
proof (induction cs arbitrary: N s)
  case (Cons c cs)
  obtain d k where c: "c = (d, k)" by (cases c)
  from Cons.prems(2) obtain v where v: "(if d = base_currency then (Inr (), s)
        else check_reserve_for_denom E (mod_addr E pool_reserve) d k s) = (Inr (), v)"
    and r: "foldS (\<lambda>(d, k) _ s. if d = base_currency then (Inr (), s) else check_reserve_for_denom E (mod_addr E pool_reserve) d k s) cs () v
      = (Inr u, t)"
    by (auto simp: c bindS_Inr_iff)
  have b: "book_room N (Suc (n + length cs)) s" using Cons.prems(1) by simp
  have "reserve_effect E s v \<and> book_room (Suc N) (n + length cs) v"
    using v check_reserve_for_denom_ok [OF assms(1) b] b by (auto split: if_splits elim: book_room_mono)
  with Cons.IH [OF _ r, of "Suc N"] show ?case using reserve_effect_trans by fastforce
qed simp

lemma check_reserve_ok:
  assumes "sdk E" "book_room N (Suc (n + length (bk_spendable E (bank s) (mod_addr E pool_reserve)))) s" "check_reserve E s = (Inr u, t)"
  shows "reserve_effect E s t \<and> book_inv t"
proof -
  let ?cs = "bk_spendable E (bank s) (mod_addr E pool_reserve)"
  from assms(3) obtain v where v: "(case map_of ?cs base_currency of None \<Rightarrow> (Inr (), s)
      | Some n \<Rightarrow> check_reserve_for_denom E (mod_addr E pool_reserve) base_currency n s) = (Inr (), v)"
    and r: "foldS (\<lambda>(d, k) _ s. if d = base_currency then (Inr (), s) else check_reserve_for_denom E (mod_addr E pool_reserve) d k s) ?cs () v
      = (Inr u, t)"
    by (auto simp: check_reserve_def Let_def elim!: bindS_InrE)
  have "reserve_effect E s v \<and> book_room (Suc N) (n + length ?cs) v"
    using v check_reserve_for_denom_ok [OF assms(1,2)] assms(2)
    by (auto split: option.splits elim: book_room_mono)
  with check_reserve_loop [OF assms(1) _ r] show ?thesis
    using reserve_effect_trans by (fastforce simp: book_room_def)
qed

lemma dex_begin_block_ok:
  assumes "sdk E" "book_inv s" "denoms_separate (dparams s)"
    and "unat (liquidity_next s) + length (bk_spendable E (bank s) (mod_addr E pool_reserve)) + 1 < 2 ^ 64 - 1"
    and "dex_begin_block E s = (Inr u, t)"
  shows "reserve_effect E s t \<and> book_inv t"
proof -
  from assms(5) obtain v where v: "update_virtual_liquidities E s = (Inr (), v)"
    and r: "begin_block_check_reserve E (height v) v = (Inr u, t)"
    by (auto simp: dex_begin_block_def bindS_Inr_iff)
  have p: "pairs_only s v" using update_virtual_liquidities_only [of s E] v by simp
  have "book_room (length (liquidities s)) (Suc (0 + length (bk_spendable E (bank v) (mod_addr E pool_reserve)))) v"
    using assms(2-4) unfolding book_room_pairs [OF p] by (simp add: book_room_def pairs_onlyD [OF p])
  from check_reserve_ok [OF assms(1) this, of u t] r have "reserve_effect E v t \<and> book_inv t"
    using assms(2) pairs_only_book [OF p] by (auto simp: begin_block_check_reserve_def split: if_splits)
  moreover from this have "reserve_effect E s t" using reserve_effect_trans [OF reserve_effect_pairs [OF p]] by blast
  ultimately show ?thesis by blast
qed

text \<open>
  C38. The beginning of a block keeps the liquidity book consistent, touches no balance but those of the
  reserve, the pool of liquidity and the money market's vault, burns nothing but kCoins, and leaves orders and
  parameters alone.
\<close>

theorem begin_block_safe:
  assumes "sdk E" "book_inv s" "denoms_separate (dparams s)"
    and "unat (liquidity_next s) + length (bk_spendable E (bank s) (mod_addr E pool_reserve)) + 1 < 2 ^ 64 - 1"
    and "dex_begin_block E s = (Inr u, t)"
  shows "book_inv t \<and> orders t = orders s \<and> dparams t = dparams s
    \<and> (\<forall>x d. x \<notin> mod_addr E ` {pool_reserve, pool_liquidity, pool_vault} \<longrightarrow> bal E (bank t) x d = bal E (bank s) x d)
    \<and> (\<forall>d. bk_supply E (bank t) d \<le> bk_supply E (bank s) d)
    \<and> (\<forall>d. \<not> is_kcoin (dparams s) d \<longrightarrow> bk_supply E (bank t) d = bk_supply E (bank s) d)"
  using dex_begin_block_ok [OF assms] unfolding reserve_effect_def by blast

text \<open>A chain whose reserve holds ukopi and a kCoin, of which the latter are burned.\<close>

definition dex_reserve :: "ledger dex_world" where
  "dex_reserve = dex_pool\<lparr>bank := \<lparr>bals = [((''#pool_reserve'', ''ukopi''), 700), ((''#pool_reserve'', ''ukusd''), 30)],
     tot = [(''ukopi'', 700), (''ukusd'', 30)]\<rparr>, height := 1001\<rparr>"

lemma reserve_example: "fst (dex_begin_block dex_env dex_reserve) = Inr ()"
  "bk_supply dex_env (bank (snd (dex_begin_block dex_env dex_reserve))) ''ukusd'' = 0"
  by code_simp+

theorem begin_block_safe_witness:
  "book_inv (snd (dex_begin_block dex_env dex_reserve))
   \<and> bk_supply dex_env (bank (snd (dex_begin_block dex_env dex_reserve))) ''ukopi'' = bk_supply dex_env (bank dex_reserve) ''ukopi''
   \<and> bk_supply dex_env (bank (snd (dex_begin_block dex_env dex_reserve))) ''ukusd'' = 0"
proof -
  have r: "dex_begin_block dex_env dex_reserve = (Inr (), snd (dex_begin_block dex_env dex_reserve))"
    using reserve_example(1) by (simp add: prod_eq_iff)
  have b: "book_inv dex_reserve"
    using dex_example_inv(3) book_inv_cong [of dex_reserve dex_pool] by (simp add: dex_reserve_def)
  have c: "denoms_separate (dparams dex_reserve)" "\<not> is_kcoin (dparams dex_reserve) ''ukopi''"
    "unat (liquidity_next dex_reserve) = 2"
    "length (bk_spendable dex_env (bank dex_reserve) (mod_addr dex_env pool_reserve)) = 2"
    by (code_simp, code_simp, code_simp, code_simp)
  from begin_block_safe [OF sdk_dex_env b c(1) _ r] c(2) reserve_example(2) show ?thesis by (simp add: c)
qed

end
