(* ===== verification/SwapKeeper.thy ===== *)
theory SwapKeeper
  imports DexBlock
begin

text \<open>
  The module \<open>x/swap\<close>: at the end of every block it compares the price of each kCoin with that of its best
  reference (\<open>CalculateParity\<close> of \<open>x/dex\<close>). Below parity it mints the base currency, buys the kCoin
  and burns what it bought (\<open>keeper/burn.go\<close>); above parity it mints the kCoin, sells it and burns the proceeds
  (\<open>keeper/mint.go\<close>). Its store holds one parameter (\<open>types/params.go\<close>, \<open>keeper/msg_update_params.go\<close>,
  \<open>module/genesis.go\<close>).
\<close>

section \<open>State and parameters\<close>

record swap_params =
  staking_share :: "dec option"

record 'b swap_world = "'b dex_world" +
  sparams :: swap_params

definition swap_module :: string where "swap_module = ''swap''"
definition distribution_module :: string where "distribution_module = ''distribution''"

definition default_swap_params :: swap_params where
  "default_swap_params = \<lparr>staking_share = Some (dec_prec 1 1)\<rparr>"

definition validate_share :: "dec option \<Rightarrow> unit res" where
  "validate_share d =
     bindR (of_option FmtError d) (\<lambda>v.
     bindR (checkR (\<not> v > dec_one) FmtError) (\<lambda>_.
     checkR (\<not> v < 0) FmtError))"

definition validate_swap_params :: "swap_params \<Rightarrow> unit res" where
  "validate_swap_params p = validate_share (staking_share p)"

definition set_swap_params :: "swap_params \<Rightarrow> (('b, 'z) swap_world_scheme, unit) cmd" where
  "set_swap_params p s = (Inr (), s\<lparr>sparams := p\<rparr>)"

definition update_staking_share :: "'b env \<Rightarrow> string \<Rightarrow> string \<Rightarrow> (('b, 'z) swap_world_scheme, unit) cmd" where
  "update_staking_share E signer v s =
     bindS (checkR (authority E = signer) (SwapE Swap_ErrInvalidSigner), s) (\<lambda>_ s.
     bindS (of_option FmtError (parse_dec E v), s) (\<lambda>x s.
     let p = sparams s\<lparr>staking_share := Some x\<rparr> in
     bindS (validate_swap_params p, s) (\<lambda>_. set_swap_params p)))"

definition swap_init_genesis :: "swap_params \<Rightarrow> ('b, 'z) swap_world_scheme \<Rightarrow> ('b, 'z) swap_world_scheme" where
  "swap_init_genesis p s = snd (set_swap_params p s)"

definition swap_export_genesis :: "('b, 'z) swap_world_scheme \<Rightarrow> swap_params" where
  "swap_export_genesis s = sparams s"

section \<open>Burning\<close>

definition get_usable_amount :: "'b env \<Rightarrow> denom \<Rightarrow> string \<Rightarrow> ('b, 'z) world_scheme \<Rightarrow> int" where
  "get_usable_amount E d m s = (case map_of (bk_spendable E (bank s) (mod_addr E m)) d of None \<Rightarrow> 0 | Some n \<Rightarrow> n)"

text \<open>Of the base currency a share goes to the stakers first.\<close>

definition burn_funds :: "'b env \<Rightarrow> denom \<Rightarrow> (('b, 'z) swap_world_scheme, int) cmd" where
  "burn_funds E d s =
     (let amount = get_usable_amount E d swap_module s in
      bindS (if d = base_currency then
               bindS (nilR (staking_share (sparams s)), s) (\<lambda>share s.
               let rewards = dmul E share (to_dec amount) in
               if rewards > 0 then
                 bindS (send_mod_mod E swap_module distribution_module base_currency (dround E rewards) s) (\<lambda>_ s.
                 (Inr (amount - dround E rewards), s))
               else (Inr amount, s))
             else (Inr amount, s)) (\<lambda>amount s.
      bindS (burn_coins E swap_module d amount s) (\<lambda>_ s. (Inr amount, s))))"

text \<open>
  The error of the simulation is dropped: the amount is then nil, and the comparison that follows in
  \<open>CheckBurn\<close> panics on it.
\<close>

definition calc_base_mint_amount :: "'b env \<Rightarrow> ('b, 'z) dex_world_scheme \<Rightarrow> denom \<Rightarrow> denom \<Rightarrow> int option \<Rightarrow> int option res" where
  "calc_base_mint_amount E s reference k max_burn =
     (let diff = full_liquidity_other s k - full_liquidity_other s reference in
      if diff \<le> 0 then Inr (Some 0)
      else bindR (nilR max_burn) (\<lambda>m.
        case simulate_trade_for_reserve E s reference base_currency (min (dround E diff) m) of
          Inl Panic \<Rightarrow> Inl Panic
        | Inl _ \<Rightarrow> Inr None
        | Inr (n, _, _) \<Rightarrow> Inr (Some n)))"

text \<open>The trades of the module: its account is the source and the target.\<close>

definition swap_trade_options :: "'b env \<Rightarrow> denom \<Rightarrow> denom \<Rightarrow> int \<Rightarrow> trade_options" where
  "swap_trade_options E start finish amount =
     \<lparr>to_given = amount, to_max_price = None, to_start = start, to_end = finish, to_incomplete = True,
      to_exclude = True, to_protocol = True, to_source = Some (mod_addr E swap_module),
      to_target = Some (mod_addr E swap_module), to_discount = None, to_calc = None\<rparr>"

text \<open>A trade that is too small or finds no liquidity ends the run without an error.\<close>

definition unless_no_trade :: "(err + 'a) \<times> 's \<Rightarrow> ('s \<Rightarrow> (err + unit) \<times> 's) \<Rightarrow> (err + unit) \<times> 's" where
  "unless_no_trade r f =
     (case r of
        (Inl e, s) \<Rightarrow> (if e = DexE Dex_ErrTradeAmountTooSmall \<or> e = DexE Dex_ErrNotEnoughLiquidity then (Inr (), s) else (Inl e, s))
      | (Inr _, s) \<Rightarrow> f s)"

definition mint_trade_burn :: "'b env \<Rightarrow> denom \<Rightarrow> int \<Rightarrow> (('b, 'z) swap_world_scheme, unit) cmd" where
  "mint_trade_burn E k amount s =
     bindS (mint_coins E swap_module base_currency amount s) (\<lambda>_ s.
     unless_no_trade (execute_trade E (swap_trade_options E base_currency k amount) s) (\<lambda>s.
     bindS (burn_funds E k s) (\<lambda>_ s. (Inr (), s))))"

text \<open>
  The liquidity of the reserve is looked up under the name of the module where the store has its address.
\<close>

definition check_burn :: "'b env \<Rightarrow> denom \<Rightarrow> int option \<Rightarrow> (('b, 'z) swap_world_scheme, unit) cmd" where
  "check_burn E k max_burn s =
     bindS (calculate_parity E s k, s) (\<lambda>(parity, reference) s.
     case parity of None \<Rightarrow> (Inr (), s) | Some p \<Rightarrow>
     if p > dec_one then (Inr (), s)
     else case ratio_value s reference of None \<Rightarrow> (Inr (), s) | Some r \<Rightarrow>
     if r > dec_one then (Inr (), s)
     else
       bindS (calc_base_mint_amount E s reference k max_burn, s) (\<lambda>amount s.
       bindS (nilR amount, s) (\<lambda>amount s.
       if amount \<le> 0 then (Inr (), s)
       else
         bindS (if get_liquidity_by_address s k pool_reserve > 0
                then remove_all_liquidity_for_module E k pool_reserve s else (Inr (), s)) (\<lambda>_.
         mint_trade_burn E k amount))))"

definition swap_burn :: "'b env \<Rightarrow> (('b, 'z) swap_world_scheme, unit) cmd" where
  "swap_burn E s =
     foldS (\<lambda>k _ s. bindS (max_burn_amount (dparams s) k, s) (\<lambda>m. check_burn E k m)) (kcoin_denoms (dparams s)) () s"

section \<open>Minting\<close>

text \<open>The error of \<open>ApproxSqrt\<close> is dropped; its result is then nil, and the subtraction panics on it.\<close>

definition calc_kcoin_mint_amount :: "'b env \<Rightarrow> ('b, 'z) dex_world_scheme \<Rightarrow> denom \<Rightarrow> dec \<Rightarrow> int res" where
  "calc_kcoin_mint_amount E s k ratio =
     bindR (full_liquidity_base s k) (\<lambda>base.
     let virtual = full_liquidity_other s k in
     bindR (quoR E (dmul E base virtual) ratio) (\<lambda>q.
     bindR (nilR (dsqrt E q)) (\<lambda>new_virtual.
     Inr (dtrunc E (new_virtual - virtual)))))"

definition adjust_for_supply_cap :: "'b env \<Rightarrow> ('b, 'z) denom_world_scheme \<Rightarrow> denom \<Rightarrow> int \<Rightarrow> int res" where
  "adjust_for_supply_cap E s k amount =
     bindR (max_supply (dparams s) k) (\<lambda>m.
     bindR (nilR m) (\<lambda>m.
     Inr (min (m - (supply_of E s k + amount)) amount)))"

definition check_mint :: "'b env \<Rightarrow> denom \<Rightarrow> int option \<Rightarrow> (('b, 'z) swap_world_scheme, unit) cmd" where
  "check_mint E k max_mint s =
     bindS (calculate_parity E s k, s) (\<lambda>(parity, reference) s.
     case parity of None \<Rightarrow> (Inr (), s) | Some p \<Rightarrow>
     if p < dec_one then (Inr (), s)
     else
       bindS (nilR (ratio_value s reference), s) (\<lambda>ratio s.
       bindS (calc_kcoin_mint_amount E s k ratio, s) (\<lambda>calculated s.
       bindS (nilR max_mint, s) (\<lambda>m s.
       bindS (adjust_for_supply_cap E s k (min calculated m), s) (\<lambda>amount s.
       if amount \<le> 0 then (Inr (), s)
       else
         bindS (simulate_trade_for_reserve E s reference k amount, s) (\<lambda>(amount, _, _) s.
         if amount < 1 then (Inr (), s)
         else
           bindS (mint_coins E swap_module k amount s) (\<lambda>_ s.
           unless_no_trade (execute_trade E (swap_trade_options E k base_currency amount) s) (\<lambda>s.
           bindS (burn_funds E base_currency s) (\<lambda>_ s. (Inr (), s))))))))))"

definition swap_mint :: "'b env \<Rightarrow> (('b, 'z) swap_world_scheme, unit) cmd" where
  "swap_mint E s =
     foldS (\<lambda>k _ s. bindS (max_mint_amount (dparams s) k, s) (\<lambda>m. check_mint E k m)) (kcoin_denoms (dparams s)) () s"

definition swap_end_block :: "'b env \<Rightarrow> (('b, 'z) swap_world_scheme, unit) cmd" where
  "swap_end_block E s = bindS (swap_burn E s) (\<lambda>_. swap_mint E)"

end
