(* ===== verification/MmStore.thy ===== *)
theory MmStore
  imports SwapKeeper "HOL-Library.Product_Lexorder"
begin

text \<open>
  The state of the money market \<open>x/mm\<close>: its parameters (\<open>types/params.go\<close>, \<open>keeper/msg_update_params.go\<close>) and its
  three stores, of collaterals (\<open>keeper/collateral.go\<close>), loans (\<open>keeper/loans.go\<close>) and redemption requests
  (\<open>keeper/redemptions.go\<close>). Each keeps one entry per denomination and address and deletes an entry whose amount is not
  positive; the locale \<open>denom_store\<close> is what the rest of the module uses of them.
\<close>

section \<open>Data\<close>

record loan =
  ln_index :: "64 word"
  ln_address :: string
  ln_amount :: dec

record collateral =
  co_address :: string
  co_amount :: int

record redemption =
  rd_address :: string
  rd_added_at :: int
  rd_amount :: int
  rd_fee :: dec

record mm_params =
  collateral_discount :: "dec option"
  min_redemption_fee :: "dec option"
  protocol_share :: "dec option"
  min_interest_rate :: "dec option"
  rate_a :: "dec option"
  rate_b :: "dec option"

record 'b mm_world = "'b swap_world" +
  mparams :: mm_params
  loans :: "loan kv"
  next_loan :: "64 word option"
  collaterals :: "collateral kv"
  redemptions :: "redemption kv"

definition mm_module :: string where "mm_module = ''mm''"
definition pool_collateral :: string where "pool_collateral = ''pool_collateral''"
definition pool_redemption :: string where "pool_redemption = ''pool_redemption''"

definition key_denom_address :: "denom \<Rightarrow> string \<Rightarrow> string" where
  "key_denom_address d a = d @ ''/'' @ a @ ''/''"

section \<open>Parameters\<close>

definition default_mm_params :: mm_params where
  "default_mm_params = \<lparr>collateral_discount = Some (dec_prec 95 2), min_redemption_fee = Some (dec_prec 1 2),
     protocol_share = Some (dec_prec 5 1), min_interest_rate = Some (dec_prec 5 2),
     rate_a = Some (to_dec 12), rate_b = Some (to_dec 131072)\<rparr>"

definition mm_validate_zero_one :: "dec option \<Rightarrow> unit res" where
  "mm_validate_zero_one d =
     bindR (of_option FmtError d) (\<lambda>v.
     bindR (checkR (\<not> v > dec_one) FmtError) (\<lambda>_.
     checkR (\<not> v < 0) FmtError))"

definition mm_validate_number :: "dec option \<Rightarrow> unit res" where
  "mm_validate_number d = Inr ()"

text \<open>The share of the protocol is not validated.\<close>

definition validate_mm_params :: "mm_params \<Rightarrow> unit res" where
  "validate_mm_params p =
     bindR (mm_validate_zero_one (collateral_discount p)) (\<lambda>_.
     bindR (mm_validate_zero_one (min_redemption_fee p)) (\<lambda>_.
     bindR (mm_validate_zero_one (min_interest_rate p)) (\<lambda>_.
     bindR (mm_validate_number (rate_a p)) (\<lambda>_.
     mm_validate_number (rate_b p)))))"

definition set_mm_params :: "mm_params \<Rightarrow> (('b, 'z) mm_world_scheme, unit) cmd" where
  "set_mm_params p s = (Inr (), s\<lparr>mparams := p\<rparr>)"

definition mm_authority :: "'b env \<Rightarrow> string \<Rightarrow> unit res" where
  "mm_authority E signer = checkR (authority E = signer) (MmE Mm_ErrInvalidSigner)"

definition mm_commit :: "mm_params \<Rightarrow> (('b, 'z) mm_world_scheme, unit) cmd" where
  "mm_commit p s = bindS (validate_mm_params p, s) (\<lambda>_. set_mm_params p)"

definition update_protocol_share :: "'b env \<Rightarrow> string \<Rightarrow> string \<Rightarrow> (('b, 'z) mm_world_scheme, unit) cmd" where
  "update_protocol_share E signer v s =
     bindS (mm_authority E signer, s) (\<lambda>_ s.
     bindS (of_option FmtError (parse_dec E v), s) (\<lambda>x s.
     mm_commit (mparams s\<lparr>protocol_share := Some x\<rparr>) s))"

definition update_redemption_fee :: "'b env \<Rightarrow> string \<Rightarrow> string \<Rightarrow> (('b, 'z) mm_world_scheme, unit) cmd" where
  "update_redemption_fee E signer v s =
     bindS (mm_authority E signer, s) (\<lambda>_ s.
     bindS (of_option FmtError (parse_dec E v), s) (\<lambda>x s.
     mm_commit (mparams s\<lparr>min_redemption_fee := Some x\<rparr>) s))"

definition update_collateral_discount :: "'b env \<Rightarrow> string \<Rightarrow> string \<Rightarrow> (('b, 'z) mm_world_scheme, unit) cmd" where
  "update_collateral_discount E signer v s =
     bindS (mm_authority E signer, s) (\<lambda>_ s.
     bindS (of_option FmtError (parse_dec E v), s) (\<lambda>x s.
     mm_commit (mparams s\<lparr>collateral_discount := Some x\<rparr>) s))"

definition update_interest_rate_parameters :: "'b env \<Rightarrow> string \<Rightarrow> string \<Rightarrow> string \<Rightarrow> string \<Rightarrow> (('b, 'z) mm_world_scheme, unit) cmd" where
  "update_interest_rate_parameters E signer v a b s =
     bindS (mm_authority E signer, s) (\<lambda>_ s.
     bindS (of_option FmtError (parse_dec E v), s) (\<lambda>x s.
     bindS (of_option FmtError (parse_dec E a), s) (\<lambda>y s.
     bindS (of_option FmtError (parse_dec E b), s) (\<lambda>z s.
     mm_commit (mparams s\<lparr>min_interest_rate := Some x, rate_a := Some y, rate_b := Some z\<rparr>) s))))"

section \<open>Collaterals\<close>

definition get_all_collaterals :: "('b, 'z) mm_world_scheme \<Rightarrow> denom \<Rightarrow> collateral list" where
  "get_all_collaterals s d = kv_vals (key_string d) (collaterals s)"

definition remove_collateral_entry :: "denom \<Rightarrow> string \<Rightarrow> ('b, 'z) mm_world_scheme \<Rightarrow> ('b, 'z) mm_world_scheme" where
  "remove_collateral_entry d a s = s\<lparr>collaterals := kv_del (key_denom_address d a) (collaterals s)\<rparr>"

definition set_collateral :: "denom \<Rightarrow> collateral \<Rightarrow> ('b, 'z) mm_world_scheme \<Rightarrow> ('b, 'z) mm_world_scheme" where
  "set_collateral d c s =
     (if co_amount c \<le> 0 then remove_collateral_entry d (co_address c) s
      else s\<lparr>collaterals := kv_put (key_denom_address d (co_address c)) c (collaterals s)\<rparr>)"

definition get_collateral :: "('b, 'z) mm_world_scheme \<Rightarrow> denom \<Rightarrow> string \<Rightarrow> collateral option" where
  "get_collateral s d a = kv_get (collaterals s) (key_denom_address d a)"

definition get_collateral_denom_for_address :: "('b, 'z) mm_world_scheme \<Rightarrow> denom \<Rightarrow> string \<Rightarrow> int" where
  "get_collateral_denom_for_address s d a = (case get_collateral s d a of None \<Rightarrow> 0 | Some c \<Rightarrow> co_amount c)"

definition get_collateral_sum :: "('b, 'z) mm_world_scheme \<Rightarrow> denom \<Rightarrow> int" where
  "get_collateral_sum s d = foldl (\<lambda>sum c. sum + co_amount c) 0 (kv_vals (key_string d) (collaterals s))"

definition get_all_denom_collaterals :: "('b, 'z) mm_world_scheme \<Rightarrow> (denom \<times> collateral list) list" where
  "get_all_denom_collaterals s =
     map (\<lambda>c. (cd_denom c, get_all_collaterals s (cd_denom c))) (get_collateral_denoms (dparams s))"

section \<open>Loans\<close>

definition get_next_loan_index :: "('b, 'z) mm_world_scheme \<Rightarrow> 64 word" where
  "get_next_loan_index s = (case next_loan s of None \<Rightarrow> 1 | Some i \<Rightarrow> i)"

definition set_next_loan_index :: "64 word \<Rightarrow> ('b, 'z) mm_world_scheme \<Rightarrow> ('b, 'z) mm_world_scheme" where
  "set_next_loan_index i s = s\<lparr>next_loan := Some i\<rparr>"

text \<open>A new loan, of index zero, gets the next index.\<close>

definition set_loan :: "denom \<Rightarrow> loan \<Rightarrow> ('b, 'z) mm_world_scheme \<Rightarrow> ('b, 'z) mm_world_scheme" where
  "set_loan d l s =
     (if ln_amount l \<le> 0 then s\<lparr>loans := kv_del (key_denom_address d (ln_address l)) (loans s)\<rparr>
      else
        let (l, s) = (if ln_index l = 0
                      then let i = get_next_loan_index s in (l\<lparr>ln_index := i\<rparr>, set_next_loan_index (i + 1) s)
                      else (l, s)) in
        s\<lparr>loans := kv_put (key_denom_address d (ln_address l)) l (loans s)\<rparr>)"

definition get_loan :: "('b, 'z) mm_world_scheme \<Rightarrow> denom \<Rightarrow> string \<Rightarrow> loan option" where
  "get_loan s d a = kv_get (loans s) (key_denom_address d a)"

definition get_all_loans_by_denom :: "('b, 'z) mm_world_scheme \<Rightarrow> denom \<Rightarrow> loan list" where
  "get_all_loans_by_denom s d = kv_vals (key_string d) (loans s)"

definition get_loans_sum :: "('b, 'z) mm_world_scheme \<Rightarrow> denom \<Rightarrow> dec" where
  "get_loans_sum s d = foldl (\<lambda>sum l. sum + ln_amount l) 0 (kv_vals (key_string d) (loans s))"

definition get_denom_loans :: "('b, 'z) mm_world_scheme \<Rightarrow> (denom \<times> loan list) list" where
  "get_denom_loans s = map (\<lambda>c. (ca_base c, get_all_loans_by_denom s (ca_base c))) (get_cassets (dparams s))"

definition get_user_loans :: "('b, 'z) mm_world_scheme \<Rightarrow> string \<Rightarrow> (loan \<times> casset) list" where
  "get_user_loans s a =
     List.map_filter (\<lambda>c. map_option (\<lambda>l. (l, c)) (get_loan s (ca_base c) a)) (get_cassets (dparams s))"

text \<open>The addresses with a loan, each at its first occurrence in the store.\<close>

definition get_borrowers :: "('b, 'z) mm_world_scheme \<Rightarrow> string list" where
  "get_borrowers s =
     foldl (\<lambda>as l. if ln_address l \<in> set as then as else as @ [ln_address l]) [] (kv_vals [] (loans s))"

section \<open>Redemption requests\<close>

definition remove_redemption :: "denom \<Rightarrow> string \<Rightarrow> ('b, 'z) mm_world_scheme \<Rightarrow> ('b, 'z) mm_world_scheme" where
  "remove_redemption d a s = s\<lparr>redemptions := kv_del (key_denom_address d a) (redemptions s)\<rparr>"

definition set_redemption :: "denom \<Rightarrow> redemption \<Rightarrow> ('b, 'z) mm_world_scheme \<Rightarrow> ('b, 'z) mm_world_scheme" where
  "set_redemption d r s =
     (if rd_amount r \<le> 0 then remove_redemption d (rd_address r) s
      else s\<lparr>redemptions := kv_put (key_denom_address d (rd_address r)) r (redemptions s)\<rparr>)"

definition get_redemption :: "('b, 'z) mm_world_scheme \<Rightarrow> denom \<Rightarrow> string \<Rightarrow> redemption option" where
  "get_redemption s d a = kv_get (redemptions s) (key_denom_address d a)"

definition get_redemptions :: "('b, 'z) mm_world_scheme \<Rightarrow> denom \<Rightarrow> redemption list" where
  "get_redemptions s d = kv_vals (key_string d) (redemptions s)"

definition get_redemption_sum :: "('b, 'z) mm_world_scheme \<Rightarrow> denom \<Rightarrow> int" where
  "get_redemption_sum s d = foldl (\<lambda>sum r. sum + rd_amount r) 0 (kv_vals (key_string d) (redemptions s))"

definition get_denom_redemptions :: "('b, 'z) mm_world_scheme \<Rightarrow> (denom \<times> redemption list) list" where
  "get_denom_redemptions s = map (\<lambda>c. (ca_base c, get_redemptions s (ca_base c))) (get_cassets (dparams s))"

end
