(* ===== verification/MmKeeper.thy ===== *)
theory MmKeeper
  imports MmStore
begin

text \<open>
  The operations of the money market's users: deposits into the vault against cAssets
  (\<open>keeper/c_asset.go\<close>, \<open>keeper/msg_server_deposits.go\<close>), collateral (\<open>collateral.go\<close>, \<open>msg_server_collateral.go\<close>), loans
  and their limits (\<open>ltv.go\<close>, \<open>loans.go\<close>, \<open>msg_server_loans.go\<close>) and redemption requests
  (\<open>msg_server_redemptions.go\<close>).
\<close>

section \<open>cAssets\<close>

definition get_vault_amount :: "'b env \<Rightarrow> ('b, 'z) world_scheme \<Rightarrow> casset \<Rightarrow> int" where
  "get_vault_amount E s c = amount_of (bk_spendable E (bank s) (mod_addr E pool_vault)) (ca_base c)"

definition get_casset_supply :: "'b env \<Rightarrow> ('b, 'z) world_scheme \<Rightarrow> casset \<Rightarrow> int" where
  "get_casset_supply E s c = supply_of E s (ca_name c)"

definition calculate_casset_value :: "'b env \<Rightarrow> ('b, 'z) mm_world_scheme \<Rightarrow> casset \<Rightarrow> dec" where
  "calculate_casset_value E s c =
     foldl (\<lambda>v l. v + ln_amount l) (to_dec (get_vault_amount E s c)) (get_all_loans_by_denom s (ca_base c))"

text \<open>The deposit is in the vault already: its share of the value is that of the new tokens in the new supply.\<close>

definition calculate_new_casset_amount :: "'b env \<Rightarrow> ('b, 'z) mm_world_scheme \<Rightarrow> int \<Rightarrow> casset \<Rightarrow> int res" where
  "calculate_new_casset_amount E s added c =
     (let supply = get_casset_supply E s c in
      if supply = 0 then Inr added
      else
        bindR (quoR E (to_dec added) (calculate_casset_value E s c)) (\<lambda>share.
        if share = dec_one then Inr added
        else bindR (quoR E (to_dec supply) (dec_one - share)) (\<lambda>q. Inr (dround E q - supply))))"

definition calculate_casset_price :: "'b env \<Rightarrow> ('b, 'z) mm_world_scheme \<Rightarrow> casset \<Rightarrow> dec res" where
  "calculate_casset_price E s c =
     (let value = calculate_casset_value E s c; supply = to_dec (supply_of E s (ca_name c)) in
      if supply > 0 then quoR E value supply else Inr dec_one)"

definition convert_to_base_amount_of :: "'b env \<Rightarrow> dec \<Rightarrow> dec \<Rightarrow> dec \<Rightarrow> dec res" where
  "convert_to_base_amount_of E supply value amount =
     (if amount = 0 then Inr 0 else bindR (quoR E amount supply) (\<lambda>q. Inr (dmul E q value)))"

definition convert_to_base_amount :: "'b env \<Rightarrow> ('b, 'z) mm_world_scheme \<Rightarrow> casset \<Rightarrow> int \<Rightarrow> dec res" where
  "convert_to_base_amount E s c amount =
     (if amount = 0 then Inr 0
      else convert_to_base_amount_of E (to_dec (get_casset_supply E s c)) (calculate_casset_value E s c) (to_dec amount))"

section \<open>Deposits\<close>

definition mm_parse_amount :: "'b env \<Rightarrow> string \<Rightarrow> bool \<Rightarrow> int res" where
  "mm_parse_amount E str can_be_zero =
     bindR (of_option (MmE Mm_ErrInvalidAmountFormat) (parse_int E (filter (\<lambda>c. c \<noteq> CHR '','') str))) (\<lambda>n.
     bindR (checkR (\<not> n < 0) (MmE Mm_ErrNegativeAmount)) (\<lambda>_.
     bindR (checkR (can_be_zero \<or> n \<noteq> 0) (MmE Mm_ErrZeroAmount)) (\<lambda>_. Inr n)))"

definition mm_check_spendable_coins :: "'b env \<Rightarrow> addr \<Rightarrow> denom \<Rightarrow> int \<Rightarrow> ('b, 'z) world_scheme \<Rightarrow> unit res" where
  "mm_check_spendable_coins E a d amt s =
     (case map_of (bk_spendable E (bank s) a) d of
        None \<Rightarrow> Inl (MmE Mm_ErrNotEnoughFunds)
      | Some n \<Rightarrow> checkR (\<not> amt > n) (MmE Mm_ErrNotEnoughFunds))"

definition add_deposit :: "'b env \<Rightarrow> string \<Rightarrow> denom \<Rightarrow> string \<Rightarrow> (('b, 'z) mm_world_scheme, unit) cmd" where
  "add_deposit E creator d amt_str s =
     bindS (get_casset_by_base_name (dparams s) d, s) (\<lambda>c s.
     bindS (mm_parse_amount E amt_str False, s) (\<lambda>amt s.
     bindS (of_option (MmE Mm_ErrInvalidAddress) (acc_of E creator), s) (\<lambda>a s.
     bindS (mm_check_spendable_coins E a d amt s, s) (\<lambda>_ s.
     bindS (send_acc_mod E a pool_vault d amt s) (\<lambda>_ s.
     bindS (calculate_new_casset_amount E s amt c, s) (\<lambda>tokens s.
     bindS (checkR (\<not> tokens \<le> 0) (MmE Mm_ErrZeroCAssets), s) (\<lambda>_ s.
     bindS (mint_coins E mm_module (ca_name c) tokens s) (\<lambda>_.
     send_mod_acc E mm_module a (ca_name c) tokens))))))))"

section \<open>Collateral\<close>

definition check_supply_cap :: "'b env \<Rightarrow> ('b, 'z) denom_world_scheme \<Rightarrow> denom \<Rightarrow> int \<Rightarrow> unit res" where
  "check_supply_cap E s d amt =
     (case map_of (bk_spendable E (bank s) (mod_addr E pool_collateral)) d of
        None \<Rightarrow> Inr ()
      | Some n \<Rightarrow>
          bindR (get_deposit_cap (dparams s) d) (\<lambda>cap.
          bindR (nilR cap) (\<lambda>cap.
          checkR (\<not> n + amt > cap) (MmE Mm_ErrDepositLimitExceeded))))"

definition add_collateral :: "'b env \<Rightarrow> string \<Rightarrow> denom \<Rightarrow> string \<Rightarrow> (('b, 'z) mm_world_scheme, unit) cmd" where
  "add_collateral E creator d amt_str s =
     bindS (checkR (is_valid_collateral_denom (dparams s) d) (MmE Mm_ErrInvalidCollateralDenom), s) (\<lambda>_ s.
     bindS (mm_parse_amount E amt_str False, s) (\<lambda>amt s.
     bindS (check_supply_cap E s d amt, s) (\<lambda>_ s.
     bindS (of_option (MmE Mm_ErrInvalidAddress) (acc_of E creator), s) (\<lambda>a s.
     bindS (mm_check_spendable_coins E a d amt s, s) (\<lambda>_ s.
     let c = (case get_collateral s d creator of None \<Rightarrow> \<lparr>co_address = creator, co_amount = 0\<rparr> | Some c \<Rightarrow> c);
         s = set_collateral d (c\<lparr>co_amount := co_amount c + amt\<rparr>) s in
     send_acc_mod E a pool_collateral d amt s)))))"

text \<open>Outstanding loans are not looked at.\<close>

definition remove_collateral :: "'b env \<Rightarrow> string \<Rightarrow> denom \<Rightarrow> string \<Rightarrow> (('b, 'z) mm_world_scheme, unit) cmd" where
  "remove_collateral E creator d amt_str s =
     bindS (checkR (is_valid_collateral_denom (dparams s) d) (MmE Mm_ErrInvalidDepositDenom), s) (\<lambda>_ s.
     bindS (mm_parse_amount E amt_str False, s) (\<lambda>amt s.
     bindS (of_option (MmE Mm_ErrInvalidAddress) (acc_of E creator), s) (\<lambda>a s.
     bindS (of_option (MmE Mm_ErrNoCollateralFound) (get_collateral s d creator), s) (\<lambda>c s.
     let c = c\<lparr>co_amount := co_amount c - amt\<rparr> in
     bindS (checkR (\<not> co_amount c < 0) (MmE Mm_ErrNegativeCollateral), s) (\<lambda>_ s.
     send_mod_acc E pool_collateral a d amt (set_collateral d c s))))))"

text \<open>The value of a user's collateral, weighted by the loan-to-value ratios, in the base currency.\<close>

definition calc_collateral_value_base :: "'b env \<Rightarrow> ('b, 'z) mm_world_scheme \<Rightarrow> string \<Rightarrow> dec res" where
  "calc_collateral_value_base E s a =
     foldR (\<lambda>c sum.
       let amt = get_collateral_denom_for_address s (cd_denom c) a in
       if amt \<le> 0 then Inr sum
       else bindR (nilR (cd_ltv c)) (\<lambda>ltv.
            bindR (get_value_in_base E s (cd_denom c) (dround E (dmul E (to_dec amt) ltv))) (\<lambda>v.
            Inr (sum + v)))) (get_collateral_denoms (dparams s)) 0"

definition get_user_loans_sum_base :: "'b env \<Rightarrow> ('b, 'z) mm_world_scheme \<Rightarrow> string \<Rightarrow> dec res" where
  "get_user_loans_sum_base E s a =
     foldR (\<lambda>c sum.
       case get_loan s (ca_base c) a of None \<Rightarrow> Inr sum
       | Some l \<Rightarrow> bindR (get_value_in_base E s (ca_base c) (dround E (ln_amount l))) (\<lambda>v. Inr (sum + v)))
       (get_cassets (dparams s)) 0"

definition calc_withdrawable_collateral_amount :: "'b env \<Rightarrow> ('b, 'z) mm_world_scheme \<Rightarrow> string \<Rightarrow> denom \<Rightarrow> int res" where
  "calc_withdrawable_collateral_amount E s a d =
     bindR (get_user_loans_sum_base E s a) (\<lambda>loan_sum.
     if loan_sum = 0 then Inr (get_collateral_denom_for_address s d a)
     else
       bindR (get_ltv (dparams s) d) (\<lambda>ltv.
       bindR (calc_collateral_value_base E s a) (\<lambda>collateral_sum.
       if loan_sum > 0 \<and> loan_sum \<ge> collateral_sum then Inr 0
       else
         bindR (get_value_in E s base_currency d (dround E (collateral_sum - loan_sum))) (\<lambda>excess.
         bindR (nilR ltv) (\<lambda>ltv.
         bindR (quoR E excess ltv) (\<lambda>excess.
         Inr (min (get_collateral_denom_for_address s d a) (dtrunc E excess))))))))"

section \<open>Borrowing limits\<close>

definition calculate_collateral_value_for_denom :: "'b env \<Rightarrow> ('b, 'z) mm_world_scheme \<Rightarrow> collateral_denom \<Rightarrow> string \<Rightarrow> dec res" where
  "calculate_collateral_value_for_denom E s c a =
     (case get_collateral s (cd_denom c) a of None \<Rightarrow> Inr 0
      | Some x \<Rightarrow>
          bindR (calculate_price E s (cd_denom c) base_currency) (\<lambda>price.
          bindR (quoR E (to_dec (co_amount x)) price) (\<lambda>v.
          bindR (nilR (cd_ltv c)) (\<lambda>ltv. Inr (dmul E v ltv)))))"

definition calculate_collateral_base_value :: "'b env \<Rightarrow> ('b, 'z) mm_world_scheme \<Rightarrow> string \<Rightarrow> dec res" where
  "calculate_collateral_base_value E s a =
     foldR (\<lambda>c sum. bindR (calculate_collateral_value_for_denom E s c a) (\<lambda>v. Inr (sum + v)))
       (get_collateral_denoms (dparams s)) 0"

definition calculate_loan_base_value :: "'b env \<Rightarrow> ('b, 'z) mm_world_scheme \<Rightarrow> string \<Rightarrow> dec res" where
  "calculate_loan_base_value E s a =
     foldR (\<lambda>c sum.
       case get_loan s (ca_base c) a of None \<Rightarrow> Inr sum
       | Some l \<Rightarrow>
           bindR (calculate_price E s (ca_base c) base_currency) (\<lambda>price.
           bindR (quoR E (ln_amount l) price) (\<lambda>v. Inr (sum + v)))) (get_cassets (dparams s)) 0"

definition calculate_borrowable_amount :: "'b env \<Rightarrow> ('b, 'z) mm_world_scheme \<Rightarrow> string \<Rightarrow> denom \<Rightarrow> dec res" where
  "calculate_borrowable_amount E s a d =
     bindR (calculate_collateral_base_value E s a) (\<lambda>collateral_value.
     bindR (calculate_loan_base_value E s a) (\<lambda>loan_value.
     get_value_in E s base_currency d (dtrunc E (max 0 (collateral_value - loan_value)))))"

definition calc_available_to_borrow :: "'b env \<Rightarrow> ('b, 'z) mm_world_scheme \<Rightarrow> string \<Rightarrow> denom \<Rightarrow> int res" where
  "calc_available_to_borrow E s a d =
     bindR (calculate_borrowable_amount E s a d) (\<lambda>borrowable.
     Inr (min (amount_of (bk_spendable E (bank s) (mod_addr E pool_vault)) d) (dtrunc E borrowable)))"

definition check_borrow_limit_exceeded :: "'b env \<Rightarrow> ('b, 'z) mm_world_scheme \<Rightarrow> casset \<Rightarrow> dec \<Rightarrow> bool res" where
  "check_borrow_limit_exceeded E s c amt =
     bindR (nilR (ca_borrow_limit c)) (\<lambda>limit.
     Inr (if limit = 0 then False
          else dmul E (calculate_casset_value E s c) limit < get_loans_sum s (ca_base c) + amt))"

section \<open>Loans\<close>

definition parse_loan_amount :: "'b env \<Rightarrow> string \<Rightarrow> dec res" where
  "parse_loan_amount E str =
     bindR (of_option (MmE Mm_ErrInvalidAmountFormat) (parse_dec E (filter (\<lambda>c. c \<noteq> CHR '','') str))) (\<lambda>n.
     bindR (checkR (\<not> n < 0) (MmE Mm_ErrNegativeAmount)) (\<lambda>_.
     bindR (checkR (n \<noteq> 0) (MmE Mm_ErrZeroAmount)) (\<lambda>_. Inr n)))"

text \<open>The vault must hold the truncated amount, and pays the amount rounded up.\<close>

definition borrow :: "'b env \<Rightarrow> string \<Rightarrow> denom \<Rightarrow> string \<Rightarrow> (('b, 'z) mm_world_scheme, unit) cmd" where
  "borrow E creator d amt_str s =
     bindS (case get_casset_by_base_name (dparams s) d of Inl _ \<Rightarrow> Inl (MmE Mm_ErrInvalidDepositDenom) | Inr c \<Rightarrow> Inr c, s) (\<lambda>c s.
     bindS (parse_loan_amount E amt_str, s) (\<lambda>amt s.
     bindS (of_option (MmE Mm_ErrInvalidAddress) (acc_of E creator), s) (\<lambda>a s.
     bindS (checkR (\<not> amount_of (bk_spendable E (bank s) (mod_addr E pool_vault)) d < dtrunc E amt) (MmE Mm_ErrNotEnoughFundsInVault), s) (\<lambda>_ s.
     bindS (calculate_borrowable_amount E s creator d, s) (\<lambda>borrowable s.
     bindS (checkR (\<not> borrowable < amt) FmtError, s) (\<lambda>_ s.
     bindS (nilR (ca_min_loan c), s) (\<lambda>min_loan s.
     bindS (checkR (\<not> (min_loan > 0 \<and> amt < to_dec min_loan)) (MmE Mm_ErrLoanSizeTooSmall), s) (\<lambda>_ s.
     bindS (check_borrow_limit_exceeded E s c amt, s) (\<lambda>exceeded s.
     bindS (checkR (\<not> exceeded) (MmE Mm_ErrBorrowLimitExceeded), s) (\<lambda>_ s.
     let l = (case get_loan s d creator of None \<Rightarrow> \<lparr>ln_index = 0, ln_address = creator, ln_amount = 0\<rparr> | Some l \<Rightarrow> l);
         s = set_loan d (l\<lparr>ln_amount := ln_amount l + amt\<rparr>) s in
     send_mod_acc E pool_vault a d (dtrunc E (dceil E amt)) s))))))))))"

text \<open>
  The keeper's \<open>repay\<close> is only called for a loan that exists; the zero loan that \<open>GetLoan\<close> returns otherwise would
  make it panic.
\<close>

definition repay :: "'b env \<Rightarrow> denom \<Rightarrow> string \<Rightarrow> dec \<Rightarrow> (('b, 'z) mm_world_scheme, unit) cmd" where
  "repay E d address amt s =
     bindS (of_option (MmE Mm_ErrInvalidAddress) (acc_of E address), s) (\<lambda>a s.
     bindS (of_option Panic (get_loan s d address), s) (\<lambda>l s.
     let amt = min amt (ln_amount l); n = dtrunc E (dceil E amt) in
     bindS (mm_check_spendable_coins E a d n s, s) (\<lambda>_ s.
     send_acc_mod E a pool_vault d n (set_loan d (l\<lparr>ln_amount := ln_amount l - amt\<rparr>) s))))"

definition repay_loan :: "'b env \<Rightarrow> string \<Rightarrow> denom \<Rightarrow> (('b, 'z) mm_world_scheme, unit) cmd" where
  "repay_loan E creator d s =
     bindS (of_option (MmE Mm_ErrNoLoanFound) (get_loan s d creator), s) (\<lambda>l.
     repay E d creator (ln_amount l))"

definition partially_repay_loan :: "'b env \<Rightarrow> string \<Rightarrow> denom \<Rightarrow> string \<Rightarrow> (('b, 'z) mm_world_scheme, unit) cmd" where
  "partially_repay_loan E creator d amt_str s =
     bindS (case get_casset_by_base_name (dparams s) d of Inl _ \<Rightarrow> Inl (MmE Mm_ErrInvalidDepositDenom) | Inr c \<Rightarrow> Inr c, s) (\<lambda>_ s.
     bindS (of_option (MmE Mm_ErrNoLoanFound) (get_loan s d creator), s) (\<lambda>_ s.
     bindS (parse_loan_amount E amt_str, s) (\<lambda>amt.
     repay E d creator (dceil E amt))))"

section \<open>Redemption requests\<close>

definition check_fee :: "'b env \<Rightarrow> ('b, 'z) mm_world_scheme \<Rightarrow> string \<Rightarrow> dec res" where
  "check_fee E s str =
     bindR (of_option FmtError (parse_dec E str)) (\<lambda>fee.
     bindR (nilR (min_redemption_fee (mparams s))) (\<lambda>minimum.
     bindR (checkR (\<not> fee < minimum) (MmE Mm_ErrRedemptionFeeTooLow)) (\<lambda>_.
     bindR (checkR (\<not> fee > dec_one) (MmE Mm_ErrRedemptionFeeTooHigh)) (\<lambda>_. Inr fee))))"

text \<open>The error of the address codec is dropped: the address is then empty.\<close>

definition acc_or_empty :: "'b env \<Rightarrow> string \<Rightarrow> addr" where
  "acc_or_empty E c = (case acc_of E c of None \<Rightarrow> [] | Some a \<Rightarrow> a)"

text \<open>An existing request is looked up under the base denomination, while requests are stored under the name of the cAsset.\<close>

definition create_redemption_request :: "'b env \<Rightarrow> string \<Rightarrow> denom \<Rightarrow> string \<Rightarrow> string \<Rightarrow> (('b, 'z) mm_world_scheme, unit) cmd" where
  "create_redemption_request E creator d amt_str fee_str s =
     bindS (get_casset_by_name (dparams s) d, s) (\<lambda>c s.
     bindS (mm_parse_amount E amt_str False, s) (\<lambda>amt s.
     let a = acc_or_empty E creator in
     bindS (mm_check_spendable_coins E a (ca_name c) amt s, s) (\<lambda>_ s.
     bindS (send_acc_mod E a pool_redemption (ca_name c) amt s) (\<lambda>_ s.
     bindS (check_fee E s fee_str, s) (\<lambda>fee s.
     bindS (checkR (get_redemption s (ca_base c) creator = None) (MmE Mm_ErrRedemptionRequestAlreadyExists), s) (\<lambda>_ s.
     (Inr (), set_redemption (ca_name c) \<lparr>rd_address = creator, rd_added_at = height s, rd_amount = amt, rd_fee = fee\<rparr> s)))))))"

definition cancel_redemption_request :: "'b env \<Rightarrow> string \<Rightarrow> denom \<Rightarrow> (('b, 'z) mm_world_scheme, unit) cmd" where
  "cancel_redemption_request E creator d s =
     bindS (get_casset_by_name (dparams s) d, s) (\<lambda>c s.
     bindS (of_option (MmE Mm_ErrRedemptionRequestNotFound) (get_redemption s d creator), s) (\<lambda>r s.
     bindS (send_mod_acc E pool_redemption (acc_or_empty E creator) (ca_name c) (rd_amount r) s) (\<lambda>_ s.
     (Inr (), remove_redemption d creator s))))"

definition update_redemption_request :: "'b env \<Rightarrow> string \<Rightarrow> denom \<Rightarrow> string \<Rightarrow> string \<Rightarrow> (('b, 'z) mm_world_scheme, unit) cmd" where
  "update_redemption_request E creator d amt_str fee_str s =
     bindS (check_fee E s fee_str, s) (\<lambda>fee s.
     bindS (get_casset_by_name (dparams s) d, s) (\<lambda>c s.
     bindS (mm_parse_amount E amt_str False, s) (\<lambda>amt s.
     bindS (of_option (MmE Mm_ErrRedemptionRequestNotFound) (get_redemption s d creator), s) (\<lambda>r s.
     let a = acc_or_empty E creator in
     bindS (send_mod_acc E pool_redemption a (ca_name c) (rd_amount r) s) (\<lambda>_ s.
     bindS (mm_check_spendable_coins E a (ca_name c) amt s, s) (\<lambda>_ s.
     bindS (send_acc_mod E a pool_redemption (ca_name c) amt s) (\<lambda>_ s.
     (Inr (), set_redemption d (r\<lparr>rd_fee := fee, rd_amount := amt\<rparr>) s))))))))"

end
