(* ===== verification/MmBlock.thy ===== *)
theory MmBlock
  imports MmKeeper
begin

text \<open>
  What the money market does at the end of a block: interest (\<open>keeper/interest.go\<close>), liquidations
  (\<open>keeper/liquidate.go\<close>) and redemptions (\<open>keeper/redemptions.go\<close>); and its genesis state (\<open>module/genesis.go\<close>).
\<close>

section \<open>Interest\<close>

definition euler :: dec where "euler = dec_prec 2718281828 9"

definition blocks_per_year :: int where "blocks_per_year = 60 * 60 * 24 * 365"

text \<open>\<open>RoundInt64\<close> panics out of range; the conversion to \<open>uint64\<close> wraps a negative power.\<close>

definition calculate_interest_rate_at :: "'b env \<Rightarrow> ('b, 'z) mm_world_scheme \<Rightarrow> dec \<Rightarrow> dec res" where
  "calculate_interest_rate_at E s utility =
     bindR (nilR (rate_a (mparams s))) (\<lambda>a.
     bindR (int64R (Some (dround E (dmul E utility a)))) (\<lambda>n.
     let power = unat (word_of_int n :: 64 word) in
     bindR (nilR (rate_b (mparams s))) (\<lambda>b.
     bindR (quoR E (dpow E euler power) b) (\<lambda>q.
     bindR (nilR (min_interest_rate (mparams s))) (\<lambda>m. Inr (m + q))))))"

definition calculate_utility_rate :: "'b env \<Rightarrow> ('b, 'z) mm_world_scheme \<Rightarrow> casset \<Rightarrow> dec res" where
  "calculate_utility_rate E s c =
     (let loan_sum = get_loans_sum s (ca_base c); sum = loan_sum + to_dec (get_vault_amount E s c) in
      if sum = 0 then Inr 0 else quoR E loan_sum sum)"

definition calculate_interest_rate :: "'b env \<Rightarrow> ('b, 'z) mm_world_scheme \<Rightarrow> casset \<Rightarrow> dec res" where
  "calculate_interest_rate E s c = bindR (calculate_utility_rate E s c) (calculate_interest_rate_at E s)"

text \<open>A loan below the minimal size is deleted, whatever the reason it is that small.\<close>

definition accrue_loan :: "'b env \<Rightarrow> casset \<Rightarrow> dec \<Rightarrow> loan \<Rightarrow> loan" where
  "accrue_loan E c rate l =
     (case ca_min_loan c of
        Some m \<Rightarrow> if m > 0 \<and> ln_amount l < to_dec m then l\<lparr>ln_amount := 0\<rparr>
                  else l\<lparr>ln_amount := ln_amount l + dmul E (ln_amount l) rate\<rparr>
      | None \<Rightarrow> l\<lparr>ln_amount := ln_amount l + dmul E (ln_amount l) rate\<rparr>)"

definition apply_interest_for_loans :: "'b env \<Rightarrow> casset \<Rightarrow> (('b, 'z) mm_world_scheme, unit) cmd" where
  "apply_interest_for_loans E c s =
     (let ls = get_all_loans_by_denom s (ca_base c) in
      if ls = [] then (Inr (), s)
      else
        bindS (calculate_interest_rate E s c, s) (\<lambda>rate s.
        bindS (quoR E rate (to_dec blocks_per_year), s) (\<lambda>rate s.
        (Inr (), foldl (\<lambda>s l. set_loan (ca_base c) (accrue_loan E c rate l) s) s ls))))"

definition apply_interest :: "'b env \<Rightarrow> (('b, 'z) mm_world_scheme, unit) cmd" where
  "apply_interest E s = foldS (\<lambda>c _. apply_interest_for_loans E c) (get_cassets (dparams s)) () s"

section \<open>Liquidations\<close>

text \<open>
  \<open>sort.Slice\<close> on at most twelve elements, which is what the number of collateral denominations and of a user's loans comes to,
  is an insertion sort and so stable, as \<open>sort_key\<close> is.
\<close>

definition get_collateral_denoms_by_value :: "'b env \<Rightarrow> ('b, 'z) mm_world_scheme \<Rightarrow> denom list res" where
  "get_collateral_denoms_by_value E s =
     bindR (foldR (\<lambda>c vs. bindR (get_denom_value E s (cd_denom c)) (\<lambda>v. Inr (vs @ [(cd_denom c, v)])))
       (get_collateral_denoms (dparams s)) []) (\<lambda>vs.
     Inr (map fst (sort_key (\<lambda>(_, v). - v) vs)))"

text \<open>
  Where the collateral is of the borrowed denomination no coins are moved. The conversion \<open>sdk.AccAddress(address)\<close> takes the
  bytes of the bech32 string for the address itself.
\<close>

definition liquidation_options :: "'b env \<Rightarrow> casset \<Rightarrow> denom \<Rightarrow> string \<Rightarrow> int \<Rightarrow> trade_options" where
  "liquidation_options E c d address amount =
     \<lparr>to_given = amount, to_max_price = None, to_start = d, to_end = ca_base c, to_incomplete = True,
      to_exclude = False, to_protocol = True, to_source = Some (mod_addr E pool_collateral),
      to_target = Some (mod_addr E pool_vault), to_discount = Some address, to_calc = None\<rparr>"

definition process_liquidation :: "'b env \<Rightarrow> casset \<Rightarrow> dec \<Rightarrow> denom \<Rightarrow> string \<Rightarrow> (('b, 'z) mm_world_scheme, int option) cmd" where
  "process_liquidation E c excess d address s =
     (case get_collateral s d address of None \<Rightarrow> (Inr (Some 0), s)
      | Some x \<Rightarrow>
          bindS (if d = ca_base c then
                   let n = min (co_amount x) (dtrunc E excess) in (Inr (Some n, Some n), s)
                 else
                   bindS (case trade_simulation E s (ca_base c) d address (dround E excess) False of
                            Inl Panic \<Rightarrow> Inl Panic | Inl _ \<Rightarrow> Inr None | Inr (n, _, _) \<Rightarrow> Inr (Some n), s) (\<lambda>to_give s.
                   bindS (nilR to_give, s) (\<lambda>to_give s.
                   bindS (execute_trade E (liquidation_options E c d address (min (co_amount x) to_give)) s) (\<lambda>(used, received, _, _) s.
                   (Inr (used, received), s))))) (\<lambda>(used, repaid) s.
          bindS (nilR used, s) (\<lambda>used s.
          (Inr repaid, set_collateral d (x\<lparr>co_amount := co_amount x - used\<rparr>) s))))"

text \<open>The loop over the collateral denominations: what is still to cover and what has been repaid; errors are skipped.\<close>

definition liquidate_collaterals :: "'b env \<Rightarrow> casset \<Rightarrow> string \<Rightarrow> denom list \<Rightarrow> dec \<times> dec \<Rightarrow> (('b, 'z) mm_world_scheme, dec \<times> dec) cmd" where
  "liquidate_collaterals E c address =
     foldS (\<lambda>d (excess, repaid) s.
       case process_liquidation E c excess d address s of
         (Inl Panic, s) \<Rightarrow> (Inl Panic, s)
       | (Inl _, s) \<Rightarrow> (Inr (excess, repaid), s)
       | (Inr n, s) \<Rightarrow> bindS (nilR n, s) (\<lambda>n s. (Inr (excess - to_dec n, repaid + to_dec n), s)))"

text \<open>The result is the excess of the borrower that is left.\<close>

definition liquidate_loan :: "'b env \<Rightarrow> denom list \<Rightarrow> casset \<Rightarrow> loan \<Rightarrow> dec \<Rightarrow> (('b, 'z) mm_world_scheme, dec) cmd" where
  "liquidate_loan E ds c l excess_base s =
     (let a = acc_or_empty E (ln_address l) in
      bindS (get_value_in E s base_currency (ca_base c) (dround E excess_base), s) (\<lambda>excess s.
      bindS (liquidate_collaterals E c (str_of E a) ds (min excess (ln_amount l), 0) s) (\<lambda>(_, repaid) s.
      if repaid = 0 then (Inr excess_base, s)
      else
        let l = l\<lparr>ln_amount := ln_amount l - repaid\<rparr> in
        bindS (if ln_amount l < 0 then send_mod_acc E pool_vault a (ca_base c) (dround E (- ln_amount l)) s
               else (Inr (), s)) (\<lambda>_ s.
        let s = set_loan (ca_base c) l s in
        bindS (get_value_in E s (ca_base c) base_currency (dround E repaid), s) (\<lambda>repaid_base s.
        (Inr (excess_base - repaid_base), s))))))"

definition handle_borrower_liquidation :: "'b env \<Rightarrow> denom list \<Rightarrow> string \<Rightarrow> (('b, 'z) mm_world_scheme, unit) cmd" where
  "handle_borrower_liquidation E ds a s =
     bindS (calculate_collateral_base_value E s a, s) (\<lambda>collateral_value s.
     bindS (calculate_loan_base_value E s a, s) (\<lambda>loan_value s.
     if \<not> loan_value > collateral_value then (Inr (), s)
     else
       bindS (nilR (collateral_discount (mparams s)), s) (\<lambda>discount s.
       let excess = loan_value - dmul E collateral_value discount;
           ls = sort_key (\<lambda>(l, _). sint (ln_index l)) (get_user_loans s a) in
       bindS (foldS (\<lambda>(l, c) excess. liquidate_loan E ds c l excess) ls excess s) (\<lambda>_ s. (Inr (), s)))))"

definition handle_liquidations :: "'b env \<Rightarrow> (('b, 'z) mm_world_scheme, unit) cmd" where
  "handle_liquidations E s =
     bindS (get_collateral_denoms_by_value E s, s) (\<lambda>ds s.
     foldS (\<lambda>a _. handle_borrower_liquidation E ds a) (get_borrowers s) () s)"

section \<open>Redemptions\<close>

definition calculate_redemption_amount :: "'b env \<Rightarrow> ('b, 'z) mm_world_scheme \<Rightarrow> casset \<Rightarrow> dec \<Rightarrow> dec res" where
  "calculate_redemption_amount E s c requested =
     (if requested = 0 then Inr 0
      else bindR (quoR E requested (to_dec (supply_of E s (ca_name c)))) (\<lambda>share.
           Inr (dmul E (calculate_casset_value E s c) share)))"

text \<open>What can be paid out of \<open>available\<close>, and the cAssets it redeems.\<close>

definition calculate_available_redemption_amount :: "'b env \<Rightarrow> ('b, 'z) mm_world_scheme \<Rightarrow> casset \<Rightarrow> dec \<Rightarrow> dec \<Rightarrow> (dec \<times> dec) res" where
  "calculate_available_redemption_amount E s c requested available =
     bindR (calculate_redemption_amount E s c requested) (\<lambda>value.
     let redeem = min value available in
     bindR (quoR E redeem value) (\<lambda>share.
     Inr (redeem, dmul E requested share)))"

definition handle_redemption_fee :: "'b env \<Rightarrow> casset \<Rightarrow> dec \<Rightarrow> (('b, 'z) mm_world_scheme, unit) cmd" where
  "handle_redemption_fee E c amt s =
     (if amt \<le> 0 then (Inr (), s)
      else bindS (nilR (protocol_share (mparams s)), s) (\<lambda>share.
        send_mod_mod E pool_vault pool_reserve (ca_base c) (dtrunc E (dmul E share amt))))"

definition handle_single_redemption :: "'b env \<Rightarrow> casset \<Rightarrow> redemption \<Rightarrow> dec \<Rightarrow> (('b, 'z) mm_world_scheme, dec) cmd" where
  "handle_single_redemption E c r available s =
     bindS (calculate_available_redemption_amount E s c (to_dec (rd_amount r)) available, s) (\<lambda>(gross, used) s.
     let s = set_redemption (ca_name c) (r\<lparr>rd_amount := rd_amount r - dround E used\<rparr>) s;
         fee = dmul E gross (rd_fee r); net = gross - fee in
     bindS (handle_redemption_fee E c fee s) (\<lambda>_ s.
     bindS (send_mod_acc E pool_vault (acc_or_empty E (rd_address r)) (ca_base c) (dtrunc E net) s) (\<lambda>_ s.
     bindS (send_mod_mod E pool_redemption mm_module (ca_name c) (dtrunc E used) s) (\<lambda>_ s.
     bindS (burn_coins E mm_module (ca_name c) (dtrunc E used) s) (\<lambda>_ s.
     (Inr gross, s))))))"

text \<open>The requests in the order they are served: by fee, highest first, and among equals by age.\<close>

definition redemption_order :: "redemption list \<Rightarrow> redemption list" where
  "redemption_order = sort_key (\<lambda>r. (- rd_fee r, rd_added_at r))"

fun redemption_loop :: "'b env \<Rightarrow> casset \<Rightarrow> redemption list \<Rightarrow> dec \<Rightarrow> (('b, 'z) mm_world_scheme, unit) cmd" where
  "redemption_loop E c [] available s = (Inr (), s)"
| "redemption_loop E c (r # rs) available s =
     (if available > 0
      then bindS (handle_single_redemption E c r available s) (\<lambda>sent. redemption_loop E c rs (available - sent))
      else (Inr (), s))"

text \<open>
  The amount of the vault is formatted for the log before it is known whether it was found; \<open>Int.String\<close> accepts nil.
\<close>

definition handle_redemptions_for_casset :: "'b env \<Rightarrow> casset \<Rightarrow> (('b, 'z) mm_world_scheme, unit) cmd" where
  "handle_redemptions_for_casset E c s =
     (let rs = get_redemptions s (ca_name c) in
      if rs = [] then (Inr (), s)
      else case map_of (bk_spendable E (bank s) (mod_addr E pool_vault)) (ca_base c) of
        None \<Rightarrow> (Inr (), s)
      | Some n \<Rightarrow> if n = 0 then (Inr (), s) else redemption_loop E c (redemption_order rs) (to_dec n) s)"

definition handle_redemptions :: "'b env \<Rightarrow> (('b, 'z) mm_world_scheme, unit) cmd" where
  "handle_redemptions E s = foldS (\<lambda>c _. handle_redemptions_for_casset E c) (get_cassets (dparams s)) () s"

section \<open>The hook\<close>

text \<open>The errors of the two handlers are logged only; what they have written stays. A panic is not caught.\<close>

definition log_error :: "(('s, unit) cmd) \<Rightarrow> ('s, unit) cmd" where
  "log_error f s = (case f s of (Inl e, t) \<Rightarrow> (if e = Panic then (Inl Panic, t) else (Inr (), t)) | (Inr u, t) \<Rightarrow> (Inr (), t))"

definition mm_end_block :: "'b env \<Rightarrow> (('b, 'z) mm_world_scheme, unit) cmd" where
  "mm_end_block E s =
     bindS (apply_interest E s) (\<lambda>_ s.
     bindS (log_error (handle_liquidations E) s) (\<lambda>_.
     log_error (handle_redemptions E)))"

section \<open>Genesis\<close>

record mm_genesis =
  mg_params :: mm_params
  mg_loans :: "(denom \<times> loan list) list"
  mg_collaterals :: "(denom \<times> collateral list) list"
  mg_redemptions :: "(denom \<times> redemption list) list"
  mg_next_loan :: "64 word option"

definition default_mm_genesis :: mm_genesis where
  "default_mm_genesis = \<lparr>mg_params = default_mm_params, mg_loans = [], mg_collaterals = [], mg_redemptions = [], mg_next_loan = None\<rparr>"

definition validate_mm_genesis :: "mm_genesis \<Rightarrow> unit res" where
  "validate_mm_genesis g = validate_mm_params (mg_params g)"

definition set_entries :: "(denom \<Rightarrow> 'v \<Rightarrow> 's \<Rightarrow> 's) \<Rightarrow> (denom \<times> 'v list) list \<Rightarrow> 's \<Rightarrow> 's" where
  "set_entries set_fn ds s = foldl (\<lambda>s (d, vs). foldl (\<lambda>s v. set_fn d v s) s vs) s ds"

definition mm_init_genesis :: "mm_genesis \<Rightarrow> ('b, 'z) mm_world_scheme \<Rightarrow> ('b, 'z) mm_world_scheme" where
  "mm_init_genesis g s =
     (let s = snd (set_mm_params (mg_params g) s);
          s = set_next_loan_index (case mg_next_loan g of None \<Rightarrow> 1 | Some i \<Rightarrow> i) s;
          s = set_entries set_loan (mg_loans g) s;
          s = set_entries set_collateral (mg_collaterals g) s in
      set_entries set_redemption (mg_redemptions g) s)"

definition mm_export_genesis :: "('b, 'z) mm_world_scheme \<Rightarrow> mm_genesis" where
  "mm_export_genesis s =
     \<lparr>mg_params = mparams s, mg_loans = get_denom_loans s, mg_collaterals = get_all_denom_collaterals s,
      mg_redemptions = get_denom_redemptions s, mg_next_loan = Some (get_next_loan_index s)\<rparr>"

end
