(* ===== verification/MmCustody.thy ===== *)
theory MmCustody
  imports MmBlock
begin

text \<open>
  The interface of the three stores of the money market, and that each of them provides it: an entry per denomination
  and address, and a total per denomination that follows every write. Denominations of a set \<open>D\<close> are
  told apart by the prefixes of the keys because none extends another with a slash.
\<close>

section \<open>The interface\<close>

abbreviation slash_free :: "string \<Rightarrow> bool" where
  "slash_free a \<equiv> CHR ''/'' \<notin> set a"

locale denom_store =
  fixes entry :: "'s \<Rightarrow> denom \<Rightarrow> string \<Rightarrow> 'v option"
    and put :: "denom \<Rightarrow> 'v \<Rightarrow> 's \<Rightarrow> 's"
    and tally :: "'s \<Rightarrow> denom \<Rightarrow> int"
    and owner :: "'v \<Rightarrow> string"
    and amount :: "'v \<Rightarrow> int"
    and ok :: "denom set \<Rightarrow> 's \<Rightarrow> bool"
  assumes entry_put: "ok D s \<Longrightarrow> slash_free (owner v) \<Longrightarrow> slash_free a \<Longrightarrow>
      weight amount (entry (put d v s) d' a) = (if d' = d \<and> a = owner v then max 0 (amount v) else weight amount (entry s d' a))"
    and tally_put: "ok D s \<Longrightarrow> d \<in> D \<Longrightarrow> d' \<in> D \<Longrightarrow> slash_free (owner v) \<Longrightarrow>
      tally (put d v s) d' = tally s d' + (if d' = d then max 0 (amount v) - weight amount (entry s d (owner v)) else 0)"
    and ok_put: "ok D s \<Longrightarrow> d \<in> D \<Longrightarrow> slash_free (owner v) \<Longrightarrow> ok D (put d v s)"
    and entry_pos: "ok D s \<Longrightarrow> entry s d a = Some v \<Longrightarrow> 0 < amount v"
    and entry_owner: "ok D s \<Longrightarrow> slash_free a \<Longrightarrow> entry s d a = Some v \<Longrightarrow> owner v = a"
begin

text \<open>A deposit or a withdrawal of \<open>n\<close> by the owner of an entry.\<close>

lemma tally_change:
  assumes "ok D s" "d \<in> D" "d' \<in> D" "slash_free (owner v)"
    and "amount v = weight amount (entry s d (owner v)) + n" "0 \<le> amount v"
  shows "tally (put d v s) d' = tally s d' + (if d' = d then n else 0)"
  using tally_put [OF assms(1-4)] assms(5,6) by simp

lemma tally_remove:
  assumes "ok D s" "d \<in> D" "d' \<in> D" "slash_free (owner v)" "amount v \<le> 0"
  shows "tally (put d v s) d' = tally s d' - (if d' = d then weight amount (entry s d (owner v)) else 0)"
  using tally_put [OF assms(1-4)] assms(5) by (simp add: max_def)

lemma entry_other:
  assumes "ok D s" "slash_free (owner v)" "slash_free a" "a \<noteq> owner v"
  shows "weight amount (entry (put d v s) d' a) = weight amount (entry s d' a)"
  using entry_put [OF assms(1-3)] assms(4) by simp

text \<open>What a module account holds for the entries stays enough when as much arrives as an entry grows by.\<close>

lemma covered_change:
  assumes "ok D s" "d \<in> D" "slash_free (owner v)"
    and "amount v = weight amount (entry s d (owner v)) + n" "0 \<le> amount v"
    and "\<And>d'. d' \<in> D \<Longrightarrow> tally s d' \<le> b d'" "\<And>d'. d' \<in> D \<Longrightarrow> b d' + (if d' = d then n else 0) \<le> b' d'" "d' \<in> D"
  shows "tally (put d v s) d' \<le> b' d'"
  using tally_change [OF assms(1,2,8) assms(3,4,5)] assms(6,7) [OF assms(8)] by simp

end

section \<open>Sums below a prefix\<close>

definition prefix_sum :: "('v \<Rightarrow> int) \<Rightarrow> string \<Rightarrow> 'v kv \<Rightarrow> int" where
  "prefix_sum w p m = sum_list (map w (kv_vals p m))"

lemma prefix_sum_simps [simp]:
  "prefix_sum w p [] = 0"
  "prefix_sum w p ((k, v) # m) = (if prefix p k then w v else 0) + prefix_sum w p m"
  by (simp_all add: prefix_sum_def kv_vals_def kv_iter_def)

lemma prefix_sum_put:
  "kv_wf m \<Longrightarrow> prefix_sum w p (kv_put k v m) = prefix_sum w p m + (if prefix p k then w v - weight w (kv_get m k) else 0)"
proof (induction k v m rule: kv_put.induct)
  case (2 k v k' v' m)
  have m: "kv_wf m" "\<forall>x \<in> set (map fst m). k' < x"
    using kv_wf_ConsD [OF 2(2)] .
  then have "kv_get m k = None" if "k < k'"
    using that by (intro kv_get_small) (auto intro: less_trans)
  with 2 m(1) show ?case by auto
qed simp

lemma prefix_sum_del:
  "kv_wf m \<Longrightarrow> prefix_sum w p (kv_del k m) = prefix_sum w p m - (if prefix p k then weight w (kv_get m k) else 0)"
proof (induction m)
  case (Cons x m)
  obtain k' v where x: "x = (k', v)" by (cases x)
  have m: "kv_wf m" "\<forall>k \<in> set (map fst m). k' < k"
    using kv_wf_ConsD [OF Cons.prems [unfolded x]] .
  have "kv_get m k' = None" using m by (rule kv_get_small)
  with Cons.IH [OF m(1)] show ?case by (auto simp: x kv_del_def)
qed (simp add: kv_del_def)

section \<open>The keys\<close>

definition separate :: "denom set \<Rightarrow> bool" where
  "separate D \<longleftrightarrow> (\<forall>d \<in> D. \<forall>d' \<in> D. \<not> prefix (key_string d) d')"

lemma denoms_separate_iff: "denoms_separate p \<longleftrightarrow> separate (set (denoms p))"
  by (simp add: denoms_separate_def separate_def)

lemma key_denom_address_inj:
  assumes "slash_free a" "slash_free a'"
  shows "key_denom_address d a = key_denom_address d' a' \<longleftrightarrow> d = d' \<and> a = a'"
  using append_slash_inj [OF assms, of d d'] by (auto simp: key_denom_address_def)

lemma prefix_key_denom_address:
  assumes "separate D" "d \<in> D" "d' \<in> D" "slash_free a"
  shows "prefix (key_string d) (key_denom_address d' a) \<longleftrightarrow> d' = d"
proof
  assume "prefix (key_string d) (key_denom_address d' a)"
  then obtain w where w: "d @ CHR ''/'' # w = d' @ CHR ''/'' # a @ ''/''"
    by (auto simp: prefix_def key_string_def key_denom_address_def)
  then consider us where "d = d' @ us" "us @ CHR ''/'' # w = CHR ''/'' # a @ ''/''"
    | us where "d' = d @ us" "us @ CHR ''/'' # a @ ''/'' = CHR ''/'' # w"
    by (auto simp: append_eq_append_conv2)
  then show "d' = d"
  proof cases
    case (1 us)
    show ?thesis
    proof (cases us)
      case (Cons x xs)
      with 1 have "prefix (key_string d') d" by (auto simp: key_string_def prefix_def)
      with assms show ?thesis by (auto simp: separate_def)
    qed (simp add: 1)
  next
    case (2 us)
    show ?thesis
    proof (cases us)
      case (Cons x xs)
      with 2 have "prefix (key_string d) d'" by (auto simp: key_string_def prefix_def)
      with assms show ?thesis by (auto simp: separate_def)
    qed (simp add: 2)
  qed
next
  assume "d' = d"
  then show "prefix (key_string d) (key_denom_address d' a)"
    by (simp add: key_string_def key_denom_address_def prefix_def)
qed

section \<open>The generic store\<close>

definition entries_ok :: "('v \<Rightarrow> string) \<Rightarrow> ('v \<Rightarrow> int) \<Rightarrow> denom set \<Rightarrow> 'v kv \<Rightarrow> bool" where
  "entries_ok owner amount D m \<longleftrightarrow> kv_wf m \<and> separate D
     \<and> (\<forall>k v. kv_get m k = Some v \<longrightarrow> 0 < amount v \<and> slash_free (owner v) \<and> (\<exists>d \<in> D. k = key_denom_address d (owner v)))"

definition entries_put :: "('v \<Rightarrow> string) \<Rightarrow> ('v \<Rightarrow> int) \<Rightarrow> denom \<Rightarrow> 'v \<Rightarrow> 'v kv \<Rightarrow> 'v kv" where
  "entries_put owner amount d v m =
     (if amount v \<le> 0 then kv_del (key_denom_address d (owner v)) m else kv_put (key_denom_address d (owner v)) v m)"

lemma entries_put_get:
  assumes "entries_ok owner amount D m"
  shows "kv_get (entries_put owner amount d v m)
    = (kv_get m)(key_denom_address d (owner v) := (if amount v \<le> 0 then None else Some v))"
  using assms by (auto simp: entries_ok_def entries_put_def kvs.get_put kvs.get_del)

lemma entries_put_ok:
  assumes "entries_ok owner amount D m" "d \<in> D" "slash_free (owner v)"
  shows "entries_ok owner amount D (entries_put owner amount d v m)"
  using assms by (auto simp: entries_ok_def entries_put_get [OF assms(1)] split: if_splits)
    (auto simp: entries_put_def kvs.invar_put kvs.invar_del)

lemma entries_put_weight:
  assumes "entries_ok owner amount D m" "slash_free (owner v)" "slash_free a"
  shows "weight amount (kv_get (entries_put owner amount d v m) (key_denom_address d' a))
    = (if d' = d \<and> a = owner v then max 0 (amount v) else weight amount (kv_get m (key_denom_address d' a)))"
  using key_denom_address_inj [OF assms(3,2), of d' d] by (auto simp: entries_put_get [OF assms(1)])

lemma entries_put_sum:
  assumes "entries_ok owner amount D m" "d \<in> D" "d' \<in> D" "slash_free (owner v)"
  shows "prefix_sum amount (key_string d') (entries_put owner amount d v m) = prefix_sum amount (key_string d') m
    + (if d' = d then max 0 (amount v) - weight amount (kv_get m (key_denom_address d (owner v))) else 0)"
proof -
  have m: "kv_wf m" "separate D" using assms(1) by (simp_all add: entries_ok_def)
  have "prefix (key_string d') (key_denom_address d (owner v)) \<longleftrightarrow> d' = d"
    using prefix_key_denom_address [OF m(2) assms(3,2,4)] by auto
  then show ?thesis by (auto simp: entries_put_def prefix_sum_put [OF m(1)] prefix_sum_del [OF m(1)])
qed

lemma entries_owner:
  assumes "entries_ok owner amount D m" "slash_free a" "kv_get m (key_denom_address d a) = Some v"
  shows "owner v = a" "d \<in> D" "0 < amount v"
proof -
  from assms(1,3) obtain d' where v: "0 < amount v" "slash_free (owner v)" "d' \<in> D"
    "key_denom_address d a = key_denom_address d' (owner v)"
    unfolding entries_ok_def by blast
  with key_denom_address_inj [OF assms(2) v(2)] show "owner v = a" "d \<in> D" "0 < amount v" by auto
qed

lemma entries_pos: "entries_ok owner amount D m \<Longrightarrow> kv_get m k = Some v \<Longrightarrow> 0 < amount v"
  by (auto simp: entries_ok_def)

text \<open>What an iterator below a denomination yields: each owner's entry once.\<close>

lemma entries_listed_key:
  assumes "entries_ok owner amount D m" "d \<in> D" "(k, v) \<in> set (kv_iter (key_string d) m)"
  shows "kv_get m k = Some v" "k = key_denom_address d (owner v)" "slash_free (owner v)"
proof -
  have w: "kv_wf m" "separate D" using assms(1) by (simp_all add: entries_ok_def)
  then have k: "kv_get m k = Some v" "prefix (key_string d) k" using assms(3) by (auto simp: kvs.set_iter)
  with assms(1) obtain d' where d': "slash_free (owner v)" "d' \<in> D" "k = key_denom_address d' (owner v)"
    unfolding entries_ok_def by blast
  with prefix_key_denom_address [OF w(2) assms(2) d'(2,1)] k
  show "kv_get m k = Some v" "k = key_denom_address d (owner v)" "slash_free (owner v)" by auto
qed

lemma entries_listed:
  assumes "entries_ok owner amount D m" "d \<in> D" "v \<in> set (kv_vals (key_string d) m)"
  shows "kv_get m (key_denom_address d (owner v)) = Some v" "slash_free (owner v)"
  using assms(3) entries_listed_key [OF assms(1,2)] by (auto simp: kv_vals_def)

lemma entries_distinct:
  assumes "entries_ok owner amount D m" "d \<in> D"
  shows "distinct (map owner (kv_vals (key_string d) m))"
proof -
  have dist: "distinct (map fst (kv_iter (key_string d) m))"
    using assms(1) by (simp add: entries_ok_def kv_wf_def kv_iter_def distinct_map_filter)
  note key = entries_listed_key [OF assms]
  have "inj_on (owner \<circ> snd) (set (kv_iter (key_string d) m))"
  proof (rule inj_onI)
    fix x y
    assume "x \<in> set (kv_iter (key_string d) m)" "y \<in> set (kv_iter (key_string d) m)" "(owner \<circ> snd) x = (owner \<circ> snd) y"
    moreover obtain k v k' v' where xy: "x = (k, v)" "y = (k', v')" by (cases x; cases y)
    ultimately have m: "(k, v) \<in> set (kv_iter (key_string d) m)" "(k', v') \<in> set (kv_iter (key_string d) m)" "owner v = owner v'" by auto
    have "k = k'" using key(2) [OF m(1)] key(2) [OF m(2)] m(3) by simp
    then show "x = y" using key(1) [OF m(1)] key(1) [OF m(2)] by (simp add: xy)
  qed
  then show ?thesis using dist by (simp add: kv_vals_def distinct_map)
qed

lemma entries_listed_iff:
  assumes "entries_ok owner amount D m" "d \<in> D" "slash_free a"
  shows "(\<exists>v \<in> set (kv_vals (key_string d) m). owner v = a) \<longleftrightarrow> kv_get m (key_denom_address d a) \<noteq> None"
proof
  assume "\<exists>v \<in> set (kv_vals (key_string d) m). owner v = a"
  then show "kv_get m (key_denom_address d a) \<noteq> None" using entries_listed(1) [OF assms(1,2)] by fastforce
next
  assume "kv_get m (key_denom_address d a) \<noteq> None"
  then obtain v where v: "kv_get m (key_denom_address d a) = Some v" by blast
  have "(key_denom_address d a, v) \<in> set (kv_iter (key_string d) m)"
    using assms(1) v by (simp add: kvs.set_iter entries_ok_def key_denom_address_def key_string_def prefix_def)
  then show "\<exists>v \<in> set (kv_vals (key_string d) m). owner v = a"
    using entries_owner(1) [OF assms(1,3) v] by (force simp: kv_vals_def)
qed

section \<open>The three stores\<close>

definition collaterals_ok :: "denom set \<Rightarrow> ('b, 'z) mm_world_scheme \<Rightarrow> bool" where
  "collaterals_ok D s = entries_ok co_address co_amount D (collaterals s)"

definition redemptions_ok :: "denom set \<Rightarrow> ('b, 'z) mm_world_scheme \<Rightarrow> bool" where
  "redemptions_ok D s = entries_ok rd_address rd_amount D (redemptions s)"

definition loans_ok :: "denom set \<Rightarrow> ('b, 'z) mm_world_scheme \<Rightarrow> bool" where
  "loans_ok D s = entries_ok ln_address ln_amount D (loans s)"

lemma set_collateral_eq: "set_collateral d c s = s\<lparr>collaterals := entries_put co_address co_amount d c (collaterals s)\<rparr>"
  by (simp add: set_collateral_def remove_collateral_entry_def entries_put_def)

lemma set_redemption_eq: "set_redemption d r s = s\<lparr>redemptions := entries_put rd_address rd_amount d r (redemptions s)\<rparr>"
  by (simp add: set_redemption_def remove_redemption_def entries_put_def)

lemma remove_redemption_eq:
  "remove_redemption d a s = set_redemption d \<lparr>rd_address = a, rd_added_at = 0, rd_amount = 0, rd_fee = 0\<rparr> s"
  by (simp add: set_redemption_def)

text \<open>The loan as it is stored, with its index.\<close>

definition indexed_loan :: "loan \<Rightarrow> ('b, 'z) mm_world_scheme \<Rightarrow> loan" where
  "indexed_loan l s = (if ln_index l = 0 then l\<lparr>ln_index := get_next_loan_index s\<rparr> else l)"

lemma indexed_loan_simps [simp]:
  "ln_address (indexed_loan l s) = ln_address l" "ln_amount (indexed_loan l s) = ln_amount l"
  by (simp_all add: indexed_loan_def)

lemma set_loan_eq: "set_loan d l s = s\<lparr>loans := entries_put ln_address ln_amount d (indexed_loan l s) (loans s),
    next_loan := (if 0 < ln_amount l \<and> ln_index l = 0 then Some (get_next_loan_index s + 1) else next_loan s)\<rparr>"
  by (simp add: set_loan_def entries_put_def indexed_loan_def set_next_loan_index_def Let_def)

lemma sums_eq:
  "get_collateral_sum s d = prefix_sum co_amount (key_string d) (collaterals s)"
  "get_redemption_sum s d = prefix_sum rd_amount (key_string d) (redemptions s)"
  "get_loans_sum s d = prefix_sum ln_amount (key_string d) (loans s)"
  by (simp_all add: get_collateral_sum_def get_redemption_sum_def get_loans_sum_def prefix_sum_def foldl_sum)

interpretation coll: denom_store get_collateral set_collateral get_collateral_sum co_address co_amount collaterals_ok
proof
  fix D d d' a v and s :: "('a, 'b) mm_world_scheme"
  assume s: "collaterals_ok D s"
  note s' = s [unfolded collaterals_ok_def]
  show "0 < co_amount v" if "get_collateral s d a = Some v"
    using entries_pos [OF s'] that by (simp add: get_collateral_def)
  show "co_address v = a" if "slash_free a" "get_collateral s d a = Some v"
    using entries_owner(1) [OF s' that(1)] that(2) by (simp add: get_collateral_def)
  show "collaterals_ok D (set_collateral d v s)" if "d \<in> D" "slash_free (co_address v)"
    using entries_put_ok [OF s' that(1)] that(2) by (simp add: collaterals_ok_def set_collateral_eq)
  show "weight co_amount (get_collateral (set_collateral d v s) d' a) = (if d' = d \<and> a = co_address v then max 0 (co_amount v) else weight co_amount (get_collateral s d' a))"
    if "slash_free (co_address v)" "slash_free a"
    using entries_put_weight [OF s' _ that(2)] that(1) by (simp add: get_collateral_def set_collateral_eq)
  show "get_collateral_sum (set_collateral d v s) d' = get_collateral_sum s d' + (if d' = d then max 0 (co_amount v) - weight co_amount (get_collateral s d (co_address v)) else 0)"
    if "d \<in> D" "d' \<in> D" "slash_free (co_address v)"
    using entries_put_sum [OF s' that(1,2)] that(3) by (simp add: get_collateral_def set_collateral_eq sums_eq)
qed

interpretation red: denom_store get_redemption set_redemption get_redemption_sum rd_address rd_amount redemptions_ok
proof
  fix D d d' a v and s :: "('a, 'b) mm_world_scheme"
  assume s: "redemptions_ok D s"
  note s' = s [unfolded redemptions_ok_def]
  show "0 < rd_amount v" if "get_redemption s d a = Some v"
    using entries_pos [OF s'] that by (simp add: get_redemption_def)
  show "rd_address v = a" if "slash_free a" "get_redemption s d a = Some v"
    using entries_owner(1) [OF s' that(1)] that(2) by (simp add: get_redemption_def)
  show "redemptions_ok D (set_redemption d v s)" if "d \<in> D" "slash_free (rd_address v)"
    using entries_put_ok [OF s' that(1)] that(2) by (simp add: redemptions_ok_def set_redemption_eq)
  show "weight rd_amount (get_redemption (set_redemption d v s) d' a) = (if d' = d \<and> a = rd_address v then max 0 (rd_amount v) else weight rd_amount (get_redemption s d' a))"
    if "slash_free (rd_address v)" "slash_free a"
    using entries_put_weight [OF s' _ that(2)] that(1) by (simp add: get_redemption_def set_redemption_eq)
  show "get_redemption_sum (set_redemption d v s) d' = get_redemption_sum s d' + (if d' = d then max 0 (rd_amount v) - weight rd_amount (get_redemption s d (rd_address v)) else 0)"
    if "d \<in> D" "d' \<in> D" "slash_free (rd_address v)"
    using entries_put_sum [OF s' that(1,2)] that(3) by (simp add: get_redemption_def set_redemption_eq sums_eq)
qed

interpretation loan: denom_store get_loan set_loan get_loans_sum ln_address ln_amount loans_ok
proof
  fix D d d' a v and s :: "('a, 'b) mm_world_scheme"
  assume s: "loans_ok D s"
  note s' = s [unfolded loans_ok_def]
  show "0 < ln_amount v" if "get_loan s d a = Some v"
    using entries_pos [OF s'] that by (simp add: get_loan_def)
  show "ln_address v = a" if "slash_free a" "get_loan s d a = Some v"
    using entries_owner(1) [OF s' that(1)] that(2) by (simp add: get_loan_def)
  show "loans_ok D (set_loan d v s)" if "d \<in> D" "slash_free (ln_address v)"
    using entries_put_ok [OF s' that(1), of "indexed_loan v s"] that(2) by (simp add: loans_ok_def set_loan_eq)
  show "weight ln_amount (get_loan (set_loan d v s) d' a) = (if d' = d \<and> a = ln_address v then max 0 (ln_amount v) else weight ln_amount (get_loan s d' a))"
    if "slash_free (ln_address v)" "slash_free a"
    using entries_put_weight [OF s' _ that(2), of "indexed_loan v s"] that(1) by (simp add: get_loan_def set_loan_eq)
  show "get_loans_sum (set_loan d v s) d' = get_loans_sum s d' + (if d' = d then max 0 (ln_amount v) - weight ln_amount (get_loan s d (ln_address v)) else 0)"
    if "d \<in> D" "d' \<in> D" "slash_free (ln_address v)"
    using entries_put_sum [OF s' that(1,2), of "indexed_loan v s"] that(3) by (simp add: get_loan_def set_loan_eq sums_eq)
qed

end
