(* ===== verification/MmSafety.thy ===== *)
theory MmSafety
  imports MmCustody "HOL-Library.Multiset"
begin

text \<open>
  The coins behind the collaterals and the redemption requests: the module accounts hold at least what the stores say, through
  every message, the accrual of interest and the service of redemptions.
\<close>

section \<open>The invariant\<close>

abbreviation known :: "('b, 'z) mm_world_scheme \<Rightarrow> denom set" where
  "known s \<equiv> set (denoms (dparams s))"

definition mm_ok :: "'b env \<Rightarrow> ('b, 'z) mm_world_scheme \<Rightarrow> bool" where
  "mm_ok E s \<longleftrightarrow> wf_denoms (dparams s)
     \<and> collaterals_ok (known s) s \<and> redemptions_ok (known s) s \<and> loans_ok (known s) s
     \<and> (\<forall>d \<in> known s. get_collateral_sum s d \<le> bal E (bank s) (mod_addr E pool_collateral) d)
     \<and> (\<forall>d \<in> known s. get_redemption_sum s d \<le> bal E (bank s) (mod_addr E pool_redemption) d)"

text \<open>The module accounts are different accounts.\<close>

definition mm_accounts :: "'b env \<Rightarrow> bool" where
  "mm_accounts E \<longleftrightarrow> distinct (map (mod_addr E) [pool_collateral, pool_redemption, pool_vault, mm_module, pool_reserve])"

text \<open>Nobody signs for the two accounts that hold coins for others.\<close>

definition user :: "'b env \<Rightarrow> string \<Rightarrow> addr \<Rightarrow> bool" where
  "user E c a \<longleftrightarrow> acc_of E c = Some a \<and> a \<noteq> mod_addr E pool_collateral \<and> a \<noteq> mod_addr E pool_redemption"

lemma mm_okD:
  assumes "mm_ok E s"
  shows "wf_denoms (dparams s)" "collaterals_ok (known s) s" "redemptions_ok (known s) s" "loans_ok (known s) s"
    "d \<in> known s \<Longrightarrow> get_collateral_sum s d \<le> bal E (bank s) (mod_addr E pool_collateral) d"
    "d \<in> known s \<Longrightarrow> get_redemption_sum s d \<le> bal E (bank s) (mod_addr E pool_redemption) d"
  using assms unfolding mm_ok_def by blast+

lemma mm_accountsD:
  assumes "mm_accounts E"
  shows "mod_addr E pool_vault \<noteq> mod_addr E pool_collateral" "mod_addr E pool_vault \<noteq> mod_addr E pool_redemption"
    "mod_addr E mm_module \<noteq> mod_addr E pool_collateral" "mod_addr E mm_module \<noteq> mod_addr E pool_redemption"
    "mod_addr E pool_reserve \<noteq> mod_addr E pool_collateral" "mod_addr E pool_reserve \<noteq> mod_addr E pool_redemption"
    "mod_addr E pool_redemption \<noteq> mod_addr E pool_collateral" "mod_addr E pool_collateral \<noteq> mod_addr E pool_redemption"
  using assms by (auto simp: mm_accounts_def)

text \<open>What depends on the stores only.\<close>

lemma stores_bank [simp]:
  "get_collateral_sum (s\<lparr>bank := b\<rparr>) d = get_collateral_sum s d" "get_redemption_sum (s\<lparr>bank := b\<rparr>) d = get_redemption_sum s d"
  "get_loans_sum (s\<lparr>bank := b\<rparr>) d = get_loans_sum s d"
  "collaterals_ok D (s\<lparr>bank := b\<rparr>) = collaterals_ok D s" "redemptions_ok D (s\<lparr>bank := b\<rparr>) = redemptions_ok D s"
  "loans_ok D (s\<lparr>bank := b\<rparr>) = loans_ok D s"
  "get_redemption (s\<lparr>bank := b\<rparr>) d a = get_redemption s d a"
  by (simp_all add: get_redemption_def get_collateral_sum_def get_redemption_sum_def get_loans_sum_def collaterals_ok_def redemptions_ok_def loans_ok_def)

lemma set_collateral_frame [simp]:
  "bank (set_collateral d c s) = bank s" "dparams (set_collateral d c s) = dparams s"
  "get_redemption_sum (set_collateral d c s) d' = get_redemption_sum s d'"
  "get_loans_sum (set_collateral d c s) d' = get_loans_sum s d'"
  "redemptions_ok D (set_collateral d c s) = redemptions_ok D s" "loans_ok D (set_collateral d c s) = loans_ok D s"
  by (simp_all add: set_collateral_eq get_redemption_sum_def get_loans_sum_def redemptions_ok_def loans_ok_def)

lemma set_redemption_frame [simp]:
  "bank (set_redemption d r s) = bank s" "dparams (set_redemption d r s) = dparams s"
  "get_collateral_sum (set_redemption d r s) d' = get_collateral_sum s d'"
  "get_loans_sum (set_redemption d r s) d' = get_loans_sum s d'"
  "collaterals_ok D (set_redemption d r s) = collaterals_ok D s" "loans_ok D (set_redemption d r s) = loans_ok D s"
  by (simp_all add: set_redemption_eq get_collateral_sum_def get_loans_sum_def collaterals_ok_def loans_ok_def)

lemma set_loan_frame [simp]:
  "bank (set_loan d l s) = bank s" "dparams (set_loan d l s) = dparams s"
  "get_collateral_sum (set_loan d l s) d' = get_collateral_sum s d'"
  "get_redemption_sum (set_loan d l s) d' = get_redemption_sum s d'"
  "collaterals_ok D (set_loan d l s) = collaterals_ok D s" "redemptions_ok D (set_loan d l s) = redemptions_ok D s"
  by (simp_all add: set_loan_eq get_collateral_sum_def get_redemption_sum_def collaterals_ok_def redemptions_ok_def)

lemma mm_ok_bank:
  assumes "mm_ok E s" "t = s\<lparr>bank := bank t\<rparr>"
    and "\<And>d. bal E (bank s) (mod_addr E pool_collateral) d \<le> bal E (bank t) (mod_addr E pool_collateral) d"
    and "\<And>d. bal E (bank s) (mod_addr E pool_redemption) d \<le> bal E (bank t) (mod_addr E pool_redemption) d"
  shows "mm_ok E t"
proof -
  obtain b where b: "t = s\<lparr>bank := b\<rparr>" using assms(2) by blast
  have "get_collateral_sum s d \<le> bal E b (mod_addr E pool_collateral) d" if "d \<in> known s" for d
    using mm_okD(5) [OF assms(1) that] assms(3) [of d] b by simp
  moreover have "get_redemption_sum s d \<le> bal E b (mod_addr E pool_redemption) d" if "d \<in> known s" for d
    using mm_okD(6) [OF assms(1) that] assms(4) [of d] b by simp
  ultimately show ?thesis using mm_okD(1-4) [OF assms(1)] by (simp add: b mm_ok_def)
qed

lemma wf_denoms_known:
  assumes "wf_denoms p"
  shows "is_valid_collateral_denom p d \<Longrightarrow> d \<in> set (denoms p)"
    and "get_casset_by_name p d = Inr c \<Longrightarrow> ca_name c = d \<and> d \<in> set (denoms p) \<and> ca_base c \<in> set (denoms p)"
    and "get_casset_by_base_name p d = Inr c \<Longrightarrow> ca_base c = d \<and> d \<in> set (denoms p) \<and> ca_name c \<in> set (denoms p)"
    and "c \<in> set (cassets p) \<Longrightarrow> ca_base c \<in> set (denoms p) \<and> ca_name c \<in> set (denoms p)"
  using assms by (auto simp: wf_denoms_def wf_collateral_denom_def wf_casset_def is_valid_collateral_denom_def denoms_def
      get_casset_by_name_def get_casset_by_base_name_def list_ex_iff dest!: find_Some_inD)

section \<open>The messages\<close>

lemma get_collateral_or_new:
  fixes d :: denom
  assumes "collaterals_ok D s" "slash_free a"
  defines "c \<equiv> case get_collateral s d a of None \<Rightarrow> \<lparr>co_address = a, co_amount = 0\<rparr> | Some c \<Rightarrow> c"
  shows "co_address c = a" "co_amount c = weight co_amount (get_collateral s d a)" "0 \<le> co_amount c"
  using coll.entry_owner [OF assms(1,2), of d] coll.entry_pos [OF assms(1), of d a]
  by (cases "get_collateral s d a"; force simp: c_def)+

lemma add_collateral_ok:
  assumes E: "sdk E" and s: "mm_ok E s" and u: "user E creator a"
    and r: "add_collateral E creator d amt_str s = (Inr u, t)" and acc: "mm_accounts E"
  shows "mm_ok E t"
proof -
  from r obtain amt b c where d: "is_valid_collateral_denom (dparams s) d" and amt: "mm_parse_amount E amt_str False = Inr amt"
    and c: "c = (case get_collateral s d creator of None \<Rightarrow> \<lparr>co_address = creator, co_amount = 0\<rparr> | Some c \<Rightarrow> c)"
    and t: "send_acc_mod E a pool_collateral d amt (set_collateral d (c\<lparr>co_amount := co_amount c + amt\<rparr>) s) = (Inr u, t)"
    using u by (auto simp: add_collateral_def Let_def user_def elim!: bindS_InrE)
  let ?v = "c\<lparr>co_amount := co_amount c + amt\<rparr>"
  have known: "d \<in> known s" using wf_denoms_known(1) [OF mm_okD(1) [OF s] d] .
  have sf: "slash_free creator" using u sdk.acc_law [OF E] by (auto simp: user_def)
  have a: "a \<noteq> mod_addr E pool_collateral" "a \<noteq> mod_addr E pool_redemption" using u by (simp_all add: user_def)
  note g = get_collateral_or_new [OF mm_okD(2) [OF s] sf, of d, folded c]
  note m = sdk.send_acc_mod_ok [OF E t]
  have n: "0 \<le> amt" by (rule m)
  obtain b where b: "t = (set_collateral d ?v s)\<lparr>bank := b\<rparr>" using m(4) by blast
  have bal: "bal E b x d' = bal E (bank s) x d' - (if x = a \<and> d' = d then amt else 0)
      + (if x = mod_addr E pool_collateral \<and> d' = d then amt else 0)" for x d'
    using m(2) [of x d'] by (simp add: b)
  have "get_collateral_sum (set_collateral d ?v s) d' \<le> bal E b (mod_addr E pool_collateral) d'" if "d' \<in> known s" for d'
    by (rule coll.covered_change [OF mm_okD(2) [OF s] known _ _ _ mm_okD(5) [OF s]])
      (use g sf n that bal a in auto)
  moreover have "get_redemption_sum s d' \<le> bal E b (mod_addr E pool_redemption) d'" if "d' \<in> known s" for d'
    using mm_okD(6) [OF s that] bal a mm_accountsD [OF acc] by auto
  ultimately show ?thesis
    using mm_okD(1-4) [OF s] coll.ok_put [OF mm_okD(2) [OF s] known, of ?v] g(1) sf by (simp add: mm_ok_def b)
qed

lemma remove_collateral_ok:
  assumes E: "sdk E" and s: "mm_ok E s" and u: "user E creator a"
    and r: "remove_collateral E creator d amt_str s = (Inr u, t)" and acc: "mm_accounts E"
  shows "mm_ok E t"
proof -
  from r obtain amt c where d: "is_valid_collateral_denom (dparams s) d" and amt: "mm_parse_amount E amt_str False = Inr amt"
    and c: "get_collateral s d creator = Some c" "0 \<le> co_amount c - amt"
    and t: "send_mod_acc E pool_collateral a d amt (set_collateral d (c\<lparr>co_amount := co_amount c - amt\<rparr>) s) = (Inr u, t)"
    using u by (auto simp: remove_collateral_def Let_def user_def elim!: bindS_InrE)
  let ?v = "c\<lparr>co_amount := co_amount c - amt\<rparr>"
  have known: "d \<in> known s" using wf_denoms_known(1) [OF mm_okD(1) [OF s] d] .
  have sf: "slash_free creator" using u sdk.acc_law [OF E] by (auto simp: user_def)
  have g: "co_address c = creator" by (rule coll.entry_owner [OF mm_okD(2) [OF s] sf c(1)])
  have a: "a \<noteq> mod_addr E pool_collateral" "a \<noteq> mod_addr E pool_redemption" using u by (simp_all add: user_def)
  note m = sdk.send_mod_acc_ok [OF E t]
  obtain b where b: "t = (set_collateral d ?v s)\<lparr>bank := b\<rparr>" using m(4) by blast
  have bal: "bal E b x d' = bal E (bank s) x d' - (if x = mod_addr E pool_collateral \<and> d' = d then amt else 0)
      + (if x = a \<and> d' = d then amt else 0)" for x d'
    using m(2) [of x d'] by (simp add: b)
  have "get_collateral_sum (set_collateral d ?v s) d' \<le> bal E b (mod_addr E pool_collateral) d'" if "d' \<in> known s" for d'
    by (rule coll.covered_change [OF mm_okD(2) [OF s] known _ _ _ mm_okD(5) [OF s], where n = "- amt"])
      (use g sf c that bal a in auto)
  moreover have "get_redemption_sum s d' \<le> bal E b (mod_addr E pool_redemption) d'" if "d' \<in> known s" for d'
    using mm_okD(6) [OF s that] bal a mm_accountsD [OF acc] by auto
  ultimately show ?thesis
    using mm_okD(1-4) [OF s] coll.ok_put [OF mm_okD(2) [OF s] known, of ?v] g(1) sf by (simp add: mm_ok_def b)
qed

text \<open>Transfers that take nothing from the two accounts.\<close>

abbreviation held_accounts :: "'b env \<Rightarrow> addr set" where
  "held_accounts E \<equiv> {mod_addr E pool_collateral, mod_addr E pool_redemption}"

lemma mm_ok_transfers:
  assumes "sdk E" "mm_ok E s"
  shows "send_acc_mod E a m d n s = (Inr u, t) \<Longrightarrow> a \<notin> held_accounts E \<Longrightarrow> mm_ok E t"
    and "send_mod_acc E m a d n s = (Inr u, t) \<Longrightarrow> mod_addr E m \<notin> held_accounts E \<Longrightarrow> mm_ok E t"
    and "send_mod_mod E m m' d n s = (Inr u, t) \<Longrightarrow> mod_addr E m \<notin> held_accounts E \<Longrightarrow> mm_ok E t"
    and "mint_coins E m d n s = (Inr u, t) \<Longrightarrow> mm_ok E t"
    and "burn_coins E m d n s = (Inr u, t) \<Longrightarrow> mod_addr E m \<notin> held_accounts E \<Longrightarrow> mm_ok E t"
proof -
  show "mm_ok E t" if t: "send_acc_mod E a m d n s = (Inr u, t)" "a \<notin> held_accounts E"
    using sdk.send_acc_mod_ok(1,2) [OF assms(1) t(1)] t(2)
    by (intro mm_ok_bank [OF assms(2) sdk.send_acc_mod_ok(4) [OF assms(1) t(1)]]) auto
  show "mm_ok E t" if t: "send_mod_acc E m a d n s = (Inr u, t)" "mod_addr E m \<notin> held_accounts E"
    using sdk.send_mod_acc_ok(1,2) [OF assms(1) t(1)] t(2)
    by (intro mm_ok_bank [OF assms(2) sdk.send_mod_acc_ok(4) [OF assms(1) t(1)]]) auto
  show "mm_ok E t" if t: "send_mod_mod E m m' d n s = (Inr u, t)" "mod_addr E m \<notin> held_accounts E"
    using sdk.send_mod_mod_ok(1,2) [OF assms(1) t(1)] t(2)
    by (intro mm_ok_bank [OF assms(2) sdk.send_mod_mod_ok(4) [OF assms(1) t(1)]]) auto
  show "mm_ok E t" if t: "mint_coins E m d n s = (Inr u, t)"
    using sdk.mint_coins_ok(1,2) [OF assms(1) t]
    by (intro mm_ok_bank [OF assms(2) sdk.mint_coins_ok(4) [OF assms(1) t]]) auto
  show "mm_ok E t" if t: "burn_coins E m d n s = (Inr u, t)" "mod_addr E m \<notin> held_accounts E"
    using sdk.burn_coins_ok(1,2) [OF assms(1) t(1)] t(2)
    by (intro mm_ok_bank [OF assms(2) sdk.burn_coins_ok(4) [OF assms(1) t(1)]]) auto
qed

lemma mm_ok_set_loan:
  assumes "mm_ok E s" "d \<in> known s" "slash_free (ln_address l)"
  shows "mm_ok E (set_loan d l s)"
  using mm_okD [OF assms(1)] loan.ok_put [OF mm_okD(4) [OF assms(1)] assms(2,3)] by (simp add: mm_ok_def)

lemma held_accountsD:
  "mm_accounts E \<Longrightarrow> mod_addr E pool_vault \<notin> held_accounts E"
  "mm_accounts E \<Longrightarrow> mod_addr E mm_module \<notin> held_accounts E"
  "mm_accounts E \<Longrightarrow> mod_addr E pool_reserve \<notin> held_accounts E"
  "user E c a \<Longrightarrow> a \<notin> held_accounts E"
  by (auto simp: mm_accounts_def user_def)

lemma add_deposit_ok:
  assumes "sdk E" "mm_ok E s" "user E creator a" "mm_accounts E"
    and r: "add_deposit E creator d amt_str s = (Inr u, t)"
  shows "mm_ok E t"
proof -
  from r assms(3) obtain amt v w tokens and c :: casset where v: "send_acc_mod E a pool_vault d amt s = (Inr (), v)"
    and w: "mint_coins E mm_module (ca_name c) tokens v = (Inr (), w)"
    and t: "send_mod_acc E mm_module a (ca_name c) tokens w = (Inr u, t)"
    by (auto simp: add_deposit_def user_def elim!: bindS_InrE)
  have "mm_ok E v" by (rule mm_ok_transfers(1) [OF assms(1,2) v held_accountsD(4) [OF assms(3)]])
  then have "mm_ok E w" by (rule mm_ok_transfers(4) [OF assms(1) _ w])
  then show ?thesis by (rule mm_ok_transfers(2) [OF assms(1) _ t held_accountsD(2) [OF assms(4)]])
qed

lemma borrow_ok:
  assumes "sdk E" "mm_ok E s" "user E creator a" "mm_accounts E"
    and r: "borrow E creator d amt_str s = (Inr u, t)"
  shows "mm_ok E t"
proof -
  from r assms(3) obtain c amt n l where c: "get_casset_by_base_name (dparams s) d = Inr c"
    and l: "l = (case get_loan s d creator of None \<Rightarrow> \<lparr>ln_index = 0, ln_address = creator, ln_amount = 0\<rparr> | Some l \<Rightarrow> l)"
    and t: "send_mod_acc E pool_vault a d n (set_loan d (l\<lparr>ln_amount := ln_amount l + amt\<rparr>) s) = (Inr u, t)"
    by (auto simp: borrow_def user_def Let_def elim!: bindS_InrE split: sum.splits)
  have sf: "slash_free creator" using assms(3) sdk.acc_law [OF assms(1)] by (auto simp: user_def)
  have "ln_address l = creator"
    using loan.entry_owner [OF mm_okD(4) [OF assms(2)] sf, of d] by (auto simp: l split: option.splits)
  then have "mm_ok E (set_loan d (l\<lparr>ln_amount := ln_amount l + amt\<rparr>) s)"
    using wf_denoms_known(3) [OF mm_okD(1) [OF assms(2)] c] sf by (intro mm_ok_set_loan assms(2)) simp_all
  then show ?thesis by (rule mm_ok_transfers(2) [OF assms(1) _ t held_accountsD(1) [OF assms(4)]])
qed

lemma repay_ok:
  assumes "sdk E" "mm_ok E s" "user E creator a"
    and r: "repay E d creator amt s = (Inr u, t)"
  shows "mm_ok E t"
proof -
  from r assms(3) obtain l n k where l: "get_loan s d creator = Some l"
    and t: "send_acc_mod E a pool_vault d n (set_loan d (l\<lparr>ln_amount := k\<rparr>) s) = (Inr u, t)"
    by (auto simp: repay_def user_def Let_def elim!: bindS_InrE)
  have sf: "slash_free creator" using assms(3) sdk.acc_law [OF assms(1)] by (auto simp: user_def)
  have "entries_ok ln_address ln_amount (known s) (loans s)" using mm_okD(4) [OF assms(2)] by (simp add: loans_ok_def)
  note o = entries_owner [OF this sf l [unfolded get_loan_def]]
  then have "mm_ok E (set_loan d (l\<lparr>ln_amount := k\<rparr>) s)"
    using sf by (intro mm_ok_set_loan assms(2)) simp_all
  then show ?thesis by (rule mm_ok_transfers(1) [OF assms(1) _ t held_accountsD(4) [OF assms(3)]])
qed

text \<open>A request is written together with a transfer of \<open>n\<close> into the account of the requests.\<close>

lemma mm_ok_set_redemption:
  assumes s: "mm_ok E s" and "d \<in> known s" "slash_free (rd_address r)"
    and b: "bank t = bank s" "t = set_redemption d r s"
    and n: "\<And>d'. d' \<in> known s \<Longrightarrow> get_redemption_sum s d'
          + (if d' = d then max 0 (rd_amount r) - weight rd_amount (get_redemption s d (rd_address r)) else 0)
        \<le> bal E (bank s) (mod_addr E pool_redemption) d'"
  shows "mm_ok E t"
  using mm_okD [OF s] red.ok_put [OF mm_okD(3) [OF s] assms(2,3)] red.tally_put [OF mm_okD(3) [OF s] assms(2) _ assms(3)] n
  by (simp add: mm_ok_def b(2))

lemma create_redemption_request_ok:
  assumes E: "sdk E" and s: "mm_ok E s" and a: "user E creator a" and acc: "mm_accounts E"
    and r: "create_redemption_request E creator d amt_str fee_str s = (Inr u, t)"
  shows "mm_ok E t"
proof -
  have ae: "acc_or_empty E creator = a" using a by (simp add: user_def acc_or_empty_def)
  from r obtain amt c v fee where c: "get_casset_by_name (dparams s) d = Inr c" and amt: "mm_parse_amount E amt_str False = Inr amt"
    and v: "send_acc_mod E a pool_redemption (ca_name c) amt s = (Inr (), v)"
    and t: "t = set_redemption (ca_name c) \<lparr>rd_address = creator, rd_added_at = height v, rd_amount = amt, rd_fee = fee\<rparr> v"
    by (auto simp: create_redemption_request_def ae elim!: bindS_InrE)
  note m = sdk.send_acc_mod_ok [OF E v]
  have vk: "mm_ok E v" by (rule mm_ok_transfers(1) [OF E s v held_accountsD(4) [OF a]])
  obtain b where b: "v = s\<lparr>bank := b\<rparr>" using m(4) by blast
  have f: "dparams v = dparams s" by (simp add: b)
  have k: "ca_name c \<in> known v" using wf_denoms_known(2) [OF mm_okD(1) [OF s] c] f by simp
  have n: "0 \<le> amt" by (rule m)
  have sf: "slash_free creator" using a sdk.acc_law [OF E] by (auto simp: user_def)
  have w: "0 \<le> weight rd_amount (get_redemption v (ca_name c) creator)"
    using red.entry_pos [OF mm_okD(3) [OF vk], of "ca_name c" creator] by (cases "get_redemption v (ca_name c) creator") fastforce+
  have bal: "bal E (bank v) (mod_addr E pool_redemption) d' = bal E (bank s) (mod_addr E pool_redemption) d' + (if d' = ca_name c then amt else 0)" for d'
    using m(2) [of "mod_addr E pool_redemption" d'] a by (auto simp: user_def)
  have su: "get_redemption_sum v d' = get_redemption_sum s d'" for d' by (simp add: b)
  have q: "get_redemption_sum v d' + (if d' = ca_name c then max 0 amt - weight rd_amount (get_redemption v (ca_name c) creator) else 0)
      \<le> bal E (bank v) (mod_addr E pool_redemption) d'" if "d' \<in> known v" for d'
    using mm_okD(6) [OF s, of d'] that w n by (cases "d' = ca_name c") (simp_all add: su bal f)
  show ?thesis
  proof (rule mm_ok_set_redemption [OF vk k _ _ t], goal_cases)
    case (3 d')
    from q [OF this] show ?case by (simp cong: if_cong)
  qed (simp_all add: sf t)
qed

lemma cancel_redemption_request_ok:
  assumes E: "sdk E" and s: "mm_ok E s" and a: "user E creator a" and acc: "mm_accounts E"
    and r: "cancel_redemption_request E creator d s = (Inr u, t)"
  shows "mm_ok E t"
proof -
  have ae: "acc_or_empty E creator = a" using a by (simp add: user_def acc_or_empty_def)
  from r obtain c v x where c: "get_casset_by_name (dparams s) d = Inr c" and x: "get_redemption s d creator = Some x"
    and v: "send_mod_acc E pool_redemption a (ca_name c) (rd_amount x) s = (Inr (), v)" and t: "t = remove_redemption d creator v"
    by (auto simp: cancel_redemption_request_def ae elim!: bindS_InrE)
  note m = sdk.send_mod_acc_ok [OF E v]
  have cd: "ca_name c = d" "d \<in> known s" using wf_denoms_known(2) [OF mm_okD(1) [OF s] c] by simp_all
  have sf: "slash_free creator" using a sdk.acc_law [OF E] by (auto simp: user_def)
  let ?z = "\<lparr>rd_address = creator, rd_added_at = 0, rd_amount = 0, rd_fee = 0\<rparr>"
  obtain b where b: "v = s\<lparr>bank := b\<rparr>" using m(4) by blast
  have t': "t = (set_redemption d ?z s)\<lparr>bank := b\<rparr>"
    by (simp add: t b remove_redemption_def set_redemption_def)
  have bal: "bal E b y d' = bal E (bank s) y d' - (if y = mod_addr E pool_redemption \<and> d' = d then rd_amount x else 0)
      + (if y = a \<and> d' = d then rd_amount x else 0)" for y d'
    using m(2) [of y d'] by (simp add: b cd)
  have "get_redemption_sum (set_redemption d ?z s) d' \<le> bal E b (mod_addr E pool_redemption) d'" if "d' \<in> known s" for d'
    using red.tally_remove [OF mm_okD(3) [OF s] cd(2) that, of ?z] mm_okD(6) [OF s that] sf x bal a
    by (auto simp: user_def)
  moreover have "get_collateral_sum s d' \<le> bal E b (mod_addr E pool_collateral) d'" if "d' \<in> known s" for d'
    using mm_okD(5) [OF s that] bal a mm_accountsD [OF acc] by (auto simp: user_def)
  ultimately show ?thesis
    using mm_okD(1-4) [OF s] red.ok_put [OF mm_okD(3) [OF s] cd(2), of ?z] sf by (simp add: mm_ok_def t')
qed

lemma update_redemption_request_ok:
  assumes E: "sdk E" and s: "mm_ok E s" and a: "user E creator a" and acc: "mm_accounts E"
    and r: "update_redemption_request E creator d amt_str fee_str s = (Inr u, t)"
  shows "mm_ok E t"
proof -
  have ae: "acc_or_empty E creator = a" using a by (simp add: user_def acc_or_empty_def)
  from r obtain amt c v w x fee where c: "get_casset_by_name (dparams s) d = Inr c" and x: "get_redemption s d creator = Some x"
    and v: "send_mod_acc E pool_redemption a (ca_name c) (rd_amount x) s = (Inr (), v)"
    and w: "send_acc_mod E a pool_redemption (ca_name c) amt v = (Inr (), w)"
    and t: "t = set_redemption d (x\<lparr>rd_fee := fee, rd_amount := amt\<rparr>) w"
    by (auto simp: update_redemption_request_def ae elim!: bindS_InrE)
  note m = sdk.send_mod_acc_ok [OF E v] and m' = sdk.send_acc_mod_ok [OF E w]
  have cd: "ca_name c = d" "d \<in> known s" using wf_denoms_known(2) [OF mm_okD(1) [OF s] c] by simp_all
  have sf: "slash_free creator" using a sdk.acc_law [OF E] by (auto simp: user_def)
  let ?z = "x\<lparr>rd_fee := fee, rd_amount := amt\<rparr>"
  have o: "rd_address x = creator" by (rule red.entry_owner [OF mm_okD(3) [OF s] sf x])
  obtain b0 where b0: "v = s\<lparr>bank := b0\<rparr>" using m(4) by blast
  obtain b where b: "w = s\<lparr>bank := b\<rparr>" using m'(4) b0 by auto
  have t': "t = (set_redemption d ?z s)\<lparr>bank := b\<rparr>"
    by (simp add: t b remove_redemption_def set_redemption_def)
  have bal: "bal E b y d' = bal E (bank s) y d' - (if y = mod_addr E pool_redemption \<and> d' = d then rd_amount x else 0)
      + (if y = a \<and> d' = d then rd_amount x else 0) - (if y = a \<and> d' = d then amt else 0)
      + (if y = mod_addr E pool_redemption \<and> d' = d then amt else 0)" for y d'
    using m(2) [of y d'] m'(2) [of y d'] by (simp add: b b0 cd)
  have n: "0 \<le> amt" by (rule m')
  have "get_redemption_sum (set_redemption d ?z s) d' \<le> bal E b (mod_addr E pool_redemption) d'" if "d' \<in> known s" for d'
    using red.tally_put [OF mm_okD(3) [OF s] cd(2) that, of ?z] mm_okD(6) [OF s that] sf x bal a o n
    by (auto simp: user_def)
  moreover have "get_collateral_sum s d' \<le> bal E b (mod_addr E pool_collateral) d'" if "d' \<in> known s" for d'
    using mm_okD(5) [OF s that] bal a mm_accountsD [OF acc] by (auto simp: user_def)
  ultimately show ?thesis
    using mm_okD(1-4) [OF s] red.ok_put [OF mm_okD(3) [OF s] cd(2), of ?z] sf o by (simp add: mm_ok_def t')
qed

section \<open>Interest\<close>

lemma apply_interest_for_loans_ok:
  assumes s: "mm_ok E s" and c: "c \<in> set (cassets (dparams s))"
  shows "mm_ok E (snd (apply_interest_for_loans E c s)) \<and> dparams (snd (apply_interest_for_loans E c s)) = dparams s"
proof -
  have d: "ca_base c \<in> known s" using wf_denoms_known(4) [OF mm_okD(1) [OF s] c] by simp
  have fold: "mm_ok E (foldl (\<lambda>s l. set_loan (ca_base c) (accrue_loan E c rate l) s) v ls)
      \<and> dparams (foldl (\<lambda>s l. set_loan (ca_base c) (accrue_loan E c rate l) s) v ls) = dparams v"
    if "mm_ok E v" "dparams v = dparams s" "\<forall>l \<in> set ls. slash_free (ln_address l)" for ls rate and v :: "('a, 'b) mm_world_scheme"
    using that
  proof (induction ls arbitrary: v)
    case (Cons l ls)
    have a: "ln_address (accrue_loan E c rate l) = ln_address l" by (simp add: accrue_loan_def split: option.split)
    have "mm_ok E (set_loan (ca_base c) (accrue_loan E c rate l) v)"
      using Cons.prems d by (intro mm_ok_set_loan) (simp_all add: a)
    then show ?case using Cons.IH Cons.prems by simp
  qed simp
  have "slash_free (ln_address l)" if l: "l \<in> set (get_all_loans_by_denom s (ca_base c))" for l
    using entries_listed(2) [OF mm_okD(4) [OF s, unfolded loans_ok_def] d] l by (simp add: get_all_loans_by_denom_def)
  then show ?thesis
    using fold [OF s refl] s
    by (auto simp: apply_interest_for_loans_def Let_def bindS_def split: sum.splits prod.splits)
qed

lemma apply_interest_ok:
  assumes "mm_ok E s"
  shows "mm_ok E (snd (apply_interest E s))"
proof -
  have "mm_ok E (snd (foldS (\<lambda>c _. apply_interest_for_loans E c) (cassets (dparams s)) () s))
      \<and> dparams (snd (foldS (\<lambda>c _. apply_interest_for_loans E c) (cassets (dparams s)) () s)) = dparams s"
  proof (rule foldS_inv [where P = "\<lambda>t. mm_ok E t \<and> dparams t = dparams s"])
    fix c u and t :: "('a, 'b) mm_world_scheme"
    assume "c \<in> set (cassets (dparams s))" "mm_ok E t \<and> dparams t = dparams s"
    then show "mm_ok E (snd (apply_interest_for_loans E c t)) \<and> dparams (snd (apply_interest_for_loans E c t)) = dparams s"
      using apply_interest_for_loans_ok [of E t c] by simp
  qed (simp add: assms)
  then show ?thesis by (simp add: apply_interest_def get_cassets_def)
qed

section \<open>Redemptions\<close>

text \<open>Steps that change nothing but the bank, and take nothing from the two accounts.\<close>

definition grows :: "'b env \<Rightarrow> ('b, 'z) world_scheme \<Rightarrow> ('b, 'z) world_scheme \<Rightarrow> bool" where
  "grows E s t \<longleftrightarrow> t = s\<lparr>bank := bank t\<rparr> \<and> (\<forall>x \<in> held_accounts E. \<forall>d. bal E (bank s) x d \<le> bal E (bank t) x d)"

lemma grows_refl [simp]: "grows E s s"
  by (simp add: grows_def)

lemma grows_trans:
  assumes "grows E s v" "grows E v t"
  shows "grows E s t"
proof -
  have "t = s\<lparr>bank := bank t\<rparr>" by (rule bank_frame_trans [of v]) (use assms in \<open>simp_all add: grows_def\<close>)
  with assms show ?thesis unfolding grows_def by (meson order_trans)
qed

lemma grows_mm_ok: "grows E s t \<Longrightarrow> mm_ok E s \<Longrightarrow> mm_ok E t"
  by (rule mm_ok_bank) (auto simp: grows_def)

lemma growsI:
  assumes "\<And>u. x = Inr u \<Longrightarrow> t = s\<lparr>bank := bank t\<rparr>" "\<And>e. x = Inl e \<Longrightarrow> t = s"
    and "\<And>u y d. x = Inr u \<Longrightarrow> y \<in> held_accounts E \<Longrightarrow> bal E (bank s) y d \<le> bal E (bank t) y d"
  shows "grows E s t"
proof (cases x)
  case (Inl e)
  then show ?thesis using assms(2) by simp
next
  case (Inr u)
  then show ?thesis using assms(1,3) unfolding grows_def by blast
qed

lemma transfers_grow:
  assumes "sdk E"
  shows "send_mod_acc E m a d n s = (x, t) \<Longrightarrow> mod_addr E m \<notin> held_accounts E \<Longrightarrow> grows E s t"
    and "send_mod_mod E m m' d n s = (x, t) \<Longrightarrow> mod_addr E m \<notin> held_accounts E \<Longrightarrow> grows E s t"
    and "burn_coins E m d n s = (x, t) \<Longrightarrow> mod_addr E m \<notin> held_accounts E \<Longrightarrow> grows E s t"
proof -
  show "grows E s t" if t: "send_mod_acc E m a d n s = (x, t)" "mod_addr E m \<notin> held_accounts E"
  proof (rule growsI [of x])
    fix u assume "x = Inr u"
    note o = sdk.send_mod_acc_ok(1,2,4) [OF assms t(1) [unfolded this]]
    show "t = s\<lparr>bank := bank t\<rparr>" by (rule o)
    show "bal E (bank s) y d' \<le> bal E (bank t) y d'" if "y \<in> held_accounts E" for y d'
      using that t(2) o(1) o(2) [of y d'] by auto
  qed (use t bank_ops_fail(3) in auto)
  show "grows E s t" if t: "send_mod_mod E m m' d n s = (x, t)" "mod_addr E m \<notin> held_accounts E"
  proof (rule growsI [of x])
    fix u assume "x = Inr u"
    note o = sdk.send_mod_mod_ok(1,2,4) [OF assms t(1) [unfolded this]]
    show "t = s\<lparr>bank := bank t\<rparr>" by (rule o)
    show "bal E (bank s) y d' \<le> bal E (bank t) y d'" if "y \<in> held_accounts E" for y d'
      using that t(2) o(1) o(2) [of y d'] by auto
  qed (use t bank_ops_fail(4) in auto)
  show "grows E s t" if t: "burn_coins E m d n s = (x, t)" "mod_addr E m \<notin> held_accounts E"
  proof (rule growsI [of x])
    fix u assume "x = Inr u"
    note o = sdk.burn_coins_ok(1,2,4) [OF assms t(1) [unfolded this]]
    show "t = s\<lparr>bank := bank t\<rparr>" by (rule o)
    show "bal E (bank s) y d' \<le> bal E (bank t) y d'" if "y \<in> held_accounts E" for y d'
      using that t(2) o(1) o(2) [of y d'] by auto
  qed (use t bank_ops_fail(6) in auto)
qed

lemma handle_redemption_fee_grows:
  assumes "sdk E" "mm_accounts E" "handle_redemption_fee E c amt s = (x, t)"
  shows "grows E s t"
  using assms(3) transfers_grow(2) [OF assms(1) _ held_accountsD(1) [OF assms(2)]]
  by (cases "protocol_share (mparams s)") (auto simp: handle_redemption_fee_def nilR_def split: if_splits)

lemma redemption_amounts:
  assumes E: "decimal E" and "0 < available" "0 \<le> requested"
    and r: "calculate_available_redemption_amount E s c requested available = Inr (gross, used)"
  shows "0 \<le> used" "used \<le> requested" "gross \<le> available"
proof -
  from r obtain w where v: "w \<noteq> 0" "gross = min w available" "used = dmul E requested (dquo E gross w)"
    by (auto simp: calculate_available_redemption_amount_def Let_def quoR_Inr_iff elim!: bindR_InrE)
  then show "gross \<le> available" by simp
  have "0 \<le> dquo E gross w \<and> dquo E gross w \<le> dec_one"
  proof (cases "0 < w")
    case True
    with v(2) assms(2) have "0 \<le> gross" "gross \<le> w" by auto
    then show ?thesis using True v(1) decimal.quo_nonneg [OF E _ True] decimal.quo_mono [OF E _ True, of gross w] decimal.quo_self [OF E]
      by fastforce
  next
    case False
    with v(1,2) assms(2) have "gross = w" by auto
    with v(1) show ?thesis using decimal.quo_self [OF E] by simp
  qed
  then show "0 \<le> used" "used \<le> requested"
    using decimal.mul_nonneg [OF E assms(3)] decimal.mul_le_left [OF E assms(3)] by (auto simp: v(3))
qed

lemma redemption_rounding:
  assumes E: "decimal E" and "0 \<le> used" "used \<le> to_dec n"
  shows "dtrunc E used \<le> n - max 0 (n - dround E used)"
proof -
  have "dtrunc E used \<le> dround E used"
    using decimal.round_mono [OF E decimal.trunc_le [OF E assms(2)]] by (simp add: decimal.round_to_dec [OF E])
  moreover have "dtrunc E used \<le> n"
    using decimal.trunc_mono [OF E assms(3)] by (simp add: decimal.trunc_to_dec [OF E])
  ultimately show ?thesis by simp
qed

lemma get_set_redemption:
  assumes "redemptions_ok D s" "slash_free (rd_address r)" "slash_free a" "a \<noteq> rd_address r"
  shows "get_redemption (set_redemption d r s) d a = get_redemption s d a"
  using assms key_denom_address_inj [OF assms(3,2), of d d]
  by (auto simp: get_redemption_def set_redemption_eq redemptions_ok_def entries_put_get)

text \<open>The request is lowered by the rounded number of tokens, and the truncated number leaves the account.\<close>

lemma redeem_lower:
  assumes E: "sdk E" and s: "mm_ok E s" and c: "c \<in> set (cassets (dparams s))" and av: "0 < available"
    and r: "get_redemption s (ca_name c) (rd_address r) = Some r" "slash_free (rd_address r)"
    and g: "calculate_available_redemption_amount E s c (to_dec (rd_amount r)) available = Inr (gross, used)"
  defines "s1 \<equiv> set_redemption (ca_name c) (r\<lparr>rd_amount := rd_amount r - dround E used\<rparr>) s"
  shows "mm_ok E s1" "0 \<le> dtrunc E used"
    "d' \<in> known s \<Longrightarrow> get_redemption_sum s1 d' + (if d' = ca_name c then dtrunc E used else 0) \<le> bal E (bank s) (mod_addr E pool_redemption) d'"
proof -
  have D: "decimal E" using E by (simp add: sdk_def)
  have k: "ca_name c \<in> known s" using wf_denoms_known(4) [OF mm_okD(1) [OF s] c] by simp
  note pos = red.entry_pos [OF mm_okD(3) [OF s] r(1)]
  note a = redemption_amounts [OF D av _ g]
  have u: "0 \<le> used" "used \<le> to_dec (rd_amount r)" using a pos by simp_all
  note n = redemption_rounding [OF D u]
  show p: "0 \<le> dtrunc E used" by (rule decimal.trunc_nonneg [OF D u(1)])
  have sum: "get_redemption_sum s1 d' = get_redemption_sum s d' + (if d' = ca_name c then max 0 (rd_amount r - dround E used) - rd_amount r else 0)"
    if "d' \<in> known s" for d'
    using red.tally_put [OF mm_okD(3) [OF s] k that, of "r\<lparr>rd_amount := rd_amount r - dround E used\<rparr>"] r by (simp add: s1_def)
  show "get_redemption_sum s1 d' + (if d' = ca_name c then dtrunc E used else 0) \<le> bal E (bank s) (mod_addr E pool_redemption) d'"
    if "d' \<in> known s" for d'
    using sum [OF that] mm_okD(6) [OF s that] n by (cases "d' = ca_name c") simp_all
  then have "get_redemption_sum s1 d' \<le> bal E (bank s) (mod_addr E pool_redemption) d'" if "d' \<in> known s" for d'
    using sum [OF that] mm_okD(6) [OF s that] n p by (cases "d' = ca_name c") simp_all
  then show "mm_ok E s1"
    using mm_okD [OF s] red.ok_put [OF mm_okD(3) [OF s] k, of "r\<lparr>rd_amount := rd_amount r - dround E used\<rparr>"] r(2)
    by (simp add: mm_ok_def s1_def)
qed

lemma redemption_transfers:
  assumes E: "sdk E" and acc: "mm_accounts E"
    and h: "bindS (handle_redemption_fee E c fee s) (\<lambda>_ s.
        bindS (send_mod_acc E pool_vault a b net s) (\<lambda>_ s.
        bindS (send_mod_mod E pool_redemption mm_module n k s) (\<lambda>_ s.
        bindS (burn_coins E mm_module n k s) (\<lambda>_ s. (Inr g, s))))) = (x, t)"
  obtains (none) "grows E s t"
  | (some) v w where "grows E s v" "send_mod_mod E pool_redemption mm_module n k v = (Inr (), w)" "grows E w t"
proof -
  obtain x1 s1 where 1: "handle_redemption_fee E c fee s = (x1, s1)" by (rule prod.exhaust)
  obtain x2 s2 where 2: "send_mod_acc E pool_vault a b net s1 = (x2, s2)" by (rule prod.exhaust)
  obtain x3 s3 where 3: "send_mod_mod E pool_redemption mm_module n k s2 = (x3, s3)" by (rule prod.exhaust)
  obtain x4 s4 where 4: "burn_coins E mm_module n k s3 = (x4, s4)" by (rule prod.exhaust)
  note g1 = handle_redemption_fee_grows [OF E acc 1]
  note g2 = grows_trans [OF g1 transfers_grow(1) [OF E 2 held_accountsD(1) [OF acc]]]
  note g4 = transfers_grow(3) [OF E 4 held_accountsD(2) [OF acc]]
  note f3 = bank_ops_fail(4) [of E pool_redemption mm_module n k s2]
  show thesis
  proof (cases x1; cases x2; cases x3; cases x4)
  qed (use h 1 2 3 4 g1 g2 g4 f3 none some in auto)
qed

lemma redeem_paid:
  assumes E: "sdk E" and acc: "mm_accounts E" and s: "mm_ok E s"
    and v: "grows E s v" and m: "send_mod_mod E pool_redemption mm_module k n v = (Inr (), w)" and w: "grows E w t"
    and sum: "\<And>d'. d' \<in> known s \<Longrightarrow>
      get_redemption_sum s d' + (if d' = k then n else 0) \<le> bal E (bank s) (mod_addr E pool_redemption) d'"
  shows "mm_ok E t" "t = s\<lparr>bank := bank t\<rparr>"
proof -
  note o = sdk.send_mod_mod_ok(1,2,4) [OF E m]
  show t: "t = s\<lparr>bank := bank t\<rparr>"
    by (rule bank_frame_trans [OF bank_frame_trans [of v]]) (use v w o(3) in \<open>unfold grows_def, blast+\<close>)
  obtain b where b: "t = s\<lparr>bank := b\<rparr>" using t by blast
  have c: "bal E (bank s) (mod_addr E pool_collateral) d' \<le> bal E b (mod_addr E pool_collateral) d'"
    and r: "bal E (bank s) (mod_addr E pool_redemption) d' - (if d' = k then n else 0) \<le> bal E b (mod_addr E pool_redemption) d'" for d'
    using v w o(2) [of "mod_addr E pool_collateral" d'] o(2) [of "mod_addr E pool_redemption" d'] mm_accountsD [OF acc]
    by (auto simp: grows_def b dest!: spec [of _ d'] simp del: stores_bank)
  have "get_collateral_sum s d' \<le> bal E b (mod_addr E pool_collateral) d'" if "d' \<in> known s" for d'
    using mm_okD(5) [OF s that] c [of d'] by linarith
  moreover have "get_redemption_sum s d' \<le> bal E b (mod_addr E pool_redemption) d'" if "d' \<in> known s" for d'
    using sum [OF that] r [of d'] by linarith
  ultimately show "mm_ok E t" using mm_okD(1-4) [OF s] by (simp add: mm_ok_def b)
qed

lemma handle_single_redemption_ok:
  assumes E: "sdk E" and s: "mm_ok E s" and acc: "mm_accounts E" and c: "c \<in> set (cassets (dparams s))" and av: "0 < available"
    and r: "get_redemption s (ca_name c) (rd_address r) = Some r" "slash_free (rd_address r)"
    and h: "handle_single_redemption E c r available s = (x, t)"
  shows "mm_ok E t" "dparams t = dparams s"
    "slash_free a \<Longrightarrow> a \<noteq> rd_address r \<Longrightarrow> get_redemption t (ca_name c) a = get_redemption s (ca_name c) a"
proof -
  have *: "mm_ok E t \<and> dparams t = dparams s
      \<and> (\<forall>a. slash_free a \<and> a \<noteq> rd_address r \<longrightarrow> get_redemption t (ca_name c) a = get_redemption s (ca_name c) a)"
  proof (cases "calculate_available_redemption_amount E s c (to_dec (rd_amount r)) available")
    case (Inl e)
    then show ?thesis using h s by (simp add: handle_single_redemption_def)
  next
    case (Inr q)
    obtain gross used where q: "q = (gross, used)" by (rule prod.exhaust)
    note calc = Inr [unfolded q]
    let ?s = "set_redemption (ca_name c) (r\<lparr>rd_amount := rd_amount r - dround E used\<rparr>) s"
    note l = redeem_lower [OF E s c av r calc]
    have g: "get_redemption ?s (ca_name c) a = get_redemption s (ca_name c) a" if "slash_free a" "a \<noteq> rd_address r" for a
      using get_set_redemption [OF mm_okD(3) [OF s]] r(2) that by simp
    have f: ?thesis if t: "mm_ok E t" "t = ?s\<lparr>bank := bank t\<rparr>"
    proof -
      obtain b where "t = ?s\<lparr>bank := b\<rparr>" using t(2) by blast
      then show ?thesis using t(1) g by simp
    qed
    show ?thesis
    proof (rule redemption_transfers [OF E acc h [unfolded handle_single_redemption_def calc bindS_simps prod.case Let_def]])
      assume "grows E ?s t"
      then show ?thesis using f grows_mm_ok [OF _ l(1)] by (simp add: grows_def)
    next
      fix v w
      assume p: "grows E ?s v" "send_mod_mod E pool_redemption mm_module (ca_name c) (dtrunc E used) v = (Inr (), w)" "grows E w t"
      have "mm_ok E t" "t = ?s\<lparr>bank := bank t\<rparr>" using redeem_paid [OF E acc l(1) p] l(3) by simp_all
      then show ?thesis by (rule f)
    qed
  qed
  then show "mm_ok E t" "dparams t = dparams s"
    "slash_free a \<Longrightarrow> a \<noteq> rd_address r \<Longrightarrow> get_redemption t (ca_name c) a = get_redemption s (ca_name c) a" by blast+
qed

lemma listed_redemption:
  assumes "redemptions_ok D s" "d \<in> D" "r \<in> set (get_redemptions s d)"
  shows "get_redemption s d (rd_address r) = Some r" "slash_free (rd_address r)"
  using entries_listed [OF assms(1) [unfolded redemptions_ok_def] assms(2,3) [unfolded get_redemptions_def]] by (simp_all add: get_redemption_def)

lemma distinct_redemptions:
  assumes "redemptions_ok D s" "d \<in> D"
  shows "distinct (map rd_address (get_redemptions s d))"
  using entries_distinct [OF assms(1) [unfolded redemptions_ok_def] assms(2)] by (simp add: get_redemptions_def)

lemma redemption_order_perm: "mset (redemption_order rs) = mset rs"
  by (simp add: redemption_order_def)

lemma redemption_loop_ok:
  assumes E: "sdk E" and acc: "mm_accounts E"
    and "mm_ok E s" "c \<in> set (cassets (dparams s))" "distinct (map rd_address rs)"
    and "\<And>r. r \<in> set rs \<Longrightarrow> get_redemption s (ca_name c) (rd_address r) = Some r \<and> slash_free (rd_address r)"
  shows "mm_ok E (snd (redemption_loop E c rs available s)) \<and> dparams (snd (redemption_loop E c rs available s)) = dparams s"
  using assms(3-)
proof (induction rs arbitrary: s available)
  case (Cons r rs)
  obtain x t where h: "handle_single_redemption E c r available s = (x, t)" by (rule prod.exhaust)
  show ?case
  proof (cases "0 < available")
    case True
    note o = handle_single_redemption_ok [OF E Cons.prems(1) acc Cons.prems(2) True _ _ h]
    have r: "get_redemption s (ca_name c) (rd_address r) = Some r" "slash_free (rd_address r)" using Cons.prems(4) [of r] by simp_all
    have rs: "get_redemption t (ca_name c) (rd_address r') = Some r' \<and> slash_free (rd_address r')" if "r' \<in> set rs" for r'
      using o(3) [OF r, of "rd_address r'"] Cons.prems(3) Cons.prems(4) [of r'] that by (auto simp: image_iff)
    have "mm_ok E (snd (redemption_loop E c rs n t)) \<and> dparams (snd (redemption_loop E c rs n t)) = dparams s" for n
      using Cons.IH [OF o(1) [OF r] _ _ rs] Cons.prems(2,3) o(2) [OF r] by simp
    then show ?thesis using True h o(1,2) [OF r] by (cases x) simp_all
  qed (simp add: Cons.prems(1))
qed simp

lemma handle_redemptions_ok:
  assumes E: "sdk E" and acc: "mm_accounts E" and s: "mm_ok E s"
  shows "mm_ok E (snd (handle_redemptions E s))"
proof -
  have one: "mm_ok E (snd (handle_redemptions_for_casset E c s)) \<and> dparams (snd (handle_redemptions_for_casset E c s)) = dparams s"
    if s: "mm_ok E s" and c: "c \<in> set (cassets (dparams s))" for c and s :: "('a, 'b) mm_world_scheme"
  proof -
    have k: "ca_name c \<in> known s" using wf_denoms_known(4) [OF mm_okD(1) [OF s] c] by simp
    have m: "set (redemption_order (get_redemptions s (ca_name c))) = set (get_redemptions s (ca_name c))"
      "distinct (map rd_address (redemption_order (get_redemptions s (ca_name c))))"
      using distinct_redemptions [OF mm_okD(3) [OF s] k] redemption_order_perm [of "get_redemptions s (ca_name c)"]
      by (metis mset_eq_setD, metis mset_eq_imp_distinct_iff mset_map)
    show ?thesis
      using s redemption_loop_ok [OF E acc s c m(2)] listed_redemption [OF mm_okD(3) [OF s] k]
      by (simp add: handle_redemptions_for_casset_def m(1) Let_def split: option.split)
  qed
  have "mm_ok E (snd (foldS (\<lambda>c _. handle_redemptions_for_casset E c) (cassets (dparams s)) () s))
      \<and> dparams (snd (foldS (\<lambda>c _. handle_redemptions_for_casset E c) (cassets (dparams s)) () s)) = dparams s"
    by (rule foldS_inv [where P = "\<lambda>t. mm_ok E t \<and> dparams t = dparams s"]) (use s one in auto)
  then show ?thesis by (simp add: handle_redemptions_def get_cassets_def)
qed

end
