(* ===== verification/MmReach.thy ===== *)
theory MmReach
  imports MmSafety
begin

text \<open>
  The messages of the money market as one handler (\<open>keeper/msg_server*.go\<close>, \<open>msg_update_params.go\<close>), the states reachable
  by messages, interest, redemptions and what other modules do to the bank, and that the module accounts stay covered in all of them.
\<close>

section \<open>Messages\<close>

datatype mm_msg =
    MsgAddDeposit denom string
  | MsgCreateRedemptionRequest denom string string
  | MsgCancelRedemptionRequest denom
  | MsgUpdateRedemptionRequest denom string string
  | MsgAddCollateral denom string
  | MsgRemoveCollateral denom string
  | MsgBorrow denom string
  | MsgRepayLoan denom
  | MsgPartiallyRepayLoan denom string
  | MsgUpdateProtocolShare string
  | MsgUpdateRedemptionFee string
  | MsgUpdateCollateralDiscount string
  | MsgUpdateInterestRateParameters string string string

fun mm_handle :: "'b env \<Rightarrow> string \<Rightarrow> mm_msg \<Rightarrow> (('b, 'z) mm_world_scheme, unit) cmd" where
  "mm_handle E c (MsgAddDeposit d n) = add_deposit E c d n"
| "mm_handle E c (MsgCreateRedemptionRequest d n f) = create_redemption_request E c d n f"
| "mm_handle E c (MsgCancelRedemptionRequest d) = cancel_redemption_request E c d"
| "mm_handle E c (MsgUpdateRedemptionRequest d n f) = update_redemption_request E c d n f"
| "mm_handle E c (MsgAddCollateral d n) = add_collateral E c d n"
| "mm_handle E c (MsgRemoveCollateral d n) = remove_collateral E c d n"
| "mm_handle E c (MsgBorrow d n) = borrow E c d n"
| "mm_handle E c (MsgRepayLoan d) = repay_loan E c d"
| "mm_handle E c (MsgPartiallyRepayLoan d n) = partially_repay_loan E c d n"
| "mm_handle E c (MsgUpdateProtocolShare v) = update_protocol_share E c v"
| "mm_handle E c (MsgUpdateRedemptionFee v) = update_redemption_fee E c v"
| "mm_handle E c (MsgUpdateCollateralDiscount v) = update_collateral_discount E c v"
| "mm_handle E c (MsgUpdateInterestRateParameters v a b) = update_interest_rate_parameters E c v a b"

lemmas mm_param_messages = update_protocol_share_def update_redemption_fee_def update_collateral_discount_def
  update_interest_rate_parameters_def mm_commit_def set_mm_params_def

lemma mm_ok_params [simp]: "mm_ok E (s\<lparr>mparams := p\<rparr>) = mm_ok E s"
  by (simp add: mm_ok_def get_collateral_sum_def get_redemption_sum_def collaterals_ok_def redemptions_ok_def loans_ok_def)

lemma mm_handle_ok:
  assumes "sdk E" "mm_accounts E" "mm_ok E s" "user E c a" "mm_handle E c m s = (Inr u, t)"
  shows "mm_ok E t"
  using assms(5) add_deposit_ok [OF assms(1,3,4,2)] create_redemption_request_ok [OF assms(1,3,4,2)]
    cancel_redemption_request_ok [OF assms(1,3,4,2)] update_redemption_request_ok [OF assms(1,3,4,2)]
    add_collateral_ok [OF assms(1,3,4) _ assms(2)] remove_collateral_ok [OF assms(1,3,4) _ assms(2)] borrow_ok [OF assms(1,3,4,2)]
    repay_ok [OF assms(1,3,4)] assms(3)
  by (cases m) (auto simp: repay_loan_def partially_repay_loan_def mm_param_messages elim!: bindS_InrE)

section \<open>Reachable states\<close>

text \<open>
  A message is signed by an ordinary account and runs atomically. Interest and redemptions may fail half way; what they have
  written stays. The other modules and users change the bank without taking from the two accounts.
\<close>

inductive mm_step :: "'b env \<Rightarrow> ('b, 'z) mm_world_scheme \<Rightarrow> ('b, 'z) mm_world_scheme \<Rightarrow> bool" for E where
  mm_message: "user E c a \<Longrightarrow> atomic (mm_handle E c m) s = (x, t) \<Longrightarrow> mm_step E s t"
| mm_interest: "apply_interest E s = (x, t) \<Longrightarrow> mm_step E s t"
| mm_redemptions: "log_error (handle_redemptions E) s = (x, t) \<Longrightarrow> mm_step E s t"
| mm_bank: "grows E s t \<Longrightarrow> mm_step E s t"
| mm_height: "mm_step E s (s\<lparr>height := h\<rparr>)"

inductive mm_reach :: "'b env \<Rightarrow> ('b, 'z) mm_world_scheme \<Rightarrow> ('b, 'z) mm_world_scheme \<Rightarrow> bool" for E s where
  mm_refl: "mm_reach E s s"
| mm_next: "mm_reach E s t \<Longrightarrow> mm_step E t u \<Longrightarrow> mm_reach E s u"

lemma mm_ok_height [simp]: "mm_ok E (s\<lparr>height := h\<rparr>) = mm_ok E s"
  by (simp add: mm_ok_def get_collateral_sum_def get_redemption_sum_def collaterals_ok_def redemptions_ok_def loans_ok_def)

lemma log_error_snd [simp]: "snd (log_error f s) = snd (f s)"
  by (simp add: log_error_def split: prod.split sum.split)

lemma mm_step_ok:
  assumes "sdk E" "mm_accounts E" "mm_ok E s" "mm_step E s t"
  shows "mm_ok E t"
  using assms(4)
proof cases
  case (mm_message c a m x)
  from mm_message(2) show ?thesis
    using mm_handle_ok [OF assms(1-3) mm_message(1)] assms(3) by (cases rule: atomic_cases [of "mm_handle E c m" s]) auto
next
  case (mm_interest x)
  then show ?thesis using apply_interest_ok [OF assms(3)] by simp
next
  case (mm_redemptions x)
  then show ?thesis using handle_redemptions_ok [OF assms(1-3)] log_error_snd [of "handle_redemptions E" s] by simp
next
  case mm_bank
  then show ?thesis using grows_mm_ok [OF _ assms(3)] by simp
next
  case (mm_height h)
  then show ?thesis using assms(3) by simp
qed

section \<open>An example chain\<close>

text \<open>
  Alice and bob provide liquidity for a stable coin; bob deposits some of it, alice borrows against the base currency, and bob asks
  for a redemption.
\<close>

definition mm_env :: "ledger env" where
  "mm_env = ledger_env [''ukopi'', ''uwusdc'', ''ucwusdc'']"

definition mm_denoms_example :: denom_params where
  "mm_denoms_example = \<lparr>dex_denoms = [\<lparr>dd_name = ''ukopi'', dd_factor = None, dd_min_liquidity = Some 10000\<rparr>,
       \<lparr>dd_name = ''uwusdc'', dd_factor = Some (dec_prec 1 1), dd_min_liquidity = Some 1000\<rparr>,
       \<lparr>dd_name = ''ucwusdc'', dd_factor = Some (dec_prec 1 1), dd_min_liquidity = Some 1000\<rparr>],
     kcoins = [],
     cassets = [\<lparr>ca_name = ''ucwusdc'', ca_base = ''uwusdc'', ca_dex_fee_share = Some (dec_prec 5 1),
       ca_borrow_limit = Some (dec_prec 9 1), ca_min_loan = Some 1000\<rparr>],
     collateral_denoms = [\<lparr>cd_denom = ''ukopi'', cd_ltv = Some (dec_prec 5 1), cd_max_deposit = Some 1000000\<rparr>,
       \<lparr>cd_denom = ''uwusdc'', cd_ltv = Some (dec_prec 8 1), cd_max_deposit = Some 1000000\<rparr>]\<rparr>"

definition mm_start :: "ledger mm_world" where
  "mm_start = \<lparr>bank = \<lparr>bals = [((''alice'', ''ukopi''), 400000), ((''bob'', ''uwusdc''), 40000),
         ((''#pool_liquidity'', ''uwusdc''), 10000), ((''#pool_liquidity'', ''ukopi''), 100000)],
       tot = [(''ukopi'', 500000), (''uwusdc'', 50000)]\<rparr>,
     height = 1, dparams = mm_denoms_example, xparams = default_dex_params,
     liquidities = liquidities dex_pool, liquidity_next = 2, liquidity_sums = liquidity_sums dex_pool,
     liquidity_pairs =
        [(''ucwusdc/'', \<lparr>lp_denom = ''ucwusdc'', lp_base = 0, lp_other = 10000000000000000000000\<rparr>),
         (''uwusdc/'', \<lparr>lp_denom = ''uwusdc'', lp_base = 0, lp_other = 0\<rparr>)], liquidity_pair_count = 0,
     ratios = [(''ucwusdc/'', \<lparr>ra_denom = ''ucwusdc'', ra_ratio = Some 100000000000000000\<rparr>),
         (''uwusdc/'', \<lparr>ra_denom = ''uwusdc'', ra_ratio = Some 100000000000000000\<rparr>)],
     trade_amounts = [], orders = [], order_next = 0,
     sparams = default_swap_params, mparams = default_mm_params, loans = [], next_loan = None, collaterals = [], redemptions = []\<rparr>"

definition mm_deposited :: "ledger mm_world" where
  "mm_deposited = snd (add_deposit mm_env ''bob'' ''uwusdc'' ''20000'' mm_start)"
definition mm_secured :: "ledger mm_world" where
  "mm_secured = snd (add_collateral mm_env ''alice'' ''ukopi'' ''100000'' mm_deposited)"
definition mm_borrowed :: "ledger mm_world" where
  "mm_borrowed = snd (borrow mm_env ''alice'' ''uwusdc'' ''3000'' mm_secured)"
definition mm_requested :: "ledger mm_world" where
  "mm_requested = snd (create_redemption_request mm_env ''bob'' ''ucwusdc'' ''5000'' ''0.02'' mm_borrowed)"

lemma mm_requested_value: "mm_requested =
    \<lparr>bank = \<lparr>bals = [((''#pool_redemption'', ''ucwusdc''), 5000),
    ((''bob'', ''ucwusdc''), 15000), ((''alice'', ''uwusdc''), 3000), ((''#pool_vault'', ''uwusdc''), 17000),
    ((''#pool_collateral'', ''ukopi''), 100000), ((''alice'', ''ukopi''), 300000), ((''#mm'', ''ucwusdc''), 0),
    ((''bob'', ''uwusdc''), 20000), ((''#pool_liquidity'', ''uwusdc''), 10000), ((''#pool_liquidity'', ''ukopi''), 100000)],
    tot = [(''ucwusdc'', 20000), (''ukopi'', 500000), (''uwusdc'', 50000)]\<rparr>, height = 1, dparams =
    \<lparr>dex_denoms = [\<lparr>dd_name = ''ukopi'', dd_factor = None, dd_min_liquidity = Some 10000\<rparr>,
    \<lparr>dd_name = ''uwusdc'', dd_factor = Some 100000000000000000, dd_min_liquidity = Some 1000\<rparr>,
    \<lparr>dd_name = ''ucwusdc'', dd_factor = Some 100000000000000000, dd_min_liquidity = Some 1000\<rparr>], kcoins = [],
    cassets = [\<lparr>ca_name = ''ucwusdc'', ca_base = ''uwusdc'', ca_dex_fee_share = Some 500000000000000000,
    ca_borrow_limit = Some 900000000000000000, ca_min_loan = Some 1000\<rparr>], collateral_denoms =
    [\<lparr>cd_denom = ''ukopi'', cd_ltv = Some 500000000000000000, cd_max_deposit = Some 1000000\<rparr>,
    \<lparr>cd_denom = ''uwusdc'', cd_ltv = Some 800000000000000000, cd_max_deposit = Some 1000000\<rparr>]\<rparr>,
    xparams = \<lparr>trade_fee = 1000000000000000, reserve_share = 500000000000000000,
    virtual_liquidity_decay = 999997000000000000, fee_reimbursement = 500000000000000000,
    trade_amount_decay = 950000000000000000, discount_levels = [\<lparr>dl_trade_amount = Some 1000000000000000000000000,
    dl_discount = Some 10000000000000000\<rparr>, \<lparr>dl_trade_amount = Some 10000000000000000000000000,
    dl_discount = Some 100000000000000000\<rparr>], max_order_life = 604800\<rparr>, liquidities = [(''ukopi/1/'',
    \<lparr>lq_index = 1, lq_denom = ''ukopi'', lq_address = ''alice'', lq_amount = 100000\<rparr>), (''uwusdc/2/'',
    \<lparr>lq_index = 2, lq_denom = ''uwusdc'', lq_address = ''bob'', lq_amount = 10000\<rparr>)], liquidity_next = 2,
    liquidity_sums = [(''ukopi/'', \<lparr>ls_denom = ''ukopi'', ls_amount = 100000\<rparr>),
    (''uwusdc/'', \<lparr>ls_denom = ''uwusdc'', ls_amount = 10000\<rparr>)], liquidity_pairs = [(''ucwusdc/'',
    \<lparr>lp_denom = ''ucwusdc'', lp_base = 0, lp_other = 10000000000000000000000\<rparr>),
    (''uwusdc/'', \<lparr>lp_denom = ''uwusdc'', lp_base = 0, lp_other = 0\<rparr>)], liquidity_pair_count = 0, ratios =
    [(''ucwusdc/'', \<lparr>ra_denom = ''ucwusdc'', ra_ratio = Some 100000000000000000\<rparr>), (''uwusdc/'',
    \<lparr>ra_denom = ''uwusdc'', ra_ratio = Some 100000000000000000\<rparr>)],
    trade_amounts = [], orders = [], order_next = 0, sparams = \<lparr>staking_share = Some 100000000000000000\<rparr>,
    mparams = \<lparr>collateral_discount = Some 950000000000000000, min_redemption_fee = Some 10000000000000000,
    protocol_share = Some 500000000000000000, min_interest_rate = Some 50000000000000000, rate_a = Some 12000000000000000000,
    rate_b = Some 131072000000000000000000\<rparr>, loans = [(''uwusdc/alice/'',
    \<lparr>ln_index = 1, ln_address = ''alice'', ln_amount = 3000000000000000000000\<rparr>)], next_loan = Some 2,
    collaterals = [(''ukopi/alice/'', \<lparr>co_address = ''alice'', co_amount = 100000\<rparr>)], redemptions =
    [(''ucwusdc/bob/'', \<lparr>rd_address = ''bob'', rd_added_at = 1, rd_amount = 5000,
    rd_fee = 20000000000000000\<rparr>)]\<rparr>"
  by code_simp

declare mm_requested_value [code]

lemma mm_example_runs:
  "fst (add_deposit mm_env ''bob'' ''uwusdc'' ''20000'' mm_start) = Inr ()"
  "fst (add_collateral mm_env ''alice'' ''ukopi'' ''100000'' mm_deposited) = Inr ()"
  "fst (borrow mm_env ''alice'' ''uwusdc'' ''3000'' mm_secured) = Inr ()"
  "fst (create_redemption_request mm_env ''bob'' ''ucwusdc'' ''5000'' ''0.02'' mm_borrowed) = Inr ()"
  by code_simp+

lemma mm_example_steps:
  "add_deposit mm_env ''bob'' ''uwusdc'' ''20000'' mm_start = (Inr (), mm_deposited)"
  "add_collateral mm_env ''alice'' ''ukopi'' ''100000'' mm_deposited = (Inr (), mm_secured)"
  "borrow mm_env ''alice'' ''uwusdc'' ''3000'' mm_secured = (Inr (), mm_borrowed)"
  "create_redemption_request mm_env ''bob'' ''ucwusdc'' ''5000'' ''0.02'' mm_borrowed = (Inr (), mm_requested)"
  using mm_example_runs by (simp_all add: prod_eq_iff mm_deposited_def mm_secured_def mm_borrowed_def mm_requested_def)

lemma sdk_mm_env: "sdk mm_env"
  unfolding mm_env_def by (rule led.sdk_axioms)

lemma mm_env_accounts: "mm_accounts mm_env" "user mm_env ''alice'' ''alice''" "user mm_env ''bob'' ''bob''"
  by (simp_all add: mm_env_def mm_accounts_def user_def pool_collateral_def pool_redemption_def pool_vault_def mm_module_def pool_reserve_def)

lemma mm_start_ok: "mm_ok mm_env mm_start"
proof -
  have w: "wf_denoms (dparams mm_start)" unfolding validate_wf [symmetric] by code_simp
  have "denoms_separate (dparams mm_start)" by code_simp
  then have "separate (known mm_start)" by (simp add: denoms_separate_iff)
  moreover have "loans mm_start = []" "collaterals mm_start = []" "redemptions mm_start = []" by (simp_all add: mm_start_def)
  ultimately show ?thesis
    using w sdk.bal_nonneg [OF sdk_mm_env]
    by (simp add: mm_ok_def collaterals_ok_def redemptions_ok_def loans_ok_def entries_ok_def kv_wf_def sums_eq)
qed

lemma mm_reach_message:
  assumes "mm_reach E s t" "user E c a" "mm_handle E c m t = (Inr (), u)"
  shows "mm_reach E s u"
  using assms by (blast intro: mm_reach.intros mm_step.intros atomic_Inr [THEN iffD2])

lemma mm_example_reach:
  "mm_reach mm_env mm_start mm_deposited" "mm_reach mm_env mm_start mm_secured"
  "mm_reach mm_env mm_start mm_borrowed" "mm_reach mm_env mm_start mm_requested"
proof -
  show 1: "mm_reach mm_env mm_start mm_deposited"
    by (rule mm_reach_message [OF mm_refl mm_env_accounts(3), where m = "MsgAddDeposit ''uwusdc'' ''20000''"]) (simp add: mm_example_steps)
  show 2: "mm_reach mm_env mm_start mm_secured"
    by (rule mm_reach_message [OF 1 mm_env_accounts(2), where m = "MsgAddCollateral ''ukopi'' ''100000''"]) (simp add: mm_example_steps)
  show 3: "mm_reach mm_env mm_start mm_borrowed"
    by (rule mm_reach_message [OF 2 mm_env_accounts(2), where m = "MsgBorrow ''uwusdc'' ''3000''"]) (simp add: mm_example_steps)
  show "mm_reach mm_env mm_start mm_requested"
    by (rule mm_reach_message [OF 3 mm_env_accounts(3), where m = "MsgCreateRedemptionRequest ''ucwusdc'' ''5000'' ''0.02''"]) (simp add: mm_example_steps)
qed

lemma mm_reach_ok:
  assumes "sdk E" "mm_accounts E" "mm_ok E s" "mm_reach E s t"
  shows "mm_ok E t"
  using assms(4) by (induction rule: mm_reach.induct) (use assms mm_step_ok in blast)+

lemmas mm_example_ok = mm_reach_ok [OF sdk_mm_env mm_env_accounts(1) mm_start_ok mm_example_reach(1)]
  mm_reach_ok [OF sdk_mm_env mm_env_accounts(1) mm_start_ok mm_example_reach(2)]
  mm_reach_ok [OF sdk_mm_env mm_env_accounts(1) mm_start_ok mm_example_reach(3)]
  mm_reach_ok [OF sdk_mm_env mm_env_accounts(1) mm_start_ok mm_example_reach(4)]

section \<open>The property\<close>

text \<open>
  The coins of the users stay in custody: starting from a well-formed state in which the account \<open>pool_collateral\<close> holds at
  least the sum of all collaterals of each denomination, and \<open>pool_redemption\<close> at least the sum of all redemption requests, every
  sequence of messages (deposits, loans, repayments, collateral, redemption requests, parameters), interest, redemptions and
  other movements of the bank leads to such a state again, although amounts are rounded differently in the stores and in the transfers.
\<close>

theorem mm_reach_custody:
  assumes "sdk E" "mm_accounts E" "mm_ok E s" "mm_reach E s t"
  shows "mm_ok E t"
  using assms by (rule mm_reach_ok)

theorem mm_reach_custody_witness:
  "mm_ok mm_env (snd (handle_redemptions mm_env mm_requested))
   \<and> get_redemption_sum mm_requested ''ucwusdc'' = 5000 \<and> get_collateral_sum mm_requested ''ukopi'' = 100000"
proof -
  have "mm_step mm_env mm_requested (snd (handle_redemptions mm_env mm_requested))"
    by (rule mm_redemptions [where x = "fst (log_error (handle_redemptions mm_env) mm_requested)"]) (simp add: prod_eq_iff)
  from mm_reach_custody [OF sdk_mm_env mm_env_accounts(1) mm_start_ok mm_next [OF mm_example_reach(4) this]]
  have "mm_ok mm_env (snd (handle_redemptions mm_env mm_requested))" .
  moreover have "get_redemption_sum mm_requested ''ucwusdc'' = 5000" "get_collateral_sum mm_requested ''ukopi'' = 100000"
    by code_simp+
  ultimately show ?thesis by blast
qed

end
