(* ===== verification/MmLoans.thy ===== *)
theory MmLoans
  imports MmReach
begin

text \<open>
  Loans: what borrowing and repaying do to the loan, to the vault and to the value of the cAsset, what interest does to the
  loans, and when it can be computed at all.
\<close>

section \<open>The value behind a cAsset\<close>

definition casset_worth :: "'b env \<Rightarrow> ('b, 'z) mm_world_scheme \<Rightarrow> denom \<Rightarrow> dec" where
  "casset_worth E s d = to_dec (bal E (bank s) (mod_addr E pool_vault) d) + get_loans_sum s d"

lemma calculate_casset_value_eq: "calculate_casset_value E s c = casset_worth E s (ca_base c)"
  by (simp add: calculate_casset_value_def casset_worth_def get_vault_amount_def bal_def get_loans_sum_def
      get_all_loans_by_denom_def foldl_sum)

lemma mm_ok_loans: "mm_ok E s \<Longrightarrow> loans_ok (known s) s"
  by (simp add: mm_ok_def)

section \<open>Borrowing and repaying\<close>

lemma loan_or_new:
  fixes d :: denom
  assumes "loans_ok D s" "slash_free a"
  defines "l \<equiv> case get_loan s d a of None \<Rightarrow> \<lparr>ln_index = 0, ln_address = a, ln_amount = 0\<rparr> | Some l \<Rightarrow> l"
  shows "ln_address l = a" "ln_amount l = weight ln_amount (get_loan s d a)" "0 \<le> ln_amount l"
  using loan.entry_owner [OF assms(1,2), of d] loan.entry_pos [OF assms(1), of d a]
  by (cases "get_loan s d a"; force simp: l_def)+

lemma loan_bank [simp]: "get_loan (s\<lparr>bank := b\<rparr>) d a = get_loan s d a"
  by (simp add: get_loan_def)

text \<open>
  C12. Borrowing: an accepted \<open>Borrow\<close> of a positive amount stays within what the collateral of the borrower allows and
  within the minimal loan size; it raises the borrower's loan by exactly the amount, leaves every other loan and every supply
  alone, and the vault pays the amount rounded up to whole units, so that the value behind the cAsset falls by less than one unit.
\<close>

theorem borrow_spec:
  assumes "sdk E" "mm_ok E s" "user E creator a" "a \<noteq> mod_addr E pool_vault"
    and "borrow E creator d amt_str s = (Inr (), t)"
  shows "\<exists>amt limit n. parse_loan_amount E amt_str = Inr amt \<and> 0 < amt
    \<and> calculate_borrowable_amount E s creator d = Inr limit \<and> amt \<le> limit
    \<and> (\<forall>d' a'. slash_free a' \<longrightarrow> weight ln_amount (get_loan t d' a')
        = weight ln_amount (get_loan s d' a') + (if d' = d \<and> a' = creator then amt else 0))
    \<and> amt \<le> to_dec n \<and> to_dec n < amt + dec_one
    \<and> (\<forall>x d'. bal E (bank t) x d' = bal E (bank s) x d' - (if x = mod_addr E pool_vault \<and> d' = d then n else 0) + (if x = a \<and> d' = d then n else 0))
    \<and> (\<forall>d'. bk_supply E (bank t) d' = bk_supply E (bank s) d')
    \<and> casset_worth E s d - dec_one < casset_worth E t d \<and> casset_worth E t d \<le> casset_worth E s d"
proof -
  have D: "decimal E" using assms(1) by (simp add: sdk_def)
  have sf: "slash_free creator" using assms(3) sdk.acc_law [OF assms(1)] by (auto simp: user_def)
  from assms(5,3) obtain c amt limit l where c: "get_casset_by_base_name (dparams s) d = Inr c"
    and p: "parse_loan_amount E amt_str = Inr amt" and lim: "calculate_borrowable_amount E s creator d = Inr limit" "\<not> limit < amt"
    and l: "l = (case get_loan s d creator of None \<Rightarrow> \<lparr>ln_index = 0, ln_address = creator, ln_amount = 0\<rparr> | Some l \<Rightarrow> l)"
    and t: "send_mod_acc E pool_vault a d (dtrunc E (dceil E amt)) (set_loan d (l\<lparr>ln_amount := ln_amount l + amt\<rparr>) s) = (Inr (), t)"
    by (auto simp: borrow_def user_def Let_def elim!: bindS_InrE split: sum.splits)
  have pos: "0 < amt" using p by (auto simp: parse_loan_amount_def bindR_Inr_iff)
  have known: "d \<in> known s" using wf_denoms_known(3) [OF mm_okD(1) [OF assms(2)] c] by simp
  note lo = mm_ok_loans [OF assms(2)]
  note o = loan_or_new [OF lo sf, of d, folded l]
  let ?l = "l\<lparr>ln_amount := ln_amount l + amt\<rparr>" and ?n = "dtrunc E (dceil E amt)"
  note m = sdk.send_mod_acc_ok [OF assms(1) t]
  obtain b where b: "t = (set_loan d ?l s)\<lparr>bank := b\<rparr>" using m(4) by blast
  have n: "amt \<le> to_dec ?n" "to_dec ?n < amt + dec_one"
    using decimal.trunc_ceil [OF D, of amt] decimal.ceil_ge [OF D, of amt] decimal.ceil_lt [OF D, of amt] by (simp_all add: dec_one_def)
  have loan: "weight ln_amount (get_loan t d' a') = weight ln_amount (get_loan s d' a') + (if d' = d \<and> a' = creator then amt else 0)"
    if "slash_free a'" for d' a'
    using loan.entry_put [OF lo _ that, of ?l d d'] sf o pos by (auto simp: b)
  have sum: "get_loans_sum t d = get_loans_sum s d + amt"
    using loan.tally_change [OF lo known known, of ?l amt] sf o pos by (simp add: b)
  have bal: "bal E (bank t) x d' = bal E (bank s) x d' - (if x = mod_addr E pool_vault \<and> d' = d then ?n else 0) + (if x = a \<and> d' = d then ?n else 0)" for x d'
    using m(2) [of x d'] by simp
  have "casset_worth E t d = casset_worth E s d - to_dec ?n + amt"
    using bal [of "mod_addr E pool_vault" d] assms(4) sum by (simp add: casset_worth_def to_dec_diff)
  then show ?thesis
    using p pos lim loan n bal m(3)
    by (intro exI [of _ amt] exI [of _ limit] exI [of _ ?n]) auto
qed

theorem borrow_spec_witness:
  "casset_worth mm_env mm_secured ''uwusdc'' - dec_one < casset_worth mm_env mm_borrowed ''uwusdc''
   \<and> bk_supply mm_env (bank mm_borrowed) ''uwusdc'' = bk_supply mm_env (bank mm_secured) ''uwusdc''"
  using borrow_spec [OF sdk_mm_env mm_example_ok(2) mm_env_accounts(2) _ mm_example_steps(3)]
  by (auto simp: mm_env_def pool_vault_def)

text \<open>
  C13. Repaying: an accepted repayment of a loan in full or in part lowers exactly that loan by the smaller of the offered amount and
  the loan, and the payer pays it rounded up to whole units into the vault; the value behind the cAsset never falls and
  grows by less than one unit, and no supply changes.
\<close>

theorem repay_spec:
  assumes "sdk E" "mm_ok E s" "user E creator a" "a \<noteq> mod_addr E pool_vault" "0 \<le> amt"
    and "repay E d creator amt s = (Inr (), t)"
  shows "\<exists>l n. get_loan s d creator = Some l
    \<and> (\<forall>d' a'. slash_free a' \<longrightarrow> weight ln_amount (get_loan t d' a')
        = weight ln_amount (get_loan s d' a') - (if d' = d \<and> a' = creator then min amt (ln_amount l) else 0))
    \<and> min amt (ln_amount l) \<le> to_dec n \<and> to_dec n < min amt (ln_amount l) + dec_one
    \<and> (\<forall>x d'. bal E (bank t) x d' = bal E (bank s) x d' - (if x = a \<and> d' = d then n else 0) + (if x = mod_addr E pool_vault \<and> d' = d then n else 0))
    \<and> (\<forall>d'. bk_supply E (bank t) d' = bk_supply E (bank s) d')
    \<and> casset_worth E s d \<le> casset_worth E t d \<and> casset_worth E t d < casset_worth E s d + dec_one"
proof -
  have D: "decimal E" using assms(1) by (simp add: sdk_def)
  have sf: "slash_free creator" using assms(3) sdk.acc_law [OF assms(1)] by (auto simp: user_def)
  from assms(6,3) obtain l where l: "get_loan s d creator = Some l"
    and t: "send_acc_mod E a pool_vault d (dtrunc E (dceil E (min amt (ln_amount l)))) (set_loan d (l\<lparr>ln_amount := ln_amount l - min amt (ln_amount l)\<rparr>) s) = (Inr (), t)"
    by (auto simp: repay_def user_def Let_def elim!: bindS_InrE)
  note lo = mm_ok_loans [OF assms(2)]
  have "entries_ok ln_address ln_amount (known s) (loans s)" using lo by (simp add: loans_ok_def)
  note o = entries_owner [OF this sf l [unfolded get_loan_def]]
  let ?k = "min amt (ln_amount l)"
  let ?l = "l\<lparr>ln_amount := ln_amount l - ?k\<rparr>" and ?n = "dtrunc E (dceil E ?k)"
  note m = sdk.send_acc_mod_ok [OF assms(1) t]
  obtain b where b: "t = (set_loan d ?l s)\<lparr>bank := b\<rparr>" using m(4) by blast
  have n: "?k \<le> to_dec ?n" "to_dec ?n < ?k + dec_one"
    using decimal.trunc_ceil [OF D, of ?k] decimal.ceil_ge [OF D, of ?k] decimal.ceil_lt [OF D, of ?k] by (simp_all add: dec_one_def)
  have loan: "weight ln_amount (get_loan t d' a') = weight ln_amount (get_loan s d' a') - (if d' = d \<and> a' = creator then ?k else 0)"
    if "slash_free a'" for d' a'
    using loan.entry_put [OF lo _ that, of ?l d d'] sf o l by (auto simp: b)
  have sum: "get_loans_sum t d = get_loans_sum s d - ?k"
    using loan.tally_change [OF lo o(2,2), of ?l "- ?k"] sf o l by (simp add: b)
  have bal: "bal E (bank t) x d' = bal E (bank s) x d' - (if x = a \<and> d' = d then ?n else 0) + (if x = mod_addr E pool_vault \<and> d' = d then ?n else 0)" for x d'
    using m(2) [of x d'] by simp
  have "casset_worth E t d = casset_worth E s d + to_dec ?n - ?k"
    using bal [of "mod_addr E pool_vault" d] assms(4) sum by (simp add: casset_worth_def to_dec_add)
  then show ?thesis
    using l loan n bal m(3)
    by (intro exI [of _ l] exI [of _ ?n]) auto
qed

theorem repay_spec_witness:
  "casset_worth mm_env mm_borrowed ''uwusdc'' \<le> casset_worth mm_env (snd (repay mm_env ''uwusdc'' ''alice'' (to_dec 1200) mm_borrowed)) ''uwusdc''"
proof -
  have "fst (repay mm_env ''uwusdc'' ''alice'' (to_dec 1200) mm_borrowed) = Inr ()" by code_simp
  then have r: "repay mm_env ''uwusdc'' ''alice'' (to_dec 1200) mm_borrowed = (Inr (), snd (repay mm_env ''uwusdc'' ''alice'' (to_dec 1200) mm_borrowed))"
    by (simp add: prod_eq_iff)
  show ?thesis
    using repay_spec [OF sdk_mm_env mm_example_ok(3) mm_env_accounts(2) _ _ r] by (auto simp: mm_env_def pool_vault_def)
qed

section \<open>Interest\<close>

lemma accrue_loan_address [simp]: "ln_address (accrue_loan E c rate l) = ln_address l"
  by (simp add: accrue_loan_def split: option.split)

lemma interest_fold:
  assumes "loans_ok D s" "d \<in> D" "distinct (map ln_address ls)" "\<forall>l \<in> set ls. slash_free (ln_address l)" "slash_free a"
    and "\<And>l. ln_address (f l) = ln_address l"
  defines "t \<equiv> foldl (\<lambda>s l. set_loan d (f l) s) s ls"
  shows "weight ln_amount (get_loan t d' a) = (case find (\<lambda>l. ln_address l = a) ls of
      Some l \<Rightarrow> (if d' = d then max 0 (ln_amount (f l)) else weight ln_amount (get_loan s d' a))
    | None \<Rightarrow> weight ln_amount (get_loan s d' a))
    \<and> bank t = bank s \<and> get_collateral_sum t = get_collateral_sum s \<and> get_redemption_sum t = get_redemption_sum s"
  using assms(1,3,4) unfolding t_def
proof (induction ls arbitrary: s)
  case (Cons l ls)
  let ?v = "set_loan d (f l) s"
  have v: "loans_ok D ?v" using loan.ok_put [OF Cons.prems(1) assms(2)] Cons.prems(3) by (simp add: assms(6))
  have w: "weight ln_amount (get_loan ?v d' a) = (if d' = d \<and> a = ln_address l then max 0 (ln_amount (f l)) else weight ln_amount (get_loan s d' a))"
    using loan.entry_put [OF Cons.prems(1) _ assms(5), of "f l" d d'] Cons.prems(3) by (simp add: assms(6))
  have no: "find (\<lambda>l. ln_address l = a) ls = None" if "ln_address l = a"
    using Cons.prems(2) that by (simp add: find_None_iff image_iff) metis
  show ?case
    using Cons.IH [OF v] Cons.prems(2,3) w no by (auto split: option.split)
qed simp


definition mm_casset_example :: casset where
  "mm_casset_example = \<lparr>ca_name = ''ucwusdc'', ca_base = ''uwusdc'', ca_dex_fee_share = Some (dec_prec 5 1),
     ca_borrow_limit = Some (dec_prec 9 1), ca_min_loan = Some 1000\<rparr>"

lemma mm_casset_example: "mm_casset_example \<in> set (cassets (dparams mm_borrowed))"
  by code_simp


text \<open>The share of a cAsset that is lent out is between zero and one.\<close>

lemma loans_sum_nonneg:
  assumes "loans_ok D s"
  shows "0 \<le> get_loans_sum s d"
proof -
  have m: "entries_ok ln_address ln_amount D (loans s)" using assms by (simp add: loans_ok_def)
  have "0 < ln_amount l" if "l \<in> set (kv_vals (key_string d) (loans s))" for l
    using kv_vals_get [OF _ that] m by (auto simp: entries_ok_def)
  then have "0 \<le> ln_amount l" if "l \<in> set (kv_vals (key_string d) (loans s))" for l using that by fastforce
  then show ?thesis by (auto simp: sums_eq prefix_sum_def intro!: sum_list_nonneg)
qed

lemma utility_rate_bounds:
  assumes "sdk E" "loans_ok D s"
  obtains u where "calculate_utility_rate E s c = Inr u" "0 \<le> u" "u \<le> dec_one"
proof -
  have D: "decimal E" using assms(1) by (simp add: sdk_def)
  let ?l = "get_loans_sum s (ca_base c)" and ?v = "get_vault_amount E s c"
  have l: "0 \<le> ?l" "0 \<le> ?v" using loans_sum_nonneg [OF assms(2)] sdk.bal_nonneg [OF assms(1)] by (simp_all add: get_vault_amount_def bal_def)
  show thesis
  proof (cases "?l + to_dec ?v = 0")
    case True
    then show thesis using that [of 0] by (simp add: calculate_utility_rate_def)
  next
    case False
    with l have p: "0 < ?l + to_dec ?v" "?l \<le> ?l + to_dec ?v" by (simp_all add: order_less_le)
    show thesis
      by (rule that [of "dquo E ?l (?l + to_dec ?v)"])
        (use False p decimal.quo_nonneg [OF D l(1) p(1)] decimal.quo_mono [OF D p(2,1)] decimal.quo_self [OF D False] in
          \<open>simp_all add: calculate_utility_rate_def Let_def\<close>)
  qed
qed

lemma interest_rate_total:
  assumes "sdk E" "loans_ok D s" "rate_a (mparams s) = Some A" "0 \<le> A" "A \<le> to_dec (2 ^ 63 - 1)"
    and "rate_b (mparams s) = Some B" "B \<noteq> 0" "min_interest_rate (mparams s) = Some m"
  shows "is_ok (calculate_interest_rate E s c)"
proof -
  have D: "decimal E" using assms(1) by (simp add: sdk_def)
  obtain u where u: "calculate_utility_rate E s c = Inr u" "0 \<le> u" "u \<le> dec_one" by (rule utility_rate_bounds [OF assms(1,2)])
  have "dmul E u A \<le> A" using decimal.mul_le_left [OF D assms(4) u(3)] decimal.mul_comm [OF D, of u A] by simp
  then have "dround E (dmul E u A) \<le> 2 ^ 63 - 1"
    using decimal.round_mono [OF D order_trans [OF _ assms(5)]] by (simp add: decimal.round_to_dec [OF D])
  moreover have "0 \<le> dround E (dmul E u A)" by (rule decimal.round_nonneg [OF D decimal.mul_nonneg [OF D u(2) assms(4)]])
  ultimately show ?thesis
    using assms(6-8) by (simp add: calculate_interest_rate_def u(1) calculate_interest_rate_at_def assms(3) int64R_def Let_def)
qed

lemma interest_for_loans_total:
  assumes "sdk E" "loans_ok D s" "rate_a (mparams s) = Some A" "0 \<le> A" "A \<le> to_dec (2 ^ 63 - 1)"
    and "rate_b (mparams s) = Some B" "B \<noteq> 0" "min_interest_rate (mparams s) = Some m" "c \<in> set (cassets (dparams s))"
  shows "fst (apply_interest_for_loans E c s) = Inr () \<and> mparams (snd (apply_interest_for_loans E c s)) = mparams s"
proof -
  have "mparams (foldl (\<lambda>s l. set_loan d (f l) s) s ls) = mparams s" for d f ls and s :: "('a, 'b) mm_world_scheme"
    by (induction ls arbitrary: s) (simp_all add: set_loan_eq)
  then show ?thesis
    using interest_rate_total [OF assms(1-8), of c]
    by (auto simp: apply_interest_for_loans_def Let_def is_ok_iff blocks_per_year_def)
qed



text \<open>
  C40. The parameters are not checked for that: governance may set \<open>B\<close> to zero, the message is accepted, and from then on the end of every block
  with an outstanding loan panics.
\<close>

theorem zero_b_stops_the_chain:
  assumes "parse_dec E v = Some x" "0 \<le> x" "x \<le> dec_one" "parse_dec E a = Some A" "parse_dec E b = Some 0"
    and "validate_mm_params (mparams s) = Inr ()"
    and "c \<in> set (cassets (dparams s))" "get_all_loans_by_denom s (ca_base c) \<noteq> []"
  shows "\<exists>t. update_interest_rate_parameters E (authority E) v a b s = (Inr (), t) \<and> fst (mm_end_block E t) = Inl Panic"
proof -
  let ?t = "s\<lparr>mparams := mparams s\<lparr>min_interest_rate := Some x, rate_a := Some A, rate_b := Some 0\<rparr>\<rparr>"
  have u: "update_interest_rate_parameters E (authority E) v a b s = (Inr (), ?t)"
    using assms(1-6) by (auto simp: mm_param_messages mm_authority_def validate_mm_params_def mm_validate_zero_one_def mm_validate_number_def bindR_Inr_iff)
  have rate: "calculate_interest_rate E ?t c' = Inl Panic" for c'
    by (auto simp: calculate_interest_rate_def calculate_interest_rate_at_def calculate_utility_rate_def int64R_def checkR_def quoR_def Let_def bindR_def split: sum.split)
  then have one: "apply_interest_for_loans E c' ?t = (if get_all_loans_by_denom s (ca_base c') = [] then Inr () else Inl Panic, ?t)" for c'
    by (simp add: apply_interest_for_loans_def Let_def get_all_loans_by_denom_def)
  have "foldS (\<lambda>c _. apply_interest_for_loans E c) cs () ?t = (Inl Panic, ?t)" if "c \<in> set cs" for cs
    using that assms(8) by (induction cs) (auto simp: one)
  then have "apply_interest E ?t = (Inl Panic, ?t)" using assms(7) by (simp add: apply_interest_def get_cassets_def)
  then show ?thesis by (intro exI [of _ ?t]) (simp add: u mm_end_block_def)
qed

theorem zero_b_stops_the_chain_witness:
  "\<exists>t. update_interest_rate_parameters mm_env ''gov'' ''0.05'' ''12'' ''0'' mm_borrowed = (Inr (), t) \<and> fst (mm_end_block mm_env t) = Inl Panic"
proof -
  have "authority mm_env = ''gov''" by code_simp
  moreover have "\<exists>t. update_interest_rate_parameters mm_env (authority mm_env) ''0.05'' ''12'' ''0'' mm_borrowed = (Inr (), t)
      \<and> fst (mm_end_block mm_env t) = Inl Panic"
    by (rule zero_b_stops_the_chain [where x = "dec_prec 5 2" and A = "to_dec 12", OF _ _ _ _ _ _ mm_casset_example]) code_simp+
  ultimately show ?thesis by simp
qed

end
