(* ===== verification/MmSpec.thy ===== *)
theory MmSpec
  imports MmLoans
begin

text \<open>
  What the money market promises its users, without stores, keys, indices and module accounts: three tables of
  amounts, and what each message may change in them. The handlers implement it.
\<close>

section \<open>The specification\<close>

record mm_spec =
  sp_collateral :: "denom \<Rightarrow> string \<Rightarrow> int"
  sp_loan :: "denom \<Rightarrow> string \<Rightarrow> dec"
  sp_request :: "denom \<Rightarrow> string \<Rightarrow> int"

definition cell :: "(denom \<Rightarrow> string \<Rightarrow> int) \<Rightarrow> denom \<Rightarrow> string \<Rightarrow> int \<Rightarrow> denom \<Rightarrow> string \<Rightarrow> int" where
  "cell f d a n = f(d := (f d)(a := n))"

text \<open>A message of \<open>c\<close> changes one amount of \<open>c\<close> at most, and no amount becomes negative.\<close>

inductive spec_step :: "string \<Rightarrow> mm_msg \<Rightarrow> mm_spec \<Rightarrow> mm_spec \<Rightarrow> bool" for c where
  spec_deposit: "spec_step c (MsgAddDeposit d str) A A"
| spec_add: "0 < n \<Longrightarrow>
    spec_step c (MsgAddCollateral d str) A (A\<lparr>sp_collateral := cell (sp_collateral A) d c (sp_collateral A d c + n)\<rparr>)"
| spec_remove: "0 < n \<Longrightarrow> n \<le> sp_collateral A d c \<Longrightarrow>
    spec_step c (MsgRemoveCollateral d str) A (A\<lparr>sp_collateral := cell (sp_collateral A) d c (sp_collateral A d c - n)\<rparr>)"
| spec_borrow: "0 < n \<Longrightarrow>
    spec_step c (MsgBorrow d str) A (A\<lparr>sp_loan := cell (sp_loan A) d c (sp_loan A d c + n)\<rparr>)"
| spec_repay: "0 < sp_loan A d c \<Longrightarrow>
    spec_step c (MsgRepayLoan d) A (A\<lparr>sp_loan := cell (sp_loan A) d c 0\<rparr>)"
| spec_partial: "0 < n \<Longrightarrow> 0 < sp_loan A d c \<Longrightarrow>
    spec_step c (MsgPartiallyRepayLoan d str) A (A\<lparr>sp_loan := cell (sp_loan A) d c (max 0 (sp_loan A d c - n))\<rparr>)"
| spec_create: "0 < n \<Longrightarrow>
    spec_step c (MsgCreateRedemptionRequest d str fee) A (A\<lparr>sp_request := cell (sp_request A) d c n\<rparr>)"
| spec_cancel: "0 < sp_request A d c \<Longrightarrow>
    spec_step c (MsgCancelRedemptionRequest d) A (A\<lparr>sp_request := cell (sp_request A) d c 0\<rparr>)"
| spec_update: "0 < n \<Longrightarrow> 0 < sp_request A d c \<Longrightarrow>
    spec_step c (MsgUpdateRedemptionRequest d str fee) A (A\<lparr>sp_request := cell (sp_request A) d c n\<rparr>)"
| spec_share: "spec_step c (MsgUpdateProtocolShare v) A A"
| spec_fee: "spec_step c (MsgUpdateRedemptionFee v) A A"
| spec_discount: "spec_step c (MsgUpdateCollateralDiscount v) A A"
| spec_interest: "spec_step c (MsgUpdateInterestRateParameters v a b) A A"

section \<open>The abstraction\<close>

text \<open>The table of a store: what is stored for the addresses there can be.\<close>

definition table :: "('v \<Rightarrow> int) \<Rightarrow> (denom \<Rightarrow> string \<Rightarrow> 'v option) \<Rightarrow> denom \<Rightarrow> string \<Rightarrow> int" where
  "table amount entry d a = (if slash_free a then weight amount (entry d a) else 0)"

definition mm_abs :: "('b, 'z) mm_world_scheme \<Rightarrow> mm_spec" where
  "mm_abs s = \<lparr>sp_collateral = table co_amount (get_collateral s), sp_loan = table ln_amount (get_loan s),
     sp_request = table rd_amount (get_redemption s)\<rparr>"

context denom_store
begin

lemma table_put:
  assumes "ok D s" "slash_free (owner v)"
  shows "table amount (entry (put d v s)) = cell (table amount (entry s)) d (owner v) (max 0 (amount v))"
  using entry_put [OF assms] assms(2) by (intro ext) (auto simp: table_def cell_def)

end

lemma mm_abs_bank [simp]: "mm_abs (s\<lparr>bank := b\<rparr>) = mm_abs s"
  by (simp add: mm_abs_def get_collateral_def [abs_def] get_loan_def [abs_def] get_redemption_def [abs_def])

lemma mm_abs_cong:
  "collaterals t = collaterals s \<Longrightarrow> loans t = loans s \<Longrightarrow> redemptions t = redemptions s \<Longrightarrow> mm_abs t = mm_abs s"
  by (simp add: mm_abs_def get_collateral_def [abs_def] get_loan_def [abs_def] get_redemption_def [abs_def])

lemma mm_abs_bank_only: "t = s\<lparr>bank := bank t\<rparr> \<Longrightarrow> mm_abs t = mm_abs s"
  by (metis mm_abs_bank)

lemma mm_abs_put:
  assumes "mm_ok E s"
  shows "slash_free (co_address c) \<Longrightarrow> mm_abs (set_collateral d c s)
      = mm_abs s\<lparr>sp_collateral := cell (sp_collateral (mm_abs s)) d (co_address c) (max 0 (co_amount c))\<rparr>"
    and "slash_free (ln_address l) \<Longrightarrow> mm_abs (set_loan d l s)
      = mm_abs s\<lparr>sp_loan := cell (sp_loan (mm_abs s)) d (ln_address l) (max 0 (ln_amount l))\<rparr>"
    and "slash_free (rd_address r) \<Longrightarrow> mm_abs (set_redemption d r s)
      = mm_abs s\<lparr>sp_request := cell (sp_request (mm_abs s)) d (rd_address r) (max 0 (rd_amount r))\<rparr>"
  using coll.table_put [OF mm_okD(2) [OF assms]] loan.table_put [OF mm_okD(4) [OF assms]] red.table_put [OF mm_okD(3) [OF assms]]
  by (simp_all add: mm_abs_def) (simp_all add: set_collateral_eq set_loan_eq set_redemption_eq get_collateral_def [abs_def] get_loan_def [abs_def] get_redemption_def [abs_def])

section \<open>The handlers implement it\<close>

lemma parsed_pos: "mm_parse_amount E str False = Inr n \<Longrightarrow> 0 < n" "parse_loan_amount E str = Inr n \<Longrightarrow> 0 < n"
  by (auto simp: mm_parse_amount_def parse_loan_amount_def bindR_Inr_iff)

lemma user_slash_free: "sdk E \<Longrightarrow> user E c a \<Longrightarrow> slash_free c"
  using sdk.acc_law by (auto simp: user_def)

lemma mm_abs_transfers:
  assumes "sdk E"
  shows "send_acc_mod E a m d n s = (Inr u, t) \<Longrightarrow> mm_abs t = mm_abs s"
    and "send_mod_acc E m a d n s = (Inr u, t) \<Longrightarrow> mm_abs t = mm_abs s"
    and "mint_coins E m d n s = (Inr u, t) \<Longrightarrow> mm_abs t = mm_abs s"
  by (blast intro: mm_abs_bank_only sdk.send_acc_mod_ok(4) [OF assms], blast intro: mm_abs_bank_only sdk.send_mod_acc_ok(4) [OF assms],
      blast intro: mm_abs_bank_only sdk.mint_coins_ok(4) [OF assms])

lemma refines_deposit:
  assumes "sdk E" "add_deposit E c d str s = (Inr (), t)"
  shows "mm_abs t = mm_abs s"
proof -
  from assms(2) obtain a n v w tokens and x :: casset where v: "send_acc_mod E a pool_vault d n s = (Inr (), v)"
    and w: "mint_coins E mm_module (ca_name x) tokens v = (Inr (), w)" and t: "send_mod_acc E mm_module a (ca_name x) tokens w = (Inr (), t)"
    by (auto simp: add_deposit_def elim!: bindS_InrE)
  show ?thesis by (simp add: mm_abs_transfers(2) [OF assms(1) t] mm_abs_transfers(3) [OF assms(1) w] mm_abs_transfers(1) [OF assms(1) v])
qed

lemma refines_collateral:
  assumes "sdk E" "mm_ok E s" "user E c a"
  shows "add_collateral E c d str s = (Inr (), t) \<Longrightarrow> spec_step c (MsgAddCollateral d str) (mm_abs s) (mm_abs t)"
    and "remove_collateral E c d str s = (Inr (), t) \<Longrightarrow> spec_step c (MsgRemoveCollateral d str) (mm_abs s) (mm_abs t)"
proof -
  note sf = user_slash_free [OF assms(1,3)]
  note put = mm_abs_put(1) [OF assms(2)]
  show "spec_step c (MsgAddCollateral d str) (mm_abs s) (mm_abs t)" if r: "add_collateral E c d str s = (Inr (), t)"
  proof -
    from r obtain n a' x where n: "mm_parse_amount E str False = Inr n"
      and x: "x = (case get_collateral s d c of None \<Rightarrow> \<lparr>co_address = c, co_amount = 0\<rparr> | Some c \<Rightarrow> c)"
      and t: "send_acc_mod E a' pool_collateral d n (set_collateral d (x\<lparr>co_amount := co_amount x + n\<rparr>) s) = (Inr (), t)"
      by (auto simp: add_collateral_def Let_def elim!: bindS_InrE)
    note g = get_collateral_or_new [OF mm_okD(2) [OF assms(2)] sf, of d, folded x]
    have "mm_abs t = mm_abs s\<lparr>sp_collateral := cell (sp_collateral (mm_abs s)) d c (sp_collateral (mm_abs s) d c + n)\<rparr>"
      using put [of "x\<lparr>co_amount := co_amount x + n\<rparr>" d] g sf parsed_pos(1) [OF n]
      by (simp add: mm_abs_transfers(1) [OF assms(1) t]) (simp add: mm_abs_def table_def)
    then show ?thesis using spec_add [OF parsed_pos(1) [OF n]] by simp
  qed
  show "spec_step c (MsgRemoveCollateral d str) (mm_abs s) (mm_abs t)" if r: "remove_collateral E c d str s = (Inr (), t)"
  proof -
    from r obtain n a' x where n: "mm_parse_amount E str False = Inr n" and x: "get_collateral s d c = Some x" "n \<le> co_amount x"
      and t: "send_mod_acc E pool_collateral a' d n (set_collateral d (x\<lparr>co_amount := co_amount x - n\<rparr>) s) = (Inr (), t)"
      by (auto simp: remove_collateral_def Let_def elim!: bindS_InrE)
    have g: "co_address x = c" by (rule coll.entry_owner [OF mm_okD(2) [OF assms(2)] sf x(1)])
    have k: "sp_collateral (mm_abs s) d c = co_amount x" using sf x(1) by (simp add: mm_abs_def table_def)
    have "mm_abs t = mm_abs s\<lparr>sp_collateral := cell (sp_collateral (mm_abs s)) d c (sp_collateral (mm_abs s) d c - n)\<rparr>"
      using put [of "x\<lparr>co_amount := co_amount x - n\<rparr>" d] g sf x(2) by (simp add: mm_abs_transfers(2) [OF assms(1) t] k)
    then show ?thesis using spec_remove [OF parsed_pos(1) [OF n], of "mm_abs s" d c] x(2) k by simp
  qed
qed

lemma refines_borrow:
  assumes "sdk E" "mm_ok E s" "user E c a" "borrow E c d str s = (Inr (), t)"
  shows "spec_step c (MsgBorrow d str) (mm_abs s) (mm_abs t)"
proof -
  note sf = user_slash_free [OF assms(1,3)]
  from assms(4) obtain n a' k l where n: "parse_loan_amount E str = Inr n"
    and l: "l = (case get_loan s d c of None \<Rightarrow> \<lparr>ln_index = 0, ln_address = c, ln_amount = 0\<rparr> | Some l \<Rightarrow> l)"
    and t: "send_mod_acc E pool_vault a' d k (set_loan d (l\<lparr>ln_amount := ln_amount l + n\<rparr>) s) = (Inr (), t)"
    by (auto simp: borrow_def Let_def elim!: bindS_InrE split: sum.splits)
  note o = loan_or_new [OF mm_ok_loans [OF assms(2)] sf, of d, folded l]
  have "mm_abs t = mm_abs s\<lparr>sp_loan := cell (sp_loan (mm_abs s)) d c (sp_loan (mm_abs s) d c + n)\<rparr>"
    using mm_abs_put(2) [OF assms(2), of "l\<lparr>ln_amount := ln_amount l + n\<rparr>" d] o sf parsed_pos(2) [OF n]
    by (simp add: mm_abs_transfers(2) [OF assms(1) t]) (simp add: mm_abs_def table_def)
  then show ?thesis using spec_borrow [OF parsed_pos(2) [OF n]] by simp
qed

lemma refines_repay:
  assumes "sdk E" "mm_ok E s" "user E c a" "repay E d c n s = (Inr (), t)"
  shows "0 < sp_loan (mm_abs s) d c"
    and "mm_abs t = mm_abs s\<lparr>sp_loan := cell (sp_loan (mm_abs s)) d c (max 0 (sp_loan (mm_abs s) d c - n))\<rparr>"
proof -
  note sf = user_slash_free [OF assms(1,3)]
  from assms(4) obtain l a' k where l: "get_loan s d c = Some l"
    and t: "send_acc_mod E a' pool_vault d k (set_loan d (l\<lparr>ln_amount := ln_amount l - min n (ln_amount l)\<rparr>) s) = (Inr (), t)"
    by (auto simp: repay_def Let_def elim!: bindS_InrE)
  note lo = mm_okD(4) [OF assms(2)]
  have k: "sp_loan (mm_abs s) d c = ln_amount l" using sf l by (simp add: mm_abs_def table_def)
  show "0 < sp_loan (mm_abs s) d c" using loan.entry_pos [OF lo l] k by simp
  show "mm_abs t = mm_abs s\<lparr>sp_loan := cell (sp_loan (mm_abs s)) d c (max 0 (sp_loan (mm_abs s) d c - n))\<rparr>"
    using mm_abs_put(2) [OF assms(2), of "l\<lparr>ln_amount := ln_amount l - min n (ln_amount l)\<rparr>" d] loan.entry_owner [OF lo sf l] sf
      loan.entry_pos [OF lo l]
    by (simp add: mm_abs_transfers(1) [OF assms(1) t] k max_def min_def)
qed

lemma mm_abs_request:
  assumes "mm_ok E s" "slash_free c" "rd_address r = c" "t = set_redemption d r v" "v = s\<lparr>bank := bank v\<rparr>"
  shows "mm_abs t = mm_abs s\<lparr>sp_request := cell (sp_request (mm_abs s)) d c (max 0 (rd_amount r))\<rparr>"
proof -
  obtain b where b: "v = s\<lparr>bank := b\<rparr>" using assms(5) by blast
  have "t = (set_redemption d r s)\<lparr>bank := b\<rparr>" by (simp add: assms(4) b set_redemption_def remove_redemption_def)
  then show ?thesis using mm_abs_put(3) [OF assms(1), of r d] assms(2,3) by simp
qed

lemma refines_redemption:
  assumes "sdk E" "mm_ok E s" "user E c a"
  shows "create_redemption_request E c d str fee s = (Inr (), t) \<Longrightarrow> spec_step c (MsgCreateRedemptionRequest d str fee) (mm_abs s) (mm_abs t)"
    and "cancel_redemption_request E c d s = (Inr (), t) \<Longrightarrow> spec_step c (MsgCancelRedemptionRequest d) (mm_abs s) (mm_abs t)"
    and "update_redemption_request E c d str fee s = (Inr (), t) \<Longrightarrow> spec_step c (MsgUpdateRedemptionRequest d str fee) (mm_abs s) (mm_abs t)"
proof -
  note sf = user_slash_free [OF assms(1,3)]
  note ro = mm_okD(3) [OF assms(2)]
  have k: "sp_request (mm_abs s) d c = rd_amount x" if "get_redemption s d c = Some x" for x
    using sf that by (simp add: mm_abs_def table_def)
  note put = mm_abs_request [OF assms(2) sf]
  show "spec_step c (MsgCreateRedemptionRequest d str fee) (mm_abs s) (mm_abs t)" if r: "create_redemption_request E c d str fee s = (Inr (), t)"
  proof -
    from r obtain n x a' f v where n: "mm_parse_amount E str False = Inr n" and x: "get_casset_by_name (dparams s) d = Inr x"
      and v: "send_acc_mod E a' pool_redemption (ca_name x) n s = (Inr (), v)"
      and t: "t = set_redemption (ca_name x) \<lparr>rd_address = c, rd_added_at = height v, rd_amount = n, rd_fee = f\<rparr> v"
      by (auto simp: create_redemption_request_def Let_def elim!: bindS_InrE)
    have d: "ca_name x = d" using wf_denoms_known(2) [OF mm_okD(1) [OF assms(2)] x] by simp
    show ?thesis using put [OF _ t [unfolded d] sdk.send_acc_mod_ok(4) [OF assms(1) v]] spec_create [OF parsed_pos(1) [OF n]] parsed_pos(1) [OF n]
      by simp
  qed
  show "spec_step c (MsgCancelRedemptionRequest d) (mm_abs s) (mm_abs t)" if r: "cancel_redemption_request E c d s = (Inr (), t)"
  proof -
    from r obtain x a' v and y :: casset where x: "get_redemption s d c = Some x" and v: "send_mod_acc E pool_redemption a' (ca_name y) (rd_amount x) s = (Inr (), v)"
      and t: "t = remove_redemption d c v"
      unfolding cancel_redemption_request_def by (elim bindS_InrE) auto
    have "0 < sp_request (mm_abs s) d c" using red.entry_pos [OF ro x] k [OF x] by simp
    then show ?thesis using put [OF _ t [unfolded remove_redemption_eq] sdk.send_mod_acc_ok(4) [OF assms(1) v]] spec_cancel by simp
  qed
  show "spec_step c (MsgUpdateRedemptionRequest d str fee) (mm_abs s) (mm_abs t)" if r: "update_redemption_request E c d str fee s = (Inr (), t)"
  proof -
    from r obtain n x a' v w f and y :: casset where n: "mm_parse_amount E str False = Inr n" and x: "get_redemption s d c = Some x"
      and v: "send_mod_acc E pool_redemption a' (ca_name y) (rd_amount x) s = (Inr (), v)"
      and w: "send_acc_mod E a' pool_redemption (ca_name y) n v = (Inr (), w)"
      and t: "t = set_redemption d (x\<lparr>rd_fee := f, rd_amount := n\<rparr>) w"
      by (auto simp: update_redemption_request_def Let_def elim!: bindS_InrE)
    have "0 < sp_request (mm_abs s) d c" using red.entry_pos [OF ro x] k [OF x] by simp
    moreover have "w = s\<lparr>bank := bank w\<rparr>"
      by (rule bank_frame_trans [OF sdk.send_mod_acc_ok(4) [OF assms(1) v] sdk.send_acc_mod_ok(4) [OF assms(1) w]])
    ultimately show ?thesis
      using put [OF _ t] red.entry_owner [OF ro sf x] spec_update [OF parsed_pos(1) [OF n]] parsed_pos(1) [OF n] by simp
  qed
qed



end
