(* ===== verification/MmLiquidation.thy ===== *)
theory MmLiquidation
  imports MmPayout
begin

text \<open>
  Liquidations: what selling the collateral of a borrower takes from the account of the collaterals, and where the
  accounting stops being exact. What is not checked when collateral is withdrawn and when a request is made.
\<close>

section \<open>Selling collateral\<close>

lemma mm_fields_more:
  assumes "dex_world.more t = dex_world.more s"
  shows "collaterals t = collaterals s" "loans t = loans s" "redemptions t = redemptions s"
  by (insert assms, (cases s rule: mm_world.cases_scheme, cases t rule: mm_world.cases_scheme,
        simp only: mm_world.select_convs dex_world.select_convs mm_world.ext_inject swap_world.ext_inject)+)

text \<open>Without a trade only the entry changes.\<close>

lemma process_liquidation_cases:
  assumes "process_liquidation E c excess d address s = (Inr repaid, t)"
  obtains (none) "get_collateral s d address = None" "t = s"
  | (same) x n where "get_collateral s d address = Some x" "d = ca_base c" "n = min (co_amount x) (dtrunc E excess)" "repaid = Some n"
      "t = set_collateral d (x\<lparr>co_amount := co_amount x - n\<rparr>) s"
  | (trade) x give used f1 f2 v where "get_collateral s d address = Some x" "d \<noteq> ca_base c"
      "execute_trade E (liquidation_options E c d address (min (co_amount x) give)) s = (Inr (Some used, repaid, f1, f2), v)"
      "t = set_collateral d (x\<lparr>co_amount := co_amount x - used\<rparr>) v"
proof (cases "get_collateral s d address")
  case None
  then have "t = s" using assms by (simp add: process_liquidation_def)
  then show thesis by (rule none [OF None])
next
  case (Some x)
  show thesis
  proof (cases "d = ca_base c")
    case True
    have r: "repaid = Some (min (co_amount x) (dtrunc E excess))"
      "t = set_collateral d (x\<lparr>co_amount := co_amount x - min (co_amount x) (dtrunc E excess)\<rparr>) s"
      using assms Some True by (simp_all add: process_liquidation_def Let_def)
    show thesis by (rule same [OF Some True refl r])
  next
    case False
    have "\<exists>give used f1 f2 v. execute_trade E (liquidation_options E c d address (min (co_amount x) give)) s = (Inr (Some used, repaid, f1, f2), v)
        \<and> t = set_collateral d (x\<lparr>co_amount := co_amount x - used\<rparr>) v"
      using assms unfolding process_liquidation_def Some option.case if_not_P [OF False]
      by (elim bindS_InrE) (clarsimp simp: bindS_Inr_iff, blast)
    then show thesis by (elim exE conjE) (rule trade [OF Some False])
  qed
qed

text \<open>Taking \<open>u\<close> from an entry after the money market's account has lost no more than that.\<close>

definition sold :: "'b env \<Rightarrow> denom \<Rightarrow> string \<Rightarrow> int \<Rightarrow> ('b, 'z) mm_world_scheme \<Rightarrow> ('b, 'z) mm_world_scheme \<Rightarrow> bool" where
  "sold E d address u s t \<longleftrightarrow> mm_ok E t \<and> 0 \<le> u \<and> u \<le> weight co_amount (get_collateral s d address)
     \<and> (\<forall>d' a. slash_free a \<longrightarrow> weight co_amount (get_collateral t d' a)
          = weight co_amount (get_collateral s d' a) - (if d' = d \<and> a = address then u else 0))
     \<and> (\<forall>d'. bal E (bank s) (mod_addr E pool_collateral) d' - (if d' = d then u else 0) \<le> bal E (bank t) (mod_addr E pool_collateral) d')
     \<and> get_loan t = get_loan s \<and> get_redemption t = get_redemption s"

lemma take_collateral_ok:
  assumes s: "mm_ok E s" and acc: "mm_accounts E" and d: "d \<in> known s" and a: "slash_free address" "get_collateral s d address = Some x"
    and u: "0 \<le> u" "u \<le> co_amount x"
    and f: "collaterals v = collaterals s" "loans v = loans s" "redemptions v = redemptions s" "dparams v = dparams s"
    and b: "\<And>y d'. y \<in> held_accounts E \<Longrightarrow>
      bal E (bank s) y d' - (if y = mod_addr E pool_collateral \<and> d' = d then u else 0) \<le> bal E (bank v) y d'"
  shows "sold E d address u s (set_collateral d (x\<lparr>co_amount := co_amount x - u\<rparr>) v)"
proof -
  note co = mm_okD(2) [OF s]
  have o: "co_address x = address" "0 < co_amount x"
    by (rule coll.entry_owner [OF co a], rule coll.entry_pos [OF co a(2)])
  let ?x = "x\<lparr>co_amount := co_amount x - u\<rparr>" and ?t = "set_collateral d (x\<lparr>co_amount := co_amount x - u\<rparr>) v"
  have g: "get_collateral v = get_collateral s" "get_loan v = get_loan s" "get_redemption v = get_redemption s"
    "get_collateral_sum v = get_collateral_sum s" "get_redemption_sum v = get_redemption_sum s"
    "collaterals_ok D v = collaterals_ok D s" "loans_ok D v = loans_ok D s" "redemptions_ok D v = redemptions_ok D s" for D
    by (simp_all add: fun_eq_iff get_collateral_def get_loan_def get_redemption_def sums_eq collaterals_ok_def loans_ok_def redemptions_ok_def f)
  have cov: "collaterals_ok (known s) v" using co by (simp add: g)
  have w: "weight co_amount (get_collateral ?t d' a') = weight co_amount (get_collateral s d' a') - (if d' = d \<and> a' = address then u else 0)"
    if "slash_free a'" for d' a'
    using coll.entry_put [OF cov _ that, of ?x d d'] o u a by (auto simp: g)
  have "get_collateral_sum ?t d' \<le> bal E (bank ?t) (mod_addr E pool_collateral) d'" if "d' \<in> known s" for d'
    using coll.tally_change [OF cov d that, of ?x "- u"] o u a mm_okD(5) [OF s that] b [of "mod_addr E pool_collateral" d']
    by (auto simp: g split: if_splits)
  moreover have "get_redemption_sum ?t d' \<le> bal E (bank ?t) (mod_addr E pool_redemption) d'" if "d' \<in> known s" for d'
    using mm_okD(6) [OF s that] b [of "mod_addr E pool_redemption" d'] mm_accountsD(7) [OF acc] by (simp add: g)
  ultimately have "mm_ok E ?t"
    using mm_okD(1-4) [OF s] coll.ok_put [OF cov d, of ?x] o(1) a(1) by (simp add: mm_ok_def f g)
  moreover have "get_loan ?t = get_loan s" "get_redemption ?t = get_redemption s"
    using g by (simp_all add: set_collateral_eq get_loan_def [abs_def] get_redemption_def [abs_def])
  moreover have "bal E (bank s) (mod_addr E pool_collateral) d' - (if d' = d then u else 0) \<le> bal E (bank ?t) (mod_addr E pool_collateral) d'" for d'
    using b [of "mod_addr E pool_collateral" d'] by simp
  ultimately show ?thesis using w u a(2) by (simp add: sold_def)
qed

lemma process_liquidation_ok:
  assumes "sdk E" "mm_ok E s" "mm_accounts E" "wf_dex_params (xparams s)" "book_inv s" "base_currency \<in> known s"
    and "unat (liquidity_next s) + 8 * length (liquidities s) < 2 ^ 64 - 1" "held_accounts E \<inter> dex_pools E = {}"
    and "d \<in> known s" "slash_free address" "0 \<le> excess" "d \<noteq> base_currency \<or> d = ca_base c"
    and "process_liquidation E c excess d address s = (Inr repaid, t)"
  shows "(\<forall>d'. bk_supply E (bank t) d' = bk_supply E (bank s) d') \<and> (\<exists>u. sold E d address u s t)"
  using assms(13)
proof (cases rule: process_liquidation_cases)
  case none
  have "sold E d address 0 s s" using assms(2) none(1) by (simp add: sold_def)
  then show ?thesis unfolding none(2) by blast
next
  case (same x n)
  have "0 < co_amount x" by (rule coll.entry_pos [OF mm_okD(2) [OF assms(2)] same(1)])
  then have n: "0 \<le> n" "n \<le> co_amount x"
    using same(3) decimal.trunc_nonneg [OF sdk.axioms(1) [OF assms(1)] assms(11)] by simp_all
  have "sold E d address n s t"
    unfolding same(5) using n(1) by (intro take_collateral_ok [OF assms(2,3,9,10) same(1) n]) simp_all
  then show ?thesis by (auto simp: same(5) set_collateral_eq)
next
  case (trade x give used f1 f2 v)
  let ?opts = "liquidation_options E c d address (min (co_amount x) give)"
  have "denoms_separate (dparams s)" using mm_okD(4) [OF assms(2)] by (simp add: denoms_separate_iff loans_ok_def entries_ok_def)
  then have room: "book_room (length (liquidities s)) (0 + 8 * length (liquidities s)) s" using assms(5,7) by (simp add: book_room_def)
  have ss: "to_source ?opts = Some (mod_addr E pool_collateral)" "to_target ?opts = Some (mod_addr E pool_vault)" "to_start ?opts = d"
    "to_given ?opts \<le> co_amount x" by (simp_all add: liquidation_options_def)
  note ok = execute_trade_ok [OF assms(1,4) room assms(6) ss(1,2) trade(3), unfolded ss(3)]
  have u: "0 \<le> used" "used \<le> co_amount x" "trade_charge ?opts (Some used) = used"
    using ok ss(4) assms(12) trade(2) by (auto simp: trade_charge_def ss(3))
  note e = conjunct1 [OF ok, unfolded trade_effect_def u(3)]
  have f: "collaterals v = collaterals s" "loans v = loans s" "redemptions v = redemptions s" "dparams v = dparams s"
    using e mm_fields_more [of v s] by blast+
  have "bal E (bank s) y d' - (if y = mod_addr E pool_collateral \<and> d' = d then used else 0) \<le> bal E (bank v) y d'"
    if "y \<in> held_accounts E" for y d'
    using e that assms(8) by blast
  from take_collateral_ok [OF assms(2,3,9,10) trade(1) u(1,2) f this]
  have "sold E d address used s t" unfolding trade(4) .
  moreover have "bk_supply E (bank t) d' = bk_supply E (bank s) d'" for d' using e by (simp add: trade(4) set_collateral_eq)
  ultimately show ?thesis by blast
qed


text \<open>Bob pledges some of the stable coin, and a loan in it is liquidated.\<close>

definition mm_pledged :: "ledger mm_world" where
  "mm_pledged = snd (add_collateral mm_env ''bob'' ''uwusdc'' ''5000'' mm_start)"

lemma mm_pledged_ok: "mm_ok mm_env mm_pledged"
proof -
  have "fst (add_collateral mm_env ''bob'' ''uwusdc'' ''5000'' mm_start) = Inr ()" by code_simp
  then have "mm_handle mm_env ''bob'' (MsgAddCollateral ''uwusdc'' ''5000'') mm_start = (Inr (), mm_pledged)"
    by (simp add: prod_eq_iff mm_pledged_def)
  from mm_handle_ok [OF sdk_mm_env mm_env_accounts(1) mm_start_ok mm_env_accounts(3) this] show ?thesis .
qed

lemma mm_pledged_conds:
  "wf_dex_params (xparams mm_pledged)" "book_inv mm_pledged" "base_currency \<in> known mm_pledged" "''uwusdc'' \<in> known mm_pledged"
  "unat (liquidity_next mm_pledged) + 8 * length (liquidities mm_pledged) < 2 ^ 64 - 1"
proof -
  have f: "xparams mm_pledged = default_dex_params" "liquidities mm_pledged = liquidities dex_pool" "liquidity_next mm_pledged = 2"
    "liquidity_sums mm_pledged = liquidity_sums dex_pool" "length (liquidities dex_pool) = 2" "unat (liquidity_next mm_pledged) = 2"
    "dparams mm_pledged = mm_denoms_example" "denoms mm_denoms_example = [''ukopi'', ''uwusdc'', ''ucwusdc'']"
    by code_simp+
  have e: "kv_get (liquidities dex_pool) k = Some l \<Longrightarrow> lq_denom l \<in> {''ukopi'', ''uwusdc''}" for k l
    by (auto simp: dex_pool_value split: if_splits)
  have n: "liquidity_next dex_pool = 2" by code_simp
  have "k = lq_key l \<and> entry_ok mm_pledged l" if "kv_get (liquidities mm_pledged) k = Some l" for k l
    using dex_example_inv(3) e that by (auto simp: book_inv_def entry_ok_def f n)
  moreover have "liq_sum mm_pledged d = kv_sum (amount_in d) (liquidities mm_pledged)" for d
    using dex_example_inv(3) by (simp add: book_inv_def get_liquidity_sum_def f)
  ultimately show "book_inv mm_pledged" using dex_example_inv(3) by (simp add: book_inv_def f)
  show "wf_dex_params (xparams mm_pledged)" by (simp add: f wf_default_dex_params)
  show "base_currency \<in> known mm_pledged" "''uwusdc'' \<in> known mm_pledged"
    "unat (liquidity_next mm_pledged) + 8 * length (liquidities mm_pledged) < 2 ^ 64 - 1"
    by (simp_all add: f base_currency_def)
qed


section \<open>Where the accounting is not exact\<close>

text \<open>
  Selling collateral of the borrowed denomination lowers the borrower's entry, and the loan by as much, but moves no coins:
  they stay in the account of the collaterals and belong to nobody, and the value behind the cAsset falls.
\<close>

theorem same_denom_liquidation_moves_nothing:
  assumes "get_collateral s (ca_base c) address = Some x" "process_liquidation E c excess (ca_base c) address s = (r, t)"
  shows "r = Inr (Some (min (co_amount x) (dtrunc E excess))) \<and> bank t = bank s
    \<and> t = set_collateral (ca_base c) (x\<lparr>co_amount := co_amount x - min (co_amount x) (dtrunc E excess)\<rparr>) s"
  using assms by (auto simp: process_liquidation_def set_collateral_eq Let_def)

text \<open>
  Withdrawing collateral does not look at the loans: whatever is owed, the answer and the effect are the same as if nothing were.
\<close>

theorem withdrawal_ignores_loans:
  "remove_collateral E creator d str (s\<lparr>loans := L, next_loan := n\<rparr>)
    = (fst (remove_collateral E creator d str s), snd (remove_collateral E creator d str s)\<lparr>loans := L, next_loan := n\<rparr>)"
proof -
  have "set_collateral d c (s\<lparr>loans := L, next_loan := n\<rparr>) = (set_collateral d c s)\<lparr>loans := L, next_loan := n\<rparr>" for c
    by (simp add: set_collateral_eq)
  moreover have "send_mod_acc E m a d k (v\<lparr>loans := L, next_loan := n\<rparr>)
      = (fst (send_mod_acc E m a d k v), snd (send_mod_acc E m a d k v)\<lparr>loans := L, next_loan := n\<rparr>)"
    for m a k and v :: "('a, 'b) mm_world_scheme"
    by (simp add: send_mod_acc_def bank_call_def split: option.split sum.split)
  ultimately show ?thesis
    by (simp add: remove_collateral_def bindS_def get_collateral_def Let_def split: sum.split prod.split)
qed

text \<open>
  A second request of the same sender for the same cAsset is accepted and replaces the first, because the existing request is looked up
  under the base denomination: the coins of the first stay behind.
\<close>

theorem second_request_strands_coins:
  assumes "sdk E" "mm_ok E s" "user E creator a" "get_redemption s d creator = Some r"
    and "create_redemption_request E creator d str fee s = (Inr (), t)"
  shows "\<exists>n. mm_parse_amount E str False = Inr n \<and> weight rd_amount (get_redemption t d creator) = n
    \<and> bal E (bank t) (mod_addr E pool_redemption) d = bal E (bank s) (mod_addr E pool_redemption) d + n
    \<and> get_redemption_sum t d = get_redemption_sum s d + n - rd_amount r"
proof -
  note sf = user_slash_free [OF assms(1,3)]
  have ae: "acc_or_empty E creator = a" using assms(3) by (simp add: user_def acc_or_empty_def)
  from assms(5) obtain n x f v where n: "mm_parse_amount E str False = Inr n" and x: "get_casset_by_name (dparams s) d = Inr x"
    and v: "send_acc_mod E a pool_redemption (ca_name x) n s = (Inr (), v)"
    and t: "t = set_redemption (ca_name x) \<lparr>rd_address = creator, rd_added_at = height v, rd_amount = n, rd_fee = f\<rparr> v"
    by (auto simp: create_redemption_request_def ae Let_def elim!: bindS_InrE)
  have d: "ca_name x = d" "d \<in> known s" using wf_denoms_known(2) [OF mm_okD(1) [OF assms(2)] x] by simp_all
  note m = sdk.send_acc_mod_ok [OF assms(1) v]
  obtain b where b: "v = s\<lparr>bank := b\<rparr>" using m(4) by blast
  have ro: "redemptions_ok (known s) v" using mm_okD(3) [OF assms(2)] by (simp add: b)
  let ?r = "\<lparr>rd_address = creator, rd_added_at = height v, rd_amount = n, rd_fee = f\<rparr>"
  have n0: "0 < n" by (rule parsed_pos(1) [OF n])
  have "weight rd_amount (get_redemption t d creator) = n"
    using red.entry_put [OF ro _ sf, of ?r d d] sf n0 by (simp add: t d(1))
  moreover have "get_redemption_sum t d = get_redemption_sum s d + n - rd_amount r"
    using red.tally_put [OF ro d(2,2), of ?r] sf n0 assms(4) by (simp add: t d(1)) (simp add: b)
  moreover have "bal E (bank t) (mod_addr E pool_redemption) d = bal E (bank s) (mod_addr E pool_redemption) d + n"
    using m(2) [of "mod_addr E pool_redemption" d] assms(3) by (auto simp: t d(1) user_def)
  ultimately show ?thesis using n by blast
qed

end
