(* ===== verification/DexQueries.thy ===== *)
theory DexQueries
  imports DexBlock
begin

text \<open>
  The queries of \<open>x/dex\<close> (\<open>keeper/query_*.go\<close>). A query reads the state and returns a response or an error; the
  responses hold the numbers that the code renders as strings, an option where the code may render a nil number. A status error
  of gRPC and \<open>ErrKeyNotFound\<close> of the SDK are no sentinels of the modules and count as \<open>FmtError\<close>. The check that the request
  is not nil is left out: a request that reaches the handler is not. \<open>query.Paginate\<close> of the SDK calls
  the code on the entries of one page in the order of the store: the page is a parameter, a function on lists.
\<close>

section \<open>Prices\<close>

text \<open>
  \<open>GetPriceInUSD\<close> returns the price found so far beside an error. A caller that drops the error goes
  on with that price; a caller that drops the error of \<open>GetValueInUSD\<close> has a nil number.
\<close>

fun usd_price :: "'b env \<Rightarrow> ('b, 'z) dex_world_scheme \<Rightarrow> denom \<Rightarrow> denom list \<Rightarrow> dec \<Rightarrow> dec \<times> err option" where
  "usd_price E s d [] price = (price, None)"
| "usd_price E s d (usd # ds) price =
     (case calculate_price E s d usd of
        Inl e \<Rightarrow> (price, Some e)
      | Inr p \<Rightarrow> usd_price E s d ds (if price = 0 \<or> p > price then p else price))"

definition price_or_last :: "'b env \<Rightarrow> ('b, 'z) dex_world_scheme \<Rightarrow> denom \<Rightarrow> dec res" where
  "price_or_last E s d =
     (case usd_price E s d (reference_denoms (dparams s) ''ukusd'') 0 of
        (_, Some Panic) \<Rightarrow> Inl Panic | (p, _) \<Rightarrow> Inr p)"

definition value_or_nil :: "'b env \<Rightarrow> ('b, 'z) dex_world_scheme \<Rightarrow> denom \<Rightarrow> int \<Rightarrow> dec option res" where
  "value_or_nil E s d amt =
     (case get_value_in_usd E s d amt of
        Inl Panic \<Rightarrow> Inl Panic | Inl _ \<Rightarrow> Inr None | Inr v \<Rightarrow> Inr (Some v))"

definition query_price :: "'b env \<Rightarrow> ('b, 'z) dex_world_scheme \<Rightarrow> denom \<Rightarrow> denom \<Rightarrow> dec res" where
  "query_price E s from to = calculate_price E s from to"

text \<open>The price stays empty when a ratio is missing.\<close>

definition query_price_usd :: "'b env \<Rightarrow> ('b, 'z) dex_world_scheme \<Rightarrow> denom \<Rightarrow> dec option res" where
  "query_price_usd E s d =
     (case get_price_in_usd E s d of
        Inl e \<Rightarrow> if e = DexE Dex_ErrNilRatio then Inr None else Inl e
      | Inr p \<Rightarrow> Inr (Some p))"

text \<open>Rendering a nil ratio dereferences a nil pointer.\<close>

definition query_ratio :: "('b, 'z) dex_world_scheme \<Rightarrow> denom \<Rightarrow> (denom \<times> dec) res" where
  "query_ratio s d =
     bindR (of_option FmtError (get_ratio s d)) (\<lambda>r.
     bindR (nilR (ra_ratio r)) (\<lambda>x. Inr (d, x)))"

definition query_ratios :: "('b, 'z) dex_world_scheme \<Rightarrow> (denom \<times> dec) list res" where
  "query_ratios s =
     foldR (\<lambda>r rs. bindR (nilR (ra_ratio r)) (\<lambda>x. Inr (rs @ [(ra_denom r, x)]))) (get_all_ratio s) []"

definition query_value_kcoins :: "'b env \<Rightarrow> ('b, 'z) dex_world_scheme \<Rightarrow> dec res" where
  "query_value_kcoins E s =
     foldR (\<lambda>d sum. bindR (price_or_last E s d) (\<lambda>p. Inr (sum + dmul E p (to_dec (supply_of E s d)))))
       (kcoin_denoms (dparams s)) 0"

definition query_dex_params :: "('b, 'z) dex_world_scheme \<Rightarrow> dex_params" where
  "query_dex_params s = xparams s"

text \<open>The query of \<open>x/denominations\<close>.\<close>

definition query_denom_params :: "('b, 'z) denom_world_scheme \<Rightarrow> denom_params" where
  "query_denom_params s = dparams s"

section \<open>Liquidity\<close>

definition get_summed_liquidity :: "('b, 'z) dex_world_scheme \<Rightarrow> denom \<Rightarrow> int" where
  "get_summed_liquidity s d =
     foldl (\<lambda>sum l. if lq_denom l = d then sum + lq_amount l else sum) 0 (get_all_liquidity s)"

record liquidity_all_entry =
  la_denom :: denom
  la_amount :: int
  la_usd :: dec

definition query_liquidity_all :: "'b env \<Rightarrow> ('b, 'z) dex_world_scheme \<Rightarrow> liquidity_all_entry list res" where
  "query_liquidity_all E s =
     foldR (\<lambda>d es.
       bindR (get_value_in_usd E s d (liq_sum s d)) (\<lambda>v.
       Inr (es @ [\<lparr>la_denom = d, la_amount = liq_sum s d, la_usd = v\<rparr>]))) (denoms (dparams s)) []"

definition query_liquidity_sum :: "'b env \<Rightarrow> ('b, 'z) dex_world_scheme \<Rightarrow> dec res" where
  "query_liquidity_sum E s =
     foldR (\<lambda>d v.
       bindR (price_or_last E s d) (\<lambda>p.
       bindR (quoR E (to_dec (liq_sum s d)) p) (\<lambda>q. Inr (v + q)))) (denoms (dparams s)) 0"

record liquidity_response =
  lr_amount :: int
  lr_virtual_other :: dec
  lr_virtual_base :: dec
  lr_sum :: int
  lr_pool :: int

definition query_liquidity :: "'b env \<Rightarrow> ('b, 'z) dex_world_scheme \<Rightarrow> denom \<Rightarrow> liquidity_response" where
  "query_liquidity E s d =
     \<lparr>lr_amount = (let (n, found) = get_liquidity_sum s d in if found then n else 0),
      lr_virtual_other = (case get_liquidity_pair s d of None \<Rightarrow> 0 | Some p \<Rightarrow> lp_other p),
      lr_virtual_base = (case get_liquidity_pair s d of None \<Rightarrow> 0 | Some p \<Rightarrow> lp_base p),
      lr_sum = get_summed_liquidity s d,
      lr_pool = (case map_of (bk_spendable E (bank s) (mod_addr E pool_liquidity)) d of None \<Rightarrow> 0 | Some n \<Rightarrow> n)\<rparr>"

definition query_liquidity_queue :: "(liquidity list \<Rightarrow> liquidity list) \<Rightarrow> ('b, 'z) dex_world_scheme \<Rightarrow> (string \<times> int) list" where
  "query_liquidity_queue page s = map (\<lambda>l. (lq_address l, lq_amount l)) (page (get_all_liquidity s))"

record liquidity_pool_entry =
  le_denom :: denom
  le_pool :: int
  le_liquidity_sum :: int
  le_entries_sum :: int

definition query_liquidity_pool :: "'b env \<Rightarrow> ('b, 'z) dex_world_scheme \<Rightarrow> liquidity_pool_entry list" where
  "query_liquidity_pool E s =
     (let coins = bk_spendable E (bank s) (mod_addr E pool_liquidity) in
      map (\<lambda>d. let (sum, found) = get_liquidity_sum s d; sum = (if found then sum else 0) in
               \<lparr>le_denom = d, le_pool = amount_of coins d, le_liquidity_sum = sum,
                le_entries_sum = get_summed_liquidity s d\<rparr>) (denoms (dparams s)))"

text \<open>The error of the address codec is dropped, also where it has been checked before.\<close>

definition get_available_balance :: "'b env \<Rightarrow> ('b, 'z) dex_world_scheme \<Rightarrow> string \<Rightarrow> denom \<Rightarrow> int" where
  "get_available_balance E s address d =
     (let a = (case acc_of E address of None \<Rightarrow> [] | Some a \<Rightarrow> a) in
      case map_of (bk_spendable E (bank s) a) d of None \<Rightarrow> 0 | Some n \<Rightarrow> n)"

record address_liquidity =
  al_denom :: denom
  al_user :: int
  al_user_usd :: "dec option"
  al_total :: int
  al_total_usd :: "dec option"
  al_available :: int
  al_available_usd :: "dec option"

definition query_liquidity_for_address :: "'b env \<Rightarrow> ('b, 'z) dex_world_scheme \<Rightarrow> string \<Rightarrow> address_liquidity list res" where
  "query_liquidity_for_address E s a =
     bindR (of_option (DexE Dex_ErrInvalidAddress) (acc_of E a)) (\<lambda>_.
     foldR (\<lambda>d ls.
       let user = get_liquidity_by_address s d a; sum = liq_sum s d; available = get_available_balance E s a d in
       bindR (value_or_nil E s d user) (\<lambda>user_usd.
       bindR (value_or_nil E s d sum) (\<lambda>sum_usd.
       bindR (value_or_nil E s d available) (\<lambda>available_usd.
       Inr (ls @ [\<lparr>al_denom = d, al_user = user, al_user_usd = user_usd, al_total = sum, al_total_usd = sum_usd,
                   al_available = available, al_available_usd = available_usd\<rparr>]))))) (denoms (dparams s)) [])"

definition query_liquidity_pair_all :: "('b, 'z) dex_world_scheme \<Rightarrow> liquidity_pair list" where
  "query_liquidity_pair_all s = get_all_liquidity_pair s"

record liquidity_pair_response =
  pr_denom :: denom
  pr_virtual_base :: dec
  pr_virtual_other :: dec
  pr_full_base :: dec
  pr_full_other :: dec

definition query_liquidity_pair :: "('b, 'z) dex_world_scheme \<Rightarrow> denom \<Rightarrow> liquidity_pair_response res" where
  "query_liquidity_pair s d =
     bindR (of_option FmtError (get_liquidity_pair s d)) (\<lambda>p.
     bindR (full_liquidity_base s d) (\<lambda>base.
     Inr \<lparr>pr_denom = lp_denom p, pr_virtual_base = lp_base p, pr_virtual_other = lp_other p,
          pr_full_base = base, pr_full_other = full_liquidity_other s d\<rparr>))"

section \<open>The reserve\<close>

record denom_funds =
  df_denom :: denom
  df_amount :: dec
  df_usd :: dec

definition reserve_amount :: "'b env \<Rightarrow> ('b, 'z) dex_world_scheme \<Rightarrow> denom \<Rightarrow> int" where
  "reserve_amount E s d =
     (let a = mod_addr E pool_reserve; amount = get_liquidity_by_address s d (str_of E a) in
      case map_of (bk_spendable E (bank s) a) d of None \<Rightarrow> amount | Some n \<Rightarrow> amount + n)"

text \<open>
  The amounts of single denominations are integers, that of the total is a decimal: all are decimals here. The value in USD is the
  product with the price, while \<open>GetValueInUSD\<close> divides by it.
\<close>

definition query_reserve_funds_per_denom :: "'b env \<Rightarrow> ('b, 'z) dex_world_scheme \<Rightarrow> denom \<Rightarrow> denom_funds res" where
  "query_reserve_funds_per_denom E s d =
     (let amount = reserve_amount E s d in
      bindR (get_price_in_usd E s d) (\<lambda>p.
      Inr \<lparr>df_denom = d, df_amount = to_dec amount, df_usd = dmul E (to_dec amount) p\<rparr>))"

definition query_reserve_funds :: "'b env \<Rightarrow> ('b, 'z) dex_world_scheme \<Rightarrow> denom_funds list res" where
  "query_reserve_funds E s =
     bindR (foldR (\<lambda>d (total, funds).
         let amount = reserve_amount E s d in
         bindR (get_price_in_usd E s d) (\<lambda>p.
         Inr (total + dmul E (to_dec amount) p,
              funds @ [\<lparr>df_denom = d, df_amount = to_dec amount, df_usd = dmul E (to_dec amount) p\<rparr>])))
       (denoms (dparams s)) (0, [])) (\<lambda>(total, funds).
     Inr (funds @ [\<lparr>df_denom = ''total'', df_amount = total, df_usd = total\<rparr>]))"

section \<open>Simulation of a trade\<close>

record simulate_trade_response =
  sr_received :: int
  sr_received_usd :: int
  sr_given_usd :: int
  sr_fee :: int
  sr_price :: dec
  sr_price_from_usd :: dec
  sr_price_to_usd :: dec

text \<open>\<open>RoundInt64\<close> panics out of range.\<close>

definition round64 :: "'b env \<Rightarrow> dec \<Rightarrow> int res" where
  "round64 E x = int64R (Some (dround E x))"

definition query_simulate_trade :: "'b env \<Rightarrow> ('b, 'z) dex_world_scheme \<Rightarrow> denom \<Rightarrow> denom \<Rightarrow> string \<Rightarrow> string \<Rightarrow> simulate_trade_response res" where
  "query_simulate_trade E s from to address amt_str =
     bindR (parse_amount E amt_str) (\<lambda>amount.
     bindR (checkR (amount \<noteq> 0) (DexE Dex_ErrZeroAmount)) (\<lambda>_.
     bindR (trade_simulation E s from to address amount False) (\<lambda>(received, fee, price).
     bindR (get_price_in_usd E s from) (\<lambda>price_from.
     bindR (get_price_in_usd E s to) (\<lambda>price_to.
     bindR (int64R (Some received)) (\<lambda>n.
     bindR (bindR (quoR E (to_dec received) price_to) (round64 E)) (\<lambda>received_usd.
     bindR (bindR (quoR E (to_dec amount) price_from) (round64 E)) (\<lambda>given_usd.
     bindR (round64 E fee) (\<lambda>fee.
     Inr \<lparr>sr_received = n, sr_received_usd = received_usd, sr_given_usd = given_usd, sr_fee = fee, sr_price = price,
          sr_price_from_usd = price_from, sr_price_to_usd = price_to\<rparr>)))))))))"

section \<open>Orders\<close>

record order_response =
  os_index :: "64 word"
  os_creator :: string
  os_from :: denom
  os_to :: denom
  os_trade_amount :: int
  os_given :: int
  os_left :: int
  os_left_usd :: dec
  os_received :: int
  os_received_usd :: dec
  os_max_price :: dec
  os_num_blocks :: "64 word"
  os_block_end :: "64 word"
  os_incomplete :: bool

text \<open>What is left of an order is of the denomination it pays, but is valued as one of those it buys.\<close>

definition to_order_response :: "'b env \<Rightarrow> ('b, 'z) dex_world_scheme \<Rightarrow> order \<Rightarrow> order_response res" where
  "to_order_response E s x =
     bindR (get_value_in_usd E s (or_to x) (or_received x)) (\<lambda>received_usd.
     bindR (get_value_in_usd E s (or_to x) (or_left x)) (\<lambda>left_usd.
     Inr \<lparr>os_index = or_index x, os_creator = or_creator x, os_from = or_from x, os_to = or_to x,
          os_trade_amount = or_trade_amount x, os_given = or_given x, os_left = or_left x, os_left_usd = left_usd,
          os_received = or_received x, os_received_usd = received_usd, os_max_price = or_max_price x,
          os_num_blocks = or_num_blocks x, os_block_end = or_block_end x, os_incomplete = or_incomplete x\<rparr>))"

definition query_orders :: "'b env \<Rightarrow> (order list \<Rightarrow> order list) \<Rightarrow> ('b, 'z) dex_world_scheme \<Rightarrow> order_response list res" where
  "query_orders E page s =
     foldR (\<lambda>x rs. bindR (to_order_response E s x) (\<lambda>r. Inr (rs @ [r]))) (page (get_all_orders s)) []"

definition query_orders_num :: "('b, 'z) dex_world_scheme \<Rightarrow> 64 word" where
  "query_orders_num s = foldl (\<lambda>n _. n + 1) 0 (get_all_orders s)"

text \<open>The results are the bids and the asks.\<close>

definition query_orders_by_pair :: "'b env \<Rightarrow> ('b, 'z) dex_world_scheme \<Rightarrow> denom \<Rightarrow> denom \<Rightarrow>
    (order_response list \<times> order_response list) res" where
  "query_orders_by_pair E s from to =
     foldR (\<lambda>x (bids, asks).
       bindR (if or_from x = from \<and> or_to x = to
              then bindR (to_order_response E s x) (\<lambda>r. Inr (bids @ [r])) else Inr bids) (\<lambda>bids.
       bindR (if or_from x = to \<and> or_to x = from
              then bindR (to_order_response E s x) (\<lambda>r. Inr (asks @ [r])) else Inr asks) (\<lambda>asks.
       Inr (bids, asks)))) (get_all_orders s) ([], [])"

definition query_orders_address :: "'b env \<Rightarrow> ('b, 'z) dex_world_scheme \<Rightarrow> string \<Rightarrow> order_response list res" where
  "query_orders_address E s a =
     foldR (\<lambda>x rs. if or_creator x = a then bindR (to_order_response E s x) (\<lambda>r. Inr (rs @ [r])) else Inr rs)
       (get_all_orders s) []"

definition query_order :: "'b env \<Rightarrow> ('b, 'z) dex_world_scheme \<Rightarrow> 64 word \<Rightarrow> order_response res" where
  "query_order E s i =
     bindR (of_option (DexE Dex_ErrOrderNotFound) (get_order s i)) (to_order_response E s)"

text \<open>The price is divided by the amount, where a value is the amount divided by the price.\<close>

definition query_orders_sum :: "'b env \<Rightarrow> ('b, 'z) dex_world_scheme \<Rightarrow> dec res" where
  "query_orders_sum E s =
     foldR (\<lambda>x sum.
       bindR (price_or_last E s (or_from x)) (\<lambda>p.
       if or_left x > 0 then bindR (quoR E p (to_dec (or_left x))) (\<lambda>q. Inr (sum + q)) else Inr sum))
       (get_all_orders s) 0"

text \<open>
  \<open>OrdersDenomSum\<close> adds to the entry of a map without checking that there is one: adding to the zero \<open>Int\<close>, which
  holds a nil pointer, panics. The response lists the entries of the map in no fixed order.
\<close>

definition query_orders_denom_sum :: "('b, 'z) dex_world_scheme \<Rightarrow> (denom \<rightharpoonup> int) res" where
  "query_orders_denom_sum s =
     foldR (\<lambda>x m. bindR (nilR (m (or_from x))) (\<lambda>n. Inr (m(or_from x \<mapsto> n + or_left x)))) (get_all_orders s) Map.empty"

definition order_sum :: "('b, 'z) dex_world_scheme \<Rightarrow> denom \<rightharpoonup> int" where
  "order_sum s =
     foldl (\<lambda>m x. let m = (if m (or_from x) = None then m(or_from x \<mapsto> 0) else m) in
                  m(or_from x \<mapsto> the (m (or_from x)) + or_left x)) Map.empty (get_all_orders s)"

record order_balance =
  ob_denom :: denom
  ob_pool :: int
  ob_sum :: int

definition query_order_pool :: "'b env \<Rightarrow> ('b, 'z) dex_world_scheme \<Rightarrow> order_balance list" where
  "query_order_pool E s =
     (let sums = order_sum s; coins = bk_spendable E (bank s) (mod_addr E pool_orders) in
      map (\<lambda>d. \<lparr>ob_denom = d, ob_pool = (case map_of coins d of None \<Rightarrow> 0 | Some n \<Rightarrow> n),
                ob_sum = (case sums d of None \<Rightarrow> 0 | Some n \<Rightarrow> n)\<rparr>) (denoms (dparams s)))"

text \<open>Whether the account of the orders holds what they claim, up to one unit per denomination (a check that no other code calls).\<close>

definition check_order_pool_balanced :: "'b env \<Rightarrow> ('b, 'z) dex_world_scheme \<Rightarrow> bool" where
  "check_order_pool_balanced E s =
     (let sums = order_sum s; coins = bk_spendable E (bank s) (mod_addr E pool_orders) in
      list_all (\<lambda>d. \<not> \<bar>(case sums d of None \<Rightarrow> 0 | Some n \<Rightarrow> n) - (case map_of coins d of None \<Rightarrow> 0 | Some n \<Rightarrow> n)\<bar> > 1)
        (denoms (dparams s)))"

section \<open>What the queries report\<close>

text \<open>The price that a query goes on with after an error is that of \<open>GetPriceInUSD\<close> when there is no error.\<close>

lemma usd_price_spec:
  "foldR (\<lambda>usd price.
       bindR (calculate_price E s d usd) (\<lambda>p.
       Inr (if price = 0 \<or> p > price then p else price))) ds price =
   (case usd_price E s d ds price of (p, None) \<Rightarrow> Inr p | (_, Some e) \<Rightarrow> Inl e)"
  by (induction ds arbitrary: price) (auto split: sum.splits simp: bindR_def)

lemma price_or_last_ok: "get_price_in_usd E s d = Inr p \<Longrightarrow> price_or_last E s d = Inr p"
  by (auto simp: get_price_in_usd_def usd_price_spec price_or_last_def split: prod.splits option.splits)

lemma get_summed_liquidity_eq:
  assumes "book_inv s"
  shows "get_summed_liquidity s d = liq_sum s d"
proof -
  have "foldl (\<lambda>sum l. if lq_denom l = d then sum + lq_amount l else sum) n ls = n + sum_list (map (amount_in d) ls)" for n ls
    by (induction ls arbitrary: n) (simp_all add: amount_in_def)
  then show ?thesis
    using book_invD(5) [OF assms, of d] kv_sum_vals [of "liquidities s" "[]" "amount_in d"]
    by (simp add: get_summed_liquidity_def get_all_liquidity_def)
qed

lemma order_sum_eq: "(case order_sum s d of None \<Rightarrow> 0 | Some n \<Rightarrow> n) = escrow s d"
proof -
  let ?add = "\<lambda>(m :: denom \<rightharpoonup> int) x. let m = (if m (or_from x) = None then m(or_from x \<mapsto> 0) else m) in
                  m(or_from x \<mapsto> the (m (or_from x)) + or_left x)"
  have "(case foldl ?add m xs d of None \<Rightarrow> 0 | Some n \<Rightarrow> n)
      = (case m d of None \<Rightarrow> 0 | Some n \<Rightarrow> n) + sum_list (map (left_in d) xs)" for m xs
  proof (induction xs arbitrary: m)
    case (Cons x xs)
    then show ?case by (auto simp: Let_def left_in_def split: option.splits)
  qed simp
  from this [of Map.empty "get_all_orders s"] show ?thesis
    using kv_sum_vals [of "orders s" "[]" "left_in d"]
    by (simp add: order_sum_def escrow_def get_all_orders_def)
qed

text \<open>
  C32. The pool queries agree with the invariants: \<open>LiquidityPool\<close> reports, per denomination, what the account holds and
  twice the same sum, that of the stored sums and that of the entries; \<open>OrderPool\<close> reports what the account of the orders holds
  and what the orders claim of it; and the check of the pool of the orders accepts exactly the states in which that account holds what
  the orders claim up to one unit.
\<close>

theorem pool_queries_report:
  assumes "book_inv s"
  shows "query_liquidity_pool E s =
      map (\<lambda>d. \<lparr>le_denom = d, le_pool = bal E (bank s) (mod_addr E pool_liquidity) d,
                 le_liquidity_sum = liq_sum s d, le_entries_sum = liq_sum s d\<rparr>) (denoms (dparams s))
    \<and> query_order_pool E s =
      map (\<lambda>d. \<lparr>ob_denom = d, ob_pool = surplus E s d + escrow s d, ob_sum = escrow s d\<rparr>) (denoms (dparams s))
    \<and> check_order_pool_balanced E s = (\<forall>d \<in> set (denoms (dparams s)). \<bar>surplus E s d\<bar> \<le> 1)"
proof (intro conjI)
  have b: "(case map_of (bk_spendable E (bank s) a) d of None \<Rightarrow> 0 | Some n \<Rightarrow> n) = bal E (bank s) a d" for a d
    by (simp add: bal_def amount_of_def)
  show "check_order_pool_balanced E s = (\<forall>d \<in> set (denoms (dparams s)). \<bar>surplus E s d\<bar> \<le> 1)"
    by (simp add: check_order_pool_balanced_def order_sum_eq b surplus_def list_all_iff not_less abs_minus_commute)
qed (auto simp: query_liquidity_pool_def query_order_pool_def get_summed_liquidity_eq [OF assms] order_sum_eq
        surplus_def bal_def amount_of_def get_liquidity_sum_def Let_def split: option.splits)

theorem pool_queries_report_witness:
  "query_order_pool dex_env dex_ordered =
     map (\<lambda>d. \<lparr>ob_denom = d, ob_pool = surplus dex_env dex_ordered d + escrow dex_ordered d, ob_sum = escrow dex_ordered d\<rparr>)
       (denoms (dparams dex_ordered))
   \<and> map le_entries_sum (query_liquidity_pool dex_env dex_ordered) = map (liq_sum dex_ordered) (denoms (dparams dex_ordered))"
  using pool_queries_report [OF dex_ordered_book, of dex_env] by simp

text \<open>With any order, the sums of the orders per denomination are never reported.\<close>

lemma orders_denom_sum_panics:
  "query_orders_denom_sum s = (if get_all_orders s = [] then Inr Map.empty else Inl Panic)"
  by (cases "get_all_orders s") (simp_all add: query_orders_denom_sum_def nilR_def)

end
