(* ===== verification/MmQueries.thy ===== *)
theory MmQueries
  imports MmBlock DexQueries
begin

text \<open>
  The queries of the money market (\<open>x/mm/keeper/query_*.go\<close>), of the swap module and of the token factory. As for
  \<open>x/dex\<close>, responses hold numbers where the code renders strings, and \<open>req == nil\<close> is left out.
\<close>

section \<open>Balances\<close>

definition get_deposited_collateral :: "('b, 'z) mm_world_scheme \<Rightarrow> string \<Rightarrow> denom \<Rightarrow> int" where
  "get_deposited_collateral s address d = (case get_collateral s d address of None \<Rightarrow> 0 | Some c \<Rightarrow> co_amount c)"

definition get_order_value_by_denom :: "order list \<Rightarrow> denom \<Rightarrow> int" where
  "get_order_value_by_denom xs d = foldl (\<lambda>sum x. if or_from x = d then sum + or_left x else sum) 0 xs"

record full_denom_balance =
  fb_denom :: denom
  fb_sum :: int
  fb_sum_usd :: dec
  fb_wallet :: int
  fb_wallet_usd :: dec
  fb_liquidity :: int
  fb_liquidity_usd :: dec
  fb_orders :: int
  fb_orders_usd :: dec
  fb_collateral :: int
  fb_collateral_usd :: dec

record full_balance =
  fs_sum :: dec
  fs_wallet :: dec
  fs_liquidity :: dec
  fs_orders :: dec
  fs_collateral :: dec
  fs_denoms :: "full_denom_balance list"

text \<open>
  The errors of \<open>GetValueInUSD\<close> are dropped, but adding the nil number it returns with one panics. The collateral is not part
  of the sum.
\<close>

definition usd_or_panic :: "'b env \<Rightarrow> ('b, 'z) dex_world_scheme \<Rightarrow> denom \<Rightarrow> int \<Rightarrow> dec res" where
  "usd_or_panic E s d amt = bindR (value_or_nil E s d amt) nilR"

definition full_denom_balance_of :: "'b env \<Rightarrow> ('b, 'z) mm_world_scheme \<Rightarrow> string \<Rightarrow> denom \<Rightarrow> full_denom_balance res" where
  "full_denom_balance_of E s address d =
     (let liq = get_liquidity_by_address s d address;
          ord = get_order_value_by_denom (get_all_orders_by_address s address) d;
          wal = bal E (bank s) (acc_or_empty E address) d;
          col = get_deposited_collateral s address d;
          sum = liq + ord + wal in
      bindR (usd_or_panic E s d liq) (\<lambda>liq_usd.
      bindR (usd_or_panic E s d ord) (\<lambda>ord_usd.
      bindR (usd_or_panic E s d wal) (\<lambda>wal_usd.
      bindR (usd_or_panic E s d col) (\<lambda>col_usd.
      bindR (usd_or_panic E s d sum) (\<lambda>sum_usd.
      Inr \<lparr>fb_denom = d, fb_sum = sum, fb_sum_usd = sum_usd, fb_wallet = wal, fb_wallet_usd = wal_usd,
           fb_liquidity = liq, fb_liquidity_usd = liq_usd, fb_orders = ord, fb_orders_usd = ord_usd,
           fb_collateral = col, fb_collateral_usd = col_usd\<rparr>))))))"

definition query_full_balance :: "'b env \<Rightarrow> ('b, 'z) mm_world_scheme \<Rightarrow> string \<Rightarrow> full_balance res" where
  "query_full_balance E s address =
     foldR (\<lambda>d t.
       bindR (full_denom_balance_of E s address d) (\<lambda>e.
       Inr \<lparr>fs_sum = fs_sum t + fb_sum_usd e, fs_wallet = fs_wallet t + fb_wallet_usd e,
            fs_liquidity = fs_liquidity t + fb_liquidity_usd e, fs_orders = fs_orders t + fb_orders_usd e,
            fs_collateral = fs_collateral t + fb_collateral_usd e, fs_denoms = fs_denoms t @ [e]\<rparr>))
       (denoms (dparams s))
       \<lparr>fs_sum = 0, fs_wallet = 0, fs_liquidity = 0, fs_orders = 0, fs_collateral = 0, fs_denoms = []\<rparr>"

section \<open>Collaterals\<close>

record collateral_denom_stats =
  cs_denom :: denom
  cs_amount :: int
  cs_amount_usd :: dec
  cs_ltv :: "dec option"
  cs_price_usd :: dec
  cs_deposited :: int
  cs_deposit_cap :: int
  cs_cap_used :: dec

definition deposit_cap_used :: "'b env \<Rightarrow> int \<Rightarrow> int \<Rightarrow> dec res" where
  "deposit_cap_used E n cap = (if cap > 0 then quoR E (to_dec n) (to_dec cap) else Inr 0)"

definition query_collateral_stats :: "'b env \<Rightarrow> ('b, 'z) mm_world_scheme \<Rightarrow> (collateral_denom_stats list \<times> dec) res" where
  "query_collateral_stats E s =
     foldR (\<lambda>c (stats, total).
       let d = cd_denom c; sum = get_collateral_sum s d in
       bindR (get_value_in_usd E s d sum) (\<lambda>sum_usd.
       bindR (bindR (get_deposit_cap (dparams s) d) nilR) (\<lambda>cap.
       bindR (deposit_cap_used E sum cap) (\<lambda>used.
       bindR (if sum > 0 then quoR E sum_usd (to_dec sum) else price_or_last E s d) (\<lambda>price.
       Inr (stats @ [\<lparr>cs_denom = d, cs_amount = sum, cs_amount_usd = sum_usd, cs_ltv = cd_ltv c, cs_price_usd = price,
                      cs_deposited = sum, cs_deposit_cap = cap, cs_cap_used = used\<rparr>], total + sum_usd))))))
       (get_collateral_denoms (dparams s)) ([], 0)"

record collateral_denom_response =
  cr_users :: "(string \<times> int) list"
  cr_sum :: int
  cr_sum_usd :: dec

definition query_collateral_denom_stats :: "'b env \<Rightarrow> ('b, 'z) mm_world_scheme \<Rightarrow> denom \<Rightarrow> collateral_denom_response res" where
  "query_collateral_denom_stats E s d =
     bindR (of_option (MmE Mm_ErrInvalidCollateralDenom) (get_collateral_denom (dparams s) d)) (\<lambda>c.
     let cs = get_all_collaterals s (cd_denom c); sum = foldl (\<lambda>sum x. sum + co_amount x) 0 cs in
     bindR (get_value_in_usd E s (cd_denom c) sum) (\<lambda>sum_usd.
     Inr \<lparr>cr_users = map (\<lambda>x. (co_address x, co_amount x)) cs, cr_sum = sum, cr_sum_usd = sum_usd\<rparr>))"

text \<open>A denomination whose value cannot be determined is skipped here, an error above.\<close>

definition query_collateral_user_stats :: "'b env \<Rightarrow> ('b, 'z) mm_world_scheme \<Rightarrow> string \<Rightarrow> (collateral_denom_stats list \<times> dec) res" where
  "query_collateral_user_stats E s a =
     foldR (\<lambda>c (stats, total).
       let d = cd_denom c; amount = get_collateral_denom_for_address s d a in
       case get_value_in_usd E s d amount of
         Inl Panic \<Rightarrow> Inl Panic
       | Inl _ \<Rightarrow> Inr (stats, total)
       | Inr sum_usd \<Rightarrow>
           bindR (bindR (get_deposit_cap (dparams s) d) nilR) (\<lambda>cap.
           let sum = get_collateral_sum s d in
           bindR (deposit_cap_used E sum cap) (\<lambda>used.
           bindR (get_price_in_usd E s d) (\<lambda>price.
           Inr (stats @ [\<lparr>cs_denom = d, cs_amount = amount, cs_amount_usd = sum_usd, cs_ltv = cd_ltv c, cs_price_usd = price,
                          cs_deposited = sum, cs_deposit_cap = cap, cs_cap_used = used\<rparr>], total + sum_usd)))))
       (get_collateral_denoms (dparams s)) ([], 0)"

record collateral_user_response =
  cu_available :: int
  cu_available_usd :: int
  cu_provided :: int
  cu_provided_usd :: int

definition query_collateral_denom_user_stats :: "'b env \<Rightarrow> ('b, 'z) mm_world_scheme \<Rightarrow> string \<Rightarrow> denom \<Rightarrow> collateral_user_response res" where
  "query_collateral_denom_user_stats E s address d =
     bindR (of_option (MmE Mm_ErrInvalidAddress) (acc_of E address)) (\<lambda>a.
     let available = spendable_amt E s a d in
     bindR (get_value_in_usd E s d available) (\<lambda>available_usd.
     let provided = get_deposited_collateral s address d in
     bindR (get_value_in_usd E s d provided) (\<lambda>provided_usd.
     Inr \<lparr>cu_available = available, cu_available_usd = dround E available_usd,
          cu_provided = provided, cu_provided_usd = dround E provided_usd\<rparr>)))"

definition query_withdrawable_collateral :: "'b env \<Rightarrow> ('b, 'z) mm_world_scheme \<Rightarrow> string \<Rightarrow> denom \<Rightarrow> (int \<times> dec) res" where
  "query_withdrawable_collateral E s a d =
     bindR (calc_withdrawable_collateral_amount E s a d) (\<lambda>n.
     bindR (get_value_in_usd E s d n) (\<lambda>v. Inr (n, v)))"

section \<open>Deposits\<close>

definition get_utility_rate :: "'b env \<Rightarrow> ('b, 'z) mm_world_scheme \<Rightarrow> casset \<Rightarrow> dec res" where
  "get_utility_rate E s c =
     (let available = to_dec (get_vault_amount E s c); borrowed = get_loans_sum s (ca_base c) in
      if available + borrowed > 0 then quoR E borrowed (available + borrowed) else Inr 0)"

definition current_rate :: "'b env \<Rightarrow> ('b, 'z) mm_world_scheme \<Rightarrow> casset \<Rightarrow> (dec \<times> dec) res" where
  "current_rate E s c =
     bindR (get_utility_rate E s c) (\<lambda>u.
     bindR (calculate_interest_rate_at E s u) (\<lambda>i. Inr (u, i)))"

definition query_borrow_interest_rate :: "'b env \<Rightarrow> ('b, 'z) mm_world_scheme \<Rightarrow> denom \<Rightarrow> dec res" where
  "query_borrow_interest_rate E s d =
     bindR (get_casset_by_base_name (dparams s) d) (calculate_interest_rate E s)"

record deposit_denom_stats =
  dd_casset :: denom
  dd_base :: denom
  dd_supply :: int
  dd_supply_usd :: dec
  dd_available :: int
  dd_available_usd :: dec
  dd_borrowed :: dec
  dd_borrowed_usd :: dec
  dd_redeeming :: int
  dd_redeeming_usd :: dec
  dd_utility :: dec
  dd_interest :: dec
  dd_price_base :: dec
  dd_price_casset :: dec

text \<open>The sum of the requests is taken under the base denomination, where there are none.\<close>

definition deposit_denom_stats_of :: "'b env \<Rightarrow> ('b, 'z) mm_world_scheme \<Rightarrow> casset \<Rightarrow> deposit_denom_stats res" where
  "deposit_denom_stats_of E s c =
     (let supply = supply_of E s (ca_name c);
          available = get_vault_amount E s c;
          borrowed = get_loans_sum s (ca_base c);
          redeeming = get_redemption_sum s (ca_base c) in
      bindR (get_value_in_usd E s (ca_name c) supply) (\<lambda>supply_usd.
      bindR (get_value_in_usd E s (ca_base c) available) (\<lambda>available_usd.
      bindR (get_value_in_usd E s (ca_base c) (dround E borrowed)) (\<lambda>borrowed_usd.
      bindR (get_value_in_usd E s (ca_base c) redeeming) (\<lambda>redeeming_usd.
      bindR (current_rate E s c) (\<lambda>(utility, interest).
      bindR (get_price_in_usd E s (ca_base c)) (\<lambda>price_base.
      bindR (get_price_in_usd E s (ca_name c)) (\<lambda>price_casset.
      Inr \<lparr>dd_casset = ca_name c, dd_base = ca_base c, dd_supply = supply, dd_supply_usd = supply_usd,
           dd_available = available, dd_available_usd = available_usd, dd_borrowed = borrowed, dd_borrowed_usd = borrowed_usd,
           dd_redeeming = redeeming, dd_redeeming_usd = redeeming_usd, dd_utility = utility, dd_interest = interest,
           dd_price_base = price_base, dd_price_casset = price_casset\<rparr>))))))))"

record deposit_stats =
  dt_stats :: "deposit_denom_stats list"
  dt_borrowed_usd :: dec
  dt_available_usd :: dec
  dt_deposited_usd :: dec
  dt_redeeming_usd :: dec

definition query_deposit_stats :: "'b env \<Rightarrow> ('b, 'z) mm_world_scheme \<Rightarrow> deposit_stats res" where
  "query_deposit_stats E s =
     bindR (foldR (\<lambda>c (stats, available, borrowed, redeeming).
         bindR (deposit_denom_stats_of E s c) (\<lambda>d.
         Inr (stats @ [d], available + dd_available_usd d, borrowed + dd_borrowed_usd d, redeeming + dd_redeeming_usd d)))
       (get_cassets (dparams s)) ([], 0, 0, 0)) (\<lambda>(stats, available, borrowed, redeeming).
     Inr \<lparr>dt_stats = stats, dt_borrowed_usd = borrowed, dt_available_usd = available,
          dt_deposited_usd = available + borrowed, dt_redeeming_usd = redeeming\<rparr>)"

record deposit_user_stats =
  du_casset :: denom
  du_base :: denom
  du_supply :: "int option"
  du_value :: "dec option"
  du_base_equivalent :: dec
  du_amount :: dec
  du_value_usd :: dec
  du_price_base :: dec
  du_price_casset :: dec
  du_interest :: dec
  du_redeeming :: int
  du_redeeming_usd :: dec

text \<open>A request is looked up under the base denomination, while requests are stored under the name of the cAsset.\<close>

definition redeeming_amount :: "('b, 'z) mm_world_scheme \<Rightarrow> casset \<Rightarrow> string \<Rightarrow> int" where
  "redeeming_amount s c a = (case get_redemption s (ca_base c) a of None \<Rightarrow> 0 | Some r \<Rightarrow> rd_amount r)"

definition deposit_user_stats_of :: "'b env \<Rightarrow> ('b, 'z) mm_world_scheme \<Rightarrow> string \<Rightarrow> addr \<Rightarrow> casset \<Rightarrow> deposit_user_stats res" where
  "deposit_user_stats_of E s address a c =
     bindR (current_rate E s c) (\<lambda>(_, interest).
     let supply = get_casset_supply E s c; value_c = calculate_casset_value E s c;
         redeeming = redeeming_amount s c address; amount = to_dec (bal E (bank s) a (ca_name c)) in
     bindR (convert_to_base_amount_of E (to_dec supply) value_c amount) (\<lambda>base.
     bindR (get_value_in_usd E s (ca_name c) (dround E base)) (\<lambda>casset_usd.
     bindR (get_value_in_usd E s (ca_name c) redeeming) (\<lambda>redeeming_usd.
     bindR (get_price_in_usd E s (ca_base c)) (\<lambda>price_base.
     bindR (get_price_in_usd E s (ca_name c)) (\<lambda>price_casset.
     bindR (calculate_redemption_amount E s c amount) (\<lambda>equivalent.
     Inr \<lparr>du_casset = ca_name c, du_base = ca_base c, du_supply = Some supply, du_value = Some value_c, du_base_equivalent = equivalent,
          du_amount = amount, du_value_usd = casset_usd, du_price_base = price_base, du_price_casset = price_casset,
          du_interest = interest, du_redeeming = redeeming, du_redeeming_usd = redeeming_usd\<rparr>)))))))"

definition query_deposit_user_stats :: "'b env \<Rightarrow> ('b, 'z) mm_world_scheme \<Rightarrow> string \<Rightarrow> (deposit_user_stats list \<times> dec \<times> dec) res" where
  "query_deposit_user_stats E s address =
     bindR (of_option (MmE Mm_ErrInvalidAddress) (acc_of E address)) (\<lambda>a.
     foldR (\<lambda>c (stats, deposited, redeeming).
       bindR (deposit_user_stats_of E s address a c) (\<lambda>d.
       Inr (stats @ [d], deposited + du_value_usd d, redeeming + du_redeeming_usd d)))
       (get_cassets (dparams s)) ([], 0, 0))"

text \<open>For a single denomination the tokens themselves are valued, and the supply and the value behind it stay empty.\<close>

definition query_deposit_user_denom_stats :: "'b env \<Rightarrow> ('b, 'z) mm_world_scheme \<Rightarrow> string \<Rightarrow> denom \<Rightarrow> deposit_user_stats res" where
  "query_deposit_user_denom_stats E s address d =
     bindR (of_option (MmE Mm_ErrInvalidAddress) (acc_of E address)) (\<lambda>a.
     bindR (get_casset_by_base_name (dparams s) d) (\<lambda>c.
     bindR (current_rate E s c) (\<lambda>(_, interest).
     let n = bal E (bank s) a (ca_name c); redeeming = redeeming_amount s c address; amount = to_dec n in
     bindR (get_value_in_usd E s (ca_name c) n) (\<lambda>casset_usd.
     bindR (get_value_in_usd E s (ca_name c) redeeming) (\<lambda>redeeming_usd.
     bindR (get_price_in_usd E s (ca_base c)) (\<lambda>price_base.
     bindR (get_price_in_usd E s (ca_name c)) (\<lambda>price_casset.
     bindR (calculate_redemption_amount E s c amount) (\<lambda>equivalent.
     Inr \<lparr>du_casset = ca_name c, du_base = ca_base c, du_supply = None, du_value = None, du_base_equivalent = equivalent,
          du_amount = amount, du_value_usd = casset_usd, du_price_base = price_base, du_price_casset = price_casset,
          du_interest = interest, du_redeeming = redeeming, du_redeeming_usd = redeeming_usd\<rparr>))))))))"

record vault =
  va_denom :: denom
  va_balance :: int
  va_loan_sum :: dec
  va_supply :: int

definition get_balance :: "'b env \<Rightarrow> ('b, 'z) mm_world_scheme \<Rightarrow> denom \<Rightarrow> int" where
  "get_balance E s d =
     (case find (\<lambda>(d', _). d' = d) (bk_spendable E (bank s) (mod_addr E pool_vault)) of None \<Rightarrow> 0 | Some (_, n) \<Rightarrow> n)"

definition query_vault_values :: "'b env \<Rightarrow> ('b, 'z) mm_world_scheme \<Rightarrow> vault list" where
  "query_vault_values E s =
     map (\<lambda>c. \<lparr>va_denom = ca_base c, va_balance = get_balance E s (ca_base c), va_loan_sum = get_loans_sum s (ca_base c),
               va_supply = supply_of E s (ca_name c)\<rparr>) (get_cassets (dparams s))"

section \<open>Loans\<close>

record user_loan =
  ul_denom :: denom
  ul_amount :: dec
  ul_usd :: dec
  ul_interest :: dec

definition query_loans :: "'b env \<Rightarrow> ('b, 'z) mm_world_scheme \<Rightarrow> user_loan list res" where
  "query_loans E s =
     foldR (\<lambda>c ls.
       bindR (current_rate E s c) (\<lambda>(_, interest).
       foldR (\<lambda>l ls.
         bindR (get_value_in_usd E s (ca_base c) (dround E (ln_amount l))) (\<lambda>v.
         Inr (ls @ [\<lparr>ul_denom = ca_base c, ul_amount = ln_amount l, ul_usd = v, ul_interest = interest\<rparr>])))
         (get_all_loans_by_denom s (ca_base c)) ls)) (get_cassets (dparams s)) []"

record denom_loan_stat =
  dl_denom :: denom
  dl_utility :: dec
  dl_interest :: dec
  dl_available :: int
  dl_available_usd :: dec
  dl_sum :: dec
  dl_sum_usd :: dec

text \<open>The total of the loans is overwritten in each round, with the available amounts so far in place of the loans so far.\<close>

definition query_loans_stats :: "'b env \<Rightarrow> ('b, 'z) mm_world_scheme \<Rightarrow> (denom_loan_stat list \<times> dec \<times> dec) res" where
  "query_loans_stats E s =
     foldR (\<lambda>c (stats, total_available, total_loans).
       bindR (current_rate E s c) (\<lambda>(utility, interest).
       let available = get_vault_amount E s c; loan_sum = get_loans_sum s (ca_base c) in
       bindR (get_value_in_usd E s (ca_base c) available) (\<lambda>available_usd.
       bindR (get_value_in_usd E s (ca_base c) (dround E loan_sum)) (\<lambda>loan_usd.
       let total_available = total_available + available_usd; total_loans = total_available + loan_usd in
       Inr (stats @ [\<lparr>dl_denom = ca_base c, dl_utility = utility, dl_interest = interest, dl_available = available,
                      dl_available_usd = available_usd, dl_sum = loan_sum, dl_sum_usd = loan_usd\<rparr>],
            total_available, total_loans)))))
       (get_cassets (dparams s)) ([], 0, 0)"

record user_loan_stat =
  us_denom :: denom
  us_borrowed :: dec
  us_borrowed_usd :: dec
  us_available :: int
  us_available_usd :: dec
  us_interest :: dec

definition loan_amount :: "('b, 'z) mm_world_scheme \<Rightarrow> casset \<Rightarrow> string \<Rightarrow> dec" where
  "loan_amount s c a = (case get_loan s (ca_base c) a of None \<Rightarrow> 0 | Some l \<Rightarrow> ln_amount l)"

definition query_user_loans :: "'b env \<Rightarrow> ('b, 'z) mm_world_scheme \<Rightarrow> string \<Rightarrow> user_loan_stat list res" where
  "query_user_loans E s a =
     foldR (\<lambda>c ls.
       bindR (current_rate E s c) (\<lambda>(_, interest).
       let available = get_vault_amount E s c; borrowed = loan_amount s c a in
       bindR (get_value_in_usd E s (ca_base c) available) (\<lambda>available_usd.
       bindR (get_value_in_usd E s (ca_base c) (dround E borrowed)) (\<lambda>borrowed_usd.
       Inr (ls @ [\<lparr>us_denom = ca_base c, us_borrowed = borrowed, us_borrowed_usd = borrowed_usd,
                   us_available = available, us_available_usd = available_usd, us_interest = interest\<rparr>])))))
       (get_cassets (dparams s)) []"

definition query_user_denom_loan :: "'b env \<Rightarrow> ('b, 'z) mm_world_scheme \<Rightarrow> string \<Rightarrow> denom \<Rightarrow> (dec \<times> dec) res" where
  "query_user_denom_loan E s a d =
     bindR (get_casset_by_base_name (dparams s) d) (\<lambda>c.
     let borrowed = loan_amount s c a in
     bindR (get_value_in_usd E s (ca_base c) (dround E borrowed)) (\<lambda>v. Inr (borrowed, v)))"

definition query_num_loans :: "('b, 'z) mm_world_scheme \<Rightarrow> 64 word" where
  "query_num_loans s = foldl (\<lambda>n _. n + 1) 0 (kv_vals [] (loans s))"

definition query_value_loans :: "'b env \<Rightarrow> ('b, 'z) mm_world_scheme \<Rightarrow> dec res" where
  "query_value_loans E s =
     foldR (\<lambda>c sum. foldR (\<lambda>l sum.
         bindR (get_value_in_usd E s (ca_base c) (dround E (ln_amount l))) (\<lambda>v. Inr (sum + v)))
       (get_all_loans_by_denom s (ca_base c)) sum) (get_cassets (dparams s)) 0"

definition query_num_address_loans :: "('b, 'z) mm_world_scheme \<Rightarrow> string \<Rightarrow> 64 word" where
  "query_num_address_loans s a = foldl (\<lambda>n l. if ln_address l = a then n + 1 else n) 0 (kv_vals [] (loans s))"

definition query_available_to_borrow :: "'b env \<Rightarrow> ('b, 'z) mm_world_scheme \<Rightarrow> string \<Rightarrow> denom \<Rightarrow> (int \<times> dec) res" where
  "query_available_to_borrow E s a d =
     bindR (calc_available_to_borrow E s a d) (\<lambda>n.
     bindR (get_value_in_usd E s d n) (\<lambda>v. Inr (n, v)))"

section \<open>Redemption requests\<close>

text \<open>The results are the fee and the amount; both are zero when there is no request.\<close>

definition query_redemption_request :: "('b, 'z) mm_world_scheme \<Rightarrow> denom \<Rightarrow> string \<Rightarrow> dec \<times> int" where
  "query_redemption_request s d a = (case get_redemption s d a of None \<Rightarrow> (0, 0) | Some r \<Rightarrow> (rd_fee r, rd_amount r))"

definition get_redemption_denom_stats :: "('b, 'z) mm_world_scheme \<Rightarrow> denom \<Rightarrow> int \<times> dec \<times> int" where
  "get_redemption_denom_stats s d =
     foldl (\<lambda>(sum, max_fee, n) r. (sum + rd_amount r, max max_fee (rd_fee r), n + 1)) (0, 0, 0) (get_redemptions s d)"

text \<open>The requests' sum in USD and their number.\<close>

definition query_redemption_stats :: "'b env \<Rightarrow> ('b, 'z) mm_world_scheme \<Rightarrow> (dec \<times> int) res" where
  "query_redemption_stats E s =
     foldR (\<lambda>c (total, num).
       let (sum, _, n) = get_redemption_denom_stats s (ca_name c) in
       bindR (get_value_in_usd E s (ca_name c) sum) (\<lambda>v. Inr (total + v, num + n)))
       (get_cassets (dparams s)) (0, 0)"

text \<open>The number of requests, their sum, and the highest fee when it is positive.\<close>

definition query_redemption_denom_stats :: "('b, 'z) mm_world_scheme \<Rightarrow> denom \<Rightarrow> int \<times> int \<times> dec option" where
  "query_redemption_denom_stats s d =
     (let (sum, max_fee, n) = get_redemption_denom_stats s d in (n, sum, if max_fee > 0 then Some max_fee else None))"

definition query_redemptions :: "('b, 'z) mm_world_scheme \<Rightarrow> denom \<Rightarrow> (string \<times> int \<times> dec) list" where
  "query_redemptions s d = map (\<lambda>r. (rd_address r, rd_amount r, rd_fee r)) (get_redemptions s d)"

section \<open>Value locked and users\<close>

definition get_total_deposited :: "'b env \<Rightarrow> ('b, 'z) mm_world_scheme \<Rightarrow> dec res" where
  "get_total_deposited E s =
     foldR (\<lambda>c total.
       bindR (get_value_in_usd E s (ca_base c) (get_vault_amount E s c)) (\<lambda>available.
       bindR (get_value_in_usd E s (ca_base c) (dround E (get_loans_sum s (ca_base c)))) (\<lambda>borrowed.
       Inr (total + available + borrowed)))) (get_cassets (dparams s)) 0"

definition get_total_collateral :: "'b env \<Rightarrow> ('b, 'z) mm_world_scheme \<Rightarrow> dec res" where
  "get_total_collateral E s =
     foldR (\<lambda>c total.
       bindR (get_value_in_usd E s (cd_denom c) (get_collateral_sum s (cd_denom c))) (\<lambda>v. Inr (total + v)))
       (get_collateral_denoms (dparams s)) 0"

definition query_total_value_locked :: "'b env \<Rightarrow> ('b, 'z) mm_world_scheme \<Rightarrow> dec res" where
  "query_total_value_locked E s =
     bindR (get_total_deposited E s) (\<lambda>deposited.
     bindR (get_total_collateral E s) (\<lambda>collateral. Inr (deposited + collateral)))"

definition get_borrowable_amount_usd :: "'b env \<Rightarrow> ('b, 'z) mm_world_scheme \<Rightarrow> string \<Rightarrow> dec res" where
  "get_borrowable_amount_usd E s a =
     foldR (\<lambda>c sum.
       bindR (calculate_borrowable_amount E s a (ca_base c)) (\<lambda>n.
       bindR (get_value_in_usd E s (ca_base c) (dtrunc E n)) (\<lambda>v. Inr (sum + v))))
       (get_cassets (dparams s)) 0"

definition get_deposit_user_stats :: "'b env \<Rightarrow> ('b, 'z) mm_world_scheme \<Rightarrow> string \<Rightarrow> (dec \<times> dec) res" where
  "get_deposit_user_stats E s address =
     bindR (of_option (MmE Mm_ErrInvalidAddress) (acc_of E address)) (\<lambda>a.
     foldR (\<lambda>c (deposited, withdrawing).
       bindR (convert_to_base_amount E s c (bal E (bank s) a (ca_name c))) (\<lambda>base.
       bindR (get_value_in_usd E s (ca_name c) (dround E base)) (\<lambda>casset_usd.
       bindR (convert_to_base_amount E s c (redeeming_amount s c address)) (\<lambda>base.
       bindR (get_value_in_usd E s (ca_name c) (dround E base)) (\<lambda>withdrawal_usd.
       Inr (deposited + casset_usd, withdrawing + withdrawal_usd))))))
       (get_cassets (dparams s)) (0, 0))"

text \<open>The sum of the loans and their interest rate, weighted by value.\<close>

definition get_user_loans_sum_usd :: "'b env \<Rightarrow> ('b, 'z) mm_world_scheme \<Rightarrow> string \<Rightarrow> (dec \<times> dec) res" where
  "get_user_loans_sum_usd E s a =
     bindR (foldR (\<lambda>c (sum, rates).
         case get_loan s (ca_base c) a of
           None \<Rightarrow> Inr (sum, rates)
         | Some l \<Rightarrow>
             bindR (get_value_in_usd E s (ca_base c) (dround E (ln_amount l))) (\<lambda>v.
             bindR (calculate_interest_rate E s c) (\<lambda>rate. Inr (sum + v, rates + dmul E rate v))))
       (get_cassets (dparams s)) (0, 0)) (\<lambda>(sum, rates).
     bindR (if sum > 0 then quoR E rates sum else Inr 0) (\<lambda>rate. Inr (sum, rate)))"

text \<open>The value of the collateral, and what may be borrowed against it.\<close>

definition get_collateral_user_sum_usd :: "'b env \<Rightarrow> ('b, 'z) mm_world_scheme \<Rightarrow> string \<Rightarrow> (dec \<times> dec) res" where
  "get_collateral_user_sum_usd E s a =
     foldR (\<lambda>c (deposit, borrowable).
       case get_collateral s (cd_denom c) a of
         None \<Rightarrow> Inr (deposit, borrowable)
       | Some x \<Rightarrow>
           bindR (get_value_in_usd E s (cd_denom c) (co_amount x)) (\<lambda>v.
           bindR (nilR (cd_ltv c)) (\<lambda>ltv.
           bindR (get_value_in_usd E s (cd_denom c) (dround E (dmul E (to_dec (co_amount x)) ltv))) (\<lambda>w.
           Inr (deposit + v, borrowable + w)))))
       (get_collateral_denoms (dparams s)) (0, 0)"

record user_stats =
  st_deposited :: dec
  st_collateral :: dec
  st_borrowed :: dec
  st_withdrawing :: dec
  st_borrowable :: dec
  st_utility :: "dec option"
  st_interest :: "dec option"

definition query_user_stats :: "'b env \<Rightarrow> ('b, 'z) mm_world_scheme \<Rightarrow> string \<Rightarrow> user_stats res" where
  "query_user_stats E s a =
     bindR (get_deposit_user_stats E s a) (\<lambda>(deposited, withdrawing).
     bindR (get_collateral_user_sum_usd E s a) (\<lambda>(collateral, borrowable).
     bindR (get_user_loans_sum_usd E s a) (\<lambda>(borrowed, rate).
     bindR (if borrowable > 0 then bindR (quoR E borrowed borrowable) (\<lambda>u. Inr (Some u, Some rate)) else Inr (None, None))
       (\<lambda>(utility, interest).
     Inr \<lparr>st_deposited = deposited, st_collateral = collateral, st_borrowed = borrowed, st_withdrawing = withdrawing,
          st_borrowable = borrowable, st_utility = utility, st_interest = interest\<rparr>))))"

definition query_credit_line_usage :: "'b env \<Rightarrow> ('b, 'z) mm_world_scheme \<Rightarrow> string \<Rightarrow> dec res" where
  "query_credit_line_usage E s a =
     bindR (get_user_loans_sum_usd E s a) (\<lambda>(loans, _).
     bindR (get_collateral_user_sum_usd E s a) (\<lambda>(_, collateral).
     if collateral > 0 then quoR E loans collateral else Inr 0))"

definition query_mm_params :: "('b, 'z) mm_world_scheme \<Rightarrow> mm_params" where
  "query_mm_params s = mparams s"

section \<open>The other modules\<close>

record kcoin_supply =
  sp_denom :: denom
  sp_amount :: int
  sp_price :: dec
  sp_reference :: denom

text \<open>Rendering a nil parity or a nil ratio panics.\<close>

definition query_kcoins_supplies :: "'b env \<Rightarrow> ('b, 'z) dex_world_scheme \<Rightarrow> kcoin_supply list res" where
  "query_kcoins_supplies E s =
     foldR (\<lambda>d xs.
       bindR (calculate_parity E s d) (\<lambda>(price, reference).
       bindR (nilR price) (\<lambda>price.
       Inr (xs @ [\<lparr>sp_denom = d, sp_amount = supply_of E s d, sp_price = price, sp_reference = reference\<rparr>]))))
       (kcoin_denoms (dparams s)) []"

record kcoin_supply_response =
  kr_amount :: int
  kr_price :: dec
  kr_reference :: denom
  kr_ratio_reference :: dec
  kr_ratio_virtual :: dec

definition query_kcoin_supply :: "'b env \<Rightarrow> ('b, 'z) dex_world_scheme \<Rightarrow> denom \<Rightarrow> kcoin_supply_response res" where
  "query_kcoin_supply E s d =
     bindR (checkR (is_kcoin (dparams s) d) (SwapE Swap_ErrNoKCoin)) (\<lambda>_.
     bindR (calculate_parity E s d) (\<lambda>(price, reference).
     bindR (nilR price) (\<lambda>price.
     bindR (nilR (ratio_value s reference)) (\<lambda>rr.
     bindR (nilR (ratio_value s d)) (\<lambda>rv.
     Inr \<lparr>kr_amount = supply_of E s d, kr_price = price, kr_reference = reference,
          kr_ratio_reference = rr, kr_ratio_virtual = rv\<rparr>)))))"

definition query_swap_params :: "('b, 'z) swap_world_scheme \<Rightarrow> swap_params" where
  "query_swap_params s = sparams s"

end
