(* ===== verification/DexGenesis.thy ===== *)
theory DexGenesis
  imports DexBlock
begin

text \<open>
  The round trip of \<open>x/dex\<close> through its genesis state: what an export followed by an import into an empty store
  brings back, and what it loses.
\<close>

section \<open>Rebuilding a store\<close>

lemma kv_put_last: "\<forall>k' \<in> set (map fst m). k' < k \<Longrightarrow> kv_put k v m = m @ [(k, v)]"
proof (induction k v m rule: kv_put.induct)
  case (2 k v k' v' m)
  then have "k' < k" by simp
  with 2 show ?case by (auto dest: less_not_sym)
qed simp

lemma kv_rebuild:
  "kv_wf (m @ m') \<Longrightarrow> \<forall>(k, v) \<in> set m'. k = key v \<Longrightarrow> foldl (\<lambda>m v. kv_put (key v) v m) m (map snd m') = m @ m'"
proof (induction m' arbitrary: m)
  case (Cons x m')
  obtain k v where x: "x = (k, v)" by (cases x)
  have k: "k = key v" using Cons.prems(2) by (simp add: x)
  have "\<forall>k' \<in> set (map fst m). k' < k"
    using Cons.prems(1) by (auto simp: x kv_wf_def sorted_append less_le)
  then have "kv_put (key v) v m = m @ [(k, v)]" unfolding k [symmetric] by (rule kv_put_last)
  with Cons.IH [of "m @ [(k, v)]"] Cons.prems show ?case by (simp add: x)
qed simp

lemma kv_vals_all: "kv_vals [] m = map snd m"
  by (simp add: kv_vals_def kv_iter_def case_prod_unfold)

lemma kv_rebuild_vals:
  assumes "kv_wf m" "\<And>k v. kv_get m k = Some v \<Longrightarrow> k = key v"
  shows "foldl (\<lambda>m v. kv_put (key v) v m) [] (kv_vals [] m) = m"
proof -
  have "\<forall>(k, v) \<in> set m. k = key v"
    using assms kvs.set_iter [OF assms(1), of "[]"] by (auto simp: kv_iter_def case_prod_unfold)
  with kv_rebuild [of "[]" m key] assms(1) show ?thesis by (simp add: kv_vals_all)
qed

section \<open>The phases of the import\<close>

lemma init_liquidities:
  assumes "\<forall>l \<in> set ls. lq_index l \<noteq> 0" "kv_wf (liquidity_sums s)"
  defines "t \<equiv> foldl (\<lambda>s l. set_liquidity l (lq_amount l) s) s ls"
  shows "liquidities t = foldl (\<lambda>m l. kv_put (lq_key l) l m) (liquidities s) ls \<and> kv_wf (liquidity_sums t)
    \<and> (\<forall>d. liq_sum t d = liq_sum s d + sum_list (map (amount_in d) ls)) \<and> book_only s t"
  using assms(1,2) unfolding t_def
proof (induction ls arbitrary: s)
  case (Cons l ls)
  let ?v = "set_liquidity l (lq_amount l) s"
  have i: "lq_index l \<noteq> 0" using Cons.prems(1) by simp
  have v: "liquidities ?v = kv_put (lq_key l) l (liquidities s)" "kv_wf (liquidity_sums ?v)"
    "liq_sum ?v d = liq_sum s d + amount_in d l" for d
    using Cons.prems(2) by (simp_all add: set_liquidity_old [OF i] liq_sum_update) (simp_all add: get_liquidity_sum_def amount_in_def)
  have "\<forall>l \<in> set ls. lq_index l \<noteq> 0" using Cons.prems(1) by simp
  from Cons.IH [OF this v(2)] book_only_trans [OF set_liquidity_only [of s l "lq_amount l"]] show ?case
    by (simp add: v(1,3) algebra_simps)
qed simp

lemma init_sums:
  assumes "\<forall>x \<in> set xs. ls_amount x = f (ls_denom x)" "kv_wf (liquidity_sums s)" "\<And>d. liq_sum s d = f d"
  defines "t \<equiv> foldl (\<lambda>s x. set_liquidity_sum x s) s xs"
  shows "(\<forall>d. liq_sum t d = f d) \<and> kv_wf (liquidity_sums t) \<and> t = s\<lparr>liquidity_sums := liquidity_sums t\<rparr>"
  using assms(1-3) unfolding t_def
proof (induction xs arbitrary: s)
  case (Cons x xs)
  let ?v = "set_liquidity_sum x s"
  have v: "kv_wf (liquidity_sums ?v)" "liq_sum ?v d = f d" for d
    using Cons.prems by (simp_all add: set_liquidity_sum_def [of x s] kvs.invar_put) (simp_all add: get_liquidity_sum_def kvs.get_put)
  have "\<forall>x \<in> set xs. ls_amount x = f (ls_denom x)" using Cons.prems(1) by simp
  from Cons.IH [OF this v] show ?case by (simp add: set_liquidity_sum_def [of x s])
qed simp

text \<open>Pairs that the import accepts, none of them of the base currency.\<close>

definition pair_ok :: "liquidity_pair \<Rightarrow> bool" where
  "pair_ok p \<longleftrightarrow> lp_denom p \<noteq> [] \<and> lp_denom p \<noteq> base_currency \<and> 0 \<le> lp_base p \<and> 0 \<le> lp_other p"

lemma init_pairs_list:
  "\<forall>p \<in> set ps. pair_ok p \<Longrightarrow>
     foldS (\<lambda>p _. set_liquidity_pair p) ps () s
     = (Inr (), s\<lparr>liquidity_pairs := foldl (\<lambda>m p. kv_put (key_string (lp_denom p)) p m) (liquidity_pairs s) ps\<rparr>)"
  by (induction ps arbitrary: s) (simp_all add: pair_ok_def set_liquidity_pair_def)

lemma init_ratios_list:
  "\<forall>p \<in> set ps. pair_ok p \<Longrightarrow>
     \<exists>rs. foldS (\<lambda>p _ s. bindS (pair_ratio E s (lp_denom p), s) (\<lambda>r s. (Inr (), set_ratio \<lparr>ra_denom = lp_denom p, ra_ratio = r\<rparr> s))) ps () s
       = (Inr (), s\<lparr>ratios := rs\<rparr>)"
proof (induction ps arbitrary: s)
  case Nil
  then show ?case by (intro exI [of _ "ratios s"]) simp
next
  case (Cons p ps)
  then have "lp_denom p \<noteq> base_currency" by (simp add: pair_ok_def)
  then obtain r where r: "pair_ratio E s (lp_denom p) = Inr r" by (simp add: pair_ratio_def full_liquidity_base_def Let_def)
  let ?v = "set_ratio \<lparr>ra_denom = lp_denom p, ra_ratio = r\<rparr> s"
  have "\<forall>q \<in> set ps. pair_ok q" using Cons.prems by simp
  from Cons.IH [OF this, of ?v] show ?case by (auto simp: r set_ratio_def)
qed

lemma init_orders:
  "\<forall>x \<in> set xs. or_index x \<noteq> 0 \<Longrightarrow>
     foldl (\<lambda>s x. snd (set_order x s)) s xs
     = s\<lparr>orders := foldl (\<lambda>m x. kv_put (key_index (or_index x)) x m) (orders s) xs\<rparr>"
  by (induction xs arbitrary: s) (simp_all add: set_order_old)

section \<open>The round trip\<close>

text \<open>Every sum and every pair lies under its own key, and the pairs are such as the import accepts.\<close>

definition stores_wf :: "('b, 'z) dex_world_scheme \<Rightarrow> bool" where
  "stores_wf s \<longleftrightarrow> kv_wf (liquidity_pairs s)
     \<and> (\<forall>(k, p) \<in> set (liquidity_pairs s). k = key_string (lp_denom p) \<and> pair_ok p)
     \<and> (\<forall>(k, x) \<in> set (liquidity_sums s). k = key_string (ls_denom x))"

definition dex_empty :: "('b, 'z) dex_world_scheme \<Rightarrow> bool" where
  "dex_empty s \<longleftrightarrow> liquidities s = [] \<and> liquidity_sums s = [] \<and> liquidity_pairs s = [] \<and> ratios s = [] \<and> orders s = []
     \<and> trade_amounts s = []"

lemma book_entries_rebuild:
  assumes "book_inv s"
  shows "foldl (\<lambda>m l. kv_put (lq_key l) l m) [] (get_all_liquidity s) = liquidities s"
    "\<forall>l \<in> set (get_all_liquidity s). lq_index l \<noteq> 0"
    "sum_list (map (amount_in d) (get_all_liquidity s)) = liq_sum s d"
proof -
  show "foldl (\<lambda>m l. kv_put (lq_key l) l m) [] (get_all_liquidity s) = liquidities s"
    unfolding get_all_liquidity_def using book_invD(1,3) [OF assms] by (intro kv_rebuild_vals) auto
  show "\<forall>l \<in> set (get_all_liquidity s). lq_index l \<noteq> 0"
    using kv_vals_get [OF book_invD(1) [OF assms]] book_invD(4) [OF assms]
    by (fastforce simp: get_all_liquidity_def entry_ok_def)
  show "sum_list (map (amount_in d) (get_all_liquidity s)) = liq_sum s d"
    using kv_sum_vals [of "liquidities s" "[]" "amount_in d"] book_invD(5) [OF assms, of d]
    by (simp add: get_all_liquidity_def)
qed

lemma stored_sums:
  assumes "stores_wf s" "kv_wf (liquidity_sums s)" "x \<in> set (get_all_liquidity_sum s)"
  shows "ls_amount x = liq_sum s (ls_denom x)"
proof -
  obtain k where k: "(k, x) \<in> set (liquidity_sums s)" using assms(3) by (auto simp: get_all_liquidity_sum_def kv_vals_all)
  with assms(1) have "k = key_string (ls_denom x)" by (auto simp: stores_wf_def)
  with k assms(2) have "kv_get (liquidity_sums s) (key_string (ls_denom x)) = Some x"
    by (simp add: kv_get_def kv_wf_def)
  then show ?thesis by (simp add: get_liquidity_sum_def)
qed

text \<open>The lists of the export rebuild the pairs and the orders.\<close>

lemma stored_pairs:
  assumes "stores_wf s"
  shows "foldl (\<lambda>m p. kv_put (key_string (lp_denom p)) p m) [] (get_all_liquidity_pair s) = liquidity_pairs s"
    "\<forall>p \<in> set (get_all_liquidity_pair s). pair_ok p"
proof -
  show "foldl (\<lambda>m p. kv_put (key_string (lp_denom p)) p m) [] (get_all_liquidity_pair s) = liquidity_pairs s"
    using assms unfolding get_all_liquidity_pair_def
    by (intro kv_rebuild_vals) (auto simp: stores_wf_def kv_get_def kv_wf_def)
  show "\<forall>p \<in> set (get_all_liquidity_pair s). pair_ok p"
    using assms by (auto simp: get_all_liquidity_pair_def kv_vals_all stores_wf_def)
qed

lemma stored_orders:
  assumes "order_inv s"
  shows "foldl (\<lambda>m x. kv_put (key_index (or_index x)) x m) [] (get_all_orders s) = orders s"
    "\<forall>x \<in> set (get_all_orders s). or_index x \<noteq> 0"
  using get_order_ok(2) [OF assms get_all_orders_get [OF assms]] order_invD(1,2) [OF assms] kv_rebuild_vals [of "orders s"]
  by (auto simp: get_all_orders_def order_ok_def)

text \<open>The import of the entries, the pairs and their ratios, before the stored sums and the orders.\<close>

lemma import_book:
  assumes "book_inv s" "stores_wf s" "dex_empty s0"
  shows "\<exists>u. foldS (\<lambda>p _. set_liquidity_pair p) (get_all_liquidity_pair s) () (foldl (\<lambda>s l. set_liquidity l (lq_amount l) s) s0 (get_all_liquidity s))
        = (Inr (), u)
    \<and> (\<exists>rs. let v = u\<lparr>ratios := rs\<rparr> in
        foldS (\<lambda>p _ s. bindS (pair_ratio E s (lp_denom p), s) (\<lambda>r s. (Inr (), set_ratio \<lparr>ra_denom = lp_denom p, ra_ratio = r\<rparr> s)))
          (get_all_liquidity_pair s) () u = (Inr (), v)
        \<and> liquidities v = liquidities s \<and> kv_wf (liquidity_sums v) \<and> (\<forall>d. liq_sum v d = liq_sum s d)
        \<and> liquidity_pairs v = liquidity_pairs s \<and> orders v = [] \<and> trade_amounts v = [] \<and> bank v = bank s0)"
proof -
  define s1 where "s1 = foldl (\<lambda>s l. set_liquidity l (lq_amount l) s) s0 (get_all_liquidity s)"
  have e: "liquidities s0 = []" "liquidity_sums s0 = []" "liquidity_pairs s0 = []" "orders s0 = []" "trade_amounts s0 = []"
    using assms(3) by (simp_all add: dex_empty_def)
  note b = book_entries_rebuild [OF assms(1)] and ps = stored_pairs [OF assms(2)]
  have "kv_wf (liquidity_sums s0)" by (simp add: e kv_wf_def)
  note 1 = init_liquidities [OF b(2) this, folded s1_def]
  have 1: "liquidities s1 = liquidities s" "kv_wf (liquidity_sums s1)" "\<And>d. liq_sum s1 d = liq_sum s d"
    "orders s1 = []" "trade_amounts s1 = []" "bank s1 = bank s0" "liquidity_pairs s1 = []"
    using 1 b(1,3) book_onlyD [of s0 s1] by (simp_all add: e) (simp_all add: get_liquidity_sum_def e)
  let ?u = "s1\<lparr>liquidity_pairs := liquidity_pairs s\<rparr>"
  have u: "foldS (\<lambda>p _. set_liquidity_pair p) (get_all_liquidity_pair s) () s1 = (Inr (), ?u)"
    using init_pairs_list [OF ps(2), of s1] by (simp add: 1(7) ps(1))
  obtain rs where "foldS (\<lambda>p _ s. bindS (pair_ratio E s (lp_denom p), s) (\<lambda>r s. (Inr (), set_ratio \<lparr>ra_denom = lp_denom p, ra_ratio = r\<rparr> s)))
      (get_all_liquidity_pair s) () ?u = (Inr (), ?u\<lparr>ratios := rs\<rparr>)"
    using init_ratios_list [OF ps(2), of E ?u] by blast
  then show ?thesis
    unfolding s1_def [symmetric] u using 1
    by (intro exI [of _ ?u] conjI refl exI [of _ rs]) (simp add: Let_def get_liquidity_sum_def)
qed

text \<open>
  C39. Exporting the state of the dex and importing it into empty stores always succeeds and brings back
  every liquidity entry, the sums, the pairs, the orders, both counters and the parameters exactly; the traded amounts
  of the wallets are lost.
\<close>

theorem dex_genesis_roundtrip:
  assumes "book_inv s" "order_inv s" "stores_wf s" "dex_empty s0"
  shows "\<exists>t. dex_init_genesis E (dex_export_genesis s) s0 = (Inr (), t)
    \<and> liquidities t = liquidities s \<and> (\<forall>d. liq_sum t d = liq_sum s d) \<and> liquidity_next t = liquidity_next s
    \<and> liquidity_pairs t = liquidity_pairs s \<and> liquidity_pair_count t = liquidity_pair_count s
    \<and> orders t = orders s \<and> order_next t = order_next s \<and> xparams t = xparams s
    \<and> trade_amounts t = [] \<and> bank t = bank s0"
proof -
  obtain u rs where p: "foldS (\<lambda>p _. set_liquidity_pair p) (get_all_liquidity_pair s) ()
        (foldl (\<lambda>s l. set_liquidity l (lq_amount l) s) s0 (get_all_liquidity s)) = (Inr (), u)"
    and v: "let v = u\<lparr>ratios := rs\<rparr> in
        foldS (\<lambda>p _ s. bindS (pair_ratio E s (lp_denom p), s) (\<lambda>r s. (Inr (), set_ratio \<lparr>ra_denom = lp_denom p, ra_ratio = r\<rparr> s)))
          (get_all_liquidity_pair s) () u = (Inr (), v)
        \<and> liquidities v = liquidities s \<and> kv_wf (liquidity_sums v) \<and> (\<forall>d. liq_sum v d = liq_sum s d)
        \<and> liquidity_pairs v = liquidity_pairs s \<and> orders v = [] \<and> trade_amounts v = [] \<and> bank v = bank s0"
    using import_book [OF assms(1,3,4)] by blast
  define v w where "v = set_liquidity_pair_count (liquidity_pair_count s) (u\<lparr>ratios := rs\<rparr>)"
    and "w = foldl (\<lambda>s x. set_liquidity_sum x s) v (get_all_liquidity_sum s)"
  have f: "liquidities v = liquidities s" "liquidity_pairs v = liquidity_pairs s" "orders v = []" "trade_amounts v = []"
    "bank v = bank s0" "liquidity_pair_count v = liquidity_pair_count s" "kv_wf (liquidity_sums v)" "liq_sum v d = liq_sum s d" for d
    using v by (simp_all add: v_def set_liquidity_pair_count_def Let_def) (simp_all add: get_liquidity_sum_def)
  have w: "liq_sum w d = liq_sum s d" "w = v\<lparr>liquidity_sums := liquidity_sums w\<rparr>" for d
    using init_sums [OF ballI [OF stored_sums [OF assms(3) book_invD(2) [OF assms(1)]]] f(7,8)] unfolding w_def by blast+
  obtain m where m: "w = v\<lparr>liquidity_sums := m\<rparr>" using w(2) by blast
  note o = init_orders [OF stored_orders(2) [OF assms(2)], of w]
  let ?t = "set_liquidity_next_index (liquidity_next s)
      ((set_order_next_index (order_next s) (w\<lparr>orders := orders s\<rparr>))\<lparr>xparams := xparams s\<rparr>)"
  have "dex_init_genesis E (dex_export_genesis s) s0 = (Inr (), ?t)"
    using p v o stored_orders(1) [OF assms(2)]
    by (simp add: dex_init_genesis_def dex_export_genesis_def default_dex_genesis_def Let_def set_dex_params_def
        get_liquidity_next_index_def get_order_next_index_def get_liquidity_pair_count_def f m flip: v_def w_def)
  then show ?thesis
    using w(1) by (simp add: set_liquidity_next_index_def set_order_next_index_def get_liquidity_sum_def m f)
qed

lemma genesis_example: "stores_wf dex_executed" "dex_empty dex_start"
  by (code_simp, code_simp)

theorem dex_genesis_roundtrip_witness:
  "\<exists>t. dex_init_genesis dex_env (dex_export_genesis dex_executed) dex_start = (Inr (), t)
   \<and> liquidities t = liquidities dex_executed \<and> orders t = orders dex_executed \<and> trade_amounts t = []"
  using dex_genesis_roundtrip [OF dex_executed_inv(2,1) genesis_example, of dex_env] by blast

end
