(* ===== verification/SwapProps.thy ===== *)
theory SwapProps
  imports SwapKeeper
begin

text \<open>
  What the arbitrage of \<open>x/swap\<close> does to supplies and balances: only the base currency and the kCoin in question
  change their supply, in the direction that restores parity, and only the accounts of the modules change their balance.
\<close>

section \<open>The effect of a step\<close>

definition swap_pools :: "'b env \<Rightarrow> addr set" where
  "swap_pools E = dex_pools E \<union> mod_addr E ` {swap_module, distribution_module}"

definition swap_effect :: "'b env \<Rightarrow> denom set \<Rightarrow> ('b, 'z) dex_world_scheme \<Rightarrow> ('b, 'z) dex_world_scheme \<Rightarrow> bool" where
  "swap_effect E D s t \<longleftrightarrow>
     (\<forall>x d. x \<notin> swap_pools E \<longrightarrow> bal E (bank t) x d = bal E (bank s) x d)
     \<and> (\<forall>d. d \<notin> D \<longrightarrow> bk_supply E (bank t) d = bk_supply E (bank s) d)
     \<and> dparams t = dparams s \<and> xparams t = xparams s \<and> orders t = orders s \<and> order_next t = order_next s
     \<and> height t = height s \<and> dex_world.more t = dex_world.more s"

lemma swap_effect_refl [simp]: "swap_effect E D s s"
  by (simp add: swap_effect_def)

lemma swap_effect_trans: "swap_effect E D s t \<Longrightarrow> swap_effect E D t u \<Longrightarrow> swap_effect E D s u"
  by (simp add: swap_effect_def)

lemma swap_effect_mono: "swap_effect E D s t \<Longrightarrow> D \<subseteq> D' \<Longrightarrow> swap_effect E D' s t"
  by (auto simp: swap_effect_def)

lemma swap_effect_pools: "pools_only E s t \<Longrightarrow> swap_effect E D s t"
  by (simp add: swap_effect_def pools_only_def swap_pools_def)

lemma swap_effect_bank:
  assumes "t = s\<lparr>bank := bank t\<rparr>"
    and "\<And>x d. x \<notin> swap_pools E \<Longrightarrow> bal E (bank t) x d = bal E (bank s) x d"
    and "\<And>d. d \<notin> D \<Longrightarrow> bk_supply E (bank t) d = bk_supply E (bank s) d"
  shows "swap_effect E D s t" "book_room N n t = book_room N n s"
proof -
  show "swap_effect E D s t"
    unfolding swap_effect_def by (intro conjI allI impI assms(2,3) bank_onlyD [OF assms(1)])
  show "book_room N n t = book_room N n s" by (rule book_room_cong) (simp_all add: bank_onlyD [OF assms(1)])
qed

lemma mint_effect:
  fixes s t :: "('b, 'z) dex_world_scheme"
  assumes "sdk E" "mint_coins E swap_module d n s = (Inr u, t)"
  shows "swap_effect E {d} s t" "book_room N k t = book_room N k s" "0 \<le> n"
    "bk_supply E (bank t) d = bk_supply E (bank s) d + n"
proof -
  note c = sdk.mint_coins_ok [OF assms]
  show "swap_effect E {d} s t" "book_room N k t = book_room N k s"
    using swap_effect_bank [OF c(4), of E "{d}"] c(2,3) by (auto simp: swap_pools_def)
  show "0 \<le> n" "bk_supply E (bank t) d = bk_supply E (bank s) d + n" using c(1,3) by simp_all
qed

lemma usable_bal: "get_usable_amount E d m s = bal E (bank s) (mod_addr E m) d"
  by (simp add: get_usable_amount_def bal_def amount_of_def)

text \<open>What is burned is what the module holds, less the stakers' share of the base currency.\<close>

lemma burn_funds_ok:
  assumes "sdk E" "burn_funds E d s = (Inr n, t)"
  shows "swap_effect E {d} s t" "book_room N k t = book_room N k s" "0 \<le> n"
    "bk_supply E (bank t) d = bk_supply E (bank s) d - n"
    "d \<noteq> base_currency \<Longrightarrow> n = bal E (bank s) (mod_addr E swap_module) d"
proof -
  let ?amt = "get_usable_amount E d swap_module s"
  from assms(2) obtain v where v: "(if d = base_currency then
               bindS (nilR (staking_share (sparams s)), s) (\<lambda>share s.
               let rewards = dmul E share (to_dec ?amt) in
               if rewards > 0 then
                 bindS (send_mod_mod E swap_module distribution_module base_currency (dround E rewards) s) (\<lambda>_ s.
                 (Inr (?amt - dround E rewards), s))
               else (Inr ?amt, s))
             else (Inr ?amt, s)) = (Inr n, v)"
    and b: "burn_coins E swap_module d n v = (Inr (), t)"
    by (auto simp: burn_funds_def Let_def elim!: bindS_InrE)
  have "swap_effect E {} s v \<and> book_room N k v = book_room N k s"
  proof (cases "v = s")
    case False
    with v obtain r where r: "send_mod_mod E swap_module distribution_module base_currency r s = (Inr (), v)"
      by (auto simp: Let_def bindS_Inr_iff split: if_splits)
    note c = sdk.send_mod_mod_ok [OF assms(1) r]
    from swap_effect_bank [OF c(4), of E "{}"] c(2,3) show ?thesis by (auto simp: swap_pools_def)
  qed simp
  moreover
  note c = sdk.burn_coins_ok [OF assms(1) b]
  have "swap_effect E {d} v t" "book_room N k t = book_room N k v"
    using swap_effect_bank [OF c(4), of E "{d}"] c(2,3) by (auto simp: swap_pools_def)
  ultimately show "swap_effect E {d} s t" "book_room N k t = book_room N k s"
    using swap_effect_trans swap_effect_mono [of E "{}" s v "{d}"] by auto
  show "0 \<le> n" by (rule c)
  show "bk_supply E (bank t) d = bk_supply E (bank s) d - n"
    using c(3) \<open>swap_effect E {} s v \<and> _\<close> by (simp add: swap_effect_def)
  show "n = bal E (bank s) (mod_addr E swap_module) d" if "d \<noteq> base_currency"
    using v that by (auto simp: usable_bal)
qed

section \<open>The trade of the module\<close>

lemma trade_pools_effect:
  assumes "trade_effect E {a, a} a d n s t" "a \<in> swap_pools E"
  shows "swap_effect E {} s t"
  using assms by (auto simp: trade_effect_def swap_effect_def swap_pools_def)

lemma arbitrage_ok:
  assumes "sdk E" "wf_dex_params (xparams s)" "book_room N (n + 8 * N) s" "base_currency \<in> set (denoms (dparams s))"
    and "unless_no_trade (execute_trade E (swap_trade_options E start finish amount) s)
           (\<lambda>s. bindS (burn_funds E finish s) (\<lambda>_ s. (Inr (), s))) = (Inr u, t)"
  shows "swap_effect E {finish} s t \<and> book_room (9 * N) n t \<and> bk_supply E (bank t) finish \<le> bk_supply E (bank s) finish"
proof -
  let ?x = "swap_trade_options E start finish amount"
  obtain q v where q: "execute_trade E ?x s = (q, v)" by fastforce
  show ?thesis
  proof (cases q)
    case (Inl e)
    with assms(5) q have e: "e = DexE Dex_ErrTradeAmountTooSmall \<or> e = DexE Dex_ErrNotEnoughLiquidity" "t = v"
      by (simp_all add: unless_no_trade_def split: if_splits)
    with q Inl have "t = s" by (auto intro: execute_trade_own_error)
    with assms(3) show ?thesis by (auto elim: book_room_mono)
  next
    case (Inr r)
    obtain used received fee1 fee2 where r: "r = (used, received, fee1, fee2)" by (cases r)
    have o: "to_source ?x = Some (mod_addr E swap_module)" "to_target ?x = Some (mod_addr E swap_module)"
      by (simp_all add: swap_trade_options_def)
    note ok = execute_trade_ok [OF assms(1-4) o q [unfolded Inr r]]
    from assms(5) q Inr obtain k where b: "burn_funds E finish v = (Inr k, t)"
      by (auto simp: unless_no_trade_def bindS_Inr_iff)
    note c = burn_funds_ok [OF assms(1) b]
    have "swap_effect E {} s v"
      using ok trade_pools_effect [of E "mod_addr E swap_module"] by (auto simp: swap_pools_def)
    then have "swap_effect E {finish} s t" "bk_supply E (bank v) finish = bk_supply E (bank s) finish"
      using c(1) swap_effect_trans [of E "{finish}" s v t] swap_effect_mono [of E "{}" s v "{finish}"]
      by (simp_all add: swap_effect_def)
    with c(2-4) ok show ?thesis by simp
  qed
qed

section \<open>The liquidity of the reserve\<close>

lemma remove_owned_ok:
  assumes "book_room N n s" "pending ls s" "remove_owned d a ls c s = (Inr k, t)"
  shows "book_room N n t \<and> book_only s t"
  using assms
proof (induction ls arbitrary: c s)
  case Nil
  then show ?case by (simp add: remove_owned_def)
next
  case (Cons l ls)
  have g: "kv_get (liquidities s) (lq_key l) = Some l" using Cons.prems(2) by (simp add: pending_def)
  show ?case
  proof (cases "lq_address l = a \<and> lq_denom l = d")
    case True
    let ?r = "remove_liquidity (lq_denom l) (lq_index l) (lq_amount l) s"
    have s: "book_inv s" using Cons.prems(1) by (simp add: book_room_def)
    note 1 = remove_liquidity_inv [OF s g]
    have rest: "remove_owned d a ls (c + lq_amount l) (snd ?r) = (Inr k, t)"
      using Cons.prems(3) True 1(1) by (cases ?r) (simp add: remove_owned_def)
    have "kv_get (liquidities s) (lq_key l) \<noteq> None" using g by simp
    then have len: "length (liquidities (snd ?r)) \<le> length (liquidities s)"
      by (simp add: remove_liquidity_def length_kv_del checkR_def)
    have o: "book_only s (snd ?r)" by simp
    have "book_room N n (snd ?r)"
      using Cons.prems(1) 1(2,4) len book_onlyD(3) [OF o] by (simp add: book_room_def)
    from Cons.IH [OF this 1(5) [OF Cons.prems(2)] rest] o book_only_trans [of s "snd ?r" t] show ?thesis by simp
  next
    case False
    with Cons.prems(3) have "remove_owned d a ls c s = (Inr k, t)" by (simp add: remove_owned_def)
    moreover have "pending ls s" using Cons.prems(2) by (simp add: pending_def)
    ultimately show ?thesis using Cons.IH [OF Cons.prems(1)] by simp
  qed
qed

lemma remove_all_liquidity_for_module_ok:
  assumes "sdk E" "book_room N n s" "mod_addr E m \<in> dex_pools E"
    and "remove_all_liquidity_for_module E d m s = (Inr u, t)"
  shows "pools_only E s t \<and> book_room N n t"
proof -
  from assms(4) obtain k v w where k: "remove_owned d (str_of E (mod_addr E m)) (liquidity_entries s d) 0 s = (Inr k, v)"
    and w: "update_pair_or_pairs E d v = (Inr (), w)" and t: "send_mod_mod E pool_liquidity m d k w = (Inr u, t)"
    by (auto simp: remove_all_liquidity_for_module_def remove_all_entries_for_address_def elim!: bindS_InrE)
  have "pending (liquidity_entries s d) s" using assms(2) pending_entries [of s d] by (simp add: book_room_def)
  note 1 = remove_owned_ok [OF assms(2) this k]
  have p: "pairs_only v w" using update_pair_or_pairs_only [of v E d] w by simp
  have "pools_only E s w"
    using 1 pools_only_trans [OF pools_only_book pools_only_pairs [OF p]] by blast
  moreover have "mod_addr E pool_liquidity \<in> dex_pools E" by (simp add: dex_pools_def)
  note c = send_mod_mod_pools [OF assms(1) t this assms(3)]
  ultimately show ?thesis using 1 c(2,3) pools_only_trans [of E s w t] book_room_pairs [OF p] by simp
qed

section \<open>Burning and minting one kCoin\<close>

lemma check_burn_ok:
  assumes "sdk E" "wf_dex_params (xparams s)" "book_room N (n + 8 * N) s" "base_currency \<in> set (denoms (dparams s))"
    and k: "k \<noteq> base_currency" and r: "check_burn E k m s = (Inr u, t)"
  shows "swap_effect E {base_currency, k} s t \<and> book_room (9 * N) n t
    \<and> bk_supply E (bank t) k \<le> bk_supply E (bank s) k \<and> bk_supply E (bank s) base_currency \<le> bk_supply E (bank t) base_currency"
proof (cases "t = s")
  case True
  with assms(3) show ?thesis by (auto elim: book_room_mono)
next
  case False
  with r obtain amount v where v: "(if get_liquidity_by_address s k pool_reserve > 0
                then remove_all_liquidity_for_module E k pool_reserve s else (Inr (), s)) = (Inr (), v)"
    and b: "mint_trade_burn E k amount v = (Inr u, t)"
    by (auto simp: check_burn_def elim!: bindS_InrE split: option.splits if_splits)
  have "pools_only E s v \<and> book_room N (n + 8 * N) v"
    using v assms(3) remove_all_liquidity_for_module_ok [OF assms(1,3), of pool_reserve k "()" v]
    by (auto simp: dex_pools_def split: if_splits)
  then have e1: "swap_effect E {} s v" "book_room N (n + 8 * N) v" by (simp_all add: swap_effect_pools)
  from b obtain w where w: "mint_coins E swap_module base_currency amount v = (Inr (), w)"
    and a: "unless_no_trade (execute_trade E (swap_trade_options E base_currency k amount) w)
       (\<lambda>s. bindS (burn_funds E k s) (\<lambda>_ s. (Inr (), s))) = (Inr u, t)"
    by (auto simp: mint_trade_burn_def elim!: bindS_InrE)
  note e2 = mint_effect [OF assms(1) w]
  have f: "wf_dex_params (xparams w)" "book_room N (n + 8 * N) w" "base_currency \<in> set (denoms (dparams w))"
    using e1 e2(1,2) assms(2,4) by (simp_all add: swap_effect_def)
  note e3 = arbitrage_ok [OF assms(1) f a]
  have "swap_effect E {base_currency, k} s t"
    using e1(1) e2(1) e3 by (simp add: swap_effect_def)
  with e1 e2 e3 k show ?thesis by (simp add: swap_effect_def)
qed

lemma check_mint_ok:
  assumes "sdk E" "wf_dex_params (xparams s)" "book_room N (n + 8 * N) s" "base_currency \<in> set (denoms (dparams s))"
    and k: "k \<noteq> base_currency" and r: "check_mint E k m s = (Inr u, t)"
  shows "swap_effect E {base_currency, k} s t \<and> book_room (9 * N) n t
    \<and> bk_supply E (bank s) k \<le> bk_supply E (bank t) k \<and> bk_supply E (bank t) base_currency \<le> bk_supply E (bank s) base_currency"
proof (cases "t = s")
  case True
  with assms(3) show ?thesis by (auto elim: book_room_mono)
next
  case False
  with r obtain amount w where w: "mint_coins E swap_module k amount s = (Inr (), w)"
    and a: "unless_no_trade (execute_trade E (swap_trade_options E k base_currency amount) w)
       (\<lambda>s. bindS (burn_funds E base_currency s) (\<lambda>_ s. (Inr (), s))) = (Inr u, t)"
    by (auto simp: check_mint_def elim!: bindS_InrE split: option.splits if_splits)
  note e2 = mint_effect [OF assms(1) w]
  have f: "wf_dex_params (xparams w)" "book_room N (n + 8 * N) w" "base_currency \<in> set (denoms (dparams w))"
    using e2(1,2) assms(2-4) by (simp_all add: swap_effect_def)
  note e3 = arbitrage_ok [OF assms(1) f a]
  have "swap_effect E {base_currency, k} s t"
    using e2(1) e3 by (simp add: swap_effect_def)
  with e2 e3 k show ?thesis by (simp add: swap_effect_def)
qed

text \<open>When a kCoin has no room below its cap, nothing is minted.\<close>

lemma check_mint_cap:
  assumes "max_supply (dparams s) k = Inr (Some c)" "c \<le> supply_of E s k" "check_mint E k m s = (Inr u, t)"
  shows "t = s"
proof -
  have "min (c - (supply_of E s k + x)) x \<le> 0" for x using assms(2) by (cases "x \<le> 0") auto
  then show ?thesis
    using assms(1,3) by (auto simp: check_mint_def adjust_for_supply_cap_def elim!: bindS_InrE split: option.splits if_splits)
qed

section \<open>The whole block\<close>

lemma swap_loop:
  assumes "wf_dex_params (xparams s)" "book_room N (n + (9 ^ length ks - 1) * N) s" "base_currency \<in> set (denoms (dparams s))"
    and "foldS (\<lambda>k _. f k) ks c s = (Inr u, t)" "set ks \<subseteq> D"
    and f: "\<And>k N n s u t. k \<in> set ks \<Longrightarrow> wf_dex_params (xparams s) \<Longrightarrow> book_room N (n + 8 * N) s \<Longrightarrow>
        base_currency \<in> set (denoms (dparams s)) \<Longrightarrow> f k s = (Inr u, t) \<Longrightarrow> swap_effect E {base_currency, k} s t \<and> book_room (9 * N) n t"
  shows "swap_effect E (insert base_currency D) s t \<and> book_room (9 ^ length ks * N) n t"
  using assms
proof (induction ks arbitrary: N c s)
  case Nil
  then show ?case by simp
next
  case (Cons k ks)
  from Cons.prems(4) obtain v c' where v: "f k s = (Inr c', v)" and r: "foldS (\<lambda>k _. f k) ks c' v = (Inr u, t)"
    by (auto simp: bindS_Inr_iff)
  have b: "book_room N ((n + (9 ^ length ks - 1) * (9 * N)) + 8 * N) s"
    using Cons.prems(2) by (simp only: list.size add_Suc_right add_0_right trade_room_Suc add.assoc)
  have "k \<in> set (k # ks)" by simp
  note e = Cons.prems(6) [OF this Cons.prems(1) b Cons.prems(3) v]
  have p: "wf_dex_params (xparams v)" "base_currency \<in> set (denoms (dparams v))" "set ks \<subseteq> D"
    using e Cons.prems(1,3,5) by (simp_all add: swap_effect_def)
  have "swap_effect E (insert base_currency D) v t \<and> book_room (9 ^ length ks * (9 * N)) n t"
    by (rule Cons.IH [OF p(1) conjunct2 [OF e] p(2) r p(3)]) (rule Cons.prems(6), simp_all)
  moreover have "swap_effect E (insert base_currency D) s v"
    using e Cons.prems(5) by (auto intro: swap_effect_mono)
  ultimately show ?case using swap_effect_trans [of E "insert base_currency D" s v t]
    by (simp add: mult.assoc mult.left_commute)
qed

lemma swap_end_block_ok:
  assumes "sdk E" "wf_dex_params (xparams s)" "book_inv s" "denoms_separate (dparams s)"
    and "base_currency \<in> set (denoms (dparams s))" "base_currency \<notin> set (kcoin_denoms (dparams s))"
    and "unat (liquidity_next s) + 9 ^ (2 * length (kcoin_denoms (dparams s))) * length (liquidities s) < 2 ^ 64 - 1"
    and "swap_end_block E s = (Inr u, t)"
  shows "swap_effect E (insert base_currency (set (kcoin_denoms (dparams s)))) s t \<and> book_inv t"
proof -
  let ?ks = "kcoin_denoms (dparams s)" and ?N = "length (liquidities s)"
  let ?n = "length ?ks"
  have "(9 ^ ?n - 1) * (9 ^ ?n * ?N) + (9 ^ ?n - 1) * ?N \<le> 9 ^ (2 * ?n) * ?N"
  proof -
    have "(9 ^ ?n - 1) * (9 ^ ?n * ?N) + (9 ^ ?n - 1) * ?N \<le> (9 ^ ?n - 1) * (9 ^ ?n * ?N) + 9 ^ ?n * ?N" by simp
    also have "\<dots> = (9 ^ ?n - 1 + 1) * (9 ^ ?n * ?N)" by (simp only: add_mult_distrib nat_mult_1)
    also have "\<dots> = 9 ^ (2 * ?n) * ?N" by (simp add: mult_2 power_add)
    finally show ?thesis .
  qed
  with assms(3,4,7) have b: "book_room ?N ((9 ^ ?n - 1) * (9 ^ ?n * ?N) + (9 ^ ?n - 1) * ?N) s"
    by (simp add: book_room_def)
  from assms(8) obtain u' v where v: "swap_burn E s = (Inr u', v)" and r: "swap_mint E v = (Inr u, t)"
    by (auto simp: swap_end_block_def elim!: bindS_InrE)
  have e1: "swap_effect E (insert base_currency (set ?ks)) s v \<and> book_room (9 ^ ?n * ?N) ((9 ^ ?n - 1) * (9 ^ ?n * ?N)) v"
  proof (rule swap_loop [OF assms(2) b assms(5) v [unfolded swap_burn_def] subset_refl])
    fix k N n and s t :: "('a, 'b) swap_world_scheme" and u
    assume "k \<in> set ?ks" "wf_dex_params (xparams s)" "book_room N (n + 8 * N) s" "base_currency \<in> set (denoms (dparams s))"
      and "bindS (max_burn_amount (dparams s) k, s) (check_burn E k) = (Inr u, t)"
    with assms(1,6) show "swap_effect E {base_currency, k} s t \<and> book_room (9 * N) n t"
      using check_burn_ok [of E s N n k _ u t] by (auto elim!: bindS_InrE)
  qed
  then have f: "wf_dex_params (xparams v)" "base_currency \<in> set (denoms (dparams v))" "dparams v = dparams s"
    using assms(2,5) by (simp_all add: swap_effect_def)
  have b2: "book_room (9 ^ ?n * ?N) (0 + (9 ^ ?n - 1) * (9 ^ ?n * ?N)) v" using e1 by simp
  have "swap_effect E (insert base_currency (set ?ks)) v t \<and> book_room (9 ^ ?n * (9 ^ ?n * ?N)) 0 t"
  proof (rule swap_loop [OF f(1) b2 f(2) r [unfolded swap_mint_def f(3)] subset_refl])
    fix k N n and s t :: "('a, 'b) swap_world_scheme" and u
    assume "k \<in> set ?ks" "wf_dex_params (xparams s)" "book_room N (n + 8 * N) s" "base_currency \<in> set (denoms (dparams s))"
      and "bindS (max_mint_amount (dparams s) k, s) (check_mint E k) = (Inr u, t)"
    with assms(1,6) show "swap_effect E {base_currency, k} s t \<and> book_room (9 * N) n t"
      using check_mint_ok [of E s N n k _ u t] by (auto elim!: bindS_InrE)
  qed
  with e1 have "swap_effect E (insert base_currency (set ?ks)) s t" "book_inv t"
    using swap_effect_trans [of E "insert base_currency (set ?ks)" s v t] by (simp_all add: book_room_def)
  then show ?thesis ..
qed

text \<open>
  C17. The end of a block of \<open>x/swap\<close> changes no balance but those of the module, of the
  stakers' pool and of the dex pools, changes no supply but those of the base currency and the kCoins, and keeps the liquidity
  book consistent and the orders and parameters as they were.
\<close>

theorem swap_end_block_safe:
  assumes "sdk E" "wf_dex_params (xparams s)" "book_inv s" "denoms_separate (dparams s)"
    and "base_currency \<in> set (denoms (dparams s))" "base_currency \<notin> set (kcoin_denoms (dparams s))"
    and "unat (liquidity_next s) + 9 ^ (2 * length (kcoin_denoms (dparams s))) * length (liquidities s) < 2 ^ 64 - 1"
    and "swap_end_block E s = (Inr u, t)"
  shows "(\<forall>x d. x \<notin> swap_pools E \<longrightarrow> bal E (bank t) x d = bal E (bank s) x d)
    \<and> (\<forall>d. d \<noteq> base_currency \<longrightarrow> d \<notin> set (kcoin_denoms (dparams s)) \<longrightarrow> bk_supply E (bank t) d = bk_supply E (bank s) d)
    \<and> book_inv t \<and> orders t = orders s \<and> dparams t = dparams s \<and> xparams t = xparams s"
  using swap_end_block_ok [OF assms] by (simp add: swap_effect_def)

text \<open>A chain whose kCoin trades exactly at parity.\<close>

definition swap_start :: "ledger swap_world" where
  "swap_start = dex_world.extend dex_pool (swap_world.fields default_swap_params)"

lemma swap_start_conds:
  "wf_dex_params (xparams swap_start)" "book_inv swap_start" "denoms_separate (dparams swap_start)"
  "base_currency \<in> set (denoms (dparams swap_start))" "kcoin_denoms (dparams swap_start) = [''ukusd'']"
  "unat (liquidity_next swap_start) = 2" "length (liquidities swap_start) = 2"
proof -
  have f: "xparams swap_start = default_dex_params" "dparams swap_start = dparams dex_pool"
    "liquidities swap_start = liquidities dex_pool" "liquidity_sums swap_start = liquidity_sums dex_pool"
    "liquidity_next swap_start = liquidity_next dex_pool"
    by (code_simp, simp_all add: swap_start_def dex_world.defs)
  show "wf_dex_params (xparams swap_start)" by (simp add: f wf_default_dex_params)
  show "book_inv swap_start"
    using dex_example_inv(3) by (simp add: book_inv_def entry_ok_def get_liquidity_sum_def f)
  show "denoms_separate (dparams swap_start)" by (simp add: f dex_pool_conds)
  show "base_currency \<in> set (denoms (dparams swap_start))" "kcoin_denoms (dparams swap_start) = [''ukusd'']"
    "unat (liquidity_next swap_start) = 2" "length (liquidities swap_start) = 2"
    by (code_simp, code_simp, code_simp, code_simp)
qed

lemma swap_start_block: "fst (swap_end_block dex_env swap_start) = Inr ()"
  by code_simp

theorem swap_end_block_safe_witness:
  "bal dex_env (bank (snd (swap_end_block dex_env swap_start))) ''alice'' ''ukopi'' = bal dex_env (bank swap_start) ''alice'' ''ukopi''
   \<and> book_inv (snd (swap_end_block dex_env swap_start))"
proof -
  have r: "swap_end_block dex_env swap_start = (Inr (), snd (swap_end_block dex_env swap_start))"
    using swap_start_block by (simp add: prod_eq_iff)
  have a: "''alice'' \<notin> swap_pools dex_env" "base_currency \<notin> set (kcoin_denoms (dparams swap_start))"
    by (simp add: swap_pools_def dex_pools_def dex_env_def, simp add: swap_start_conds base_currency_def)
  from swap_end_block_safe [OF sdk_dex_env swap_start_conds(1-4) a(2) _ r] a(1) show ?thesis
    by (simp add: swap_start_conds)
qed

text \<open>
  C19. A run of \<open>CheckBurn\<close> can only lower the supply of the kCoin and only raise that of the base
  currency; every other supply stays, and so do the balances outside the modules' accounts. Above parity it does nothing.
\<close>

theorem check_burn_restores:
  assumes "sdk E" "wf_dex_params (xparams s)" "book_inv s" "denoms_separate (dparams s)"
    and "base_currency \<in> set (denoms (dparams s))" "k \<noteq> base_currency"
    and "unat (liquidity_next s) + 8 * length (liquidities s) < 2 ^ 64 - 1"
    and "check_burn E k m s = (Inr u, t)"
  shows "bk_supply E (bank t) k \<le> bk_supply E (bank s) k
    \<and> bk_supply E (bank s) base_currency \<le> bk_supply E (bank t) base_currency
    \<and> (\<forall>d. d \<noteq> k \<and> d \<noteq> base_currency \<longrightarrow> bk_supply E (bank t) d = bk_supply E (bank s) d)
    \<and> (\<forall>x d. x \<notin> swap_pools E \<longrightarrow> bal E (bank t) x d = bal E (bank s) x d) \<and> book_inv t
    \<and> (\<forall>p r. calculate_parity E s k = Inr (Some p, r) \<and> p > dec_one \<longrightarrow> t = s)"
proof -
  have "book_room (length (liquidities s)) (0 + 8 * length (liquidities s)) s"
    using assms(3,4,7) by (simp add: book_room_def)
  note ok = check_burn_ok [OF assms(1,2) this assms(5,6,8)]
  moreover have "t = s" if "calculate_parity E s k = Inr (Some p, r)" "p > dec_one" for p r
    using assms(8) that by (simp add: check_burn_def)
  ultimately show ?thesis by (auto simp: swap_effect_def book_room_def)
qed

text \<open>Bob adds liquidity of the kCoin, whose parity stays at one; the module mints, buys 855 of it and burns them.\<close>

definition swap_pool :: "ledger swap_world" where
  "swap_pool = snd (add_liquidity dex_env ''bob'' ''ukusd'' ''15000''
     (swap_start\<lparr>bank := \<lparr>bals = ((''bob'', ''ukusd''), 20000) # bals (bank swap_start), tot = (''ukusd'', 20000) # tot (bank swap_start)\<rparr>\<rparr>))"

lemma swap_pool_runs:
  "fst (add_liquidity dex_env ''bob'' ''ukusd'' ''15000'' (swap_start\<lparr>bank := \<lparr>bals = ((''bob'', ''ukusd''), 20000) # bals (bank swap_start),
     tot = (''ukusd'', 20000) # tot (bank swap_start)\<rparr>\<rparr>)) = Inr ()"
  by code_simp

lemma swap_pool_conds:
  "wf_dex_params (xparams swap_pool)" "book_inv swap_pool" "denoms_separate (dparams swap_pool)"
  "base_currency \<in> set (denoms (dparams swap_pool))" "unat (liquidity_next swap_pool) = 3" "length (liquidities swap_pool) = 3"
proof -
  let ?s = "swap_start\<lparr>bank := \<lparr>bals = ((''bob'', ''ukusd''), 20000) # bals (bank swap_start), tot = (''ukusd'', 20000) # tot (bank swap_start)\<rparr>\<rparr>"
  have r: "add_liquidity dex_env ''bob'' ''ukusd'' ''15000'' ?s = (Inr (), swap_pool)"
    using swap_pool_runs by (simp add: prod_eq_iff swap_pool_def)
  have s: "book_inv ?s" "denoms_separate (dparams ?s)" "liquidity_next ?s < - 1"
    using swap_start_conds(2,3) book_inv_cong [of ?s swap_start]
    by (simp_all add: swap_start_def dex_world.defs dex_pool_conds)
  from add_liquidity_ok [OF sdk_dex_env s r] show "book_inv swap_pool" by blast
  have f: "xparams swap_pool = default_dex_params" "dparams swap_pool = dparams dex_pool"
    by (code_simp, code_simp)
  show "wf_dex_params (xparams swap_pool)" by (simp add: f wf_default_dex_params)
  show "denoms_separate (dparams swap_pool)" by (simp add: f dex_pool_conds)
  show "base_currency \<in> set (denoms (dparams swap_pool))" "unat (liquidity_next swap_pool) = 3" "length (liquidities swap_pool) = 3"
    by (code_simp, code_simp, code_simp)
qed

lemma swap_pool_value: "swap_pool = swap_start
  \<lparr>bank := \<lparr>bals = [((''#pool_liquidity'', ''ukusd''), 15000), ((''bob'', ''ukusd''), 5000), ((''#pool_liquidity'', ''uwusdc''), 10000),
       ((''bob'', ''uwusdc''), 40000), ((''#pool_liquidity'', ''ukopi''), 100000), ((''alice'', ''ukopi''), 400000), ((''carol'', ''ukopi''), 5000)],
     tot = [(''ukusd'', 20000), (''ukopi'', 505000), (''uwusdc'', 50000)]\<rparr>,
   liquidities := [(''ukopi/1/'', \<lparr>lq_index = 1, lq_denom = ''ukopi'', lq_address = ''alice'', lq_amount = 100000\<rparr>),
     (''ukusd/3/'', \<lparr>lq_index = 3, lq_denom = ''ukusd'', lq_address = ''bob'', lq_amount = 15000\<rparr>),
     (''uwusdc/2/'', \<lparr>lq_index = 2, lq_denom = ''uwusdc'', lq_address = ''bob'', lq_amount = 10000\<rparr>)],
   liquidity_next := 3,
   liquidity_sums := [(''ukopi/'', \<lparr>ls_denom = ''ukopi'', ls_amount = 100000\<rparr>), (''ukusd/'', \<lparr>ls_denom = ''ukusd'', ls_amount = 15000\<rparr>),
     (''uwusdc/'', \<lparr>ls_denom = ''uwusdc'', ls_amount = 10000\<rparr>)],
   liquidity_pairs := [(''ukusd/'', \<lparr>lp_denom = ''ukusd'', lp_base = 50000000000000000000000, lp_other = 0\<rparr>),
     (''uwusdc/'', \<lparr>lp_denom = ''uwusdc'', lp_base = 0, lp_other = 0\<rparr>)]\<rparr>"
  by code_simp

declare swap_pool_value [code]

lemma swap_pool_burn:
  "(case check_burn dex_env ''ukusd'' (Some 1000) swap_pool of (r, t) \<Rightarrow> (r, bk_supply dex_env (bank t) ''ukusd'')) = (Inr (), 19145)"
  by code_simp

theorem check_burn_restores_witness:
  "bk_supply dex_env (bank swap_pool) ''ukusd'' = 20000
   \<and> bk_supply dex_env (bank (snd (check_burn dex_env ''ukusd'' (Some 1000) swap_pool))) ''ukusd'' = 19145
   \<and> bk_supply dex_env (bank (snd (check_burn dex_env ''ukusd'' (Some 1000) swap_pool))) ''uwusdc'' = bk_supply dex_env (bank swap_pool) ''uwusdc''
   \<and> book_inv (snd (check_burn dex_env ''ukusd'' (Some 1000) swap_pool))"
proof -
  have r: "check_burn dex_env ''ukusd'' (Some 1000) swap_pool = (Inr (), snd (check_burn dex_env ''ukusd'' (Some 1000) swap_pool))"
    using swap_pool_burn by (simp add: prod_eq_iff split_beta)
  have k: "''ukusd'' \<noteq> base_currency" "bk_supply dex_env (bank swap_pool) ''ukusd'' = 20000"
    by (simp add: base_currency_def, code_simp)
  from check_burn_restores [OF sdk_dex_env swap_pool_conds(1-4) k(1) _ r] k(2) swap_pool_burn show ?thesis
    by (simp add: swap_pool_conds base_currency_def split_beta)
qed

text \<open>
  C18. A run of \<open>CheckMint\<close> can only raise the supply of the kCoin and only lower that of the base
  currency; every other supply stays, and so do the balances outside the modules' accounts. Below parity, and when
  the supply of the kCoin has reached its cap, it does nothing.
\<close>

theorem check_mint_restores:
  assumes "sdk E" "wf_dex_params (xparams s)" "book_inv s" "denoms_separate (dparams s)"
    and "base_currency \<in> set (denoms (dparams s))" "k \<noteq> base_currency"
    and "unat (liquidity_next s) + 8 * length (liquidities s) < 2 ^ 64 - 1"
    and "check_mint E k m s = (Inr u, t)"
  shows "bk_supply E (bank s) k \<le> bk_supply E (bank t) k
    \<and> bk_supply E (bank t) base_currency \<le> bk_supply E (bank s) base_currency
    \<and> (\<forall>d. d \<noteq> k \<and> d \<noteq> base_currency \<longrightarrow> bk_supply E (bank t) d = bk_supply E (bank s) d)
    \<and> (\<forall>x d. x \<notin> swap_pools E \<longrightarrow> bal E (bank t) x d = bal E (bank s) x d) \<and> book_inv t
    \<and> (\<forall>p r. calculate_parity E s k = Inr (Some p, r) \<and> p < dec_one \<longrightarrow> t = s)
    \<and> (\<forall>c. max_supply (dparams s) k = Inr (Some c) \<and> c \<le> supply_of E s k \<longrightarrow> t = s)"
proof -
  have "book_room (length (liquidities s)) (0 + 8 * length (liquidities s)) s"
    using assms(3,4,7) by (simp add: book_room_def)
  note ok = check_mint_ok [OF assms(1,2) this assms(5,6,8)]
  moreover have "t = s" if "calculate_parity E s k = Inr (Some p, r)" "p < dec_one" for p r
    using assms(8) that by (simp add: check_mint_def)
  moreover note check_mint_cap [OF _ _ assms(8)]
  ultimately show ?thesis by (auto simp: swap_effect_def book_room_def)
qed

lemma swap_start_mint:
  "(case check_mint dex_env ''ukusd'' (Some 1000) swap_start of (r, t) \<Rightarrow>
      (r, bk_supply dex_env (bank t) ''ukusd'', bal dex_env (bank t) (mod_addr dex_env swap_module) ''ukusd'')) = (Inr (), 832, 832)"
  by code_simp

theorem check_mint_restores_witness:
  "bk_supply dex_env (bank (snd (check_mint dex_env ''ukusd'' (Some 1000) swap_start))) ''ukusd'' = 832
   \<and> bk_supply dex_env (bank (snd (check_mint dex_env ''ukusd'' (Some 1000) swap_start))) ''uwusdc'' = bk_supply dex_env (bank swap_start) ''uwusdc''
   \<and> book_inv (snd (check_mint dex_env ''ukusd'' (Some 1000) swap_start))"
proof -
  have r: "check_mint dex_env ''ukusd'' (Some 1000) swap_start = (Inr (), snd (check_mint dex_env ''ukusd'' (Some 1000) swap_start))"
    using swap_start_mint by (simp add: prod_eq_iff split_beta)
  have k: "''ukusd'' \<noteq> base_currency" by (simp add: base_currency_def)
  from check_mint_restores [OF sdk_dex_env swap_start_conds(1-4) k _ r] swap_start_mint show ?thesis
    by (simp add: swap_start_conds base_currency_def split_beta)
qed

text \<open>
  \<open>calcKCoinMintAmount\<close> divides the constant product by the ratio where the amount that restores
  the reference's ratio needs the product with it: a kCoin that trades exactly at the price of its reference is
  minted all the same. In the example 832 coins come into being, stay with the module (the trade is too
  small to be executed) and the end of the block reports no error.
\<close>

theorem mint_at_parity:
  "calculate_parity dex_env swap_start ''ukusd'' = Inr (Some dec_one, ''uwusdc'')
   \<and> full_liquidity_other swap_start ''ukusd'' = full_liquidity_other swap_start ''uwusdc''
   \<and> full_liquidity_base swap_start ''ukusd'' = full_liquidity_base swap_start ''uwusdc''
   \<and> calc_kcoin_mint_amount dex_env swap_start ''ukusd'' (dec_prec 1 1) = Inr 90000
   \<and> bk_supply dex_env (bank swap_start) ''ukusd'' = 0
   \<and> (case check_mint dex_env ''ukusd'' (Some 1000) swap_start of (r, t) \<Rightarrow>
      (r, bk_supply dex_env (bank t) ''ukusd'', bal dex_env (bank t) (mod_addr dex_env swap_module) ''ukusd'')) = (Inr (), 832, 832)"
  by (intro conjI swap_start_mint; code_simp)

text \<open>
  Only the authority changes the stakers' share, only to a share between zero and one, and
  a refused message leaves the state as it was.
\<close>

theorem update_staking_share_spec:
  "case update_staking_share E signer v s of
     (Inr _, t) \<Rightarrow> signer = authority E \<and> (\<exists>x. parse_dec E v = Some x \<and> 0 \<le> x \<and> x \<le> dec_one \<and> t = s\<lparr>sparams := \<lparr>staking_share = Some x\<rparr>\<rparr>)
   | (Inl e, t) \<Rightarrow> t = s \<and> (signer \<noteq> authority E \<longrightarrow> e = SwapE Swap_ErrInvalidSigner)
       \<and> (signer = authority E \<longrightarrow> e = FmtError \<and> (\<forall>x. parse_dec E v = Some x \<longrightarrow> \<not> (0 \<le> x \<and> x \<le> dec_one)))"
  by (cases "signer = authority E"; cases "parse_dec E v")
    (auto simp: update_staking_share_def set_swap_params_def validate_swap_params_def validate_share_def checkR_def Let_def)

theorem update_staking_share_spec_witness:
  "sparams (snd (update_staking_share dex_env ''gov'' ''0.2'' swap_start)) = \<lparr>staking_share = Some (dec_prec 2 1)\<rparr>"
proof -
  have "fst (update_staking_share dex_env ''gov'' ''0.2'' swap_start) = Inr ()" "parse_dec dex_env ''0.2'' = Some (dec_prec 2 1)"
    by (code_simp, code_simp)
  then show ?thesis using update_staking_share_spec [where E = dex_env and signer = "''gov''" and v = "''0.2''" and s = swap_start]
    by (auto split: prod.splits)
qed

end
