(* ===== verification/ChainFrame.thy ===== *)
theory ChainFrame
  imports MmLiquidation MmQueries DexGenesis DexErrors SwapProps
begin

text \<open>
  The modules on one chain: what the operations of each leave alone of the others' state. The liquidity book and the
  orders of \<open>x/dex\<close>, the arbitrage of \<open>x/swap\<close> and the stores of \<open>x/mm\<close> share the bank; the frames here say which accounts an
  operation may take from.
\<close>

section \<open>Accounts\<close>

text \<open>The accounts of the modules differ from each other, and nobody signs for one of them.\<close>

definition chain_accounts :: "'b env \<Rightarrow> bool" where
  "chain_accounts E \<longleftrightarrow> distinct (map (mod_addr E)
     [pool_orders, pool_liquidity, pool_trade, pool_reserve, pool_fees, dex_module, pool_vault, pool_collateral, pool_redemption,
      mm_module, swap_module, distribution_module])"

definition ordinary :: "'b env \<Rightarrow> string \<Rightarrow> addr \<Rightarrow> bool" where
  "ordinary E c a \<longleftrightarrow> acc_of E c = Some a \<and> a \<notin> range (mod_addr E)"

text \<open>The accounts whose coins belong to others: those of the orders, the collaterals and the redemption requests.\<close>

abbreviation escrows :: "'b env \<Rightarrow> addr set" where
  "escrows E \<equiv> insert (mod_addr E pool_orders) (held_accounts E)"

lemma chain_accountsD:
  assumes "chain_accounts E"
  shows "mm_accounts E" "escrows E \<inter> dex_pools E = {}" "escrows E \<inter> swap_pools E = {}"
    "mod_addr E pool_vault \<notin> escrows E" "mod_addr E mm_module \<notin> escrows E" "mod_addr E pool_reserve \<notin> escrows E"
    "mod_addr E pool_liquidity \<notin> escrows E" "mod_addr E pool_orders \<notin> held_accounts E"
  using assms by (auto simp: chain_accounts_def mm_accounts_def dex_pools_def swap_pools_def)

lemma ordinaryD:
  assumes "ordinary E c a"
  shows "acc_of E c = Some a" "user E c a" "a \<notin> escrows E" "a \<noteq> mod_addr E m"
  using assms by (auto simp: ordinary_def user_def)

section \<open>What payments leave alone\<close>

text \<open>The fields \<open>F\<close> of the state stay, and no account of \<open>Y\<close> loses anything.\<close>

definition keeps :: "'b env \<Rightarrow> addr set \<Rightarrow> (('b, 'z) dex_world_scheme \<Rightarrow> 'f) \<Rightarrow> ('b, 'z) dex_world_scheme \<Rightarrow> ('b, 'z) dex_world_scheme \<Rightarrow> bool" where
  "keeps E Y F s t \<longleftrightarrow> F t = F s \<and> (\<forall>x \<in> Y. \<forall>d. bal E (bank s) x d \<le> bal E (bank t) x d)"

lemma keeps_refl [simp]: "keeps E Y F s s"
  by (simp add: keeps_def)

lemma keeps_cong: "F t = F s \<Longrightarrow> bank t = bank s \<Longrightarrow> keeps E Y F s0 t = keeps E Y F s0 s"
  by (simp add: keeps_def)

lemma keeps_bank:
  fixes r :: "(err + unit) \<times> ('b, 'z) dex_world_scheme"
  assumes "keeps E Y F s0 s" "\<And>b. F (s\<lparr>bank := b\<rparr>) = F s"
    and "fst r = Inr () \<Longrightarrow> snd r = s\<lparr>bank := bank (snd r)\<rparr>" "\<And>e. fst r = Inl e \<Longrightarrow> snd r = s"
    and "\<And>x d. fst r = Inr () \<Longrightarrow> x \<in> Y \<Longrightarrow> bal E (bank s) x d \<le> bal E (bank (snd r)) x d"
  shows "keeps E Y F s0 (snd r)"
proof (cases "fst r")
  case (Inr u)
  then have r: "fst r = Inr ()" by simp
  have "F (snd r) = F s" using assms(3) [OF r] assms(2) by metis
  moreover have "bal E (bank s0) x d \<le> bal E (bank (snd r)) x d" if "x \<in> Y" for x d
    using assms(1) assms(5) [OF r that, of d] that unfolding keeps_def by (meson order_trans)
  ultimately show ?thesis using assms(1) by (simp add: keeps_def)
qed (use assms(1,4) in simp)

lemma keeps_transfers:
  assumes "sdk E" "keeps E Y F s0 s" "\<And>b. F (s\<lparr>bank := b\<rparr>) = F s"
  shows "a \<notin> Y \<Longrightarrow> keeps E Y F s0 (snd (send_acc_mod E a m d n s))"
    and "mod_addr E m \<notin> Y \<Longrightarrow> keeps E Y F s0 (snd (send_mod_acc E m a d n s))"
    and "mod_addr E m \<notin> Y \<Longrightarrow> keeps E Y F s0 (snd (send_mod_mod E m m' d n s))"
    and "mod_addr E m \<notin> Y \<Longrightarrow> keeps E Y F s0 (snd (burn_coins E m d n s))"
    and "keeps E Y F s0 (snd (mint_coins E m d n s))"
proof -
  show "keeps E Y F s0 (snd (send_acc_mod E a m d n s))" if "a \<notin> Y"
    using that sdk.send_acc_mod_ok [OF assms(1), of a m d n s] bank_ops_fail(2) [of E a m d n s]
    by (intro keeps_bank [OF assms(2,3)]) (auto simp: prod_eq_iff)
  show "keeps E Y F s0 (snd (send_mod_acc E m a d n s))" if "mod_addr E m \<notin> Y"
    using that sdk.send_mod_acc_ok [OF assms(1), of m a d n s] bank_ops_fail(3) [of E m a d n s]
    by (intro keeps_bank [OF assms(2,3)]) (auto simp: prod_eq_iff)
  show "keeps E Y F s0 (snd (send_mod_mod E m m' d n s))" if "mod_addr E m \<notin> Y"
    using that sdk.send_mod_mod_ok [OF assms(1), of m m' d n s] bank_ops_fail(4) [of E m m' d n s]
    by (intro keeps_bank [OF assms(2,3)]) (auto simp: prod_eq_iff)
  show "keeps E Y F s0 (snd (burn_coins E m d n s))" if "mod_addr E m \<notin> Y"
    using that sdk.burn_coins_ok [OF assms(1), of m d n s] bank_ops_fail(6) [of E m d n s]
    by (intro keeps_bank [OF assms(2,3)]) (auto simp: prod_eq_iff)
  show "keeps E Y F s0 (snd (mint_coins E m d n s))"
    using sdk.mint_coins_ok [OF assms(1), of m d n s] bank_ops_fail(5) [of E m d n s]
    by (intro keeps_bank [OF assms(2,3)]) (auto simp: prod_eq_iff)
qed

section \<open>The money market leaves the exchange alone\<close>

text \<open>The parameters, the book and the orders.\<close>

definition dex_fields :: "('b, 'z) dex_world_scheme \<Rightarrow>
    denom_params \<times> dex_params \<times> liquidity kv \<times> 64 word \<times> liquidity_sum kv \<times> order kv \<times> 64 word" where
  "dex_fields s = (dparams s, xparams s, liquidities s, liquidity_next s, liquidity_sums s, orders s, order_next s)"

definition dex_kept :: "'b env \<Rightarrow> ('b, 'z) dex_world_scheme \<Rightarrow> ('b, 'z) dex_world_scheme \<Rightarrow> bool" where
  "dex_kept E s t \<longleftrightarrow>
     dparams t = dparams s \<and> xparams t = xparams s \<and> liquidities t = liquidities s \<and> liquidity_next t = liquidity_next s
     \<and> liquidity_sums t = liquidity_sums s \<and> orders t = orders s \<and> order_next t = order_next s
     \<and> (\<forall>d. bal E (bank s) (mod_addr E pool_orders) d \<le> bal E (bank t) (mod_addr E pool_orders) d)"

lemma dex_kept_keeps: "dex_kept E s t = keeps E {mod_addr E pool_orders} dex_fields s t"
  by (simp add: dex_kept_def keeps_def dex_fields_def)

lemma dex_kept_refl [simp]: "dex_kept E s s"
  by (simp add: dex_kept_def)

lemma dex_kept_transfers:
  assumes "sdk E" "dex_kept E s0 s"
  shows "a \<noteq> mod_addr E pool_orders \<Longrightarrow> dex_kept E s0 (snd (send_acc_mod E a m d n s))"
    and "mod_addr E m \<noteq> mod_addr E pool_orders \<Longrightarrow> dex_kept E s0 (snd (send_mod_acc E m a d n s))"
    and "mod_addr E m \<noteq> mod_addr E pool_orders \<Longrightarrow> dex_kept E s0 (snd (send_mod_mod E m m' d n s))"
    and "mod_addr E m \<noteq> mod_addr E pool_orders \<Longrightarrow> dex_kept E s0 (snd (burn_coins E m d n s))"
    and "dex_kept E s0 (snd (mint_coins E m d n s))"
  using keeps_transfers [OF assms(1) assms(2) [unfolded dex_kept_keeps]] unfolding dex_kept_keeps by (simp_all add: dex_fields_def)

text \<open>The stores of the money market are no part of what is kept.\<close>

lemma dex_kept_stores [simp]:
  "dex_kept E s0 (set_collateral d c s) = dex_kept E s0 s" "dex_kept E s0 (set_redemption d r s) = dex_kept E s0 s"
  "dex_kept E s0 (set_loan d l s) = dex_kept E s0 s" "dex_kept E s0 (remove_redemption d a s) = dex_kept E s0 s"
  "dex_kept E s0 (s\<lparr>mparams := p\<rparr>) = dex_kept E s0 s" "dex_kept E s0 (s\<lparr>height := h\<rparr>) = dex_kept E s0 s"
  by (simp_all add: dex_kept_def set_collateral_eq set_redemption_eq set_loan_eq remove_redemption_def)

lemmas dex_kept_bind = bindS_inv [where P = "dex_kept E s0" for E s0]

text \<open>Every message of the money market, its interest and its redemptions keep it, failing or not.\<close>

lemma pool_orders_other:
  assumes "chain_accounts E"
  shows "mod_addr E pool_vault \<noteq> mod_addr E pool_orders" "mod_addr E pool_collateral \<noteq> mod_addr E pool_orders"
    "mod_addr E pool_redemption \<noteq> mod_addr E pool_orders" "mod_addr E mm_module \<noteq> mod_addr E pool_orders"
  using assms by (auto simp: chain_accounts_def)

lemma mm_handle_keeps_dex:
  assumes E: "sdk E" and acc: "chain_accounts E" and u: "ordinary E c a"
  shows "dex_kept E s (snd (mm_handle E c m s))"
proof -
  note pay = dex_kept_transfers [OF E] and other = pool_orders_other [OF acc]
  have a: "acc_of E c = Some a" "a \<noteq> mod_addr E pool_orders" "acc_or_empty E c = a"
    using u by (auto simp: ordinary_def acc_or_empty_def)
  note ops = add_deposit_def create_redemption_request_def cancel_redemption_request_def update_redemption_request_def
    add_collateral_def remove_collateral_def borrow_def repay_def repay_loan_def partially_repay_loan_def mm_param_messages
  show ?thesis
    unfolding ops
    by (cases m) (auto simp: ops Let_def a other intro!: dex_kept_bind pay split: prod.splits option.splits)
qed

lemma apply_interest_keeps_dex: "dex_kept E s (snd (apply_interest E s))"
proof -
  have fold: "dex_kept E s0 (foldl (\<lambda>s l. set_loan d (f l) s) s ls) = dex_kept E s0 s" for s0 s :: "('a, 'b) mm_world_scheme" and d f ls
    by (induction ls arbitrary: s) simp_all
  have "dex_kept E s (snd (apply_interest_for_loans E c t))" if "dex_kept E s t" for c t
    using that unfolding apply_interest_for_loans_def Let_def by (auto simp: fold intro!: dex_kept_bind)
  then show ?thesis
    unfolding apply_interest_def by (intro foldS_inv [where P = "dex_kept E s"]) simp_all
qed

lemma handle_redemptions_keeps_dex:
  assumes E: "sdk E" and acc: "chain_accounts E"
  shows "dex_kept E s (snd (handle_redemptions E s))"
proof -
  note pay = dex_kept_transfers [OF E] and other = pool_orders_other [OF acc]
  have fee: "dex_kept E s (snd (handle_redemption_fee E c n t))" if "dex_kept E s t" for c n t
    using that unfolding handle_redemption_fee_def by (auto simp: other intro!: dex_kept_bind pay)
  have single: "dex_kept E s (snd (handle_single_redemption E c r available t))" if "dex_kept E s t" for c r available t
    using that unfolding handle_single_redemption_def Let_def
    by (auto simp: other intro!: dex_kept_bind pay fee split: prod.splits)
  have loop: "dex_kept E s (snd (redemption_loop E c rs available t))" if "dex_kept E s t" for c rs available t
    using that by (induction rs arbitrary: available t) (auto intro!: dex_kept_bind single)
  have "dex_kept E s (snd (handle_redemptions_for_casset E c t))" if "dex_kept E s t" for c t
    using that unfolding handle_redemptions_for_casset_def Let_def by (auto intro!: loop split: option.splits)
  then show ?thesis
    unfolding handle_redemptions_def by (intro foldS_inv [where P = "dex_kept E s"]) simp_all
qed

end
