(* ===== verification/Hooks.thy ===== *)
theory Hooks
  imports ChainFrame
begin

text \<open>
  What the hooks of the blocks leave alone however they end: with success, with an error that is logged or stops the block,
  or in a panic. The locales state what a property of the state has to withstand to survive a trade and each hook: payments from the
  accounts in \<open>X\<close>, mints and burns of the denominations in \<open>B\<close>, and writes of the stores that they write. Two properties are proved to be of this
  kind here, two more in \<open>ChainFlows\<close>.
\<close>

section \<open>Writes of the book\<close>

lemma use_entries_only: "book_only s0 s \<Longrightarrow> book_only s0 (snd (use_entries d ls left used lps s))"
proof (induction d ls left used lps s rule: use_entries.induct)
  case (2 d l ls left used lps s)
  show ?case
    using 2 book_only_trans [OF 2(2)] by (auto simp: Let_def intro!: bindS_inv [where P = "book_only s0"])
qed simp

lemma remove_owned_only: "book_only s (snd (remove_owned d a ls n s))"
  unfolding remove_owned_def
  by (rule foldS_inv [where P = "book_only s"])
    (auto intro!: bindS_inv [where P = "book_only s"] intro: book_only_trans)

section \<open>Trades\<close>

locale trade_frame =
  fixes E :: "'b env" and X :: "addr set" and P :: "('b, 'z) dex_world_scheme \<Rightarrow> bool"
  assumes pools: "dex_pools E \<subseteq> X"
    and pay_acc_mod: "P s \<Longrightarrow> a \<in> X \<Longrightarrow> P (snd (send_acc_mod E a m d n s))"
    and pay_mod_acc: "P s \<Longrightarrow> mod_addr E m \<in> X \<Longrightarrow> P (snd (send_mod_acc E m a d n s))"
    and pay_mod_mod: "P s \<Longrightarrow> mod_addr E m \<in> X \<Longrightarrow> P (snd (send_mod_mod E m m' d n s))"
    and book: "book_only s t \<Longrightarrow> P s \<Longrightarrow> P t"
    and pairs: "pairs_only s t \<Longrightarrow> P s \<Longrightarrow> P t"
    and amounts: "P (s\<lparr>trade_amounts := x\<rparr>) = P s"
begin

lemmas bind = bindS_inv [where P = P]
lemmas pay = pay_acc_mod pay_mod_acc pay_mod_mod

lemma in_pools [simp]:
  "mod_addr E pool_liquidity \<in> X" "mod_addr E pool_trade \<in> X" "mod_addr E pool_reserve \<in> X" "mod_addr E pool_fees \<in> X"
  "mod_addr E dex_module \<in> X"
  using pools pool_in by blast+

lemma entry: "P s \<Longrightarrow> P (add_entry d a n s)"
  by (rule book [OF add_entry_only])

lemma determine: "P s \<Longrightarrow> P (snd (determine_liquidity_providers E n from to s))"
  using book [OF use_entries_only [OF book_only_refl], of s] unfolding determine_liquidity_providers_def
  by (auto split: prod.splits intro!: bind pay)

lemma fee: "P s \<Longrightarrow> P (snd (distribute_fee E f d lps left s))"
  by (induction lps arbitrary: left s) (auto simp: Let_def intro!: bind pay entry)

lemma funds: "P s \<Longrightarrow> P (snd (distribute_given_funds E lps n d s))"
  unfolding distribute_given_funds_def by (auto simp: Let_def intro!: bind pay foldS_inv [where P = P] entry)

lemma settle: "P s \<Longrightarrow> P (snd (settle_step E opts lps gross used s))"
  unfolding settle_step_def distribute_fee_for_liquidity_providers_def by (auto split: prod.splits intro!: bind pay fee funds)

lemma step:
  assumes "P s" "ts_source opts \<in> X"
  shows "P (snd (execute_trade_step E opts s))"
proof -
  have "P (snd (charge_source E opts n t))" "P (snd (pay_trader E opts t))" if "P t" for n t
    using that assms(2) by (auto simp: charge_source_def pay_trader_def Let_def intro!: bind pay)
  then show ?thesis
    using assms unfolding execute_trade_step_def Let_def
    by (auto split: prod.splits intro!: bind pay determine settle)
qed

lemma reimburse:
  assumes "P s"
  shows "P (snd (reimburse_fee E n s))"
proof -
  have "P (snd (send_mod_mod E pool_fees dex_module base_currency k s))" for k using assms by (intro pay) simp_all
  then show ?thesis
    using assms by (auto simp: reimburse_fee_def Let_def split: prod.splits sum.splits err.splits) (metis snd_conv)+
qed

lemma trade:
  assumes "P s" "to_source opts = Some a" "a \<in> X"
  shows "P (snd (execute_trade E opts s))"
proof -
  have "P (snd (run_trade E start finish a tgt calc f n t))" if "P t" for start finish tgt calc f n t
    using that assms(3) pairs [OF update_ratios_only] unfolding run_trade_def Let_def
    by (auto simp: trade_to_base_def trade_to_target_def add_trade_amount_def set_trade_amount_def Let_def amounts
        split: prod.splits intro!: bind step reimburse)
  moreover have "source = a" if "prepare_trade E opts s = Inr (source, r)" for source r
    using that assms(2) by (auto simp: prepare_trade_def validate_trade_options_def bindR_Inr_iff Let_def)
  ultimately show ?thesis
    using assms(1) unfolding execute_trade_def
    by (auto split: prod.splits sum.splits err.splits intro!: bind)
qed

end

section \<open>The hooks of the exchange\<close>

locale dex_frame = trade_frame E X P for E :: "'b env" and X and P :: "('b, 'z) dex_world_scheme \<Rightarrow> bool" +
  fixes B :: "denom set"
  assumes orders_in: "mod_addr E pool_orders \<in> X"
    and kcoins_in: "P s \<Longrightarrow> set (kcoin_denoms (dparams s)) \<subseteq> B"
    and burn: "P s \<Longrightarrow> mod_addr E m \<in> X \<Longrightarrow> d \<in> B \<Longrightarrow> P (snd (burn_coins E m d n s))"
    and order_write: "P (s\<lparr>orders := xs\<rparr>) = P s" "P (s\<lparr>order_next := i\<rparr>) = P s"
begin

lemma order_stores [simp]: "P (remove_order x s) = P s" "P (snd (set_order x s)) = P s"
  by (simp_all add: remove_order_def set_order_def set_order_next_index_def Let_def order_write)

lemma recorded: "P (snd r) \<Longrightarrow> P (snd (record_execution x h r))"
  unfolding record_execution_def by (auto simp: Let_def split: prod.splits sum.splits intro!: bind)

lemma process_order: "P s \<Longrightarrow> P (snd (process_order E h x s))"
  unfolding process_order_def execute_order_def refund_order_def Let_def
  by (auto split: prod.splits simp: order_trade_options_def orders_in intro!: bind pay recorded trade)

lemma pair_update: "P s \<Longrightarrow> P (snd (update_pair_or_pairs E d s))"
  by (rule pairs [OF update_pair_or_pairs_only])

lemma add_liquidity: "P s \<Longrightarrow> a \<in> X \<Longrightarrow> P (snd (keeper_add_liquidity E a d n s))"
  unfolding keeper_add_liquidity_def by (auto intro!: bind pay entry pair_update)

lemma remove_all_liquidity: "P s \<Longrightarrow> P (snd (remove_all_liquidity_for_module E d m s))"
  using book [OF remove_owned_only]
  unfolding remove_all_liquidity_for_module_def remove_all_entries_for_address_def by (auto intro!: bind pay pair_update)

lemma money_market:
  assumes "P s"
  shows "P (snd (send_to_money_market E d n share s))"
proof -
  have "P (snd (send_mod_mod E pool_reserve pool_vault d k s))" for k using assms by (intro pay) simp_all
  then show ?thesis
    by (auto simp: send_to_money_market_def Let_def split: prod.splits sum.splits err.splits) (metis snd_conv)+
qed

lemma kcoin_in: "P s \<Longrightarrow> is_kcoin (dparams s) d \<Longrightarrow> d \<in> B"
  using kcoins_in [of s] by (auto simp: is_kcoin_def kcoin_denoms_def list_ex_iff)

lemma reserve_denom: "P s \<Longrightarrow> P (snd (check_reserve_for_denom E (mod_addr E pool_reserve) d n s))"
  unfolding check_reserve_for_denom_def
  by (auto split: sum.splits intro!: bind money_market burn add_liquidity dest: kcoin_in)

lemma begin_block: "P s \<Longrightarrow> P (snd (dex_begin_block E s))"
  using pairs [OF update_virtual_liquidities_only]
  unfolding dex_begin_block_def begin_block_check_reserve_def check_reserve_def Let_def
  by (auto split: option.splits intro!: bind foldS_inv [where P = P] reserve_denom)

lemma decay: "P (trade_amount_decay_all E s) = P s"
proof -
  have fold: "P (foldl (\<lambda>s x. if g x then remove_trade_amount (f x) s else set_trade_amount (f x) s) s xs) = P s" for f g xs
    by (induction xs arbitrary: s) (simp_all add: remove_trade_amount_def set_trade_amount_def amounts)
  show ?thesis unfolding trade_amount_decay_all_def Let_def by (rule fold)
qed

lemma end_block: "P s \<Longrightarrow> P (snd (dex_end_block E s))"
  unfolding dex_end_block_def execute_orders_def
  by (auto simp: decay intro!: bind foldS_inv [where P = P] process_order)

end

section \<open>The hook of the arbitrage\<close>

locale swap_frame = dex_frame E X P B for E :: "'b env" and X and P :: "('b, 'z) swap_world_scheme \<Rightarrow> bool" and B +
  assumes swap_in: "mod_addr E swap_module \<in> X"
    and base_in: "base_currency \<in> B"
    and mint: "P s \<Longrightarrow> d \<in> B \<Longrightarrow> P (snd (mint_coins E m d n s))"
begin

lemma burn_funds: "P s \<Longrightarrow> d \<in> B \<Longrightarrow> P (snd (burn_funds E d s))"
  unfolding burn_funds_def Let_def by (auto simp: swap_in intro!: bind pay burn)

lemma unless: "P (snd r) \<Longrightarrow> (\<And>s. P s \<Longrightarrow> P (snd (f s))) \<Longrightarrow> P (snd (unless_no_trade r f))"
  unfolding unless_no_trade_def by (auto split: prod.splits sum.splits)

lemma swap_trade: "P s \<Longrightarrow> P (snd (execute_trade E (swap_trade_options E start finish n) s))"
  by (rule trade [where a = "mod_addr E swap_module"]) (simp_all add: swap_trade_options_def swap_in)

lemma arbitrage: "P s \<Longrightarrow> k \<in> B \<Longrightarrow> P (snd (mint_trade_burn E k n s))"
  unfolding mint_trade_burn_def by (auto simp: base_in intro!: bind mint unless swap_trade burn_funds)

lemma check_burn: "P s \<Longrightarrow> k \<in> B \<Longrightarrow> P (snd (check_burn E k m s))"
  unfolding check_burn_def by (auto split: prod.splits option.splits intro!: bind remove_all_liquidity arbitrage)

lemma check_mint: "P s \<Longrightarrow> k \<in> B \<Longrightarrow> P (snd (check_mint E k m s))"
  unfolding check_mint_def by (auto simp: base_in split: prod.splits option.splits intro!: bind mint unless swap_trade burn_funds)

lemma swap_block: "P s \<Longrightarrow> P (snd (swap_end_block E s))"
  unfolding swap_end_block_def swap_burn_def swap_mint_def
  by (auto intro!: bind foldS_inv [where P = P] check_burn check_mint dest: kcoins_in)

end

section \<open>The hook of the money market\<close>

locale liquidation_frame = trade_frame E X P for E :: "'b env" and X and P :: "('b, 'z) mm_world_scheme \<Rightarrow> bool" +
  assumes mm_in: "mod_addr E pool_vault \<in> X" "mod_addr E pool_collateral \<in> X"
    and loan_write: "P (set_collateral d c s) = P s" "P (set_loan d l s) = P s"
begin

lemma liquidate_one: "P s \<Longrightarrow> P (snd (process_liquidation E c excess d a s))"
  unfolding process_liquidation_def Let_def
  by (auto simp: loan_write liquidation_options_def mm_in split: option.splits prod.splits intro!: bind trade)

lemma liquidate_loan: "P s \<Longrightarrow> P (snd (liquidate_loan E ds c l excess s))"
proof -
  have one: "P (snd (case process_liquidation E c x d a t of
         (Inl Panic, s) \<Rightarrow> (Inl Panic, s)
       | (Inl _, s) \<Rightarrow> (Inr (x, r), s)
       | (Inr n, s) \<Rightarrow> bindS (nilR n, s) (\<lambda>n s. (Inr (x - to_dec n, r + to_dec n), s))))" if "P t" for x d a t r
    using liquidate_one [OF that, of c x d a] by (auto split: prod.splits sum.splits err.splits intro!: bind)
  have "P (snd (liquidate_collaterals E c a ds x t))" if "P t" for a x t
    using that one unfolding liquidate_collaterals_def by (auto split: prod.splits intro!: foldS_inv [where P = P])
  then show "P s \<Longrightarrow> P (snd (liquidate_loan E ds c l excess s))"
    unfolding liquidate_loan_def Let_def
    by (auto simp: loan_write mm_in split: prod.splits intro!: bind pay)
qed

lemma liquidations: "P s \<Longrightarrow> P (snd (handle_liquidations E s))"
  unfolding handle_liquidations_def handle_borrower_liquidation_def Let_def
  by (auto split: prod.splits intro!: bind foldS_inv [where P = P] liquidate_loan)

end

locale mm_frame = swap_frame E X P B + liquidation_frame E X P for E :: "'b env" and X and P :: "('b, 'z) mm_world_scheme \<Rightarrow> bool" and B +
  assumes redemption_in: "mod_addr E pool_redemption \<in> X" "mod_addr E mm_module \<in> X"
    and cassets_in: "P s \<Longrightarrow> ca_name ` set (cassets (dparams s)) \<subseteq> B"
    and redemption_write: "P (set_redemption d r s) = P s"
begin

lemma redeem: "P s \<Longrightarrow> ca_name c \<in> B \<Longrightarrow> P (snd (handle_single_redemption E c r available s))"
  unfolding handle_single_redemption_def handle_redemption_fee_def Let_def
  by (auto simp: redemption_write redemption_in mm_in split: prod.splits intro!: bind pay burn)

lemma redemptions: "P s \<Longrightarrow> P (snd (handle_redemptions E s))"
proof -
  have "P (snd (redemption_loop E c rs available t))" if "P t" "ca_name c \<in> B" for c rs available t
    using that by (induction rs arbitrary: available t) (auto intro!: bind redeem)
  then show "P s \<Longrightarrow> P (snd (handle_redemptions E s))"
    using cassets_in [of s] unfolding handle_redemptions_def handle_redemptions_for_casset_def get_cassets_def Let_def
    by (auto split: option.splits intro!: foldS_inv [where P = P])
qed

lemma interest: "P s \<Longrightarrow> P (snd (apply_interest E s))"
proof -
  have fold: "P (foldl (\<lambda>s l. set_loan d (f l) s) t ls) = P t" for t d f ls
    by (induction ls arbitrary: t) (simp_all add: loan_write)
  show "P s \<Longrightarrow> P (snd (apply_interest E s))"
    unfolding apply_interest_def apply_interest_for_loans_def Let_def
    by (auto simp: fold intro!: bind foldS_inv [where P = P])
qed

lemma mm_block: "P s \<Longrightarrow> P (snd (mm_end_block E s))"
  unfolding mm_end_block_def by (auto simp: log_error_snd intro!: bind interest liquidations redemptions)

end

section \<open>Users\<close>

text \<open>The parameters stay, and no account but those of the modules loses anything.\<close>

definition governed :: "('b, 'z) dex_world_scheme \<Rightarrow> denom_params \<times> dex_params \<times> int" where
  "governed s = (dparams s, xparams s, height s)"

abbreviation users_keep :: "'b env \<Rightarrow> ('b, 'z) dex_world_scheme \<Rightarrow> ('b, 'z) dex_world_scheme \<Rightarrow> bool" where
  "users_keep E \<equiv> keeps E (- range (mod_addr E)) governed"

lemma users_frame:
  fixes s0 :: "('b, 'z) mm_world_scheme"
  assumes "sdk E"
  shows "mm_frame E (A \<union> range (mod_addr E)) (keeps E (- (A \<union> range (mod_addr E))) (\<lambda>s. g (governed s)) s0) UNIV"
    (is "mm_frame E ?X ?P UNIV")
proof unfold_locales
  fix s t :: "('b, 'z) mm_world_scheme" and a m m' d n
  note pay = keeps_transfers [where Y = "- ?X" and F = "\<lambda>s. g (governed s)", OF assms, of s0 s]
  have g: "governed (s\<lparr>bank := b\<rparr>) = governed s" for b by (simp add: governed_def)
  show "dex_pools E \<subseteq> ?X" by (auto simp: dex_pools_def)
  show "?P s \<Longrightarrow> a \<in> ?X \<Longrightarrow> ?P (snd (send_acc_mod E a m d n s))" "?P s \<Longrightarrow> mod_addr E m \<in> ?X \<Longrightarrow> ?P (snd (send_mod_acc E m a d n s))"
    "?P s \<Longrightarrow> mod_addr E m \<in> ?X \<Longrightarrow> ?P (snd (send_mod_mod E m m' d n s))"
    "?P s \<Longrightarrow> mod_addr E m \<in> ?X \<Longrightarrow> ?P (snd (burn_coins E m d n s))" "?P s \<Longrightarrow> ?P (snd (mint_coins E m d n s))"
    using pay g by simp_all
  show "?P t" if "book_only s t" "?P s"
    using that(2) by (simp add: keeps_def governed_def book_onlyD [OF that(1)])
  show "?P t" if "pairs_only s t" "?P s"
    using that(2) by (simp add: keeps_def governed_def pairs_onlyD [OF that(1)])
qed (simp_all add: keeps_def governed_def set_collateral_eq set_loan_eq set_redemption_eq)

sublocale sdk < users: mm_frame E "range (mod_addr E)" "users_keep E s0" UNIV for s0 :: "('b, 'z) mm_world_scheme"
  using users_frame [of E "{}" id] by (simp add: sdk_axioms)

context sdk
begin

lemma hooks_keep:
  fixes s :: "('b, 'z) mm_world_scheme"
  assumes "t \<in> {snd (dex_begin_block E s), snd (dex_end_block E s), snd (swap_end_block E s), snd (mm_end_block E s)}"
  shows "users_keep E s t"
  using assms users.begin_block [of s s] users.end_block [of s s] users.swap_block [of s s] users.mm_block [of s s] by auto

end

section \<open>Escrows\<close>

text \<open>For a liquidation the orders and the redemption requests stay as well, and the accounts that hold their coins lose nothing.\<close>

definition claims :: "('b, 'z) mm_world_scheme \<Rightarrow> order kv \<times> 64 word \<times> redemption kv \<times> denom_params" where
  "claims s = (orders s, order_next s, redemptions s, dparams s)"

abbreviation escrows_keep :: "'b env \<Rightarrow> ('b, 'z) mm_world_scheme \<Rightarrow> ('b, 'z) mm_world_scheme \<Rightarrow> bool" where
  "escrows_keep E \<equiv> keeps E {mod_addr E pool_orders, mod_addr E pool_redemption} claims"

abbreviation liquidators :: "'b env \<Rightarrow> addr set" where
  "liquidators E \<equiv> {mod_addr E pool_vault, mod_addr E pool_collateral} \<union> dex_pools E"

lemma escrows_frame:
  fixes s0 :: "('b, 'z) mm_world_scheme"
  assumes "sdk E" "chain_accounts E"
  shows "liquidation_frame E (liquidators E) (escrows_keep E s0)"
proof unfold_locales
  fix s t :: "('b, 'z) mm_world_scheme" and a m m' d n
  have disj: "x \<notin> {mod_addr E pool_orders, mod_addr E pool_redemption}" if "x \<in> liquidators E" for x
    using that assms(2) by (auto simp: chain_accounts_def dex_pools_def)
  have g: "claims (s\<lparr>bank := b\<rparr>) = claims s" for b by (simp add: claims_def)
  note pay = keeps_transfers [where Y = "{mod_addr E pool_orders, mod_addr E pool_redemption}" and F = claims and s = s and ?s0.0 = s0, OF assms(1) _ g]
  show "dex_pools E \<subseteq> liquidators E" by blast
  show "escrows_keep E s0 (snd (send_acc_mod E a m d n s))" if "escrows_keep E s0 s" "a \<in> liquidators E"
    by (rule pay(1) [OF that(1) disj [OF that(2)]])
  show "escrows_keep E s0 (snd (send_mod_acc E m a d n s))" "escrows_keep E s0 (snd (send_mod_mod E m m' d n s))"
    if "escrows_keep E s0 s" "mod_addr E m \<in> liquidators E"
    by (rule pay(2,3) [OF that(1) disj [OF that(2)]])+
  show "escrows_keep E s0 t" if "book_only s t" "escrows_keep E s0 s"
    using that(2) by (simp add: keeps_def claims_def book_onlyD [OF that(1)] mm_fields_more [OF book_onlyD(10) [OF that(1)]])
  show "escrows_keep E s0 t" if "pairs_only s t" "escrows_keep E s0 s"
    using that(2) by (simp add: keeps_def claims_def pairs_onlyD [OF that(1)] mm_fields_more [OF pairs_onlyD(11) [OF that(1)]])
qed (simp_all add: keeps_def claims_def set_collateral_eq set_loan_eq)

lemma chain_accounts_mm_env: "chain_accounts mm_env"
  by (simp add: chain_accounts_def mm_env_def pool_defs pool_collateral_def pool_redemption_def pool_vault_def
      mm_module_def swap_module_def distribution_module_def)

interpretation mm_escrows: liquidation_frame mm_env "liquidators mm_env" "escrows_keep mm_env s0" for s0 :: "(ledger, 'z) mm_world_scheme"
  by (rule escrows_frame [OF sdk_mm_env chain_accounts_mm_env])

section \<open>Properties\<close>

text \<open>
  No hook of a block takes a coin from a user: whatever the hooks of \<open>x/dex\<close>, \<open>x/swap\<close> and \<open>x/mm\<close> do, and however they end, no account
  that is not a module's holds less of any denomination afterwards, and the governed parameters stay as they are.
\<close>

theorem hooks_spare_users:
  fixes s :: "('b, 'z) mm_world_scheme"
  assumes "sdk E" "x \<notin> range (mod_addr E)"
    and "t \<in> {snd (dex_begin_block E s), snd (dex_end_block E s), snd (swap_end_block E s), snd (mm_end_block E s)}"
  shows "bal E (bank s) x d \<le> bal E (bank t) x d \<and> dparams t = dparams s \<and> xparams t = xparams s"
  using sdk.hooks_keep [OF assms(1,3)] assms(2) by (simp add: keeps_def governed_def)

theorem hooks_spare_users_witness:
  "bal mm_env (bank mm_requested) ''bob'' ''ukopi'' \<le> bal mm_env (bank (snd (mm_end_block mm_env mm_requested))) ''bob'' ''ukopi''"
proof -
  have x: "''bob'' \<notin> range (mod_addr mm_env)" by (auto simp: mm_env_def)
  show ?thesis using hooks_spare_users [OF sdk_mm_env x, of "snd (mm_end_block mm_env mm_requested)" mm_requested "''ukopi''"] by simp
qed

text \<open>
  C16. Liquidations spare what is held for others. However the liquidations of a block end, also when one of their trades fails half-way,
  the orders and the redemption requests are what they were, the account of the orders covers them as well as before, and the account
  of the requests holds no less.
\<close>

theorem liquidations_spare_escrows:
  fixes s :: "('b, 'z) mm_world_scheme"
  assumes "sdk E" "chain_accounts E" "handle_liquidations E s = (r, t)"
  shows "orders t = orders s \<and> redemptions t = redemptions s \<and> dparams t = dparams s
    \<and> (\<forall>d. surplus E s d \<le> surplus E t d)
    \<and> (\<forall>d. bal E (bank s) (mod_addr E pool_redemption) d \<le> bal E (bank t) (mod_addr E pool_redemption) d)
    \<and> (\<forall>x d. x \<notin> range (mod_addr E) \<longrightarrow> bal E (bank s) x d \<le> bal E (bank t) x d)"
proof -
  note k = liquidation_frame.liquidations [OF escrows_frame [OF assms(1,2), of s] keeps_refl]
    liquidation_frame.liquidations [OF mm_frame.axioms(2) [OF users_frame [OF assms(1), of "{}" id s]] keeps_refl]
  show ?thesis
    using k escrow_cong [of t s] by (simp add: assms(3) keeps_def claims_def governed_def surplus_def)
qed

theorem liquidations_spare_escrows_witness:
  "redemptions (snd (handle_liquidations mm_env mm_requested)) = redemptions mm_requested \<and> redemptions mm_requested \<noteq> []"
proof -
  have "redemptions mm_requested \<noteq> []" by code_simp
  then show ?thesis
    using liquidations_spare_escrows [OF sdk_mm_env chain_accounts_mm_env surjective_pairing, of mm_requested] by simp
qed

end
