(* ===== verification/TokenFactory.thy ===== *)
theory TokenFactory
  imports Ledger
begin

text \<open>
  The module \<open>x/tokenfactory\<close>: anyone may create a denomination \<open>factory/<name>\<close> against a fee, and
  its administrator may mint and burn it. The store maps \<open>KeyDenom(denom)\<close> to the denomination
  and its administrator (\<open>keeper/denoms.go\<close>); the handlers are those of \<open>keeper/msg_*.go\<close>.
\<close>

section \<open>State\<close>

record factory_denom =
  fd_denom :: denom
  fd_admin :: string

text \<open>A creation fee that was never set is nil.\<close>

record 'b tf_world = "'b world" +
  factory_denoms :: "factory_denom kv"
  creation_fee :: "int option"

definition tf_module :: string where "tf_module = ''tokenfactory''"

definition key_denom :: "denom \<Rightarrow> string" where "key_denom d = d @ ''/''"

definition to_full_name :: "denom \<Rightarrow> denom" where "to_full_name d = ''factory/'' @ d"

lemma key_denom_inj [simp]: "key_denom d = key_denom d' \<longleftrightarrow> d = d'"
  by (simp add: key_denom_def)

lemma to_full_name_inj [simp]: "to_full_name d = to_full_name d' \<longleftrightarrow> d = d'"
  by (simp add: to_full_name_def)

section \<open>Keeper\<close>

definition get_all_factory_denoms :: "('b, 'z) tf_world_scheme \<Rightarrow> factory_denom list" where
  "get_all_factory_denoms s = kv_vals [] (factory_denoms s)"

definition set_factory_denom :: "factory_denom \<Rightarrow> ('b, 'z) tf_world_scheme \<Rightarrow> ('b, 'z) tf_world_scheme" where
  "set_factory_denom d s = s\<lparr>factory_denoms := kv_put (key_denom (fd_denom d)) d (factory_denoms s)\<rparr>"

definition get_factory_denom :: "('b, 'z) tf_world_scheme \<Rightarrow> denom \<Rightarrow> factory_denom option" where
  "get_factory_denom s d = kv_get (factory_denoms s) (key_denom d)"

definition process_creation_fee :: "'b env \<Rightarrow> string \<Rightarrow> (('b, 'z) tf_world_scheme, unit) cmd" where
  "process_creation_fee E creator s =
     bindS (of_option (TfE Tf_ErrInvalidAddress) (acc_of E creator), s) (\<lambda>addr s.
     bindS (of_option FmtError (creation_fee s), s) (\<lambda>fee s.
     if fee = 0 then (Inr (), s)
     else bindS (send_acc_mod E addr tf_module ''ukopi'' fee s) (\<lambda>_.
          burn_coins E tf_module ''ukopi'' fee)))"

definition keeper_create_denom :: "'b env \<Rightarrow> denom \<Rightarrow> string \<Rightarrow> (('b, 'z) tf_world_scheme, unit) cmd" where
  "keeper_create_denom E d creator s =
     bindS (checkR (get_factory_denom s d = None) (TfE Tf_ErrDenomAlreadyExists), s) (\<lambda>_ s.
     bindS (process_creation_fee E creator s) (\<lambda>_ s.
     (Inr (), set_factory_denom \<lparr>fd_denom = d, fd_admin = creator\<rparr> s)))"

section \<open>Message handlers\<close>

definition create_denom :: "'b env \<Rightarrow> string \<Rightarrow> denom \<Rightarrow> (('b, 'z) tf_world_scheme, unit) cmd" where
  "create_denom E creator d = keeper_create_denom E (to_full_name d) creator"

text \<open>The checks \<open>MintDenom\<close>, \<open>BurnDenom\<close> and \<open>ForceTransfer\<close> share, in the order of the code.\<close>

definition admin_amount :: "'b env \<Rightarrow> string \<Rightarrow> denom \<Rightarrow> string \<Rightarrow> ('b, 'z) tf_world_scheme \<Rightarrow> (factory_denom \<times> int) res" where
  "admin_amount E creator d amt s =
     bindR (of_option (TfE Tf_ErrDenomDoesntExists) (get_factory_denom s (to_full_name d))) (\<lambda>fd.
     bindR (checkR (fd_admin fd = creator) (TfE Tf_ErrIncorrectAdmin)) (\<lambda>_.
     bindR (of_option (TfE Tf_ErrInvalidAmount) (parse_int E amt)) (\<lambda>n.
     bindR (checkR (n > 0) (TfE Tf_ErrNonPositiveAmount)) (\<lambda>_.
     Inr (fd, n)))))"

definition mint_denom :: "'b env \<Rightarrow> string \<Rightarrow> denom \<Rightarrow> string \<Rightarrow> string \<Rightarrow> (('b, 'z) tf_world_scheme, unit) cmd" where
  "mint_denom E creator d amt target s =
     bindS (admin_amount E creator d amt s, s) (\<lambda>(fd, n) s.
     bindS (of_option (TfE Tf_ErrInvalidAddress) (acc_of E target), s) (\<lambda>addr s.
     bindS (mint_coins E tf_module (fd_denom fd) n s) (\<lambda>_.
     send_mod_acc E tf_module addr (fd_denom fd) n)))"

definition burn_denom :: "'b env \<Rightarrow> string \<Rightarrow> denom \<Rightarrow> string \<Rightarrow> string \<Rightarrow> (('b, 'z) tf_world_scheme, unit) cmd" where
  "burn_denom E creator d amt target s =
     bindS (admin_amount E creator d amt s, s) (\<lambda>(fd, n) s.
     bindS (of_option (TfE Tf_ErrInvalidAddress) (acc_of E target), s) (\<lambda>addr s.
     bindS (send_acc_mod E addr tf_module (fd_denom fd) n s) (\<lambda>_.
     burn_coins E tf_module (fd_denom fd) n)))"

text \<open>Both addresses are parsed from the message's target address; its \<open>FromAddress\<close> is not used.\<close>

definition force_transfer :: "'b env \<Rightarrow> string \<Rightarrow> denom \<Rightarrow> string \<Rightarrow> string \<Rightarrow> string \<Rightarrow> (('b, 'z) tf_world_scheme, unit) cmd" where
  "force_transfer E creator d amt from_address target s =
     bindS (admin_amount E creator d amt s, s) (\<lambda>(fd, n) s.
     bindS (of_option (TfE Tf_ErrInvalidAddress) (acc_of E target), s) (\<lambda>from_addr s.
     bindS (of_option (TfE Tf_ErrInvalidAddress) (acc_of E target), s) (\<lambda>target_addr.
     send_coins E from_addr target_addr (fd_denom fd) n)))"

definition change_admin :: "'b env \<Rightarrow> string \<Rightarrow> denom \<Rightarrow> string \<Rightarrow> (('b, 'z) tf_world_scheme, unit) cmd" where
  "change_admin E creator d new_admin s =
     bindS (of_option (TfE Tf_ErrDenomDoesntExists) (get_factory_denom s (to_full_name d)), s) (\<lambda>fd s.
     bindS (checkR (fd_admin fd = creator) (TfE Tf_ErrIncorrectAdmin), s) (\<lambda>_ s.
     bindS (of_option (TfE Tf_ErrInvalidAddress) (acc_of E new_admin), s) (\<lambda>_ s.
     (Inr (), set_factory_denom (fd\<lparr>fd_admin := new_admin\<rparr>) s))))"

definition validate_tf_params :: "int option \<Rightarrow> unit res" where
  "validate_tf_params fee = Inr ()"

definition update_fee_amount :: "'b env \<Rightarrow> string \<Rightarrow> string \<Rightarrow> (('b, 'z) tf_world_scheme, unit) cmd" where
  "update_fee_amount E signer amt s =
     bindS (checkR (authority E = signer) (TfE Tf_ErrInvalidSigner), s) (\<lambda>_ s.
     bindS (of_option FmtError (parse_int E amt), s) (\<lambda>fee s.
     bindS (validate_tf_params (Some fee), s) (\<lambda>_ s.
     (Inr (), s\<lparr>creation_fee := Some fee\<rparr>))))"

section \<open>Genesis\<close>

definition tf_init_genesis :: "int option \<Rightarrow> factory_denom list \<Rightarrow> ('b, 'z) tf_world_scheme \<Rightarrow> ('b, 'z) tf_world_scheme" where
  "tf_init_genesis fee ds s = foldl (\<lambda>s d. set_factory_denom d s) (s\<lparr>creation_fee := fee\<rparr>) ds"

definition tf_export_genesis :: "('b, 'z) tf_world_scheme \<Rightarrow> int option \<times> factory_denom list" where
  "tf_export_genesis s = (creation_fee s, get_all_factory_denoms s)"

text \<open>The queries (\<open>keeper/query_*.go\<close>): a page of the registered denominations, and the parameters.\<close>

definition query_factory_denoms :: "(factory_denom list \<Rightarrow> factory_denom list) \<Rightarrow> ('b, 'z) tf_world_scheme \<Rightarrow> factory_denom list" where
  "query_factory_denoms page s = page (get_all_factory_denoms s)"

definition query_tf_params :: "('b, 'z) tf_world_scheme \<Rightarrow> int option" where
  "query_tf_params s = creation_fee s"

section \<open>The module as a state machine\<close>

datatype tf_msg =
    MsgCreateDenom denom
  | MsgMintDenom denom string string
  | MsgBurnDenom denom string string
  | MsgForceTransfer denom string string string
  | MsgChangeAdmin denom string
  | MsgUpdateFeeAmount string

fun tf_handle :: "'b env \<Rightarrow> string \<times> tf_msg \<Rightarrow> (('b, 'z) tf_world_scheme, unit) cmd" where
  "tf_handle E (c, MsgCreateDenom d) = create_denom E c d"
| "tf_handle E (c, MsgMintDenom d n a) = mint_denom E c d n a"
| "tf_handle E (c, MsgBurnDenom d n a) = burn_denom E c d n a"
| "tf_handle E (c, MsgForceTransfer d n f a) = force_transfer E c d n f a"
| "tf_handle E (c, MsgChangeAdmin d a) = change_admin E c d a"
| "tf_handle E (c, MsgUpdateFeeAmount n) = update_fee_amount E c n"

text \<open>One accepted message, and the states a chain can reach from an initial one.\<close>

inductive tf_step :: "'b env \<Rightarrow> ('b, 'z) tf_world_scheme \<Rightarrow> string \<times> tf_msg \<Rightarrow> ('b, 'z) tf_world_scheme \<Rightarrow> bool" for E where
  tf_step: "atomic (tf_handle E m) s = (Inr (), t) \<Longrightarrow> tf_step E s m t"

inductive tf_reach :: "'b env \<Rightarrow> ('b, 'z) tf_world_scheme \<Rightarrow> ('b, 'z) tf_world_scheme \<Rightarrow> bool" for E s where
  tf_refl: "tf_reach E s s"
| tf_next: "tf_reach E s t \<Longrightarrow> tf_step E t m u \<Longrightarrow> tf_reach E s u"

inductive_simps tf_step_simps: "tf_step E s m t"

text \<open>The invariant: every entry is stored under its own key, names a factory denomination and has a valid administrator.\<close>

definition tf_wf :: "'b env \<Rightarrow> ('b, 'z) tf_world_scheme \<Rightarrow> bool" where
  "tf_wf E s \<longleftrightarrow> kv_wf (factory_denoms s)
     \<and> (\<forall>k fd. kv_get (factory_denoms s) k = Some fd \<longrightarrow>
          k = key_denom (fd_denom fd) \<and> fd_denom fd \<in> range to_full_name \<and> acc_of E (fd_admin fd) \<noteq> None)"

section \<open>Lemmas\<close>

lemma get_set_factory_denom [simp]:
  "kv_wf (factory_denoms s) \<Longrightarrow> get_factory_denom (set_factory_denom fd s) d =
     (if d = fd_denom fd then Some fd else get_factory_denom s d)"
  by (auto simp: get_factory_denom_def set_factory_denom_def kvs.get_put)

lemma tf_wf_set:
  assumes "tf_wf E s" "fd_denom fd \<in> range to_full_name" "acc_of E (fd_admin fd) \<noteq> None"
  shows "tf_wf E (set_factory_denom fd s)"
  using assms by (auto simp: tf_wf_def set_factory_denom_def kvs.get_put kvs.invar_put)

lemma tf_wf_get:
  "tf_wf E s \<Longrightarrow> get_factory_denom s d = Some fd \<Longrightarrow>
   fd_denom fd = d \<and> d \<in> range to_full_name \<and> (\<exists>a. acc_of E (fd_admin fd) = Some a)"
  by (fastforce simp: tf_wf_def get_factory_denom_def)

lemma get_cong: "factory_denoms t = factory_denoms s \<Longrightarrow> get_factory_denom t d = get_factory_denom s d"
  by (simp add: get_factory_denom_def)

lemma admin_amount_ok:
  "admin_amount E c d amt s = Inr (fd, n) \<longleftrightarrow>
   get_factory_denom s (to_full_name d) = Some fd \<and> fd_admin fd = c \<and> parse_int E amt = Some n \<and> 0 < n"
  by (auto simp: admin_amount_def bindR_Inr_iff)

lemma ukopi_not_factory: "to_full_name d \<noteq> ''ukopi''"
  by (simp add: to_full_name_def)

context sdk
begin

lemma creation_fee_ok:
  assumes "process_creation_fee E c s = (Inr u, t)"
  obtains a fee where "acc_of E c = Some a" "creation_fee s = Some fee" "0 \<le> fee" "t = s\<lparr>bank := bank t\<rparr>"
    "\<And>x d. bal E (bank t) x d = bal E (bank s) x d - (if x = a \<and> d = ''ukopi'' then fee else 0)"
    "\<And>d. bk_supply E (bank t) d = bk_supply E (bank s) d - (if d = ''ukopi'' then fee else 0)"
proof -
  from assms obtain a fee where a: "acc_of E c = Some a" "creation_fee s = Some fee"
    by (auto simp: process_creation_fee_def bindS_Inr_iff)
  show ?thesis
  proof (cases "fee = 0")
    case True
    with assms a have "t = s" by (simp add: process_creation_fee_def)
    with a True show ?thesis by (auto intro: that)
  next
    case False
    with assms a obtain v where v: "send_acc_mod E a tf_module ''ukopi'' fee s = (Inr (), v)"
      "burn_coins E tf_module ''ukopi'' fee v = (Inr (), t)"
      by (auto simp: process_creation_fee_def bindS_Inr_iff)
    note 1 = send_acc_mod_ok [OF v(1)] and 2 = burn_coins_ok [OF v(2)]
    have "t = s\<lparr>bank := bank t\<rparr>" by (rule bank_frame_trans [OF 1(4) 2(4)])
    then show ?thesis by (intro that [OF a 1(1)]) (auto simp: 1(2,3) 2(2,3))
  qed
qed

lemma mint_denom_ok:
  assumes "mint_denom E c d amt target s = (Inr u, t)"
  obtains fd n a where "get_factory_denom s (to_full_name d) = Some fd" "fd_admin fd = c"
    "parse_int E amt = Some n" "0 < n" "acc_of E target = Some a" "t = s\<lparr>bank := bank t\<rparr>"
    "\<And>x d'. bal E (bank t) x d' = bal E (bank s) x d' + (if x = a \<and> d' = fd_denom fd then n else 0)"
    "\<And>d'. bk_supply E (bank t) d' = bk_supply E (bank s) d' + (if d' = fd_denom fd then n else 0)"
proof -
  from assms obtain fd n a v where *: "admin_amount E c d amt s = Inr (fd, n)" "acc_of E target = Some a"
    and v: "mint_coins E tf_module (fd_denom fd) n s = (Inr (), v)"
      "send_mod_acc E tf_module a (fd_denom fd) n v = (Inr (), t)"
    by (auto simp: mint_denom_def bindS_Inr_iff)
  note 1 = mint_coins_ok [OF v(1)] and 2 = send_mod_acc_ok [OF v(2)]
  have "t = s\<lparr>bank := bank t\<rparr>" by (rule bank_frame_trans [OF 1(4) 2(4)])
  then show ?thesis
    by (intro that [of fd n a]) (use * in \<open>auto simp: 1(2,3) 2(2,3) admin_amount_ok\<close>)
qed

lemma burn_denom_ok:
  assumes "burn_denom E c d amt target s = (Inr u, t)"
  obtains fd n a where "get_factory_denom s (to_full_name d) = Some fd" "fd_admin fd = c"
    "parse_int E amt = Some n" "0 < n" "acc_of E target = Some a" "t = s\<lparr>bank := bank t\<rparr>"
    "\<And>x d'. bal E (bank t) x d' = bal E (bank s) x d' - (if x = a \<and> d' = fd_denom fd then n else 0)"
    "\<And>d'. bk_supply E (bank t) d' = bk_supply E (bank s) d' - (if d' = fd_denom fd then n else 0)"
proof -
  from assms obtain fd n a v where *: "admin_amount E c d amt s = Inr (fd, n)" "acc_of E target = Some a"
    and v: "send_acc_mod E a tf_module (fd_denom fd) n s = (Inr (), v)"
      "burn_coins E tf_module (fd_denom fd) n v = (Inr (), t)"
    by (auto simp: burn_denom_def bindS_Inr_iff)
  note 1 = send_acc_mod_ok [OF v(1)] and 2 = burn_coins_ok [OF v(2)]
  have "t = s\<lparr>bank := bank t\<rparr>" by (rule bank_frame_trans [OF 1(4) 2(4)])
  then show ?thesis
    by (intro that [of fd n a]) (use * in \<open>auto simp: 1(2,3) 2(2,3) admin_amount_ok\<close>)
qed

lemma force_transfer_ok:
  assumes "force_transfer E c d amt from_address target s = (Inr u, t)"
  obtains fd where "get_factory_denom s (to_full_name d) = Some fd" "fd_admin fd = c" "t = s\<lparr>bank := bank t\<rparr>"
    "\<And>x d'. bal E (bank t) x d' = bal E (bank s) x d'" "\<And>d'. bk_supply E (bank t) d' = bk_supply E (bank s) d'"
proof -
  from assms obtain fd n a where *: "admin_amount E c d amt s = Inr (fd, n)"
    and v: "send_coins E a a (fd_denom fd) n s = (Inr (), t)"
    by (auto simp: force_transfer_def bindS_Inr_iff)
  show ?thesis
    by (rule that [of fd]) (use * send_coins_ok(2,3) [OF v] send_coins_ok(4) [OF v] in \<open>simp_all add: admin_amount_ok\<close>)
qed

end

section \<open>Properties\<close>

lemma tf_frame:
  "process_creation_fee E c s = (Inr u, t) \<Longrightarrow> factory_denoms t = factory_denoms s"
  "mint_denom E c d amt target s = (Inr u, t) \<Longrightarrow> factory_denoms t = factory_denoms s"
  "burn_denom E c d amt target s = (Inr u, t) \<Longrightarrow> factory_denoms t = factory_denoms s"
  "force_transfer E c d amt from_address target s = (Inr u, t) \<Longrightarrow> factory_denoms t = factory_denoms s"
  by (auto simp: process_creation_fee_def mint_denom_def burn_denom_def force_transfer_def bindS_Inr_iff
      bank_ops_defs bank_call_ok split: if_splits)

lemma tf_handle_wf:
  assumes "tf_wf E s" "tf_handle E m s = (Inr u, t)"
  shows "tf_wf E t \<and> (\<forall>d. get_factory_denom s d \<noteq> None \<longrightarrow> get_factory_denom t d \<noteq> None)"
proof -
  obtain c x where m: "m = (c, x)" by (cases m)
  have kv: "kv_wf (factory_denoms s)" using assms(1) by (simp add: tf_wf_def)
  show ?thesis
  proof (cases x)
    case (MsgCreateDenom d)
    with assms(2) m obtain v where v: "process_creation_fee E c s = (Inr (), v)"
      "t = set_factory_denom \<lparr>fd_denom = to_full_name d, fd_admin = c\<rparr> v"
      by (auto simp: create_denom_def keeper_create_denom_def bindS_Inr_iff)
    from v(1) have "acc_of E c \<noteq> None" by (auto simp: process_creation_fee_def bindS_Inr_iff)
    moreover have "kv_wf (factory_denoms v)" "tf_wf E v" "\<And>d. get_factory_denom v d = get_factory_denom s d"
      using tf_frame(1) [OF v(1)] kv assms(1) by (simp_all add: tf_wf_def get_factory_denom_def)
    ultimately show ?thesis by (simp add: v(2) tf_wf_set)
  next
    case (MsgChangeAdmin d a)
    with assms(2) m obtain fd where v: "get_factory_denom s (to_full_name d) = Some fd" "acc_of E a \<noteq> None"
      "t = set_factory_denom (fd\<lparr>fd_admin := a\<rparr>) s"
      by (auto simp: change_admin_def bindS_Inr_iff)
    with tf_wf_get [OF assms(1) v(1)] kv assms(1) show ?thesis
      by (auto simp: tf_wf_set)
  next
    case (MsgUpdateFeeAmount n)
    with assms m have "factory_denoms t = factory_denoms s"
      by (auto simp: update_fee_amount_def bindS_Inr_iff)
    with assms(1) show ?thesis by (simp add: tf_wf_def get_factory_denom_def)
  next
    case (MsgMintDenom d n a)
    with assms m have "factory_denoms t = factory_denoms s" by (simp add: tf_frame(2))
    with assms(1) show ?thesis by (simp add: tf_wf_def get_factory_denom_def)
  next
    case (MsgBurnDenom d n a)
    with assms m have "factory_denoms t = factory_denoms s" by (simp add: tf_frame(3))
    with assms(1) show ?thesis by (simp add: tf_wf_def get_factory_denom_def)
  next
    case (MsgForceTransfer d n f a)
    with assms m have "factory_denoms t = factory_denoms s" by (simp add: tf_frame(4))
    with assms(1) show ?thesis by (simp add: tf_wf_def get_factory_denom_def)
  qed
qed

text \<open>
  C20. Every state the module can reach from a well-formed one is well-formed: each entry sits under its own
  key, names a \<open>factory/\<close> denomination and has an administrator with a valid address; and a denomination, once
  created, stays registered.
\<close>

theorem tf_reach_invariant:
  assumes "tf_wf E s" "tf_reach E s t"
  shows "tf_wf E t \<and> (\<forall>d. get_factory_denom s d \<noteq> None \<longrightarrow> get_factory_denom t d \<noteq> None)"
  using assms(2) by (induction rule: tf_reach.induct)
    (use assms(1) tf_handle_wf in \<open>force simp: tf_step_simps\<close>)+

definition tf_example :: "ledger tf_world" where
  "tf_example = \<lparr>bank = \<lparr>bals = [((''alice'', ''ukopi''), 50)], tot = [(''ukopi'', 50)]\<rparr>,
     height = 1, factory_denoms = [], creation_fee = Some 10\<rparr>"

definition tf_env :: "ledger env" where "tf_env = ledger_env [''ukopi'', ''factory/x'']"

lemma sdk_tf_env: "sdk tf_env"
  unfolding tf_env_def by (rule led.sdk_axioms)

text \<open>The example chain with \<open>factory/x\<close> created by alice.\<close>

definition tf_example_x :: "ledger tf_world" where
  "tf_example_x = snd (create_denom tf_env ''alice'' ''x'' tf_example)"

lemma tf_example_simps:
  "fst (create_denom tf_env ''alice'' ''x'' tf_example) = Inr ()"
  "get_factory_denom tf_example_x ''factory/x'' = Some \<lparr>fd_denom = ''factory/x'', fd_admin = ''alice''\<rparr>"
  "fst (mint_denom tf_env ''alice'' ''x'' ''7'' ''bob'' tf_example_x) = Inr ()"
  "fst (burn_denom tf_env ''alice'' ''x'' ''7'' ''bob'' (snd (mint_denom tf_env ''alice'' ''x'' ''7'' ''bob'' tf_example_x))) = Inr ()"
  "fst (force_transfer tf_env ''alice'' ''x'' ''3'' ''bob'' ''bob'' (snd (mint_denom tf_env ''alice'' ''x'' ''7'' ''bob'' tf_example_x))) = Inr ()"
  by code_simp+

lemma tf_example_steps:
  "create_denom tf_env ''alice'' ''x'' tf_example = (Inr (), tf_example_x)"
  "mint_denom tf_env ''alice'' ''x'' ''7'' ''bob'' tf_example_x
     = (Inr (), snd (mint_denom tf_env ''alice'' ''x'' ''7'' ''bob'' tf_example_x))"
  using tf_example_simps by (simp_all add: prod_eq_iff tf_example_x_def)

lemma tf_wf_example: "tf_wf tf_env tf_example" "tf_wf tf_env tf_example_x"
proof -
  show 1: "tf_wf tf_env tf_example" by (simp add: tf_wf_def tf_example_def kv_wf_def kv_get_def)
  show "tf_wf tf_env tf_example_x"
    using tf_handle_wf [OF 1, of "(''alice'', MsgCreateDenom ''x'')"] tf_example_steps(1) by simp
qed

theorem tf_reach_invariant_witness:
  "tf_wf tf_env tf_example_x \<and> {d. get_factory_denom tf_example d \<noteq> None} \<subseteq> {d. get_factory_denom tf_example_x d \<noteq> None}"
proof -
  have "tf_step tf_env tf_example (''alice'', MsgCreateDenom ''x'') tf_example_x"
    by (simp add: tf_step_simps tf_example_steps)
  then have "tf_reach tf_env tf_example tf_example_x"
    by (blast intro: tf_reach.intros)
  from tf_reach_invariant [OF tf_wf_example(1) this] show ?thesis by blast
qed

text \<open>
  C21. Only its administrator moves a factory denomination through the module: when an accepted message changes
  the supply or any balance of a denomination other than the fee's, the denomination is registered, the
  sender is its administrator and the message is a mint or a burn of it.
\<close>

theorem tf_only_admin:
  assumes "sdk E" "tf_wf E s" "tf_step E s (c, m) t" "d \<noteq> ''ukopi''"
    and "bk_supply E (bank t) d \<noteq> bk_supply E (bank s) d \<or> bal E (bank t) x d \<noteq> bal E (bank s) x d"
  shows "(\<exists>fd. get_factory_denom s d = Some fd \<and> fd_admin fd = c)
    \<and> (\<exists>d' n a. d = to_full_name d' \<and> (m = MsgMintDenom d' n a \<or> m = MsgBurnDenom d' n a))"
proof -
  have step: "tf_handle E (c, m) s = (Inr (), t)" using assms(3) by (simp add: tf_step_simps)
  show ?thesis
  proof (cases m)
    case (MsgCreateDenom d')
    with step obtain v where "process_creation_fee E c s = (Inr (), v)" "bank t = bank v"
      by (auto simp: create_denom_def keeper_create_denom_def bindS_Inr_iff set_factory_denom_def)
    then show ?thesis
      using assms(4,5) by (auto elim!: sdk.creation_fee_ok [OF assms(1)])
  next
    case (MsgMintDenom d' n a)
    with step show ?thesis
      using assms(4,5) tf_wf_get [OF assms(2)]
      by (auto elim!: sdk.mint_denom_ok [OF assms(1)] split: if_splits)
  next
    case (MsgBurnDenom d' n a)
    with step show ?thesis
      using assms(4,5) tf_wf_get [OF assms(2)]
      by (auto elim!: sdk.burn_denom_ok [OF assms(1)] split: if_splits)
  next
    case (MsgForceTransfer d' n f a)
    with step show ?thesis
      using assms(5) by (auto elim!: sdk.force_transfer_ok [OF assms(1)])
  qed (use step assms(5) in \<open>auto simp: change_admin_def update_fee_amount_def bindS_Inr_iff set_factory_denom_def\<close>)
qed

theorem tf_only_admin_witness:
  "\<exists>fd. get_factory_denom tf_example_x ''factory/x'' = Some fd \<and> fd_admin fd = ''alice''"
proof -
  let ?t = "snd (mint_denom tf_env ''alice'' ''x'' ''7'' ''bob'' tf_example_x)"
  have step: "tf_step tf_env tf_example_x (''alice'', MsgMintDenom ''x'' ''7'' ''bob'') ?t"
    using tf_example_steps(2) by (simp add: tf_step_simps)
  have "bk_supply tf_env (bank ?t) ''factory/x'' = 7" "bk_supply tf_env (bank tf_example_x) ''factory/x'' = 0"
    by code_simp+
  then show ?thesis
    using tf_only_admin [OF sdk_tf_env tf_wf_example(2) step, of "''factory/x''"] by auto
qed

text \<open>
  C29. A mint raises the supply and the target's balance by exactly the amount of the message, and nothing else;
  burning the same amount from the same address afterwards undoes it.
\<close>

theorem mint_burn_roundtrip:
  assumes "sdk E" "tf_wf E s" "mint_denom E c d amt target s = (Inr (), t)"
  shows "\<exists>n a. parse_int E amt = Some n \<and> 0 < n \<and> acc_of E target = Some a
    \<and> (\<forall>d'. bk_supply E (bank t) d' = bk_supply E (bank s) d' + (if d' = to_full_name d then n else 0))
    \<and> (\<forall>x d'. bal E (bank t) x d' = bal E (bank s) x d' + (if x = a \<and> d' = to_full_name d then n else 0))
    \<and> (\<forall>u. burn_denom E c d amt target t = (Inr (), u) \<longrightarrow>
          (\<forall>x d'. bal E (bank u) x d' = bal E (bank s) x d')
          \<and> (\<forall>d'. bk_supply E (bank u) d' = bk_supply E (bank s) d'))"
proof -
  obtain fd n a where m: "get_factory_denom s (to_full_name d) = Some fd" "parse_int E amt = Some n" "0 < n"
    "acc_of E target = Some a"
    "\<And>x d'. bal E (bank t) x d' = bal E (bank s) x d' + (if x = a \<and> d' = fd_denom fd then n else 0)"
    "\<And>d'. bk_supply E (bank t) d' = bk_supply E (bank s) d' + (if d' = fd_denom fd then n else 0)"
    using assms(3) by (auto elim!: sdk.mint_denom_ok [OF assms(1)])
  have fd: "fd_denom fd = to_full_name d" using tf_wf_get [OF assms(2) m(1)] by simp
  have t: "get_factory_denom t (to_full_name d) = Some fd"
    using get_cong [OF tf_frame(2) [OF assms(3)]] m(1) by simp
  have "(\<forall>x d'. bal E (bank u) x d' = bal E (bank s) x d') \<and> (\<forall>d'. bk_supply E (bank u) d' = bk_supply E (bank s) d')"
    if "burn_denom E c d amt target t = (Inr (), u)" for u
    using that by (rule sdk.burn_denom_ok [OF assms(1)]) (use m t in auto)
  with m fd show ?thesis by auto
qed

theorem mint_burn_roundtrip_witness:
  "\<exists>n. parse_int tf_env ''7'' = Some n \<and> bk_supply tf_env (bank (snd (mint_denom tf_env ''alice'' ''x'' ''7'' ''bob'' tf_example_x))) ''factory/x''
     = bk_supply tf_env (bank tf_example_x) ''factory/x'' + n"
  using mint_burn_roundtrip [OF sdk_tf_env tf_wf_example(2) tf_example_steps(2)]
  by (force simp: to_full_name_def)

text \<open>
  C34. \<open>ForceTransfer\<close> moves nothing: both of its ends are the target address, so an accepted
  transfer leaves every balance and every supply as it was.
\<close>

theorem force_transfer_moves_nothing:
  assumes "sdk E" "force_transfer E c d amt from_address target s = (Inr (), t)"
  shows "bal E (bank t) x d' = bal E (bank s) x d' \<and> bk_supply E (bank t) d' = bk_supply E (bank s) d'"
  using assms(2) by (rule sdk.force_transfer_ok [OF assms(1)]) simp

theorem force_transfer_moves_nothing_witness:
  "bal tf_env (bank (snd (force_transfer tf_env ''alice'' ''x'' ''3'' ''bob'' ''bob''
      (snd (mint_denom tf_env ''alice'' ''x'' ''7'' ''bob'' tf_example_x))))) ''bob'' ''factory/x''
   = bal tf_env (bank (snd (mint_denom tf_env ''alice'' ''x'' ''7'' ''bob'' tf_example_x))) ''bob'' ''factory/x''"
  using force_transfer_moves_nothing [OF sdk_tf_env, of "''alice''" "''x''" "''3''" "''bob''" "''bob''"]
    tf_example_simps(5) by (metis prod.collapse)

text \<open>
  Creating a denomination takes a name that is free, burns exactly the creation fee from the
  creator's ukopi and makes the creator its administrator; from then on creating it again is refused to everyone.
\<close>

theorem create_denom_spec:
  assumes "sdk E" "tf_wf E s" "create_denom E c d s = (Inr (), t)"
  shows "get_factory_denom s (to_full_name d) = None
    \<and> (\<forall>d'. get_factory_denom t d' = (if d' = to_full_name d then Some \<lparr>fd_denom = to_full_name d, fd_admin = c\<rparr>
                                        else get_factory_denom s d'))
    \<and> (\<exists>a fee. acc_of E c = Some a \<and> creation_fee s = Some fee \<and> 0 \<le> fee
         \<and> (\<forall>x d'. bal E (bank t) x d' = bal E (bank s) x d' - (if x = a \<and> d' = ''ukopi'' then fee else 0))
         \<and> (\<forall>d'. bk_supply E (bank t) d' = bk_supply E (bank s) d' - (if d' = ''ukopi'' then fee else 0)))
    \<and> (\<forall>c'. create_denom E c' d t = (Inl (TfE Tf_ErrDenomAlreadyExists), t))"
proof -
  from assms(3) obtain v where n: "get_factory_denom s (to_full_name d) = None"
    and v: "process_creation_fee E c s = (Inr (), v)"
    and t: "t = set_factory_denom \<lparr>fd_denom = to_full_name d, fd_admin = c\<rparr> v"
    by (auto simp: create_denom_def keeper_create_denom_def bindS_Inr_iff)
  have kv: "kv_wf (factory_denoms v)" using assms(2) tf_frame(1) [OF v] by (simp add: tf_wf_def)
  have g: "get_factory_denom t d' = (if d' = to_full_name d then Some \<lparr>fd_denom = to_full_name d, fd_admin = c\<rparr>
      else get_factory_denom s d')" for d'
    using kv get_cong [OF tf_frame(1) [OF v]] by (simp add: t)
  have "bank t = bank v" by (simp add: t set_factory_denom_def)
  with v have "\<exists>a fee. acc_of E c = Some a \<and> creation_fee s = Some fee \<and> 0 \<le> fee
         \<and> (\<forall>x d'. bal E (bank t) x d' = bal E (bank s) x d' - (if x = a \<and> d' = ''ukopi'' then fee else 0))
         \<and> (\<forall>d'. bk_supply E (bank t) d' = bk_supply E (bank s) d' - (if d' = ''ukopi'' then fee else 0))"
    by (auto elim!: sdk.creation_fee_ok [OF assms(1)])
  with n g show ?thesis by (simp add: create_denom_def keeper_create_denom_def)
qed

theorem create_denom_spec_witness:
  "get_factory_denom tf_example ''factory/x'' = None
   \<and> create_denom tf_env ''bob'' ''x'' tf_example_x = (Inl (TfE Tf_ErrDenomAlreadyExists), tf_example_x)"
  using create_denom_spec [OF sdk_tf_env tf_wf_example(1) tf_example_steps(1)] by (simp add: to_full_name_def)

text \<open>
  The fee is not validated: the authority can set a negative one, and from then on every attempt to create a
  new denomination panics.
\<close>

theorem negative_fee_blocks_creation:
  assumes "sdk E" "parse_int E amt = Some n" "n < 0"
  shows "update_fee_amount E (authority E) amt s = (Inr (), s\<lparr>creation_fee := Some n\<rparr>)
    \<and> (\<forall>c d. get_factory_denom s (to_full_name d) = None \<and> acc_of E c \<noteq> None \<longrightarrow>
         create_denom E c d (s\<lparr>creation_fee := Some n\<rparr>) = (Inl Panic, s\<lparr>creation_fee := Some n\<rparr>))"
  using assms(2,3)
  by (auto simp: update_fee_amount_def validate_tf_params_def create_denom_def keeper_create_denom_def
      get_factory_denom_def process_creation_fee_def send_acc_mod_def sdk.bank_call_neg [OF assms(1)])

theorem negative_fee_blocks_creation_witness:
  "create_denom tf_env ''alice'' ''x'' (tf_example\<lparr>creation_fee := Some (- 5)\<rparr>)
   = (Inl Panic, tf_example\<lparr>creation_fee := Some (- 5)\<rparr>)"
proof -
  have "parse_int tf_env ''-5'' = Some (- 5)" by code_simp
  moreover have "get_factory_denom tf_example (to_full_name ''x'') = None" "acc_of tf_env ''alice'' \<noteq> None" by code_simp+
  moreover have "(- 5 :: int) < 0" by simp
  ultimately show ?thesis
    using negative_fee_blocks_creation [OF sdk_tf_env, of "''-5''" "-5" tf_example] by blast
qed

end
