(* ===== verification/Chain.thy ===== *)
theory Chain
  imports Hooks TokenFactory
begin

text \<open>
  The modules running together on one chain: every message of \<open>x/dex\<close>, \<open>x/swap\<close> and \<open>x/mm\<close>, the hooks at the beginning and at the end of
  a block, and what other modules do to the bank, as steps of one relation; and the invariant that all of them keep.
\<close>

section \<open>The invariant\<close>

text \<open>The governed denominations: they are valid and their store keys do not mix, and the base currency is no kCoin.\<close>

definition chain_denoms :: "denom_params \<Rightarrow> bool" where
  "chain_denoms p \<longleftrightarrow> denoms_separate p \<and> base_currency \<in> set (denoms p) \<and> base_currency \<notin> set (kcoin_denoms p)"

text \<open>
  The stores are consistent and covered: the collaterals and the redemption requests in every denomination, the orders in every
  denomination but the base currency, of which an order may be charged more than it reports.
\<close>

definition chain_ok :: "'b env \<Rightarrow> ('b, 'z) mm_world_scheme \<Rightarrow> bool" where
  "chain_ok E s \<longleftrightarrow> mm_ok E s \<and> book_inv s \<and> order_inv s \<and> wf_dex_params (xparams s) \<and> chain_denoms (dparams s)
     \<and> (\<forall>d. d \<noteq> base_currency \<longrightarrow> 0 \<le> surplus E s d)"

lemma chain_okD:
  assumes "chain_ok E s"
  shows "mm_ok E s" "book_inv s" "order_inv s" "wf_dex_params (xparams s)" "denoms_separate (dparams s)"
    "base_currency \<in> set (denoms (dparams s))" "base_currency \<notin> set (kcoin_denoms (dparams s))"
    "d \<noteq> base_currency \<Longrightarrow> 0 \<le> surplus E s d"
  using assms by (simp_all add: chain_ok_def chain_denoms_def)

text \<open>A step of the exchange keeps it when it keeps its own part and takes nothing from the money market's two accounts.\<close>

lemma chain_ok_dex:
  assumes s: "chain_ok E s" and f: "dex_world.more t = dex_world.more s" "dparams t = dparams s"
    and t: "wf_dex_params (xparams t)" "book_inv t" "order_inv t"
    and b: "\<And>x d. x \<in> held_accounts E \<Longrightarrow> bal E (bank s) x d \<le> bal E (bank t) x d"
    and o: "\<And>d. d \<noteq> base_currency \<Longrightarrow> surplus E s d \<le> surplus E t d"
  shows "chain_ok E t"
proof -
  note m = mm_okD [OF chain_okD(1) [OF s]]
  note g = mm_fields_more [OF f(1)]
  have "get_collateral_sum t d \<le> bal E (bank t) (mod_addr E pool_collateral) d" if "d \<in> known s" for d
    using m(5) [OF that] b [of "mod_addr E pool_collateral" d] by (simp add: get_collateral_sum_def g)
  moreover have "get_redemption_sum t d \<le> bal E (bank t) (mod_addr E pool_redemption) d" if "d \<in> known s" for d
    using m(6) [OF that] b [of "mod_addr E pool_redemption" d] by (simp add: get_redemption_sum_def g)
  ultimately have "mm_ok E t"
    using m(1-4) by (simp add: mm_ok_def f(2) collaterals_ok_def redemptions_ok_def loans_ok_def g)
  moreover have "0 \<le> surplus E t d" if "d \<noteq> base_currency" for d
    using chain_okD(8) [OF s that] o [OF that] by simp
  ultimately show ?thesis using s t by (simp add: chain_ok_def f(2))
qed

text \<open>A step of the money market keeps it when it keeps its own part and the exchange's.\<close>

lemma chain_ok_mm:
  assumes "chain_ok E s" "mm_ok E t" "dex_kept E s t"
  shows "chain_ok E t"
proof -
  have "book_inv t" "order_inv t"
    using assms(1,3) book_inv_cong [of t s] order_inv_cong [of t s] by (simp_all add: chain_ok_def dex_kept_def)
  moreover have le: "surplus E s d \<le> surplus E t d" for d
    using assms(3) escrow_cong [of t s d] by (simp add: dex_kept_def surplus_def)
  have "0 \<le> surplus E t d" if "d \<noteq> base_currency" for d
    by (rule order_trans [OF chain_okD(8) [OF assms(1) that] le])
  moreover have "xparams t = xparams s" "dparams t = dparams s" using assms(3) by (simp_all add: dex_kept_def)
  ultimately show ?thesis using assms(1,2) by (simp add: chain_ok_def)
qed

section \<open>Messages\<close>

datatype chain_msg =
    MsgAddLiquidity denom string
  | MsgRemoveLiquidity denom string
  | MsgRemoveAllLiquidityForDenom denom
  | MsgTrade denom denom string string bool
  | MsgAddOrder denom denom string string string "64 word" "64 word" bool
  | MsgUpdateOrder "64 word" string string string
  | MsgRemoveOrder "64 word"
  | MsgRemoveOrders
  | MsgDexParams dex_param_msg
  | MsgUpdateStakingShare string
  | MsgMoneyMarket mm_msg

text \<open>The results of the handlers are dropped.\<close>

definition dropS :: "(err + 'a) \<times> 's \<Rightarrow> (err + unit) \<times> 's" where
  "dropS r = bindS r (\<lambda>_ s. (Inr (), s))"

fun chain_handle :: "'b env \<Rightarrow> string \<Rightarrow> chain_msg \<Rightarrow> (('b, 'z) mm_world_scheme, unit) cmd" where
  "chain_handle E c (MsgAddLiquidity d n) s = add_liquidity E c d n s"
| "chain_handle E c (MsgRemoveLiquidity d n) s = remove_liquidity_msg E c d n s"
| "chain_handle E c (MsgRemoveAllLiquidityForDenom d) s = remove_all_liquidity_for_denom E c d s"
| "chain_handle E c (MsgTrade d d' n p b) s = dropS (trade_msg E c d d' n p b s)"
| "chain_handle E c (MsgAddOrder d d' n m p i j b) s = dropS (add_order E c d d' n m p i j b s)"
| "chain_handle E c (MsgUpdateOrder i n m p) s = dropS (update_order E c i n m p s)"
| "chain_handle E c (MsgRemoveOrder i) s = remove_order_msg E c i s"
| "chain_handle E c MsgRemoveOrders s = remove_orders c s"
| "chain_handle E c (MsgDexParams m) s = dex_param_handle E (c, m) s"
| "chain_handle E c (MsgUpdateStakingShare v) s = update_staking_share E c v s"
| "chain_handle E c (MsgMoneyMarket m) s = mm_handle E c m s"

lemma dropS_Inr [simp]: "dropS r = (Inr u, t) \<longleftrightarrow> (\<exists>x. r = (Inr x, t))"
  by (cases r; cases "fst r") (auto simp: dropS_def)

section \<open>Each message keeps the invariant\<close>

text \<open>Liquidity messages have the effect of a trade that only the sender pays.\<close>

lemma keeper_add_liquidity_effect:
  assumes "sdk E" "keeper_add_liquidity E a d amt s = (Inr u, t)"
  shows "trade_effect E {a} a d amt s t"
proof -
  from assms(2) obtain v where v: "send_acc_mod E a pool_liquidity d amt s = (Inr (), v)"
    and r: "update_pair_or_pairs E d (add_entry d (str_of E a) amt v) = (Inr (), t)"
    by (auto simp: keeper_add_liquidity_def bindS_Inr_iff)
  let ?w = "add_entry d (str_of E a) amt v"
  have "pairs_only ?w t" using update_pair_or_pairs_only [of ?w E d] r by simp
  then have "pools_only E v t" using pools_only_trans [OF pools_only_book [OF add_entry_only] pools_only_pairs] by blast
  then show ?thesis
    using trade_effect_step [OF send_acc_mod_effect(1) [OF assms(1) v] trade_effect_pools] by simp
qed

lemma remove_liquidity_effect:
  assumes "sdk E" "book_inv s" "0 \<le> amt" "remove_liquidity_for_address E d a amt s = (Inr u, t)"
  shows "trade_effect E {a} a d 0 s t" "book_inv t"
proof -
  from assms(4) obtain k v where v: "remove_entries_for_address E d (str_of E a) amt s = (Inr k, v)"
    and p: "send_mod_acc E pool_liquidity a d k v = (Inr u, t)"
    by (auto simp: remove_liquidity_for_address_def elim!: bindS_InrE)
  note e = remove_entries_ok [OF assms(2,3) v]
  have "pools_only E s v" using e by (simp add: pools_only_def)
  then show "trade_effect E {a} a d 0 s t"
    using trade_effect_step [OF trade_effect_pools send_mod_acc_effect(1) [OF assms(1) p]] by simp
  note f = bank_onlyD [OF sdk.send_mod_acc_ok(4) [OF assms(1) p]]
  show "book_inv t" using e(3) book_inv_cong [of t v] by (simp add: f)
qed

lemma chain_ok_effect:
  assumes "chain_accounts E" "chain_ok E s" "trade_effect E A src d n s t" "A \<inter> escrows E = {}" "src \<notin> escrows E" "book_inv t"
  shows "chain_ok E t"
proof -
  have x: "x \<notin> dex_pools E" "x \<notin> A" if "x \<in> escrows E" for x
    using that assms(4) chain_accountsD(2) [OF assms(1)] by auto
  have b: "bal E (bank t) x d = bal E (bank s) x d" if "x \<in> escrows E" for x d
    using assms(3) x [OF that] unfolding trade_effect_def by blast
  have f: "dparams t = dparams s" "xparams t = xparams s" "orders t = orders s" "order_next t = order_next s"
    "dex_world.more t = dex_world.more s"
    using assms(3) by (simp_all add: trade_effect_def)
  show ?thesis
    using chain_okD(3,4) [OF assms(2)] order_inv_cong [OF f(3,4)] escrow_cong [OF f(3)]
    by (intro chain_ok_dex [OF assms(2) f(5,1)] assms(6)) (simp_all add: f b surplus_def)
qed

lemma chain_ok_orders:
  assumes "chain_ok E s" "order_inv t" "orders_only s t"
    and "\<And>d. surplus E s d \<le> surplus E t d"
    and "\<And>x d. x \<in> held_accounts E \<Longrightarrow> bal E (bank t) x d = bal E (bank s) x d"
  shows "chain_ok E t"
proof -
  note f = orders_onlyD [OF assms(3)]
  have "book_inv t" using chain_okD(2) [OF assms(1)] book_inv_cong [of t s] by (simp add: f)
  with assms chain_okD(4) [OF assms(1)] show ?thesis
    by (intro chain_ok_dex [OF assms(1)]) (simp_all add: f)
qed

text \<open>Room for the entries and orders that one message can create, and for the entries that its trade can.\<close>

definition msg_room :: "('b, 'z) dex_world_scheme \<Rightarrow> bool" where
  "msg_room s \<longleftrightarrow> unat (liquidity_next s) + 8 * length (liquidities s) < 2 ^ 64 - 1 \<and> order_next s < - 1"

lemma execute_trade_chain:
  assumes "sdk E" "chain_accounts E" "chain_ok E s" "msg_room s"
    and "to_source opts = Some src" "to_target opts = Some tgt"
    and "execute_trade E opts s = (Inr (used, received, fee1, fee2), t)"
  shows "trade_effect E {src, tgt} src (to_start opts) (trade_charge opts used) s t" "book_inv t"
proof -
  note s = chain_okD [OF assms(3)]
  have "book_room (length (liquidities s)) (0 + 8 * length (liquidities s)) s"
    using s(2,5) assms(4) by (simp add: book_room_def msg_room_def)
  from execute_trade_ok [OF assms(1) s(4) this s(6) assms(5,6,7)]
  show "trade_effect E {src, tgt} src (to_start opts) (trade_charge opts used) s t" "book_inv t"
    by (simp_all add: book_room_def)
qed

lemma get_liquidity_by_address_nonneg:
  assumes "book_inv s"
  shows "0 \<le> get_liquidity_by_address s d a"
proof -
  have "0 \<le> lq_amount l" if l: "l \<in> set (liquidity_entries s d)" for l
  proof -
    from kv_vals_get [OF book_invD(1) [OF assms] l [unfolded liquidity_entries_def]]
    obtain k where "kv_get (liquidities s) k = Some l" by blast
    then show ?thesis using book_invD(4) [OF assms] by (simp add: entry_ok_def)
  qed
  then show ?thesis by (auto simp: get_liquidity_by_address_def foldl_sum_if intro!: sum_list_nonneg)
qed

lemma chain_handle_liquidity:
  assumes E: "sdk E" and acc: "chain_accounts E" and s: "chain_ok E s" and room: "msg_room s" and u: "ordinary E c a"
  shows "add_liquidity E c d n s = (Inr u, t) \<Longrightarrow> chain_ok E t"
    and "remove_liquidity_msg E c d n s = (Inr u, t) \<Longrightarrow> chain_ok E t"
    and "remove_all_liquidity_for_denom E c d s = (Inr u, t) \<Longrightarrow> chain_ok E t"
proof -
  note inv = chain_okD [OF s]
  have a: "acc_of E c = Some a" "{a} \<inter> escrows E = {}" "a \<notin> escrows E" using u by (auto simp: ordinary_def)
  show "chain_ok E t" if r: "add_liquidity E c d n s = (Inr u, t)"
  proof -
    from r a(1) obtain amt where k: "keeper_add_liquidity E a d amt s = (Inr u, t)"
      by (auto simp: add_liquidity_def validate_msg_def bindR_Inr_iff elim!: bindS_InrE)
    have "liquidity_next s < - 1" using room by (auto simp: msg_room_def intro: room_not_max)
    from keeper_add_liquidity_ok(3) [OF E inv(2,5) this k]
    show ?thesis by (rule chain_ok_effect [OF acc s keeper_add_liquidity_effect [OF E k] a(2,3)])
  qed
  have remove: "chain_ok E t" if "0 \<le> amt" "remove_liquidity_for_address E d a amt s = (Inr u, t)" for amt
    using remove_liquidity_effect [OF E inv(2) that] by (intro chain_ok_effect [OF acc s _ a(2,3)])
  show "chain_ok E t" if r: "remove_liquidity_msg E c d n s = (Inr u, t)"
  proof -
    from r a(1) obtain amt where "0 < amt" "remove_liquidity_for_address E d a amt s = (Inr u, t)"
      by (auto simp: remove_liquidity_msg_def validate_msg_def bindR_Inr_iff elim!: bindS_InrE)
    then show ?thesis by (intro remove [of amt]) simp_all
  qed
  show "chain_ok E t" if r: "remove_all_liquidity_for_denom E c d s = (Inr u, t)"
    using r a(1) get_liquidity_by_address_nonneg [OF inv(2)] remove by (auto simp: remove_all_liquidity_for_denom_def)
qed

lemma chain_handle_trade:
  assumes E: "sdk E" and acc: "chain_accounts E" and s: "chain_ok E s" and room: "msg_room s" and u: "ordinary E c a"
    and r: "trade_msg E c from to n p incomplete s = (Inr x, t)"
  shows "chain_ok E t"
proof -
  have a: "acc_of E c = Some a" "{a, a} \<inter> escrows E = {}" "a \<notin> escrows E" using u by (auto simp: ordinary_def)
  from r a(1) obtain amt max_price used received f1 f2 where
    x: "execute_trade E \<lparr>to_given = amt, to_max_price = max_price, to_start = from, to_end = to, to_incomplete = incomplete,
          to_exclude = False, to_protocol = False, to_source = Some a, to_target = Some a, to_discount = None, to_calc = None\<rparr> s
        = (Inr (used, received, f1, f2), t)"
    by (auto simp: trade_msg_def validate_msg_def bindR_Inr_iff elim!: bindS_InrE)
  note e = execute_trade_chain [OF E acc s room _ _ x, of a a, simplified]
  show ?thesis using e by (intro chain_ok_effect [OF acc s _ _ a(3)]) (use a(2) in auto)
qed

lemma chain_handle_order:
  assumes E: "sdk E" and acc: "chain_accounts E" and s: "chain_ok E s" and room: "msg_room s" and u: "ordinary E c a"
  shows "add_order E c d d' n m p i j b s = (Inr x, t) \<Longrightarrow> chain_ok E t"
    and "update_order E c k n m p s = (Inr x, t) \<Longrightarrow> chain_ok E t"
    and "remove_order_msg E c k s = (Inr v, t) \<Longrightarrow> chain_ok E t"
    and "remove_orders c s = (Inr v, t) \<Longrightarrow> chain_ok E t"
proof -
  note inv = chain_okD [OF s]
  have a: "acc_of E c = Some a" "acc_of E c \<noteq> Some (mod_addr E pool_orders)" "a \<noteq> mod_addr E pool_orders" "a \<notin> held_accounts E"
    using u by (auto simp: ordinary_def)
  have held: "x \<noteq> a" "x \<noteq> mod_addr E pool_orders" if "x \<in> held_accounts E" for x
    using that a(4) chain_accountsD(8) [OF acc] by auto
  show "chain_ok E t" if r: "add_order E c d d' n m p i j b s = (Inr x, t)"
  proof (rule add_order_ok [OF E inv(3) _ r a(2)])
    show "order_next s < - 1" using room by (simp add: msg_room_def)
  next
    fix a' amt
    assume a': "acc_of E c = Some a'" and "order_inv t" "orders_only s t" "\<And>d. surplus E t d = surplus E s d"
      and "\<And>y d. y \<noteq> a' \<Longrightarrow> y \<noteq> mod_addr E pool_orders \<Longrightarrow> bal E (bank t) y d = bal E (bank s) y d"
    then show ?thesis using held a(1) by (intro chain_ok_orders [OF s]) simp_all
  qed
  show "chain_ok E t" if r: "update_order E c k n m p s = (Inr x, t)"
  proof (rule update_order_ok [OF E inv(3) r a(2)])
    fix a' amt y
    assume a': "acc_of E c = Some a'" and "order_inv t" "orders_only s t" "\<And>d. surplus E t d = surplus E s d"
      and "\<And>z d. z \<noteq> a' \<Longrightarrow> z \<noteq> mod_addr E pool_orders \<Longrightarrow> bal E (bank t) z d = bal E (bank s) z d"
    then show ?thesis using held a(1) by (intro chain_ok_orders [OF s]) simp_all
  qed
  show "chain_ok E t" if r: "remove_order_msg E c k s = (Inr v, t)"
  proof (rule remove_order_msg_ok [OF E inv(3) r a(1,3)])
    fix y
    assume "order_inv t" "orders_only s t" "\<And>d. surplus E t d = surplus E s d"
      and "\<And>z d. z \<noteq> a \<Longrightarrow> z \<noteq> mod_addr E pool_orders \<Longrightarrow> bal E (bank t) z d = bal E (bank s) z d"
    then show ?thesis using held by (intro chain_ok_orders [OF s]) simp_all
  qed
  show "chain_ok E t" if r: "remove_orders c s = (Inr v, t)"
  proof -
    let ?xs = "get_all_orders_by_address s c"
    have t: "t = foldl (\<lambda>s x. remove_order x s) s ?xs" using r by (simp add: remove_orders_def)
    have "0 \<le> left_in d x" if "x \<in> set ?xs" for x d
      using that get_all_orders_get [OF inv(3)] get_order_ok(2) [OF inv(3)]
      by (fastforce simp: get_all_orders_by_address_def left_in_def order_ok_def)
    then have "0 \<le> sum_list (map (left_in d) ?xs)" for d by (intro sum_list_nonneg) auto
    with remove_orders_by_address [OF inv(3), of c] show ?thesis
      by (intro chain_ok_orders [OF s]) (simp_all add: t surplus_def)
  qed
qed

lemma chain_handle_params:
  assumes "chain_ok E s"
  shows "dex_param_handle E m s = (Inr u, t) \<Longrightarrow> chain_ok E t"
    and "update_staking_share E c v s = (Inr u, t) \<Longrightarrow> chain_ok E t"
proof -
  show "chain_ok E t" if r: "dex_param_handle E m s = (Inr u, t)"
  proof -
    have p: "wf_dex_params (xparams t)" "t = s\<lparr>xparams := xparams t\<rparr>"
      using dex_param_handle_step [of E m s] r by (simp_all add: dex_param_step_def)
    obtain q where t: "t = s\<lparr>xparams := q\<rparr>" using p(2) by blast
    show ?thesis
      using chain_okD [OF assms] p(1) book_inv_cong [of t s] order_inv_cong [of t s] escrow_cong [of t s]
      by (intro chain_ok_dex [OF assms]) (simp_all add: t surplus_def)
  qed
  show "chain_ok E t" if r: "update_staking_share E c v s = (Inr u, t)"
  proof -
    from r obtain p where t: "t = s\<lparr>sparams := p\<rparr>"
      by (auto simp: update_staking_share_def set_swap_params_def Let_def elim!: bindS_InrE)
    have "mm_ok E t" "dex_kept E s t"
      using chain_okD(1) [OF assms]
      by (simp_all add: t mm_ok_def dex_kept_def get_collateral_sum_def get_redemption_sum_def collaterals_ok_def redemptions_ok_def loans_ok_def)
    then show ?thesis by (rule chain_ok_mm [OF assms])
  qed
qed

text \<open>Governance only adds denominations; the stores have no entries of a new one.\<close>

lemma entries_ok_more:
  assumes "entries_ok owner amount D m" "D \<subseteq> D'" "separate D'"
  shows "entries_ok owner amount D' m" and "d \<in> D' \<Longrightarrow> d \<notin> D \<Longrightarrow> kv_vals (key_string d) m = []"
proof -
  show ok: "entries_ok owner amount D' m" using assms unfolding entries_ok_def by blast
  show "kv_vals (key_string d) m = []" if d: "d \<in> D'" "d \<notin> D"
  proof (rule ccontr)
    assume "kv_vals (key_string d) m \<noteq> []"
    then obtain x xs where "kv_iter (key_string d) m = x # xs" by (auto simp: kv_vals_def neq_Nil_conv)
    then have "(fst x, snd x) \<in> set (kv_iter (key_string d) m)" by simp
    note l = entries_listed_key [OF ok d(1) this]
    with assms(1) obtain d0 where d0: "d0 \<in> D" "fst x = key_denom_address d0 (owner (snd x))" unfolding entries_ok_def by blast
    from trans [OF l(2) [symmetric] d0(2)] have "d = d0" by (simp only: key_denom_address_inj [OF l(3) l(3)])
    with d0(1) d(2) show False by simp
  qed
qed

lemma mm_ok_denoms:
  assumes E: "sdk E" and s: "mm_ok E s" and p: "wf_denoms p" "known s \<subseteq> set (denoms p)" "separate (set (denoms p))"
  shows "mm_ok E (s\<lparr>dparams := p\<rparr>)"
proof -
  note m = mm_okD [OF s]
  note co = entries_ok_more [OF m(2) [unfolded collaterals_ok_def] p(2,3)]
    and rd = entries_ok_more [OF m(3) [unfolded redemptions_ok_def] p(2,3)]
    and ln = entries_ok_more(1) [OF m(4) [unfolded loans_ok_def] p(2,3)]
  have "get_collateral_sum s d \<le> bal E (bank s) (mod_addr E pool_collateral) d" if "d \<in> set (denoms p)" for d
    using that m(5) [of d] co(2) [of d] sdk.bal_nonneg [OF E] by (cases "d \<in> known s") (simp_all add: get_collateral_sum_def)
  moreover have "get_redemption_sum s d \<le> bal E (bank s) (mod_addr E pool_redemption) d" if "d \<in> set (denoms p)" for d
    using that m(6) [of d] rd(2) [of d] sdk.bal_nonneg [OF E] by (cases "d \<in> known s") (simp_all add: get_redemption_sum_def)
  ultimately show ?thesis
    using p(1) co(1) rd(1) ln
    by (simp add: mm_ok_def collaterals_ok_def redemptions_ok_def loans_ok_def get_collateral_sum_def get_redemption_sum_def)
qed

lemma chain_handle_denoms:
  assumes E: "sdk E" and s: "chain_ok E s" and r: "denom_handle E m s = (Inr u, t)" and p: "chain_denoms (dparams t)"
  shows "chain_ok E t"
proof -
  note inv = chain_okD [OF s]
  have st: "t = s\<lparr>dparams := dparams t\<rparr>" "wf_denoms (dparams t)"
    and pre: "prefix (map dd_name (dex_denoms (dparams s))) (map dd_name (dex_denoms (dparams t)))"
    using denom_handle_step [of E m s] r by (simp_all add: denom_step_ok_def validate_wf)
  have mono: "known s \<subseteq> known t" using set_mono_prefix [OF pre] by (simp add: denoms_def)
  obtain q where t: "t = s\<lparr>dparams := q\<rparr>" using st(1) by blast
  have "mm_ok E t"
    using mm_ok_denoms [OF E inv(1), of q] st(2) mono p by (simp add: t chain_denoms_def denoms_separate_iff)
  moreover have "book_inv t"
    using inv(2) mono by (auto simp: t book_inv_def entry_ok_def get_liquidity_sum_def)
  moreover have "surplus E t d = surplus E s d" for d using escrow_cong [of t s d] by (simp add: t surplus_def)
  ultimately show ?thesis
    using s p order_inv_cong [of t s] by (simp add: chain_ok_def t)
qed

section \<open>The hooks\<close>

definition begin_room :: "'b env \<Rightarrow> ('b, 'z) dex_world_scheme \<Rightarrow> bool" where
  "begin_room E s \<longleftrightarrow> unat (liquidity_next s) + length (bk_spendable E (bank s) (mod_addr E pool_reserve)) + 1 < 2 ^ 64 - 1"

definition orders_room :: "('b, 'z) dex_world_scheme \<Rightarrow> bool" where
  "orders_room s \<longleftrightarrow> unat (liquidity_next s) + 9 ^ length (get_all_orders s) * length (liquidities s) < 2 ^ 64 - 1"

definition swap_room :: "('b, 'z) dex_world_scheme \<Rightarrow> bool" where
  "swap_room s \<longleftrightarrow> unat (liquidity_next s) + 9 ^ (2 * length (kcoin_denoms (dparams s))) * length (liquidities s) < 2 ^ 64 - 1"

lemma chain_begin_block:
  assumes E: "sdk E" and acc: "chain_accounts E" and s: "chain_ok E s" and room: "begin_room E s"
    and r: "dex_begin_block E s = (Inr u, t)"
  shows "chain_ok E t"
proof -
  note inv = chain_okD [OF s]
  have e: "reserve_effect E s t" "book_inv t"
    using dex_begin_block_ok [OF E inv(2,5) room [unfolded begin_room_def] r] by simp_all
  have x: "x \<notin> mod_addr E ` {pool_reserve, pool_liquidity, pool_vault}" if "x \<in> escrows E" for x
    using that chain_accountsD(4,6,7) [OF acc] by auto
  have b: "bal E (bank t) x d = bal E (bank s) x d" if "x \<in> escrows E" for x d
    using e(1) x [OF that] unfolding reserve_effect_def by blast
  have f: "orders t = orders s" "order_next t = order_next s" "dparams t = dparams s" "xparams t = xparams s"
    "dex_world.more t = dex_world.more s"
    using e(1) by (simp_all add: reserve_effect_def)
  show ?thesis
    using inv(3,4) order_inv_cong [OF f(1,2)] escrow_cong [OF f(1)]
    by (intro chain_ok_dex [OF s f(5,3)] e(2)) (simp_all add: f b surplus_def)
qed

lemma chain_swap_block:
  assumes E: "sdk E" and acc: "chain_accounts E" and s: "chain_ok E s" and room: "swap_room s"
    and r: "swap_end_block E s = (Inr u, t)"
  shows "chain_ok E t"
proof -
  note inv = chain_okD [OF s]
  have e: "swap_effect E (insert base_currency (set (kcoin_denoms (dparams s)))) s t" "book_inv t"
    using swap_end_block_ok [OF E inv(4,2,5,6,7) room [unfolded swap_room_def] r] by simp_all
  have b: "bal E (bank t) x d = bal E (bank s) x d" if "x \<in> escrows E" for x d
    using e(1) that chain_accountsD(3) [OF acc] unfolding swap_effect_def by blast
  have f: "orders t = orders s" "order_next t = order_next s" "dparams t = dparams s" "xparams t = xparams s"
    "dex_world.more t = dex_world.more s"
    using e(1) by (simp_all add: swap_effect_def)
  show ?thesis
    using inv(3,4) order_inv_cong [OF f(1,2)] escrow_cong [OF f(1)]
    by (intro chain_ok_dex [OF s f(5,3)] e(2)) (simp_all add: f b surplus_def)
qed

lemma trade_amount_decay_all_only: "trade_amount_decay_all E s = s\<lparr>trade_amounts := trade_amounts (trade_amount_decay_all E s)\<rparr>"
proof -
  have only: "foldl f t xs = t\<lparr>trade_amounts := trade_amounts (foldl f t xs)\<rparr>"
    if f: "\<And>t x. f t x = t\<lparr>trade_amounts := trade_amounts (f t x)\<rparr>" for f and t :: "('a, 'b) dex_world_scheme" and xs :: "wallet_trade_amount list"
  proof (induction xs arbitrary: t)
    case (Cons x xs)
    have "foldl f (f t x) xs = f t x\<lparr>trade_amounts := trade_amounts (foldl f (f t x) xs)\<rparr>" by (rule Cons.IH)
    also have "\<dots> = t\<lparr>trade_amounts := trade_amounts (foldl f (f t x) xs)\<rparr>" by (subst f) simp
    finally show ?case by simp
  qed simp
  show ?thesis
    unfolding trade_amount_decay_all_def Let_def
    by (rule only) (simp add: remove_trade_amount_def set_trade_amount_def)
qed

lemma chain_end_block:
  assumes E: "sdk E" and acc: "chain_accounts E" and s: "chain_ok E s" and room: "orders_room s"
    and live: "list_all (\<lambda>x. height s \<le> sint (or_block_end x)) (get_all_orders s)"
    and r: "dex_end_block E s = (Inr u, t)"
  shows "chain_ok E t"
proof -
  note inv = chain_okD [OF s]
  from r obtain v where v: "execute_orders E (height s) s = (Inr (), v)" and t: "t = trade_amount_decay_all E v \<or> t = v"
    by (auto simp: dex_end_block_def elim!: bindS_InrE split: if_splits)
  have po: "mod_addr E pool_orders \<notin> dex_pools E" using chain_accountsD(2) [OF acc] by auto
  have e: "exec_effect E s v" "book_inv v"
    using execute_orders_ok [OF E inv(4,3,2,5,6) po room [unfolded orders_room_def] live v] by simp_all
  have b: "bal E (bank s) x d \<le> bal E (bank v) x d" if "x \<in> held_accounts E" for x d
  proof -
    have "x \<notin> dex_pools E" "x \<noteq> mod_addr E pool_orders" using that chain_accountsD(2,8) [OF acc] by auto
    then show ?thesis using e(1) unfolding exec_effect_def by blast
  qed
  have "chain_ok E v"
    by (rule chain_ok_dex [OF s _ _ _ e(2) _ b]) (use e(1) inv(4) in \<open>simp_all add: exec_effect_def\<close>)
  moreover have "chain_ok E (trade_amount_decay_all E v)" if v: "chain_ok E v"
  proof -
    obtain q where q: "trade_amount_decay_all E v = v\<lparr>trade_amounts := q\<rparr>" using trade_amount_decay_all_only by blast
    note iv = chain_okD [OF v]
    show ?thesis
      using iv(2,3,4) book_inv_cong [of "v\<lparr>trade_amounts := q\<rparr>" v] order_inv_cong [of "v\<lparr>trade_amounts := q\<rparr>" v]
        escrow_cong [of "v\<lparr>trade_amounts := q\<rparr>" v]
      by (intro chain_ok_dex [OF v]) (simp_all add: q surplus_def)
  qed
  ultimately show ?thesis using t by blast
qed

text \<open>The sale of one collateral in a liquidation.\<close>

lemma chain_sale:
  assumes E: "sdk E" and acc: "chain_accounts E" and s: "chain_ok E s" and room: "msg_room s"
    and d: "d \<in> known s" "slash_free address" "0 \<le> excess" "d \<noteq> base_currency \<or> d = ca_base c"
    and r: "process_liquidation E c excess d address s = (Inr repaid, t)"
  shows "chain_ok E t"
proof -
  note inv = chain_okD [OF s]
  have h: "held_accounts E \<inter> dex_pools E = {}" using chain_accountsD(2) [OF acc] by auto
  have ok: "mm_ok E t"
    using process_liquidation_ok [OF E inv(1) chain_accountsD(1) [OF acc] inv(4,2,6) _ h d r] room by (auto simp: msg_room_def sold_def)
  show ?thesis
    using r
  proof (cases rule: process_liquidation_cases)
    case none
    then show ?thesis using s by simp
  next
    case (same x n)
    then show ?thesis using s ok by (intro chain_ok_mm [OF s]) simp_all
  next
    case (trade x give used f1 f2 v)
    have e: "trade_effect E {mod_addr E pool_collateral, mod_addr E pool_vault} (mod_addr E pool_collateral) d
        (trade_charge (liquidation_options E c d address (min (co_amount x) give)) (Some used)) s v" "book_inv v"
      using execute_trade_chain [OF E acc s room _ _ trade(3)] by (simp_all add: liquidation_options_def)
    have po: "mod_addr E pool_orders \<notin> dex_pools E" "mod_addr E pool_orders \<notin> {mod_addr E pool_collateral, mod_addr E pool_vault}"
      using chain_accountsD(2,4,8) [OF acc] by auto
    have b: "bal E (bank v) (mod_addr E pool_orders) d' = bal E (bank s) (mod_addr E pool_orders) d'" for d'
      using e(1) po unfolding trade_effect_def by blast
    have f: "dparams v = dparams s" "xparams v = xparams s" "orders v = orders s" "order_next v = order_next s"
      using e(1) by (simp_all add: trade_effect_def)
    let ?t = "set_collateral d (x\<lparr>co_amount := co_amount x - used\<rparr>) v"
    have g: "dparams ?t = dparams v" "xparams ?t = xparams v" "orders ?t = orders v" "order_next ?t = order_next v" "bank ?t = bank v"
      "liquidities ?t = liquidities v" "liquidity_sums ?t = liquidity_sums v" "liquidity_next ?t = liquidity_next v"
      by (simp_all add: set_collateral_eq)
    have "book_inv ?t" "order_inv ?t" "escrow ?t d' = escrow s d'" for d'
      using e(2) inv(3) book_inv_cong [of ?t v] order_inv_cong [of ?t s] escrow_cong [of ?t s] by (simp_all add: g f)
    then show ?thesis
      using s ok by (simp add: trade(4) chain_ok_def surplus_def g f b)
  qed
qed

section \<open>The token factory\<close>

text \<open>What changes only the bank, and takes nothing from the escrow accounts, keeps the invariant.\<close>

lemma chain_ok_bank:
  assumes s: "chain_ok E s" and t: "t = s\<lparr>bank := bank t\<rparr>"
    and b: "\<forall>x \<in> escrows E. \<forall>d. bal E (bank s) x d \<le> bal E (bank t) x d"
  shows "chain_ok E t"
proof -
  obtain b' where b': "t = s\<lparr>bank := b'\<rparr>" using t by blast
  have "mm_ok E t" by (rule mm_ok_bank [OF chain_okD(1) [OF s] t]) (use b in auto)
  moreover have "dex_kept E s t" using b by (simp add: b' dex_kept_def)
  ultimately show ?thesis by (rule chain_ok_mm [OF s])
qed

text \<open>A burn takes its coins from any account that the administrator names; the others take only from the sender, if at all.\<close>

definition burns_from :: "'b env \<Rightarrow> tf_msg \<Rightarrow> addr option" where
  "burns_from E m = (case m of MsgBurnDenom d n a \<Rightarrow> acc_of E a | _ \<Rightarrow> None)"

lemma tf_handle_spares:
  assumes E: "sdk E" and c: "acc_of E c = Some a" "a \<noteq> x" "burns_from E m \<noteq> Some x"
    and r: "tf_handle E (c, m) w = (Inr u, w')"
  shows "bal E (bank w) x d \<le> bal E (bank w') x d"
proof (cases m)
  case (MsgCreateDenom d')
  with r obtain v where "process_creation_fee E c w = (Inr (), v)" "bank w' = bank v"
    by (auto simp: create_denom_def keeper_create_denom_def bindS_Inr_iff set_factory_denom_def)
  with c show ?thesis by (auto elim!: sdk.creation_fee_ok [OF E])
next
  case (MsgMintDenom d' n t)
  with r show ?thesis by (auto elim!: sdk.mint_denom_ok [OF E])
next
  case (MsgBurnDenom d' n t)
  with r c(3) show ?thesis by (auto simp: burns_from_def elim!: sdk.burn_denom_ok [OF E])
next
  case (MsgForceTransfer d' n f t)
  with r show ?thesis by (auto elim!: sdk.force_transfer_ok [OF E])
qed (use r in \<open>auto simp: change_admin_def update_fee_amount_def bindS_Inr_iff set_factory_denom_def\<close>)

text \<open>
  An administrator can burn what the orders hold of its denomination: the account of the orders is an account like any other, and when
  governance has listed a factory denomination, its orders lose their cover.
\<close>

lemma burn_reaches_orders:
  assumes "sdk E" "burn_denom E c d amt target w = (Inr u, w')" "acc_of E target = Some (mod_addr E pool_orders)"
  shows "\<exists>fd n. get_factory_denom w (to_full_name d) = Some fd \<and> 0 < n
    \<and> surplus E (s\<lparr>bank := bank w'\<rparr>) (fd_denom fd) = surplus E (s\<lparr>bank := bank w\<rparr>) (fd_denom fd) - n"
  using assms(2,3) by (auto elim!: sdk.burn_denom_ok [OF assms(1)] simp: surplus_def escrow_def)

section \<open>The chain\<close>

text \<open>
  The steps of the chain. A message of one of the modules is signed by an ordinary account and runs atomically, while the 64-bit counters have
  room; governance may add denominations that keep the store keys apart. The hooks run to their end; at the end of a block no order has
  expired (an expired one stops the chain, as \<open>expired_order_fails_block\<close> shows). Of a liquidation the successful sale of one collateral is a step.
  The token factory has a store of its own, any state \<open>w\<close> of which may meet the bank; it must not burn from the escrow accounts, which
  it could (\<open>burn_reaches_orders\<close>). Other modules change the bank without taking from these accounts.
\<close>

inductive chain_step :: "'b env \<Rightarrow> ('b, 'z) mm_world_scheme \<Rightarrow> ('b, 'z) mm_world_scheme \<Rightarrow> bool" for E where
  chain_message: "ordinary E c a \<Longrightarrow> msg_room s \<Longrightarrow> atomic (chain_handle E c m) s = (x, t) \<Longrightarrow> chain_step E s t"
| chain_governance: "atomic (denom_handle E m) s = (x, t) \<Longrightarrow> chain_denoms (dparams t) \<Longrightarrow> chain_step E s t"
| chain_begin: "begin_room E s \<Longrightarrow> dex_begin_block E s = (Inr u, t) \<Longrightarrow> chain_step E s t"
| chain_orders: "orders_room s \<Longrightarrow> list_all (\<lambda>x. height s \<le> sint (or_block_end x)) (get_all_orders s)
    \<Longrightarrow> dex_end_block E s = (Inr u, t) \<Longrightarrow> chain_step E s t"
| chain_swap: "swap_room s \<Longrightarrow> swap_end_block E s = (Inr u, t) \<Longrightarrow> chain_step E s t"
| chain_interest: "apply_interest E s = (x, t) \<Longrightarrow> chain_step E s t"
| chain_liquidation: "msg_room s \<Longrightarrow> d \<in> known s \<Longrightarrow> slash_free address \<Longrightarrow> 0 \<le> excess \<Longrightarrow> d \<noteq> base_currency \<or> d = ca_base c
    \<Longrightarrow> process_liquidation E c excess d address s = (Inr n, t) \<Longrightarrow> chain_step E s t"
| chain_redemptions: "log_error (handle_redemptions E) s = (x, t) \<Longrightarrow> chain_step E s t"
| chain_factory: "ordinary E c a \<Longrightarrow> \<forall>x \<in> escrows E. burns_from E m \<noteq> Some x \<Longrightarrow> bank (w :: 'b tf_world) = bank s
    \<Longrightarrow> atomic (tf_handle E (c, m)) w = (x, w') \<Longrightarrow> chain_step E s (s\<lparr>bank := bank w'\<rparr>)"
| chain_bank: "t = s\<lparr>bank := bank t\<rparr> \<Longrightarrow> \<forall>x \<in> escrows E. \<forall>d. bal E (bank s) x d \<le> bal E (bank t) x d \<Longrightarrow> chain_step E s t"
| chain_height: "chain_step E s (s\<lparr>height := h\<rparr>)"

inductive chain_reach :: "'b env \<Rightarrow> ('b, 'z) mm_world_scheme \<Rightarrow> ('b, 'z) mm_world_scheme \<Rightarrow> bool" for E s where
  chain_refl: "chain_reach E s s"
| chain_next: "chain_reach E s t \<Longrightarrow> chain_step E t u \<Longrightarrow> chain_reach E s u"

lemma chain_handle_ok:
  assumes E: "sdk E" and acc: "chain_accounts E" and s: "chain_ok E s" and room: "msg_room s" and u: "ordinary E c a"
    and r: "chain_handle E c m s = (Inr u', t)"
  shows "chain_ok E t"
proof -
  note acts = chain_handle_liquidity [OF E acc s room u] chain_handle_trade [OF E acc s room u]
    chain_handle_order [OF E acc s room u] chain_handle_params [OF s]
  show ?thesis
  proof (cases m)
    case (MsgMoneyMarket x)
    with r have x: "mm_handle E c x s = (Inr u', t)" by simp
    have "mm_ok E t"
      using mm_handle_ok [OF E chain_accountsD(1) [OF acc] chain_okD(1) [OF s] ordinaryD(2) [OF u] x] .
    moreover have "dex_kept E s t" using mm_handle_keeps_dex [OF E acc u, of s x] by (simp add: x)
    ultimately show ?thesis by (rule chain_ok_mm [OF s])
  qed (use r acts in \<open>auto\<close>)
qed

lemma chain_step_ok:
  assumes E: "sdk E" and acc: "chain_accounts E" and s: "chain_ok E s" and step: "chain_step E s t"
  shows "chain_ok E t"
  using step
proof cases
  case (chain_message c a m x)
  from chain_message(3) show ?thesis
    using chain_handle_ok [OF E acc s chain_message(2,1)] s by (cases rule: atomic_cases [of "chain_handle E c m" s]) auto
next
  case (chain_governance m x)
  from chain_governance(1) show ?thesis
    using chain_handle_denoms [OF E s _ chain_governance(2)] s by (cases rule: atomic_cases [of "denom_handle E m" s]) auto
next
  case (chain_interest x)
  then show ?thesis
    using apply_interest_ok [OF chain_okD(1) [OF s]] apply_interest_keeps_dex [of E s] by (intro chain_ok_mm [OF s]) simp_all
next
  case (chain_redemptions x)
  then have t: "t = snd (handle_redemptions E s)" using log_error_snd [of "handle_redemptions E" s] by simp
  then show ?thesis
    using handle_redemptions_ok [OF E chain_accountsD(1) [OF acc] chain_okD(1) [OF s]] handle_redemptions_keeps_dex [OF E acc, of s]
    by (intro chain_ok_mm [OF s]) simp_all
next
  case (chain_factory c a m w x w')
  have b: "bal E (bank w) y d \<le> bal E (bank w') y d" if y: "y \<in> escrows E" for y d
    using chain_factory(5)
  proof (cases rule: atomic_cases [of "tf_handle E (c, m)" w])
    case (ok u v)
    have "a \<noteq> y" "burns_from E m \<noteq> Some y" using y chain_factory(3) ordinaryD(3) [OF chain_factory(2)] by blast+
    from tf_handle_spares [OF E ordinaryD(1) [OF chain_factory(2)] this ok(2)] show ?thesis
      using ok(1) chain_factory(5) by simp
  qed simp
  have "\<forall>y \<in> escrows E. \<forall>d. bal E (bank s) y d \<le> bal E (bank t) y d"
    unfolding chain_factory(4) [symmetric] using b chain_factory(1) by simp
  then show ?thesis by (intro chain_ok_bank [OF s]) (simp add: chain_factory(1))
next
  case chain_bank
  then show ?thesis by (rule chain_ok_bank [OF s])
next
  case (chain_height h)
  then show ?thesis using chain_okD(1) [OF s] by (intro chain_ok_mm [OF s]) simp_all
qed (use chain_begin_block [OF E acc s] chain_end_block [OF E acc s] chain_swap_block [OF E acc s] chain_sale [OF E acc s] in blast)+

lemma chain_reach_ok:
  assumes "sdk E" "chain_accounts E" "chain_ok E s" "chain_reach E s t"
  shows "chain_ok E t"
  using assms(4) by (induction rule: chain_reach.induct) (use assms chain_step_ok in blast)+

section \<open>The property\<close>


text \<open>Bob, who has pledged some of the stable coin, places an order that sells more of it.\<close>

definition chain_ordered :: "ledger mm_world" where
  "chain_ordered = snd (add_order mm_env ''bob'' ''uwusdc'' ''ukopi'' ''3000'' ''1000'' ''12'' 100 1 False mm_pledged)"

lemma chain_example:
  "is_ok (fst (add_order mm_env ''bob'' ''uwusdc'' ''ukopi'' ''3000'' ''1000'' ''12'' 100 1 False mm_pledged))"
  "escrow chain_ordered ''uwusdc'' = 3000" "chain_denoms (dparams mm_pledged)" "orders mm_pledged = []" "order_next mm_pledged < - 1"
  by code_simp+

lemma chain_pledged_ok: "chain_accounts mm_env" "ordinary mm_env ''bob'' ''bob''" "chain_ok mm_env mm_pledged" "msg_room mm_pledged"
proof -
  show "chain_accounts mm_env" "ordinary mm_env ''bob'' ''bob''"
    by (rule chain_accounts_mm_env) (auto simp: ordinary_def mm_env_def)
  show "msg_room mm_pledged" using mm_pledged_conds(5) by (simp add: msg_room_def chain_example(5))
  have "order_inv mm_pledged" "escrow mm_pledged d = 0" for d
    by (simp_all add: order_inv_def escrow_def chain_example(4) kv_wf_def)
  then show "chain_ok mm_env mm_pledged"
    using mm_pledged_ok mm_pledged_conds chain_example(3) sdk.bal_nonneg [OF sdk_mm_env]
    by (simp add: chain_ok_def surplus_def)
qed

lemma chain_ordered_reach: "chain_reach mm_env mm_pledged chain_ordered"
proof -
  let ?m = "MsgAddOrder ''uwusdc'' ''ukopi'' ''3000'' ''1000'' ''12'' 100 1 False"
  from chain_example(1) obtain x where
    "add_order mm_env ''bob'' ''uwusdc'' ''ukopi'' ''3000'' ''1000'' ''12'' 100 1 False mm_pledged = (Inr x, chain_ordered)"
    by (auto simp: is_ok_iff prod_eq_iff chain_ordered_def)
  then have "chain_handle mm_env ''bob'' ?m mm_pledged = (Inr (), chain_ordered)" by simp
  then have "chain_step mm_env mm_pledged chain_ordered"
    by (intro chain_message [OF chain_pledged_ok(2,4), where m = ?m and x = "Inr ()"]) simp
  then show ?thesis by (rule chain_next [OF chain_refl])
qed


end
