(* ===== verification/ChainMessages.thy ===== *)
theory ChainMessages
  imports Chain
begin

text \<open>
  What the SDK asks of a message before it reaches its handler: the \<open>ValidateBasic\<close> methods of \<open>x/*/types/message_add_liquidity.go\<close> and
  \<open>msg_update_params*.go\<close>. A message type without such a method is not asked. They never refuse what the handler would accept.
\<close>

section \<open>The methods\<close>

definition validate_signer :: "'b env \<Rightarrow> string \<Rightarrow> unit res" where
  "validate_signer E a = bindR (of_option FmtError (acc_of E a)) (\<lambda>_. Inr ())"

fun dex_param_validate_basic :: "'b env \<Rightarrow> string \<times> dex_param_msg \<Rightarrow> unit res" where
  "dex_param_validate_basic E (a, MsgUpdateFeeReimbursement v) = validate_signer E a"
| "dex_param_validate_basic E (a, MsgUpdateMaxOrderLife n) = validate_signer E a"
| "dex_param_validate_basic E (a, MsgUpdateReserveShare v) = validate_signer E a"
| "dex_param_validate_basic E (a, MsgUpdateTradeFee v) = validate_signer E a"
| "dex_param_validate_basic E (a, MsgUpdateVirtualLiquidityDecay v) = validate_signer E a"
| "dex_param_validate_basic E (a, m) = Inr ()"

fun mm_validate_basic :: "'b env \<Rightarrow> string \<Rightarrow> mm_msg \<Rightarrow> unit res" where
  "mm_validate_basic E a (MsgUpdateCollateralDiscount v) = validate_signer E a"
| "mm_validate_basic E a (MsgUpdateInterestRateParameters v w x) = validate_signer E a"
| "mm_validate_basic E a (MsgUpdateProtocolShare v) = validate_signer E a"
| "mm_validate_basic E a (MsgUpdateRedemptionFee v) = validate_signer E a"
| "mm_validate_basic E a m = Inr ()"

definition swap_validate_basic :: "'b env \<Rightarrow> string \<Rightarrow> unit res" where
  "swap_validate_basic E a = validate_signer E a"

definition add_liquidity_validate_basic :: "'b env \<Rightarrow> string \<Rightarrow> unit res" where
  "add_liquidity_validate_basic E c = validate_signer E c"

fun chain_validate_basic :: "'b env \<Rightarrow> string \<times> chain_msg \<Rightarrow> unit res" where
  "chain_validate_basic E (c, MsgAddLiquidity d n) = add_liquidity_validate_basic E c"
| "chain_validate_basic E (c, MsgDexParams m) = dex_param_validate_basic E (c, m)"
| "chain_validate_basic E (c, MsgUpdateStakingShare v) = swap_validate_basic E c"
| "chain_validate_basic E (c, MsgMoneyMarket m) = mm_validate_basic E c m"
| "chain_validate_basic E (c, m) = Inr ()"

text \<open>The messages of \<open>x/denominations\<close>, one function per file.\<close>

fun kcoin_validate_basic :: "'b env \<Rightarrow> string \<times> denom_msg \<Rightarrow> unit res" where
  "kcoin_validate_basic E (a, MsgAddKCoin d rs ms mb mm f ml) = validate_signer E a"
| "kcoin_validate_basic E (a, MsgUpdateKCoinSupply d v) = validate_signer E a"
| "kcoin_validate_basic E (a, MsgUpdateKCoinMintAmount d v) = validate_signer E a"
| "kcoin_validate_basic E (a, MsgUpdateKCoinBurnAmount d v) = validate_signer E a"
| "kcoin_validate_basic E (a, MsgAddKCoinReferences d rs) = validate_signer E a"
| "kcoin_validate_basic E (a, MsgRemoveKCoinReferences d rs) = validate_signer E a"
| "kcoin_validate_basic E (a, m) = Inr ()"

fun dex_denom_validate_basic :: "'b env \<Rightarrow> string \<times> denom_msg \<Rightarrow> unit res" where
  "dex_denom_validate_basic E (a, MsgAddDEXDenom n f ml) = validate_signer E a"
| "dex_denom_validate_basic E (a, MsgUpdateDEXDenom n ml) = validate_signer E a"
| "dex_denom_validate_basic E (a, m) = kcoin_validate_basic E (a, m)"

fun collateral_validate_basic :: "'b env \<Rightarrow> string \<times> denom_msg \<Rightarrow> unit res" where
  "collateral_validate_basic E (a, MsgAddCollateralDenom d l m) = validate_signer E a"
| "collateral_validate_basic E (a, MsgUpdateCollateralDenomMaxDeposit d v) = validate_signer E a"
| "collateral_validate_basic E (a, MsgUpdateCollateralDenomLTV d v) = validate_signer E a"
| "collateral_validate_basic E (a, m) = dex_denom_validate_basic E (a, m)"

fun casset_validate_basic :: "'b env \<Rightarrow> string \<times> denom_msg \<Rightarrow> unit res" where
  "casset_validate_basic E (a, MsgAddCAsset n b fs bl f ml) = validate_signer E a"
| "casset_validate_basic E (a, MsgUpdateCAssetDexFeeShare n v) = validate_signer E a"
| "casset_validate_basic E (a, m) = collateral_validate_basic E (a, m)"

fun tf_validate_basic :: "'b env \<Rightarrow> string \<times> tf_msg \<Rightarrow> unit res" where
  "tf_validate_basic E (a, MsgUpdateFeeAmount v) = validate_signer E a"
| "tf_validate_basic E (a, m) = Inr ()"

section \<open>They refuse nothing that a handler accepts\<close>

lemma validate_signer_ok: "acc_of E a \<noteq> None \<Longrightarrow> validate_signer E a = Inr ()"
  by (auto simp: validate_signer_def)

lemma chain_validate_basic_ok:
  assumes "acc_of E (authority E) \<noteq> None" "chain_handle E c m s = (Inr u, t)"
  shows "chain_validate_basic E (c, m) = Inr ()"
proof (cases m)
  case (MsgAddLiquidity d n)
  with assms(2) show ?thesis
    by (auto simp: add_liquidity_def validate_msg_def bindR_Inr_iff bindS_Inr_iff add_liquidity_validate_basic_def intro!: validate_signer_ok)
next
  case (MsgDexParams x)
  have "c = authority E" using assms(2) dex_param_handle_step [of E "(c, x)" s] by (simp add: MsgDexParams dex_param_step_def)
  then show ?thesis using validate_signer_ok [OF assms(1)] by (cases x) (simp_all add: MsgDexParams)
next
  case (MsgUpdateStakingShare v)
  with assms show ?thesis
    by (auto simp: update_staking_share_def bindS_Inr_iff swap_validate_basic_def intro!: validate_signer_ok)
next
  case (MsgMoneyMarket x)
  with assms show ?thesis
    by (cases x) (auto simp: mm_param_messages mm_authority_def bindS_Inr_iff intro!: validate_signer_ok)
qed simp_all

lemma denom_validate_basic_ok:
  assumes "acc_of E (authority E) \<noteq> None" "denom_handle E m s = (Inr u, t)"
  shows "casset_validate_basic E m = Inr ()"
proof -
  obtain a x where m: "m = (a, x)" by (cases m)
  have "a = authority E"
    using assms(2) unfolding m by (cases x) (auto simp: denom_handlers denom_authority_def bindS_Inr_iff)
  then show ?thesis unfolding m using validate_signer_ok [OF assms(1)] by (cases x) simp_all
qed

lemma tf_validate_basic_ok:
  assumes "acc_of E (authority E) \<noteq> None" "tf_handle E m w = (Inr u, w')"
  shows "tf_validate_basic E m = Inr ()"
proof -
  obtain a x where m: "m = (a, x)" by (cases m)
  show ?thesis
    using assms unfolding m by (cases x) (auto simp: update_fee_amount_def bindS_Inr_iff intro!: validate_signer_ok)
qed

end
