(* ===== verification/ChainFlows.thy ===== *)
theory ChainFlows
  imports ChainMessages
begin

text \<open>
  Where coins flow on the whole chain: the locale of the hooks extended to the messages of all modules, and two properties that
  every message and every hook has, also when it fails half-way: coins leave no user's account but the sender's, and only the base currency,
  the kCoins and the cAssets are minted or burned.
\<close>

section \<open>Messages\<close>

locale message_frame = mm_frame E X P B for E :: "'b env" and X and P :: "('b, 'z) mm_world_scheme \<Rightarrow> bool" and B +
  fixes c :: string and a :: addr
  assumes acc: "acc_of E c = Some a" and sender: "a \<in> X"
    and redemption_remove: "P (remove_redemption d x s) = P s"
    and params: "P (s\<lparr>xparams := p\<rparr>) = P s" "P (s\<lparr>sparams := q\<rparr>) = P s" "P (s\<lparr>mparams := r\<rparr>) = P s"
begin

lemma remove_liquidity:
  assumes "P s"
  shows "P (snd (remove_liquidity_for_address E d b n s))"
proof -
  have "book_only t (snd (remove_loop d x ls k m t))" for x ls k m and t :: "('b, 'z) mm_world_scheme"
  proof (induction ls arbitrary: k m t)
    case (Cons l ls)
    show ?case
      using Cons.IH by (auto intro!: bindS_inv [where P = "book_only t"] intro: book_only_trans)
  qed simp
  from book [OF this] show ?thesis
    using assms unfolding remove_liquidity_for_address_def remove_entries_for_address_def
    by (auto split: prod.splits intro!: bind pay pair_update)
qed

lemma liquidity_message:
  assumes "P s"
  shows "P (snd (add_liquidity E c d n s))" "P (snd (remove_liquidity_msg E c d n s))" "P (snd (remove_all_liquidity_for_denom E c d s))"
  using assms add_liquidity [OF _ sender] remove_liquidity
  unfolding add_liquidity_def remove_liquidity_msg_def remove_all_liquidity_for_denom_def validate_msg_def
  by (auto simp: acc bindR_Inr_iff intro!: bind)

lemma dropped: "P (snd (dropS r)) = P (snd r)"
  by (cases r; cases "fst r") (auto simp: dropS_def)

lemma trade_message: "P s \<Longrightarrow> P (snd (trade_msg E c d d' n m b s))"
  unfolding trade_msg_def validate_msg_def
  by (auto simp: acc bindR_Inr_iff split: prod.splits intro!: bind trade sender)

lemma order_message:
  assumes "P s"
  shows "P (snd (add_order E c d d' n m p i j b s))" "P (snd (update_order E c k n m p s))" "P (snd (remove_order_msg E c k s))"
    "P (snd (remove_orders c s))"
proof -
  have set: "P t \<Longrightarrow> set_order x t = (k, u) \<Longrightarrow> P u" for x k t u using order_stores(2) [of x t] by simp
  show "P (snd (add_order E c d d' n m p i j b s))"
    using assms unfolding add_order_def validate_msg_def
    by (auto simp: acc bindR_Inr_iff Let_def sender split: prod.splits intro!: bind pay) (blast intro: set)
  show "P (snd (update_order E c k n m p s))"
    using assms unfolding update_order_def
    by (auto simp: acc Let_def sender orders_in intro!: bind pay)
  show "P (snd (remove_order_msg E c k s))"
    using assms unfolding remove_order_msg_def refund_order_def by (auto simp: orders_in intro!: bind pay)
  have "P (foldl (\<lambda>s x. remove_order x s) t xs) = P t" for t xs by (induction xs arbitrary: t) simp_all
  then show "P (snd (remove_orders c s))" using assms by (simp add: remove_orders_def)
qed

lemma casset_in: "P s \<Longrightarrow> find f (cassets (dparams s)) = Some k \<Longrightarrow> ca_name k \<in> B"
  using cassets_in [of s] by (auto simp: find_Some_iff)

lemma money_message:
  assumes "P s"
  shows "P (snd (mm_handle E c m s))"
proof -
  have a: "acc_or_empty E c = a" by (simp add: acc_or_empty_def acc)
  note ops = add_deposit_def create_redemption_request_def cancel_redemption_request_def update_redemption_request_def
    add_collateral_def remove_collateral_def borrow_def repay_def repay_loan_def partially_repay_loan_def mm_param_messages
  note writes = loan_write redemption_write redemption_remove params
  show ?thesis
    using assms
    by (cases m) (auto simp: ops Let_def a acc sender mm_in redemption_in writes get_casset_by_base_name_def
        intro!: bind pay mint casset_in split: prod.splits option.splits)
qed

lemma message: "P s \<Longrightarrow> P (snd (chain_handle E c m s))"
proof -
  have d: "P (snd (dex_param_handle E x s))" if s: "P s" for x
  proof (cases "fst (dex_param_handle E x s)")
    case (Inl e)
    then show ?thesis using dex_param_handle_step [of E x s] s by (cases "dex_param_handle E x s") (simp add: dex_param_step_def)
  next
    case (Inr u)
    then have "snd (dex_param_handle E x s) = s\<lparr>xparams := xparams (snd (dex_param_handle E x s))\<rparr>"
      using dex_param_handle_step [of E x s] by (cases "dex_param_handle E x s") (simp add: dex_param_step_def)
    then obtain q where "snd (dex_param_handle E x s) = s\<lparr>xparams := q\<rparr>" by blast
    then show ?thesis using s params(1) by simp
  qed
  have w: "P (snd (update_staking_share E c v s))" if "P s" for v
    using that unfolding update_staking_share_def set_swap_params_def by (auto simp: Let_def params intro!: bind)
  show "P s \<Longrightarrow> P (snd (chain_handle E c m s))"
    by (cases m) (simp_all add: dropped liquidity_message trade_message order_message money_message d w)
qed

end

text \<open>A signer of messages, whoever it is.\<close>

locale signer = sdk E for E :: "'b env" +
  fixes c :: string and a :: addr
  assumes signs: "acc_of E c = Some a"

section \<open>Blocks\<close>

text \<open>
  A block runs the hook of \<open>x/dex\<close> at its beginning, then its messages, each with its signer, validated and rolled back when it fails, then the hooks at
  its end in the order of \<open>app_config.go\<close>; the hooks of the other modules do nothing. An error of a hook stops the block there.
\<close>

definition deliver :: "'b env \<Rightarrow> ('b, 'z) mm_world_scheme \<Rightarrow> string \<times> chain_msg \<Rightarrow> ('b, 'z) mm_world_scheme" where
  "deliver E s m =
     (case chain_validate_basic E m of Inl _ \<Rightarrow> s | Inr _ \<Rightarrow> snd (atomic (chain_handle E (fst m) (snd m)) s))"

definition end_blockers :: "'b env \<Rightarrow> (('b, 'z) mm_world_scheme, unit) cmd" where
  "end_blockers E s = bindS (dex_end_block E s) (\<lambda>_ s. bindS (swap_end_block E s) (\<lambda>_. mm_end_block E))"

definition run_block :: "'b env \<Rightarrow> int \<Rightarrow> (string \<times> chain_msg) list \<Rightarrow> (('b, 'z) mm_world_scheme, unit) cmd" where
  "run_block E h ms s = bindS (dex_begin_block E (s\<lparr>height := h\<rparr>)) (\<lambda>_ s. end_blockers E (foldl (deliver E) s ms))"

context mm_frame
begin

lemma block:
  assumes "P (s\<lparr>height := h\<rparr>)" "\<And>c m s. (c, m) \<in> set ms \<Longrightarrow> P s \<Longrightarrow> P (snd (chain_handle E c m s))"
  shows "P (snd (run_block E h ms s))"
proof -
  have deliver: "P (deliver E s x)" if "x \<in> set ms" "P s" for x s
    using assms(2) [of "fst x" "snd x" s] that by (auto simp: deliver_def atomic_def split: prod.splits sum.splits)
  have "P (foldl (deliver E) s xs)" if "set xs \<subseteq> set ms" "P s" for xs s
    using that by (induction xs arbitrary: s) (simp_all add: deliver)
  then show ?thesis
    unfolding run_block_def end_blockers_def
    by (intro bind begin_block assms(1)) (auto intro!: end_block swap_block mm_block)
qed

end

section \<open>Whose coins move\<close>

text \<open>The governed denominations stay, and no account but those of \<open>A\<close> and of the modules loses anything.\<close>

abbreviation others_keep :: "'b env \<Rightarrow> addr set \<Rightarrow> ('b, 'z) dex_world_scheme \<Rightarrow> ('b, 'z) dex_world_scheme \<Rightarrow> bool" where
  "others_keep E A \<equiv> keeps E (- (A \<union> range (mod_addr E))) (\<lambda>s. fst (governed s))"

lemma others_frame:
  fixes s0 :: "('b, 'z) mm_world_scheme"
  assumes "sdk E" "acc_of E c = Some a" "a \<in> A"
  shows "message_frame E (A \<union> range (mod_addr E)) (others_keep E A s0) UNIV c a"
proof (intro message_frame.intro users_frame message_frame_axioms.intro assms(1,2))
qed (use assms(3) in \<open>simp_all add: keeps_def governed_def remove_redemption_eq\<close>)

sublocale signer < others: message_frame E "insert a A \<union> range (mod_addr E)" "others_keep E (insert a A) s0" UNIV c a
  for A and s0 :: "('b, 'z) mm_world_scheme"
  by (rule others_frame [OF _ signs]) (unfold_locales, simp)

section \<open>Which coins are minted and burned\<close>

definition own_denoms :: "denom_params \<Rightarrow> denom set" where
  "own_denoms p = insert base_currency (set (kcoin_denoms p) \<union> ca_name ` set (cassets p))"

definition supplies_keep :: "'b env \<Rightarrow> ('b, 'z) denom_world_scheme \<Rightarrow> ('b, 'z) denom_world_scheme \<Rightarrow> bool" where
  "supplies_keep E s t \<longleftrightarrow> dparams t = dparams s \<and> (\<forall>d. d \<notin> own_denoms (dparams s) \<longrightarrow> bk_supply E (bank t) d = bk_supply E (bank s) d)"

lemma supplies_keep_cong:
  "dparams t = dparams s \<Longrightarrow> bank t = bank s \<Longrightarrow> supplies_keep E s0 t = supplies_keep E s0 s"
  by (simp add: supplies_keep_def)

lemma supplies_bank:
  fixes r :: "(err + unit) \<times> ('b, 'z) denom_world_scheme"
  assumes "supplies_keep E s0 s"
    and "fst r = Inr () \<Longrightarrow> snd r = s\<lparr>bank := bank (snd r)\<rparr>" "\<And>e. fst r = Inl e \<Longrightarrow> snd r = s"
    and "\<And>d. fst r = Inr () \<Longrightarrow> d \<notin> own_denoms (dparams s0) \<Longrightarrow> bk_supply E (bank (snd r)) d = bk_supply E (bank s) d"
  shows "supplies_keep E s0 (snd r)"
proof (cases "fst r")
  case (Inr u)
  then have r: "fst r = Inr ()" by simp
  obtain b where b: "snd r = s\<lparr>bank := b\<rparr>" using assms(2) [OF r] by blast
  show ?thesis using assms(1) assms(4) [OF r] by (simp add: supplies_keep_def b)
qed (use assms(1,3) in simp)

lemma supplies_transfers:
  fixes s s0 :: "('b, 'z) denom_world_scheme"
  assumes "sdk E" "supplies_keep E s0 s"
  shows "supplies_keep E s0 (snd (send_acc_mod E a m d n s))" "supplies_keep E s0 (snd (send_mod_acc E m a d n s))"
    "supplies_keep E s0 (snd (send_mod_mod E m m' d n s))"
    "d \<in> own_denoms (dparams s0) \<Longrightarrow> supplies_keep E s0 (snd (burn_coins E m d n s))"
    "d \<in> own_denoms (dparams s0) \<Longrightarrow> supplies_keep E s0 (snd (mint_coins E m d n s))"
proof -
  note laws = sdk.send_acc_mod_ok [OF assms(1), of a m d n s] sdk.send_mod_acc_ok [OF assms(1), of m a d n s]
    sdk.send_mod_mod_ok [OF assms(1), of m m' d n s] sdk.burn_coins_ok [OF assms(1), of m d n s] sdk.mint_coins_ok [OF assms(1), of m d n s]
  note fails = bank_ops_fail(2) [of E a m d n s] bank_ops_fail(3) [of E m a d n s] bank_ops_fail(4) [of E m m' d n s]
    bank_ops_fail(6) [of E m d n s] bank_ops_fail(5) [of E m d n s]
  show "supplies_keep E s0 (snd (send_acc_mod E a m d n s))"
    using laws(1-4) fails(1) by (intro supplies_bank [OF assms(2)]) (auto simp: prod_eq_iff)
  show "supplies_keep E s0 (snd (send_mod_acc E m a d n s))"
    using laws(5-8) fails(2) by (intro supplies_bank [OF assms(2)]) (auto simp: prod_eq_iff)
  show "supplies_keep E s0 (snd (send_mod_mod E m m' d n s))"
    using laws(9-12) fails(3) by (intro supplies_bank [OF assms(2)]) (auto simp: prod_eq_iff)
  show "supplies_keep E s0 (snd (burn_coins E m d n s))" if "d \<in> own_denoms (dparams s0)"
    using laws(13-16) fails(4) that by (intro supplies_bank [OF assms(2)]) (auto simp: prod_eq_iff)
  show "supplies_keep E s0 (snd (mint_coins E m d n s))" if "d \<in> own_denoms (dparams s0)"
    using laws(17-20) fails(5) that by (intro supplies_bank [OF assms(2)]) (auto simp: prod_eq_iff)
qed

lemma supplies_mm:
  fixes s0 :: "('b, 'z) mm_world_scheme"
  assumes "sdk E"
  shows "mm_frame E UNIV (supplies_keep E s0) (own_denoms (dparams s0))"
proof unfold_locales
  fix s t :: "('b, 'z) mm_world_scheme" and b m m' d n
  show "supplies_keep E s0 s \<Longrightarrow> supplies_keep E s0 (snd (send_acc_mod E b m d n s))"
    "supplies_keep E s0 s \<Longrightarrow> supplies_keep E s0 (snd (send_mod_acc E m b d n s))"
    "supplies_keep E s0 s \<Longrightarrow> supplies_keep E s0 (snd (send_mod_mod E m m' d n s))"
    "supplies_keep E s0 s \<Longrightarrow> d \<in> own_denoms (dparams s0) \<Longrightarrow> supplies_keep E s0 (snd (burn_coins E m d n s))"
    "supplies_keep E s0 s \<Longrightarrow> d \<in> own_denoms (dparams s0) \<Longrightarrow> supplies_keep E s0 (snd (mint_coins E m d n s))"
    using supplies_transfers [OF assms, of s0 s] by blast+
  show "supplies_keep E s0 t" if "book_only s t" "supplies_keep E s0 s"
    using that(2) supplies_keep_cong [of t s] by (simp add: book_onlyD [OF that(1)])
  show "supplies_keep E s0 t" if "pairs_only s t" "supplies_keep E s0 s"
    using that(2) supplies_keep_cong [of t s] by (simp add: pairs_onlyD [OF that(1)])
  show "supplies_keep E s0 s \<Longrightarrow> set (kcoin_denoms (dparams s)) \<subseteq> own_denoms (dparams s0)"
    "supplies_keep E s0 s \<Longrightarrow> ca_name ` set (cassets (dparams s)) \<subseteq> own_denoms (dparams s0)"
    by (auto simp: supplies_keep_def own_denoms_def)
  show "base_currency \<in> own_denoms (dparams s0)" by (simp add: own_denoms_def)
qed (simp_all add: supplies_keep_def set_collateral_eq set_loan_eq set_redemption_eq)

lemma supplies_frame:
  fixes s0 :: "('b, 'z) mm_world_scheme"
  assumes "sdk E" "acc_of E c = Some a"
  shows "message_frame E UNIV (supplies_keep E s0) (own_denoms (dparams s0)) c a"
  by (intro message_frame.intro supplies_mm message_frame_axioms.intro assms) (simp_all add: supplies_keep_def remove_redemption_eq)

sublocale signer < supplies: message_frame E UNIV "supplies_keep E s0" "own_denoms (dparams s0)" c a for s0 :: "('b, 'z) mm_world_scheme"
  by (rule supplies_frame [OF _ signs]) unfold_locales

interpretation alice: signer mm_env "''alice''" "''alice''"
  by (intro signer.intro signer_axioms.intro sdk_mm_env) (simp add: mm_env_def)

section \<open>Properties\<close>





end
