(* ===== verification/ChainGenesis.thy ===== *)
theory ChainGenesis
  imports Chain
begin

text \<open>
  The start of the chain: the default genesis states of the modules that share the bank, in the order in which \<open>app_config.go\<close> lists them, and the
  state that their \<open>InitGenesis\<close> leave behind on empty stores.
\<close>

section \<open>Genesis\<close>

text \<open>The genesis states of \<open>x/denominations\<close> and \<open>x/swap\<close> hold nothing but the parameters.\<close>

definition default_denom_genesis :: denom_params where "default_denom_genesis = default_denom_params"

definition validate_denom_genesis :: "denom_params \<Rightarrow> unit res" where "validate_denom_genesis g = validate_denom_params g"

definition default_swap_genesis :: swap_params where "default_swap_genesis = default_swap_params"

definition validate_swap_genesis :: "swap_params \<Rightarrow> unit res" where "validate_swap_genesis g = validate_swap_params g"

record chain_genesis =
  cg_denoms :: denom_params
  cg_dex :: dex_genesis
  cg_swap :: swap_params
  cg_mm :: mm_genesis

definition default_chain_genesis :: chain_genesis where
  "default_chain_genesis = \<lparr>cg_denoms = default_denom_genesis, cg_dex = default_dex_genesis, cg_swap = default_swap_genesis,
     cg_mm = default_mm_genesis\<rparr>"

definition validate_chain_genesis :: "chain_genesis \<Rightarrow> unit res" where
  "validate_chain_genesis g =
     bindR (validate_denom_genesis (cg_denoms g)) (\<lambda>_.
     bindR (validate_dex_genesis (cg_dex g)) (\<lambda>_.
     bindR (validate_swap_genesis (cg_swap g)) (\<lambda>_.
     validate_mm_genesis (cg_mm g))))"

definition chain_init_genesis :: "'b env \<Rightarrow> chain_genesis \<Rightarrow> (('b, 'z) mm_world_scheme, unit) cmd" where
  "chain_init_genesis E g s =
     bindS (denom_init_genesis (cg_denoms g) s) (\<lambda>_ s.
     bindS (dex_init_genesis E (cg_dex g) s) (\<lambda>_ s.
     (Inr (), mm_init_genesis (cg_mm g) (swap_init_genesis (cg_swap g) s))))"

text \<open>Stores with nothing in them, above a bank of any contents; the parameters are those that the stores return when none are set.\<close>

definition empty_stores :: "('b, 'z) mm_world_scheme \<Rightarrow> bool" where
  "empty_stores s \<longleftrightarrow> liquidities s = [] \<and> liquidity_sums s = [] \<and> liquidity_pairs s = [] \<and> ratios s = [] \<and> trade_amounts s = []
     \<and> orders s = [] \<and> loans s = [] \<and> collaterals s = [] \<and> redemptions s = []"

lemma default_chain_denoms: "chain_denoms default_denom_params" "wf_denoms default_denom_params"
proof -
  have "denoms_separate default_denom_params" "base_currency \<in> set (denoms default_denom_params)"
    "base_currency \<notin> set (kcoin_denoms default_denom_params)" by code_simp+
  then show "chain_denoms default_denom_params" by (simp add: chain_denoms_def)
  show "wf_denoms default_denom_params" unfolding validate_wf [symmetric] by code_simp
qed

text \<open>A genesis with empty stores only sets the parameters and counters.\<close>

definition fresh_genesis :: "denom_params \<Rightarrow> dex_params \<Rightarrow> swap_params \<Rightarrow> mm_params \<Rightarrow> chain_genesis" where
  "fresh_genesis p x q m = \<lparr>cg_denoms = p, cg_dex = default_dex_genesis\<lparr>gs_params := x\<rparr>, cg_swap = q,
     cg_mm = default_mm_genesis\<lparr>mg_params := m\<rparr>\<rparr>"

lemma fresh_init:
  "chain_init_genesis E (fresh_genesis p x q m) s = (Inr (), s\<lparr>dparams := p, liquidity_pair_count := 0, order_next := 0, xparams := x,
     liquidity_next := 0, sparams := q, mparams := m, next_loan := Some 1\<rparr>)"
  by (simp add: chain_init_genesis_def fresh_genesis_def default_dex_genesis_def default_mm_genesis_def denom_init_genesis_def set_denom_params_def
      dex_init_genesis_def set_liquidity_pair_count_def set_order_next_index_def set_dex_params_def set_liquidity_next_index_def
      swap_init_genesis_def set_swap_params_def mm_init_genesis_def set_mm_params_def set_next_loan_index_def set_entries_def Let_def)

lemma fresh_ok:
  fixes s :: "('b, 'z) mm_world_scheme"
  assumes "sdk E" "empty_stores s" "wf_denoms p" "chain_denoms p" "wf_dex_params x"
    and "chain_init_genesis E (fresh_genesis p x q m) s = (Inr u, t)"
  shows "chain_ok E t"
proof -
  have t: "t = s\<lparr>dparams := p, liquidity_pair_count := 0, order_next := 0, xparams := x,
     liquidity_next := 0, sparams := q, mparams := m, next_loan := Some 1\<rparr>"
    using assms(6) unfolding fresh_init by simp
  have e: "liquidities t = []" "liquidity_sums t = []" "orders t = []" "loans t = []" "collaterals t = []" "redemptions t = []"
    "dparams t = p" "xparams t = x"
    using assms(2) by (simp_all add: t empty_stores_def)
  have "separate (known t)" using assms(4) e(7) by (simp add: chain_denoms_def denoms_separate_iff)
  then have "mm_ok E t"
    using assms(3) sdk.bal_nonneg [OF assms(1)]
    by (simp add: mm_ok_def collaterals_ok_def redemptions_ok_def loans_ok_def entries_ok_def e kv_wf_def
        get_collateral_sum_def get_redemption_sum_def kv_vals_def kv_iter_def)
  moreover have "book_inv t" by (simp add: book_inv_def e kv_wf_def get_liquidity_sum_def)
  moreover have "order_inv t" by (simp add: order_inv_def e kv_wf_def)
  moreover have "0 \<le> surplus E t d" for d
    using sdk.bal_nonneg [OF assms(1)] by (simp add: surplus_def escrow_def e)
  ultimately show ?thesis using assms(4,5) by (simp add: chain_ok_def e)
qed

section \<open>The property\<close>

text \<open>
  C22. The chain starts in a consistent state. The default genesis states of the modules pass their validation, and initialising the modules from them
  on empty stores, above a bank of any contents, succeeds and establishes the invariant of the chain, which every step keeps.
\<close>

theorem genesis_starts_consistent:
  fixes s :: "('b, 'z) mm_world_scheme"
  assumes "sdk E" "empty_stores s"
  shows "validate_chain_genesis default_chain_genesis = Inr ()
    \<and> (\<exists>t. chain_init_genesis E default_chain_genesis s = (Inr (), t) \<and> bank t = bank s \<and> chain_ok E t)"
proof
  show "validate_chain_genesis default_chain_genesis = Inr ()" by code_simp
  have d: "default_chain_genesis = fresh_genesis default_denom_params default_dex_params default_swap_params default_mm_params"
    by (simp add: default_chain_genesis_def fresh_genesis_def default_denom_genesis_def default_swap_genesis_def default_dex_genesis_def
        default_mm_genesis_def)
  show "\<exists>t. chain_init_genesis E default_chain_genesis s = (Inr (), t) \<and> bank t = bank s \<and> chain_ok E t"
    using fresh_ok [OF assms default_chain_denoms(2,1) wf_default_dex_params fresh_init] unfolding d fresh_init by simp
qed

definition genesis_world :: "ledger mm_world" where
  "genesis_world = mm_start\<lparr>liquidities := [], liquidity_sums := [], liquidity_pairs := [], ratios := []\<rparr>"

theorem genesis_starts_consistent_witness:
  "\<exists>t. chain_init_genesis mm_env default_chain_genesis genesis_world = (Inr (), t) \<and> chain_ok mm_env t"
proof -
  have "empty_stores genesis_world" by (simp add: empty_stores_def genesis_world_def mm_start_def)
  from genesis_starts_consistent [OF sdk_mm_env this] show ?thesis by blast
qed

end
