(* ===== verification/DexWithdraw.thy ===== *)
theory DexWithdraw
  imports DexTradeMain
begin

text \<open>
  What the providers of liquidity get back. While the pool holds what the book promises (the theorems about
  \<open>pool_gap\<close> say how far trades can part the two) and every pair has a ratio, \<open>RemoveAllLiquidityForDenom\<close> serves everyone who asks, in any
  order; \<open>RemoveLiquidity\<close> serves only those who hold as much in their wallet besides.
\<close>

section \<open>Pairs that can be updated\<close>

text \<open>Every denomination but the base currency has its pair and a positive ratio.\<close>

definition pair_sound :: "('b, 'z) dex_world_scheme \<Rightarrow> denom \<Rightarrow> bool" where
  "pair_sound s d \<longleftrightarrow> d \<noteq> [] \<and> (\<exists>r > 0. ratio_value s d = Some r) \<and> map_option lp_denom (get_liquidity_pair s d) = Some d"

definition pairs_sound :: "('b, 'z) dex_world_scheme \<Rightarrow> bool" where
  "pairs_sound s \<longleftrightarrow> kv_wf (liquidity_pairs s) \<and> (\<forall>d \<in> set (denoms (dparams s)). d \<noteq> base_currency \<longrightarrow> pair_sound s d)"

lemma pairs_sound_cong:
  "liquidity_pairs t = liquidity_pairs s \<Longrightarrow> ratios t = ratios s \<Longrightarrow> dparams t = dparams s \<Longrightarrow> pairs_sound t = pairs_sound s"
  by (simp add: pairs_sound_def pair_sound_def ratio_value_def get_ratio_def get_liquidity_pair_def)

lemma set_liquidity_pair_ok:
  assumes "pairs_sound s" "lp_denom p \<noteq> []" "0 \<le> lp_base p" "0 \<le> lp_other p"
  shows "\<exists>t. set_liquidity_pair p s = (Inr (), t) \<and> pairs_sound t"
proof -
  let ?t = "s\<lparr>liquidity_pairs := kv_put (key_string (lp_denom p)) p (liquidity_pairs s)\<rparr>"
  have "kv_wf (liquidity_pairs s)" using assms(1) by (simp add: pairs_sound_def)
  then have g: "get_liquidity_pair ?t d = (if d = lp_denom p then Some p else get_liquidity_pair s d)" for d
    by (simp add: get_liquidity_pair_def kv_get_def map_of_kv_put)
  have r: "ratio_value ?t d = ratio_value s d" for d by (simp add: ratio_value_def get_ratio_def)
  have "pairs_sound ?t"
    using assms(1,2) by (auto simp: pairs_sound_def pair_sound_def g r kv_wf_put)
  then show ?thesis using assms(2-4) by (simp add: set_liquidity_pair_def)
qed

context sdk
begin

text \<open>The virtual liquidity that completes a pair is never negative, so that no update of a pair panics.\<close>

lemma update_pair_total:
  assumes "pairs_sound s" "pair_sound s d"
  shows "\<exists>t. update_pair E d s = (Inr (), t) \<and> pairs_sound t"
proof -
  obtain r p where r: "0 < r" "ratio_value s d = Some r" and p: "get_liquidity_pair s d = Some p" "lp_denom p = d" "d \<noteq> []"
    using assms(2) by (auto simp: pair_sound_def)
  define b n where "b = liq_sum s base_currency" and "n = liq_sum s d"
  have m: "dmul E (to_dec b) r = b * r" by (subst mul_comm) (simp add: mul_to_dec mult.commute)
  have q: "dquo E (b * r) r = to_dec b" using r(1) quo_exact [of r "b * r"] by (simp add: to_dec_def mult.assoc)
  have "to_dec b \<le> dquo E (to_dec n) r" if "\<not> to_dec n < b * r"
    using that quo_mono [of "b * r" "to_dec n" r] r(1) q by simp
  then show ?thesis
    using r p set_liquidity_pair_ok [OF assms(1)] m
    by (auto simp: update_pair_def calc_virtual_amount_other_def calc_virtual_amount_base_def Let_def b_def n_def)
qed

lemma update_pairs_total:
  assumes "pairs_sound s"
  shows "\<exists>t. update_pairs E s = (Inr (), t) \<and> pairs_sound t"
proof -
  have "\<exists>t. foldS (\<lambda>d _ s. if d \<noteq> base_currency then update_pair E d s else (Inr (), s)) ds () s = (Inr (), t) \<and> pairs_sound t"
    if "pairs_sound s" "set ds \<subseteq> set (denoms (dparams s))" for ds and s :: "('b, 'c) dex_world_scheme"
    using that
  proof (induction ds arbitrary: s)
    case (Cons d ds)
    show ?case
    proof (cases "d = base_currency")
      case False
      then have "pair_sound s d" using Cons.prems by (simp add: pairs_sound_def)
      from update_pair_total [OF Cons.prems(1) this] obtain u where u: "update_pair E d s = (Inr (), u)" "pairs_sound u" by blast
      have "dparams u = dparams s" using update_pair_only [of s E d] u(1) by (simp add: pairs_onlyD(3))
      with Cons.IH [OF u(2)] Cons.prems(2) u False show ?thesis by simp
    qed (use Cons in simp)
  qed simp
  from this [OF assms order_refl] show ?thesis by (simp add: update_pairs_def)
qed

lemma update_pair_or_pairs_total:
  assumes "pairs_sound s" "d \<in> set (denoms (dparams s))"
  shows "\<exists>t. update_pair_or_pairs E d s = (Inr (), t) \<and> pairs_sound t"
  using update_pairs_total [OF assms(1)] update_pair_total [OF assms(1), of d] assms
  by (auto simp: update_pair_or_pairs_def pairs_sound_def)

end

section \<open>Withdrawals\<close>

text \<open>An address has never provided more than the stored sum of the denomination.\<close>

lemma provided_le_sum:
  assumes "book_inv s"
  shows "0 \<le> provided s d c" "provided s d c \<le> liq_sum s d"
proof -
  have "0 \<le> by_owner d c l \<and> by_owner d c l \<le> amount_in d l" if "l \<in> set (liquidity_entries s d)" for l
    using liquidity_entries_get(2) [OF assms that] by (auto simp: by_owner_def amount_in_def entry_ok_def)
  then show "0 \<le> provided s d c" "provided s d c \<le> liq_sum s d"
    unfolding provided_entries [OF assms, symmetric] amount_in_entries [OF assms, symmetric]
    by (auto intro!: sum_list_nonneg sum_list_mono)
qed

text \<open>The bank pays an account out of the pool whatever the pool holds.\<close>

definition payable :: "'b env \<Rightarrow> denom set \<Rightarrow> string \<Rightarrow> bool" where
  "payable E D c \<longleftrightarrow> (\<exists>a. acc_of E c = Some a \<and> str_of E a = c \<and> a \<noteq> mod_addr E pool_liquidity
     \<and> (\<forall>d \<in> D. \<forall>b n. 0 \<le> n \<and> n \<le> bal E b (mod_addr E pool_liquidity) d \<longrightarrow>
          (\<exists>cs. new_coins E d n = Some cs \<and> is_ok (bk_mod_to_acc E b pool_liquidity a cs))))"

text \<open>What a withdrawal of everything does for a provider \<open>c\<close> with the account \<open>a\<close>.\<close>

definition withdrawn :: "'b env \<Rightarrow> string \<Rightarrow> addr \<Rightarrow> denom \<Rightarrow> ('b, 'z) dex_world_scheme \<Rightarrow> ('b, 'z) dex_world_scheme \<Rightarrow> bool" where
  "withdrawn E c a d s t \<longleftrightarrow> book_inv t \<and> pairs_sound t \<and> dparams t = dparams s
     \<and> (\<forall>d'. pool_gap E t d' = pool_gap E s d')
     \<and> (\<forall>d' c'. provided t d' c' = (if d' = d \<and> c' = c then 0 else provided s d' c'))
     \<and> pool_move E a d (- provided s d c) (bank s) (bank t)"

lemma remove_entries_total:
  fixes s :: "('b, 'z) dex_world_scheme"
  assumes "sdk E" "book_inv s" "pairs_sound s" "d \<in> set (denoms (dparams s))"
  shows "\<exists>t. remove_entries_for_address E d c (provided s d c) s = (Inr (provided s d c), t) \<and> pairs_sound t"
proof -
  define n R where "n = provided s d c" and "R = remove_loop d c (liquidity_entries s d) n 0 s"
  have n: "0 \<le> n" "sum_list (map (by_owner d c) (liquidity_entries s d)) = n"
    by (simp_all add: n_def provided_le_sum [OF assms(2)] provided_entries [OF assms(2)])
  obtain u where u: "R = (Inr (0, n), u)" "taken_from d c n s u"
    using remove_loop_spec [OF assms(2) pending_entries [OF assms(2)] n(1) refl, of d c d 0, unfolded n(2) min.idem] by (auto simp: R_def)
  have b: "book_only s u" using u(2) by (simp add: taken_from_def taken_def)
  have "pairs_sound u" "d \<in> set (denoms (dparams u))"
    using assms(3,4) pairs_sound_cong [OF book_onlyD(5,6,3) [OF b]] book_onlyD [OF b] by simp_all
  from sdk.update_pair_or_pairs_total [OF assms(1) this]
  obtain t where "update_pair_or_pairs E d u = (Inr (), t)" "pairs_sound t" by blast
  with u(1) show ?thesis by (simp add: remove_entries_for_address_def flip: n_def R_def)
qed

text \<open>A provider whom the pool can pay gets everything back at once.\<close>

lemma withdraw_one:
  fixes s :: "('b, 'z) dex_world_scheme"
  assumes "sdk E" "book_inv s" "denoms_separate (dparams s)" "pairs_sound s" "d \<in> set (denoms (dparams s))"
    and "pool_gap E s d \<le> 0" "payable E (set (denoms (dparams s))) c"
  shows "\<exists>a t. acc_of E c = Some a \<and> str_of E a = c \<and> a \<noteq> mod_addr E pool_liquidity
    \<and> remove_all_liquidity_for_denom E c d s = (Inr (), t) \<and> withdrawn E c a d s t"
proof -
  define n where "n = provided s d c"
  obtain a where a: "acc_of E c = Some a" "str_of E a = c" "a \<noteq> mod_addr E pool_liquidity"
    and pay: "\<And>b n. 0 \<le> n \<Longrightarrow> n \<le> bal E b (mod_addr E pool_liquidity) d \<Longrightarrow>
      \<exists>cs. new_coins E d n = Some cs \<and> is_ok (bk_mod_to_acc E b pool_liquidity a cs)"
    using assms(5,7) unfolding payable_def by blast
  have n: "0 \<le> n" "n \<le> bal E (bank s) (mod_addr E pool_liquidity) d"
    using provided_le_sum [OF assms(2), of d c] assms(6) by (simp_all add: n_def pool_gap_def)
  obtain u where u: "remove_entries_for_address E d c n s = (Inr n, u)" "pairs_sound u"
    using remove_entries_total [OF assms(1,2,4,5), of c] unfolding n_def by blast
  note e = remove_entries_ok [OF assms(2) n(1) u(1)]
  obtain cs b where "new_coins E d n = Some cs" "bk_mod_to_acc E (bank s) pool_liquidity a cs = Inr b"
    using pay [OF n] by (auto simp: is_ok_iff)
  then have "send_mod_acc E pool_liquidity a d n u = (Inr (), u\<lparr>bank := b\<rparr>)" (is "_ = (_, ?t)")
    by (simp add: send_mod_acc_def bank_call_def e(4))
  then obtain t where t: "send_mod_acc E pool_liquidity a d n u = (Inr (), t)" by blast
  note m = sdk.send_mod_acc_ok [OF assms(1) t]
  have f: "dparams t = dparams u" "liquidities t = liquidities u" "liquidity_next t = liquidity_next u" "liquidity_sums t = liquidity_sums u"
    "liquidity_pairs t = liquidity_pairs u" "ratios t = ratios u"
    using bank_onlyD [OF m(4)] by simp_all
  have w: "withdrawn E c a d s t"
    unfolding withdrawn_def
  proof (intro conjI allI)
    show "book_inv t" using e(3) book_inv_cong [OF f(2,4,3,1)] by simp
    show "pairs_sound t" using u(2) pairs_sound_cong [OF f(5,6,1)] by simp
    show "dparams t = dparams s" using f(1) e(5) by simp
    show "pool_gap E t d' = pool_gap E s d'" for d'
      using e(6) [of d'] liq_sum_cong [OF f(4), of d'] m(2) [of "mod_addr E pool_liquidity" d'] a(3) by (simp add: pool_gap_def e(4))
    show "provided t d' c' = (if d' = d \<and> c' = c then 0 else provided s d' c')" for d' c'
      using e(7) [of d' c'] liq_sum_provided_cong [OF f(2)] by (simp add: n_def)
    show "pool_move E a d (- provided s d c) (bank s) (bank t)"
      using m(2) by (simp add: pool_move_def e(4) n_def)
  qed
  have "remove_all_liquidity_for_denom E c d s = (Inr (), t)"
    using a u(1) t get_liquidity_by_address_provided [OF assms(2,3,5), of c]
    by (simp add: remove_all_liquidity_for_denom_def remove_liquidity_for_address_def n_def)
  with a w show ?thesis by blast
qed

text \<open>A run of withdrawals, each of everything that its sender has provided of a denomination.\<close>

definition withdrawals :: "'b env \<Rightarrow> (string \<times> denom) list \<Rightarrow> (('b, 'z) dex_world_scheme, unit) cmd" where
  "withdrawals E ms = foldS (\<lambda>(c, d) _. remove_all_liquidity_for_denom E c d) ms ()"

section \<open>Properties\<close>

text \<open>
  C9. Everyone can leave. While the pool holds what the book promises and every denomination has its pair and a ratio, any run of
  \<open>RemoveAllLiquidityForDenom\<close>, by any providers and in any order, succeeds: each sender receives exactly what it has
  provided and has nothing left in the book, nobody else's liquidity or balance changes, and the pool still holds what the book promises.
\<close>

theorem everyone_can_withdraw:
  assumes "sdk E" "book_inv s" "denoms_separate (dparams s)" "pairs_sound s" "\<And>d. pool_gap E s d \<le> 0"
    and "\<And>c d. (c, d) \<in> set ms \<Longrightarrow> d \<in> set (denoms (dparams s)) \<and> payable E (set (denoms (dparams s))) c"
  shows "\<exists>t. withdrawals E ms s = (Inr (), t) \<and> (\<forall>d. pool_gap E t d \<le> 0)
    \<and> (\<forall>d c. provided t d c = (if (c, d) \<in> set ms then 0 else provided s d c))
    \<and> (\<forall>c a d. acc_of E c = Some a \<and> str_of E a = c \<and> a \<noteq> mod_addr E pool_liquidity \<longrightarrow>
         bal E (bank t) a d = bal E (bank s) a d + (if (c, d) \<in> set ms then provided s d c else 0))"
  unfolding withdrawals_def using assms(2-6)
proof (induction ms arbitrary: s)
  case (Cons m ms)
  obtain c d where m: "m = (c, d)" by (cases m)
  have "d \<in> set (denoms (dparams s))" "payable E (set (denoms (dparams s))) c" using Cons.prems(5) [of c d] by (simp_all add: m)
  from withdraw_one [OF assms(1) Cons.prems(1-3) this(1) Cons.prems(4) this(2)]
  obtain a u where a: "acc_of E c = Some a" "str_of E a = c" "a \<noteq> mod_addr E pool_liquidity"
    and r: "remove_all_liquidity_for_denom E c d s = (Inr (), u)" and w: "withdrawn E c a d s u" by blast
  note u = w [unfolded withdrawn_def]
  have "\<exists>t. foldS (\<lambda>(c, d) _. remove_all_liquidity_for_denom E c d) ms () u = (Inr (), t) \<and> (\<forall>d. pool_gap E t d \<le> 0)
    \<and> (\<forall>d c. provided t d c = (if (c, d) \<in> set ms then 0 else provided u d c))
    \<and> (\<forall>c a d. acc_of E c = Some a \<and> str_of E a = c \<and> a \<noteq> mod_addr E pool_liquidity \<longrightarrow>
         bal E (bank t) a d = bal E (bank u) a d + (if (c, d) \<in> set ms then provided u d c else 0))"
    by (rule Cons.IH) (use u Cons.prems(2,4,5) in auto)
  then show ?case using u a by (auto simp: m r pool_move_def)
qed simp

text \<open>The example pool pays out everything, first to bob and then to alice.\<close>

lemma payable_ledger:
  assumes "c \<noteq> []" "CHR ''/'' \<notin> set c" "c \<noteq> CHR ''#'' # pool_liquidity"
  shows "payable (ledger_env ds) (set ds) c"
  using assms by (auto simp: payable_def is_ok_iff)

theorem everyone_can_withdraw_witness:
  "\<exists>t. withdrawals dex_env [(''bob'', ''uwusdc''), (''alice'', ''ukopi'')] dex_pool = (Inr (), t)
    \<and> bal dex_env (bank t) ''alice'' ''ukopi'' = 500000 \<and> provided t ''uwusdc'' ''bob'' = 0"
proof -
  have ds: "denoms (dparams dex_pool) = [''ukopi'', ''uwusdc'', ''ukusd'']" by code_simp
  have "kv_wf (liquidity_pairs dex_pool)" "map (map_option lp_denom \<circ> get_liquidity_pair dex_pool) [''uwusdc'', ''ukusd''] = [Some ''uwusdc'', Some ''ukusd'']"
    "map (ratio_value dex_pool) [''uwusdc'', ''ukusd''] = [Some 100000000000000000, Some 100000000000000000]" by code_simp+
  then have pairs: "pairs_sound dex_pool" by (simp add: pairs_sound_def pair_sound_def ds base_currency_def)
  have "liq_sum dex_pool d = (if d = ''ukopi'' then 100000 else if d = ''uwusdc'' then 10000 else 0)" for d
    by (simp add: get_liquidity_sum_def dex_pool_value key_string_def)
  then have gap: "pool_gap dex_env dex_pool d \<le> 0" for d
    by (simp add: pool_gap_def dex_env_def held_def pool_liquidity_def) (simp add: dex_pool_value)
  have users: "d \<in> set (denoms (dparams dex_pool)) \<and> payable dex_env (set (denoms (dparams dex_pool))) c"
    if "(c, d) \<in> set [(''bob'', ''uwusdc''), (''alice'', ''ukopi'')]" for c d
    unfolding ds dex_env_def by (rule conjI, use that in force, rule payable_ledger) (use that in \<open>auto simp: pool_liquidity_def\<close>)
  have "provided dex_pool ''ukopi'' ''alice'' = 100000" "bal dex_env (bank dex_pool) ''alice'' ''ukopi'' = 400000" by code_simp+
  moreover have "acc_of dex_env ''alice'' = Some ''alice'' \<and> str_of dex_env ''alice'' = ''alice'' \<and> ''alice'' \<noteq> mod_addr dex_env pool_liquidity"
    by (simp add: dex_env_def)
  ultimately show ?thesis
    using everyone_can_withdraw [OF sdk_dex_env dex_example_inv(3) dex_pool_conds(1) pairs gap users] by fastforce
qed

text \<open>
  C33. Withdrawing a part needs a full wallet: \<open>RemoveLiquidity\<close> runs the check that \<open>AddLiquidity\<close> needs, so that a provider who does
  not hold the amount in its wallet besides is refused and nothing changes, whatever it has provided and whatever the pool holds.
\<close>

theorem withdrawal_needs_wallet:
  assumes "parse_amount E amt_str = Inr n" "0 < n" "d \<in> set (denoms (dparams s))" "acc_of E creator = Some a" "bal E (bank s) a d < n"
  shows "remove_liquidity_msg E creator d amt_str s = (Inl (DexE Dex_ErrNotEnoughFunds), s)"
  using assms
  by (auto simp: remove_liquidity_msg_def validate_msg_def check_spendable_coins_def is_valid_denom_def bal_def amount_of_def
      split: option.splits)

text \<open>Carol brings all of her coins into the pool: of the 5000 that are hers there she cannot take back 1000.\<close>

definition carol_invested :: "ledger dex_world" where
  "carol_invested = snd (add_liquidity dex_env ''carol'' ''ukopi'' ''5000'' dex_pool)"

theorem withdrawal_needs_wallet_witness:
  "remove_liquidity_msg dex_env ''carol'' ''ukopi'' ''1000'' carol_invested = (Inl (DexE Dex_ErrNotEnoughFunds), carol_invested)
   \<and> provided carol_invested ''ukopi'' ''carol'' = 5000"
proof
  have "parse_amount dex_env ''1000'' = Inr 1000" "''ukopi'' \<in> set (denoms (dparams carol_invested))"
    "acc_of dex_env ''carol'' = Some ''carol''" "bal dex_env (bank carol_invested) ''carol'' ''ukopi'' < 1000" by code_simp+
  then show "remove_liquidity_msg dex_env ''carol'' ''ukopi'' ''1000'' carol_invested = (Inl (DexE Dex_ErrNotEnoughFunds), carol_invested)"
    using withdrawal_needs_wallet [of dex_env "''1000''" 1000 "''ukopi''" carol_invested "''carol''" "''carol''"] by simp
  show "provided carol_invested ''ukopi'' ''carol'' = 5000" by code_simp
qed

end
