(* ===== verification/Spec2Isabelle.thy ===== *)
theory Spec2Isabelle
  imports ChainFlows ChainGenesis DexWithdraw
begin

text \<open>
  \<^bold>\<open>Kopi: a verification library of the chain's own modules.\<close>

  \<^bold>\<open>The program.\<close> Kopi is a blockchain application in Go on the Cosmos SDK. Its logic lies in five modules under \<open>x/\<close>, which share the
  SDK's bank and call each other through keepers:
  \<^item> \<open>x/denominations\<close> holds the governed parameters of all denominations: what trades on the exchange, which are stable coins (kCoins) with
    which reference denominations, which are claims on the money market's vault (cAssets), which serve as collateral;
  \<^item> \<open>x/tokenfactory\<close> lets users create, mint and burn denominations of their own;
  \<^item> \<open>x/dex\<close> is the exchange: users provide liquidity per denomination, every pair with the base currency \<open>ukopi\<close> is completed by virtual
    liquidity, trades run over one or two such pairs on a constant product curve, orders wait in escrow and are executed at the end of a block,
    and a reserve collects fees;
  \<^item> \<open>x/swap\<close> keeps kCoins at parity by minting or burning them against the base currency, through trades on the exchange;
  \<^item> \<open>x/mm\<close> is the money market: deposits into a vault against cAssets, collateral, loans with interest, liquidations through trades
    on the exchange, and redemption requests served at the end of a block.

  \<^bold>\<open>How the model is built.\<close> A keeper's state is a record: \<open>world\<close> (the bank's state and the height), extended module by module to
  \<open>denom_world\<close>, \<open>dex_world\<close>, \<open>swap_world\<close> and \<open>mm_world\<close>, and separately to \<open>tf_world\<close>; each store is an ordered map from key strings,
  built as the code builds them, to values. An operation is a command: a function from the state to a result, an error
  of the module, of the bank or a panic, and the state that it leaves behind, also when it fails. A message runs in \<open>atomic\<close>, which
  drops what a failing handler has written; the hooks of a block do not. Loops over slices are \<open>foldS\<close> and \<open>foldR\<close>, or recursion where they
  stop early. Counters and indices are \<open>64 word\<close>, amounts are \<open>int\<close> as in \<open>math.Int\<close>, decimals are \<open>int\<close> scaled by \<open>10^18\<close>.

  \<^bold>\<open>Parameters.\<close> What is not code of the repository is the record \<open>env\<close> of \<open>Sdk\<close> and \<open>Decimal\<close>: the bank and its state, the codec of
  addresses, the parsers of numbers, the constructor of coins and the rounding operations of \<open>LegacyDec\<close>. The locales \<open>decimal\<close> and \<open>sdk\<close>
  state what the modules rely on: rounding is monotone and off by at most a half or a whole unit, a transfer moves exactly the coins it names,
  mint and burn change the supply by them, spendable balances are not negative, an address has no slash. \<open>ledger_env\<close> interprets both: a plain ledger with
  half-even decimals, on which the witnesses compute.

  \<^bold>\<open>Theories.\<close>
  \<^item> \<open>Prelude\<close>, \<open>Decimal\<close>, \<open>Sdk\<close>, \<open>Ledger\<close>: errors and commands, the key-value store (locale \<open>kv_store\<close>), decimals, the SDK.
  \<^item> \<open>DenomParams\<close> (\<open>types/params.go\<close>) and \<open>DenomKeeper\<close> (\<open>keeper/denoms.go\<close>, \<open>msg_update_params_*.go\<close>, genesis) of \<open>x/denominations\<close>;
    the validation accepts exactly the well-formed parameters, and every governance message keeps them so.
  \<^item> \<open>TokenFactory\<close>: the whole of \<open>x/tokenfactory\<close>, its invariant over all reachable states and its authority.
  \<^item> \<open>DexParams\<close> (state and parameters), \<open>DexLiquidity\<close> (entries, sums, pairs, ratios, prices), \<open>DexMsgs\<close> (liquidity messages), \<open>DexTrade\<close>
    (curves, fees, execution and simulation of trades), \<open>DexOrders\<close> (orders and their execution), \<open>DexBlock\<close> (reserve, hooks, genesis),
    \<open>DexQueries\<close>: the operations of \<open>x/dex\<close>. \<open>DexBook\<close> holds the invariant of the liquidity book and what each write does to it;
    \<open>DexTradeProps\<close>, \<open>DexTradeBook\<close> and \<open>DexTradeMain\<close> the bounds of curve and fees, the use of the book by a trade and the safety of a whole trade;
    \<open>DexTradeBook\<close> and \<open>DexTradeMain\<close> also bound by how much a trade can part the sums of the book from the coins of the pool (\<open>pool_gap\<close>), and
    \<open>DexWithdraw\<close> shows that all providers can leave while there is no gap;
    \<open>DexEscrow\<close> and \<open>DexExecution\<close> the escrow of the orders; \<open>DexErrors\<close> the errors a trade can end with; \<open>DexGenesis\<close> the round trip through genesis.
  \<^item> \<open>SwapKeeper\<close> and \<open>SwapProps\<close>: \<open>x/swap\<close>, and the direction and bounds of its arbitrage.
  \<^item> \<open>MmStore\<close> (parameters and stores), \<open>MmKeeper\<close> (messages), \<open>MmBlock\<close> (interest, liquidations, redemptions, genesis) and \<open>MmQueries\<close> (also the
    queries of \<open>x/swap\<close>): the operations of \<open>x/mm\<close>. \<open>MmCustody\<close> states the interface \<open>denom_store\<close> of the three stores and interprets it for each;
    \<open>MmSafety\<close> and \<open>MmReach\<close> prove that the coins of collaterals and requests stay in custody; \<open>MmLoans\<close> treats loans, repayments and interest,
    \<open>MmPayout\<close> redemptions, \<open>MmLiquidation\<close> liquidations; \<open>MmSpec\<close> is an abstract specification of the user's messages that the handlers refine.
  \<^item> \<open>ChainFrame\<close>, \<open>Hooks\<close> and \<open>Chain\<close> put the modules together. \<open>Hooks\<close> has one locale per layer of hooks (trades, \<open>x/dex\<close>, \<open>x/swap\<close>,
    liquidations, \<open>x/mm\<close>) that carries a predicate through every hook once it survives the bank calls and writes of that layer; the interpretations
    give that no hook takes a coin from a user, and that liquidations spare orders and redemption requests. \<open>Chain\<close> is one step relation over all
    messages and hooks, the token factory included, and the invariant that the chain keeps over all its reachable states.
  \<^item> \<open>ChainMessages\<close> has the \<open>ValidateBasic\<close> methods that stand before the handlers. \<open>ChainFlows\<close> extends the locales of the hooks to the messages and
    runs whole blocks: a block spends only the coins of its signers, and mints and burns only the modules' own denominations. \<open>ChainGenesis\<close>
    initialises the modules in the order of \<open>app/app_config.go\<close> and shows that the default genesis establishes the invariant of \<open>Chain\<close>.

  \<^bold>\<open>Bounds.\<close> No fuel is used: every loop of the code runs over a slice. The indices of liquidity entries and orders are 64-bit counters; theorems
  about trades assume room for the entries that they can create. A trade can add at most eight entries per entry of the book (fees and given
  funds of two steps), so \<open>k\<close> trades in a row have room when \<open>9^k\<close> times the length of the book fits. The search of the square root in \<open>Ledger\<close>
  is bounded by its argument.

  \<^bold>\<open>Not modelled.\<close> Events and logs; the protobuf codecs and the generated code; the SDK's own modules; gas; the command line, the wiring of the
  application and its export; pagination (a parameter of the queries that use it); the rendering of numbers as strings in responses.
  \<open>sort.Slice\<close> is a stable sort here, which it is on the short slices that it is given, save for redemption requests of equal fee and age.

  \<^bold>\<open>Limits of the composition.\<close> A step of \<open>Chain\<close> is one sale of a liquidation. The whole of \<open>handle_liquidations\<close> does not keep
  the custody of collaterals: a failing sale may leave part of a trade behind, and a negative excess raises an entry without coins (both are
  findings of the manifest); what the whole run does keep is proved in \<open>Hooks\<close>. Burns of the token factory are steps of \<open>Chain\<close> only
  when they take no coins of an escrow account, which the code does not ensure (\<open>burn_reaches_orders\<close>).
\<close>

end
